(* ===== verification/Prelude.thy ===== *)
theory Prelude
  imports Main
begin

text \<open>
  What every component shares: the exceptions of the Python program as values, a state monad with
  exceptions (a handler reads and writes the process state, and may raise), the loops over it, a
  small logic for "every run of this code keeps the invariant", and generic facts on association
  lists. The named collections are the automation of the component theories.
\<close>

named_theorems safe_intro \<open>introduction rules of the safety logic\<close>
named_theorems monad_simps \<open>equations that run a monadic program on a state\<close>

subsection \<open>Exceptions as values\<close>

text \<open>
  One constructor per exception class the modelled code raises or catches. \<open>HTTPException\<close> carries
  its status and detail; \<open>IntegrityError\<close> the violated constraint's message.
\<close>

datatype py_exc =
    HTTPException nat string
  | ValueError string
  | TypeError
  | AttributeError
  | KeyError
  | OverflowError
  | RuntimeError string
  | ConnectionError string
  | JSONDecodeError
  | IntegrityError string
  | DataError
  | SessionLookupUnavailable string
  | TransportError string
  | OSError string
  | DBAPIError string
  | DetachedInstanceError

type_synonym 'a res = "py_exc + 'a"

definition res_bind :: "'a res \<Rightarrow> ('a \<Rightarrow> 'b res) \<Rightarrow> 'b res" where
  "res_bind m f = (case m of Inl e \<Rightarrow> Inl e | Inr x \<Rightarrow> f x)"

lemma res_bind_simps [simp]: "res_bind (Inl e) f = Inl e" "res_bind (Inr x) f = f x"
  by (simp_all add: res_bind_def)

lemma res_bind_Inr_iff: "res_bind m f = Inr y \<longleftrightarrow> (\<exists>x. m = Inr x \<and> f x = Inr y)"
  by (cases m) auto

text \<open>\<open>[f x for x in xs]\<close>, where the first exception escapes.\<close>

fun res_map :: "('a \<Rightarrow> 'b res) \<Rightarrow> 'a list \<Rightarrow> 'b list res" where
  "res_map f [] = Inr []"
| "res_map f (x # xs) = res_bind (f x) (\<lambda>y. res_bind (res_map f xs) (\<lambda>ys. Inr (y # ys)))"

lemma res_map_length: "res_map f xs = Inr ys \<Longrightarrow> length ys = length xs"
  by (induction xs arbitrary: ys) (auto simp: res_bind_Inr_iff)

text \<open>A loop with an accumulator, where the first exception escapes.\<close>

fun res_fold :: "('x \<Rightarrow> 'a \<Rightarrow> 'a res) \<Rightarrow> 'x list \<Rightarrow> 'a \<Rightarrow> 'a res" where
  "res_fold f [] a = Inr a"
| "res_fold f (x # xs) a = res_bind (f x a) (res_fold f xs)"

lemma res_fold_append: "res_fold f (xs @ ys) a = res_bind (res_fold f xs a) (res_fold f ys)"
  by (induction xs arbitrary: a) (auto simp: res_bind_def split: sum.splits)

subsection \<open>The state and exception monad\<close>

type_synonym ('s, 'a) pm = "'s \<Rightarrow> 'a res \<times> 's"

definition ret :: "'a \<Rightarrow> ('s, 'a) pm" where
  "ret x = (\<lambda>s. (Inr x, s))"

definition raise :: "py_exc \<Rightarrow> ('s, 'a) pm" where
  "raise e = (\<lambda>s. (Inl e, s))"

definition bind :: "('s, 'a) pm \<Rightarrow> ('a \<Rightarrow> ('s, 'b) pm) \<Rightarrow> ('s, 'b) pm" where
  "bind m f = (\<lambda>s. case m s of (Inl e, s') \<Rightarrow> (Inl e, s') | (Inr x, s') \<Rightarrow> f x s')"

definition seq :: "('s, unit) pm \<Rightarrow> ('s, 'b) pm \<Rightarrow> ('s, 'b) pm" where
  "seq m k = bind m (\<lambda>_. k)"

definition gets :: "('s \<Rightarrow> 'a) \<Rightarrow> ('s, 'a) pm" where
  "gets f = (\<lambda>s. (Inr (f s), s))"

definition modify :: "('s \<Rightarrow> 's) \<Rightarrow> ('s, unit) pm" where
  "modify f = (\<lambda>s. (Inr (), f s))"

text \<open>A pure computation that may raise.\<close>

definition lift :: "'a res \<Rightarrow> ('s, 'a) pm" where
  "lift r = (\<lambda>s. (r, s))"

text \<open>\<open>try: m except Exception as e: h e\<close>: the handler runs in the state the exception left.\<close>

definition catch :: "('s, 'a) pm \<Rightarrow> (py_exc \<Rightarrow> ('s, 'a) pm) \<Rightarrow> ('s, 'a) pm" where
  "catch m h = (\<lambda>s. case m s of (Inl e, s') \<Rightarrow> h e s' | (Inr x, s') \<Rightarrow> (Inr x, s'))"

text \<open>\<open>for x in xs: acc = f x acc\<close>.\<close>

fun foldM :: "('x \<Rightarrow> 'a \<Rightarrow> ('s, 'a) pm) \<Rightarrow> 'x list \<Rightarrow> 'a \<Rightarrow> ('s, 'a) pm" where
  "foldM f [] a = ret a"
| "foldM f (x # xs) a = bind (f x a) (foldM f xs)"

lemma ret_run [simp, monad_simps]: "ret x s = (Inr x, s)"
  by (simp add: ret_def)

lemma raise_run [simp, monad_simps]: "raise e s = (Inl e, s)"
  by (simp add: raise_def)

lemma gets_run [simp, monad_simps]: "gets f s = (Inr (f s), s)"
  by (simp add: gets_def)

lemma modify_run [simp, monad_simps]: "modify f s = (Inr (), f s)"
  by (simp add: modify_def)

lemma lift_run [simp, monad_simps]: "lift r s = (r, s)"
  by (simp add: lift_def)

lemma bind_run [monad_simps]:
  "bind m f s = (case m s of (Inl e, s') \<Rightarrow> (Inl e, s') | (Inr x, s') \<Rightarrow> f x s')"
  by (simp add: bind_def)

lemma seq_run [monad_simps]:
  "seq m k s = (case m s of (Inl e, s') \<Rightarrow> (Inl e, s') | (Inr x, s') \<Rightarrow> k s')"
  by (simp add: seq_def bind_def)

lemma catch_run [monad_simps]:
  "catch m h s = (case m s of (Inl e, s') \<Rightarrow> h e s' | (Inr x, s') \<Rightarrow> (Inr x, s'))"
  by (simp add: catch_def)

lemma bind_assoc: "bind (bind m f) g = bind m (\<lambda>x. bind (f x) g)"
  by (rule ext) (simp add: bind_def split: prod.splits sum.splits)

lemma foldM_append: "foldM f (xs @ ys) a = bind (foldM f xs a) (foldM f ys)"
proof (induction xs arbitrary: a)
  case Nil
  show ?case by (rule ext) (simp add: bind_def)
next
  case (Cons x xs)
  have "foldM f (xs @ ys) = (\<lambda>a. bind (foldM f xs a) (foldM f ys))"
    by (rule ext) (rule Cons.IH)
  then show ?case by (simp add: bind_assoc)
qed

text \<open>Inversion of a run that ends normally: which runs it is made of.\<close>

lemma bind_InrE:
  assumes "bind m f s = (Inr y, s')"
  obtains x t where "m s = (Inr x, t)" and "f x t = (Inr y, s')"
  using assms by (auto simp: bind_run split: prod.splits sum.splits)

lemma seq_InrE:
  assumes "seq m k s = (Inr y, s')"
  obtains t where "m s = (Inr (), t)" and "k t = (Inr y, s')"
  using assms by (auto simp: seq_run split: prod.splits sum.splits)

subsection \<open>A logic for invariants\<close>

text \<open>
  A program is safe for an invariant \<open>I\<close> and a relation \<open>R\<close> between the state before and after
  when every run from a state with the invariant, raising or not, ends in one with the invariant,
  in the relation. The relation is what rolling a transaction back needs to know of the run.
\<close>

locale safety_logic =
  fixes I :: "'s \<Rightarrow> bool"
    and R :: "'s \<Rightarrow> 's \<Rightarrow> bool"
  assumes R_refl: "R s s"
    and R_trans: "R s t \<Longrightarrow> R t u \<Longrightarrow> R s u"
begin

definition safe :: "('s, 'a) pm \<Rightarrow> bool" where
  "safe m \<longleftrightarrow> (\<forall>s. I s \<longrightarrow> I (snd (m s)) \<and> R s (snd (m s)))"

lemma safeI: "(\<And>s. I s \<Longrightarrow> I (snd (m s)) \<and> R s (snd (m s))) \<Longrightarrow> safe m"
  by (simp add: safe_def)

lemma safeD: "safe m \<Longrightarrow> I s \<Longrightarrow> I (snd (m s))"
  by (simp add: safe_def)

lemma safe_rel: "safe m \<Longrightarrow> I s \<Longrightarrow> R s (snd (m s))"
  by (simp add: safe_def)

lemma safe_ret: "safe (ret x)"
  by (simp add: safe_def R_refl)

lemma safe_raise: "safe (raise e)"
  by (simp add: safe_def R_refl)

lemma safe_gets: "safe (gets f)"
  by (simp add: safe_def R_refl)

lemma safe_lift: "safe (lift r)"
  by (simp add: safe_def R_refl)

lemma safe_modify: "(\<And>s. I s \<Longrightarrow> I (f s) \<and> R s (f s)) \<Longrightarrow> safe (modify f)"
  by (simp add: safe_def)

lemma safe_bind:
  assumes "safe m" and "\<And>x. safe (f x)"
  shows "safe (bind m f)"
proof (rule safeI)
  fix s assume "I s"
  obtain r t where t: "m s = (r, t)" by (cases "m s")
  have st: "I t" "R s t" using safeD [OF assms(1) \<open>I s\<close>] safe_rel [OF assms(1) \<open>I s\<close>] by (simp_all add: t)
  show "I (snd (bind m f s)) \<and> R s (snd (bind m f s))"
  proof (cases r)
    case (Inr x)
    from safeD [OF assms(2) st(1)] R_trans [OF st(2) safe_rel [OF assms(2) st(1)]]
    show ?thesis by (simp add: bind_def t Inr)
  qed (simp add: bind_def t st)
qed

lemma safe_seq: "safe m \<Longrightarrow> safe k \<Longrightarrow> safe (seq m k)"
  by (simp add: seq_def safe_bind)

lemma safe_catch:
  assumes "safe m" and "\<And>e. safe (h e)"
  shows "safe (catch m h)"
proof (rule safeI)
  fix s assume "I s"
  obtain r t where t: "m s = (r, t)" by (cases "m s")
  have st: "I t" "R s t" using safeD [OF assms(1) \<open>I s\<close>] safe_rel [OF assms(1) \<open>I s\<close>] by (simp_all add: t)
  show "I (snd (catch m h s)) \<and> R s (snd (catch m h s))"
  proof (cases r)
    case (Inl e)
    from safeD [OF assms(2) st(1)] R_trans [OF st(2) safe_rel [OF assms(2) st(1)]]
    show ?thesis by (simp add: catch_def t Inl)
  qed (simp add: catch_def t st)
qed

lemma safe_foldM:
  assumes "\<And>x a. safe (f x a)"
  shows "safe (foldM f xs a)"
  by (induction xs arbitrary: a) (auto intro: safe_ret safe_bind assms)

lemma safe_if: "(b \<Longrightarrow> safe m) \<Longrightarrow> (\<not> b \<Longrightarrow> safe k) \<Longrightarrow> safe (if b then m else k)"
  by simp

lemma safe_option: "safe m \<Longrightarrow> (\<And>x. safe (f x)) \<Longrightarrow> safe (case v of None \<Rightarrow> m | Some x \<Rightarrow> f x)"
  by (cases v) auto

lemma safe_sum: "(\<And>x. safe (f x)) \<Longrightarrow> (\<And>x. safe (g x)) \<Longrightarrow> safe (case v of Inl x \<Rightarrow> f x | Inr x \<Rightarrow> g x)"
  by (cases v) auto

lemma safe_list: "safe m \<Longrightarrow> (\<And>x xs. safe (f x xs)) \<Longrightarrow> safe (case v of [] \<Rightarrow> m | x # xs \<Rightarrow> f x xs)"
  by (cases v) auto

lemma safe_prod: "(\<And>x y. safe (f x y)) \<Longrightarrow> safe (case v of (x, y) \<Rightarrow> f x y)"
  by (cases v) auto

lemmas safe_rules = safe_ret safe_raise safe_gets safe_lift safe_bind safe_seq safe_catch safe_foldM
  safe_if safe_option safe_sum safe_list safe_prod

text \<open>The runs of a list of programs, each in the state the one before left.\<close>

fun run_all :: "('s, 'a) pm list \<Rightarrow> 's \<Rightarrow> 's" where
  "run_all [] s = s"
| "run_all (m # ms) s = run_all ms (snd (m s))"

lemma run_all_invariant: "(\<And>m. m \<in> set ms \<Longrightarrow> safe m) \<Longrightarrow> I s \<Longrightarrow> I (run_all ms s)"
  by (induction ms arbitrary: s) (auto intro: safeD)

lemma run_all_rel: "(\<And>m. m \<in> set ms \<Longrightarrow> safe m) \<Longrightarrow> I s \<Longrightarrow> R s (run_all ms s)"
proof (induction ms arbitrary: s)
  case (Cons m ms)
  then have "R s (snd (m s))" and "I (snd (m s))" by (auto intro: safeD safe_rel)
  with Cons show ?case by (auto intro: R_trans)
qed (simp add: R_refl)

end

subsection \<open>Association lists\<close>

text \<open>
  A Python dict as an association list: reading the first binding; storing replaces a binding in
  place and appends a new key at the end, as dicts keep insertion order.
\<close>

fun alist_set :: "'k \<Rightarrow> 'v \<Rightarrow> ('k \<times> 'v) list \<Rightarrow> ('k \<times> 'v) list" where
  "alist_set k v [] = [(k, v)]"
| "alist_set k v ((k', v') # xs) = (if k = k' then (k, v) # xs else (k', v') # alist_set k v xs)"

definition alist_del :: "'k \<Rightarrow> ('k \<times> 'v) list \<Rightarrow> ('k \<times> 'v) list" where
  "alist_del k xs = filter (\<lambda>p. fst p \<noteq> k) xs"

lemma map_of_alist_set [simp]: "map_of (alist_set k v xs) = (map_of xs)(k \<mapsto> v)"
  by (induction xs) auto

lemma map_of_alist_del [simp]: "map_of (alist_del k xs) k' = (if k' = k then None else map_of xs k')"
  by (induction xs) (auto simp: alist_del_def)

lemma fst_alist_set [simp]: "fst ` set (alist_set k v xs) = insert k (fst ` set xs)"
proof (induction xs)
  case (Cons x xs)
  then show ?case by (cases x) (auto simp: insert_commute)
qed simp

lemma distinct_alist_set [simp]:
  "distinct (map fst xs) \<Longrightarrow> distinct (map fst (alist_set k v xs))"
proof (induction xs)
  case (Cons x xs)
  then show ?case by (cases x) (simp flip: set_map, simp)
qed simp

text \<open>\<open>d.setdefault(k, v)\<close>.\<close>

definition alist_setdefault :: "'k \<Rightarrow> 'v \<Rightarrow> ('k \<times> 'v) list \<Rightarrow> ('k \<times> 'v) list" where
  "alist_setdefault k v xs = (case map_of xs k of None \<Rightarrow> xs @ [(k, v)] | Some _ \<Rightarrow> xs)"

lemma map_of_alist_setdefault [simp]:
  "map_of (alist_setdefault k v xs) k' =
     (case map_of xs k' of None \<Rightarrow> if k' = k then Some v else None | Some y \<Rightarrow> Some y)"
  by (auto simp: alist_setdefault_def map_add_def split: option.splits)

text \<open>\<open>list(dict.fromkeys(xs))\<close>: the first occurrence of each element, in order.\<close>

fun dedup_from :: "'a list \<Rightarrow> 'a list \<Rightarrow> 'a list" where
  "dedup_from seen [] = []"
| "dedup_from seen (x # xs) = (if x \<in> set seen then dedup_from seen xs else x # dedup_from (x # seen) xs)"

definition dedup :: "'a list \<Rightarrow> 'a list" where
  "dedup xs = dedup_from [] xs"

lemma set_dedup_from: "set (dedup_from seen xs) = set xs - set seen"
  by (induction xs arbitrary: seen) auto

lemma set_dedup [simp]: "set (dedup xs) = set xs"
  by (simp add: dedup_def set_dedup_from)

lemma distinct_dedup_from: "distinct (dedup_from seen xs)"
  by (induction xs arbitrary: seen) (auto simp: set_dedup_from)

lemma distinct_dedup [simp]: "distinct (dedup xs)"
  by (simp add: dedup_def distinct_dedup_from)

end
