(* ===== verification/Table.thy ===== *)
theory Table
  imports Prelude
begin

text \<open>
  Relational tables with an identity column: a list of rows in insertion order, each with its id,
  and the sequence the next id comes from. A sequence is not transactional: rolling back restores
  the rows and keeps the sequence, so an id that was handed out is never handed out again.
  Uniqueness and references are predicates on tables, with what keeps them.
\<close>

record 'r table =
  rows :: "(int \<times> 'r) list"
  next_id :: int

definition empty_table :: "'r table" where
  "empty_table = \<lparr>rows = [], next_id = 1\<rparr>"

definition tbl_get :: "'r table \<Rightarrow> int \<Rightarrow> 'r option" where
  "tbl_get t i = map_of (rows t) i"

definition tbl_has :: "'r table \<Rightarrow> int \<Rightarrow> bool" where
  "tbl_has t i = (tbl_get t i \<noteq> None)"

text \<open>The new row gets id \<open>next_id t\<close>.\<close>

definition tbl_insert :: "'r \<Rightarrow> 'r table \<Rightarrow> 'r table" where
  "tbl_insert r t = t\<lparr>rows := rows t @ [(next_id t, r)], next_id := next_id t + 1\<rparr>"

text \<open>\<open>UPDATE ... SET ... WHERE ...\<close> as a function of the row.\<close>

definition tbl_map :: "(int \<Rightarrow> 'r \<Rightarrow> 'r) \<Rightarrow> 'r table \<Rightarrow> 'r table" where
  "tbl_map g t = t\<lparr>rows := map (\<lambda>(i, r). (i, g i r)) (rows t)\<rparr>"

definition tbl_set :: "int \<Rightarrow> 'r \<Rightarrow> 'r table \<Rightarrow> 'r table" where
  "tbl_set i r t = tbl_map (\<lambda>j x. if j = i then r else x) t"

text \<open>\<open>DELETE ... WHERE ...\<close>.\<close>

definition tbl_delete :: "(int \<Rightarrow> 'r \<Rightarrow> bool) \<Rightarrow> 'r table \<Rightarrow> 'r table" where
  "tbl_delete p t = t\<lparr>rows := filter (\<lambda>(i, r). \<not> p i r) (rows t)\<rparr>"

text \<open>\<open>SELECT ... WHERE ...\<close>, and its first row.\<close>

definition tbl_select :: "('r \<Rightarrow> bool) \<Rightarrow> 'r table \<Rightarrow> (int \<times> 'r) list" where
  "tbl_select p t = filter (\<lambda>(i, r). p r) (rows t)"

definition tbl_find :: "('r \<Rightarrow> bool) \<Rightarrow> 'r table \<Rightarrow> (int \<times> 'r) option" where
  "tbl_find p t = find (\<lambda>(i, r). p r) (rows t)"

text \<open>\<open>ORDER BY key DESC\<close>; equal keys stay in insertion order, where SQL leaves it open.\<close>

definition order_desc :: "('x \<Rightarrow> int) \<Rightarrow> 'x list \<Rightarrow> 'x list" where
  "order_desc key xs = sort_key (\<lambda>x. - key x) xs"

definition tbl_restore :: "'r table \<Rightarrow> 'r table \<Rightarrow> 'r table" where
  "tbl_restore saved cur = saved\<lparr>next_id := next_id cur\<rparr>"

subsection \<open>Identity\<close>

definition tbl_ok :: "'r table \<Rightarrow> bool" where
  "tbl_ok t \<longleftrightarrow> distinct (map fst (rows t)) \<and> (\<forall>i \<in> fst ` set (rows t). 0 < i \<and> i < next_id t) \<and> 0 < next_id t"

lemma tbl_ok_empty [simp]: "tbl_ok empty_table"
  by (simp add: tbl_ok_def empty_table_def)

lemma tbl_ok_insert [simp]: "tbl_ok t \<Longrightarrow> tbl_ok (tbl_insert r t)"
  by (auto simp: tbl_ok_def tbl_insert_def)

lemma fst_tbl_map [simp]: "map fst (rows (tbl_map g t)) = map fst (rows t)"
  by (simp add: tbl_map_def o_def case_prod_beta)

lemma fst_set_tbl_map [simp]: "fst ` set (rows (tbl_map g t)) = fst ` set (rows t)"
  using fst_tbl_map [of g t] by (metis set_map)

lemma next_id_simps [simp]:
  "next_id (tbl_insert r t) = next_id t + 1" "next_id (tbl_map g t) = next_id t"
  "next_id (tbl_set i r t) = next_id t" "next_id (tbl_delete p t) = next_id t"
  "next_id (tbl_restore s t) = next_id t"
  by (simp_all add: tbl_insert_def tbl_map_def tbl_set_def tbl_delete_def tbl_restore_def)

lemma rows_tbl_restore [simp]: "rows (tbl_restore s t) = rows s"
  by (simp add: tbl_restore_def)

lemma tbl_ok_map [simp]: "tbl_ok (tbl_map g t) \<longleftrightarrow> tbl_ok t"
  unfolding tbl_ok_def by (simp only: fst_tbl_map fst_set_tbl_map next_id_simps)

lemma tbl_ok_set [simp]: "tbl_ok (tbl_set i r t) \<longleftrightarrow> tbl_ok t"
  by (simp add: tbl_set_def)

lemma tbl_ok_delete [simp]: "tbl_ok t \<Longrightarrow> tbl_ok (tbl_delete p t)"
  by (auto simp: tbl_ok_def tbl_delete_def distinct_map_filter)

lemma tbl_ok_restore [simp]: "tbl_ok s \<Longrightarrow> next_id s \<le> next_id t \<Longrightarrow> tbl_ok (tbl_restore s t)"
  by (fastforce simp: tbl_ok_def)

lemma tbl_has_iff: "tbl_has t i \<longleftrightarrow> i \<in> fst ` set (rows t)"
  by (metis map_of_eq_None_iff tbl_has_def tbl_get_def)

lemma tbl_has_insert [simp]: "tbl_has (tbl_insert r t) i \<longleftrightarrow> i = next_id t \<or> tbl_has t i"
  by (auto simp: tbl_has_iff tbl_insert_def)

lemma tbl_has_map [simp]: "tbl_has (tbl_map g t) i \<longleftrightarrow> tbl_has t i"
  by (simp add: tbl_has_iff)

lemma tbl_has_set [simp]: "tbl_has (tbl_set j r t) i \<longleftrightarrow> tbl_has t i"
  by (simp add: tbl_set_def)

lemma tbl_has_restore [simp]: "tbl_has (tbl_restore s t) i \<longleftrightarrow> tbl_has s i"
  by (simp add: tbl_has_iff)

lemma tbl_fresh: "tbl_ok t \<Longrightarrow> \<not> tbl_has t (next_id t)"
  by (auto simp: tbl_ok_def tbl_has_iff)

lemma tbl_fresh_get: "tbl_ok t \<Longrightarrow> tbl_get t (next_id t) = None"
  using tbl_fresh [of t] by (simp add: tbl_has_def)

lemma tbl_get_insert: "tbl_ok t \<Longrightarrow> tbl_get (tbl_insert r t) i = (if i = next_id t then Some r else tbl_get t i)"
  using tbl_fresh_get [of t]
  by (auto simp: tbl_get_def tbl_insert_def map_add_def split: option.splits)

lemma tbl_get_map: "tbl_get (tbl_map g t) i = map_option (g i) (tbl_get t i)"
proof -
  have "map_of (map (\<lambda>(i, r). (i, g i r)) xs) i = map_option (g i) (map_of xs i)" for xs :: "(int \<times> 'a) list"
    by (induction xs) auto
  then show ?thesis by (simp add: tbl_get_def tbl_map_def)
qed

lemma tbl_get_set: "tbl_get (tbl_set j r t) i = (if i = j then map_option (\<lambda>_. r) (tbl_get t i) else tbl_get t i)"
  by (cases "tbl_get t i") (auto simp: tbl_set_def tbl_get_map)

lemma in_rows_get: "tbl_ok t \<Longrightarrow> (i, r) \<in> set (rows t) \<longleftrightarrow> tbl_get t i = Some r"
  by (simp add: tbl_ok_def tbl_get_def)

lemma tbl_get_in: "tbl_get t i = Some r \<Longrightarrow> (i, r) \<in> set (rows t)"
  by (simp add: tbl_get_def map_of_SomeD)

lemma tbl_get_has: "tbl_get t i = Some r \<Longrightarrow> tbl_has t i"
  by (simp add: tbl_has_def)

lemma tbl_find_in: "tbl_find p t = Some (i, r) \<Longrightarrow> (i, r) \<in> set (rows t) \<and> p r"
  by (fastforce simp: tbl_find_def find_Some_iff in_set_conv_nth)

lemma tbl_find_get: "tbl_ok t \<Longrightarrow> tbl_find p t = Some (i, r) \<Longrightarrow> tbl_get t i = Some r \<and> p r"
  using tbl_find_in [of p t i r] in_rows_get [of t i r] by blast

lemma tbl_find_None: "tbl_find p t = None \<longleftrightarrow> (\<forall>(i, r) \<in> set (rows t). \<not> p r)"
  by (auto simp: tbl_find_def find_None_iff)

lemma tbl_find_insert:
  "tbl_find p (tbl_insert r t) =
     (case tbl_find p t of Some x \<Rightarrow> Some x | None \<Rightarrow> if p r then Some (next_id t, r) else None)"
proof -
  have "find q (xs @ [x]) = (case find q xs of Some y \<Rightarrow> Some y | None \<Rightarrow> if q x then Some x else None)"
    for q xs and x :: "int \<times> 'a"
    by (induction xs) auto
  then show ?thesis by (simp add: tbl_find_def tbl_insert_def)
qed

lemma tbl_find_set:
  assumes "tbl_ok t" and "tbl_find p t = Some (i, old)" and "p r"
  shows "tbl_find p (tbl_set i r t) = Some (i, r)"
proof -
  have "find (\<lambda>(i, r). p r) (map (\<lambda>(j, x). (j, if j = i then r else x)) xs) = Some (i, r)"
    if "find (\<lambda>(i, r). p r) xs = Some (i, old)" "distinct (map fst xs)" for xs
    using that
  proof (induction xs)
    case (Cons x xs)
    obtain j y where x: "x = (j, y)" by (cases x)
    show ?case
    proof (cases "p y")
      case False
      have "(i, old) \<in> set xs" using Cons.prems False x by (auto simp: find_Some_iff) (metis nth_mem)
      then have "j \<noteq> i" using Cons.prems x by force
      with Cons False x show ?thesis by simp
    qed (use Cons.prems assms(3) x in simp)
  qed simp
  with assms show ?thesis
    by (simp add: tbl_find_def tbl_set_def tbl_map_def tbl_ok_def)
qed

text \<open>A row that is not looked for, before or after, may change.\<close>

lemma tbl_find_set_other:
  assumes "tbl_ok t" and "tbl_get t i = Some old" and "\<not> p old" and "\<not> p r"
  shows "tbl_find p (tbl_set i r t) = tbl_find p t"
proof -
  have "find (\<lambda>(j, q). p q) (map (\<lambda>(j, q). (j, if j = i then r else q)) xs) = find (\<lambda>(j, q). p q) xs"
    if "\<And>q. (i, q) \<in> set xs \<Longrightarrow> q = old" for xs
    using that
  proof (induction xs)
    case (Cons x xs)
    obtain j q where x: "x = (j, q)" by (cases x)
    then have "j = i \<Longrightarrow> q = old" using Cons.prems by simp
    with Cons x assms(3,4) show ?case by auto
  qed simp
  moreover have "q = old" if "(i, q) \<in> set (rows t)" for q
    using in_rows_get [OF assms(1)] that assms(2) by simp
  ultimately show ?thesis by (simp add: tbl_find_def tbl_set_def tbl_map_def)
qed

lemma tbl_map_id: "(\<And>i r. (i, r) \<in> set (rows t) \<Longrightarrow> g i r = r) \<Longrightarrow> tbl_map g t = t"
  by (simp add: tbl_map_def map_idI case_prod_beta)

lemma tbl_map_cong: "(\<And>i r. (i, r) \<in> set (rows t) \<Longrightarrow> f i r = g i r) \<Longrightarrow> tbl_map f t = tbl_map g t"
  by (simp add: tbl_map_def case_prod_beta cong: map_cong)

lemma tbl_delete_get: "tbl_ok t \<Longrightarrow> tbl_get (tbl_delete p t) i = Some r \<longleftrightarrow> tbl_get t i = Some r \<and> \<not> p i r"
proof -
  assume ok: "tbl_ok t"
  show ?thesis
    using in_rows_get [OF tbl_ok_delete [OF ok, of p], of i r, symmetric] in_rows_get [OF ok, of i r]
    by (auto simp: tbl_delete_def)
qed

lemma tbl_delete_id_get: "tbl_ok t \<Longrightarrow> tbl_get (tbl_delete (\<lambda>j _. j = k) t) i = (if i = k then None else tbl_get t i)"
proof -
  assume ok: "tbl_ok t"
  show ?thesis
  proof (cases "tbl_get (tbl_delete (\<lambda>j _. j = k) t) i")
    case None
    then show ?thesis
      using tbl_delete_get [OF ok, of "\<lambda>j _. j = k" i] by (cases "tbl_get t i") auto
  next
    case (Some r)
    then show ?thesis
      using tbl_delete_get [OF ok, of "\<lambda>j _. j = k" i r] by simp
  qed
qed

subsection \<open>Unique keys\<close>

text \<open>A key is None where a column of it is NULL, and then conflicts with nothing.\<close>

definition uniq :: "('r \<Rightarrow> 'k option) \<Rightarrow> 'r table \<Rightarrow> bool" where
  "uniq key t \<longleftrightarrow> (\<forall>x \<in> set (rows t). \<forall>y \<in> set (rows t).
     key (snd x) \<noteq> None \<longrightarrow> key (snd x) = key (snd y) \<longrightarrow> fst x = fst y)"

text \<open>Row \<open>r\<close> under id \<open>i\<close> conflicts with another row.\<close>

definition conflict :: "('r \<Rightarrow> 'k option) \<Rightarrow> 'r table \<Rightarrow> int \<Rightarrow> 'r \<Rightarrow> bool" where
  "conflict key t i r = (key r \<noteq> None \<and> list_ex (\<lambda>(j, q). j \<noteq> i \<and> key q = key r) (rows t))"

lemma uniq_empty [simp]: "uniq key empty_table"
  by (simp add: uniq_def empty_table_def)

lemma uniqD: "uniq key t \<Longrightarrow> (i, r) \<in> set (rows t) \<Longrightarrow> (j, q) \<in> set (rows t) \<Longrightarrow> key r = Some k \<Longrightarrow> key q = Some k \<Longrightarrow> i = j"
  unfolding uniq_def by fastforce

lemma no_conflict_same: "uniq key t \<Longrightarrow> (i, r) \<in> set (rows t) \<Longrightarrow> key r' = key r \<Longrightarrow> \<not> conflict key t i r'"
  unfolding uniq_def conflict_def list_ex_iff by fastforce

lemma uniq_insert:
  assumes ok: "tbl_ok t" and u: "uniq key t" and free: "\<not> conflict key t (next_id t) r"
  shows "uniq key (tbl_insert r t)"
proof -
  have "i \<noteq> next_id t" if "(i, q) \<in> set (rows t)" for i q
    using ok that by (force simp: tbl_ok_def)
  with u free show ?thesis
    by (fastforce simp: uniq_def conflict_def tbl_insert_def list_ex_iff)
qed

lemma uniq_set:
  assumes u: "uniq key t" and free: "\<not> conflict key t i r"
  shows "uniq key (tbl_set i r t)"
proof -
  have other: "j = i" if "key r \<noteq> None" "(j, q) \<in> set (rows t)" "key q = key r" for j q
    using free that by (auto simp: conflict_def list_ex_iff)
  have old: "j = k" if "(j, q) \<in> set (rows t)" "(k, p) \<in> set (rows t)" "key q \<noteq> None" "key q = key p" for j k p q
    using u that unfolding uniq_def by fastforce
  have "j = k"
    if m: "(j, q) \<in> set (rows t)" "(k, p) \<in> set (rows t)" and nn: "key (if j = i then r else q) \<noteq> None"
       and eq: "key (if j = i then r else q) = key (if k = i then r else p)" for j k p q
  proof (cases "j = i")
    case True
    with nn eq have "k \<noteq> i \<Longrightarrow> key p = key r" "key r \<noteq> None" by auto
    with True show ?thesis using other [OF _ m(2)] by blast
  next
    case False
    with nn eq have "k = i \<Longrightarrow> key q = key r" "k \<noteq> i \<Longrightarrow> key q = key p" "key q \<noteq> None" by auto
    then show ?thesis using other [OF _ m(1)] old [OF m] False by (cases "k = i") auto
  qed
  note step = this
  have "\<forall>(j, q) \<in> set (rows t). \<forall>(k, p) \<in> set (rows t). key (if j = i then r else q) \<noteq> None \<longrightarrow>
      key (if j = i then r else q) = key (if k = i then r else p) \<longrightarrow> j = k"
    using step by blast
  then show ?thesis
    by (simp add: uniq_def tbl_set_def tbl_map_def case_prod_beta)
qed

text \<open>An update that leaves the key columns alone.\<close>

lemma uniq_map:
  assumes "\<And>i r. key (g i r) = key r"
  shows "uniq key (tbl_map g t) \<longleftrightarrow> uniq key t"
  by (simp add: uniq_def tbl_map_def case_prod_beta assms)

lemma uniq_delete [simp]: "uniq key t \<Longrightarrow> uniq key (tbl_delete p t)"
  unfolding uniq_def tbl_delete_def by auto

lemma uniq_restore [simp]: "uniq key (tbl_restore s t) \<longleftrightarrow> uniq key s"
  by (simp add: uniq_def)

subsection \<open>References\<close>

definition ref_ok :: "int option \<Rightarrow> 'q table \<Rightarrow> bool" where
  "ref_ok v tgt = (case v of None \<Rightarrow> True | Some k \<Rightarrow> tbl_has tgt k)"

definition refs :: "('r \<Rightarrow> int option) \<Rightarrow> 'r table \<Rightarrow> 'q table \<Rightarrow> bool" where
  "refs f src tgt \<longleftrightarrow> (\<forall>x \<in> set (rows src). ref_ok (f (snd x)) tgt)"

definition referenced :: "('r \<Rightarrow> int option) \<Rightarrow> 'r table \<Rightarrow> int \<Rightarrow> bool" where
  "referenced f src k = list_ex (\<lambda>(i, r). f r = Some k) (rows src)"

lemma ref_ok_simps [simp]:
  "ref_ok None tgt" "ref_ok (Some k) tgt \<longleftrightarrow> tbl_has tgt k"
  "ref_ok v (tbl_map g tgt) \<longleftrightarrow> ref_ok v tgt" "ref_ok v (tbl_set i r tgt) \<longleftrightarrow> ref_ok v tgt"
  "ref_ok v (tbl_restore tgt t') \<longleftrightarrow> ref_ok v tgt" "ref_ok v tgt \<Longrightarrow> ref_ok v (tbl_insert q tgt)"
  by (auto simp: ref_ok_def split: option.splits)

lemma refs_empty [simp]: "refs f empty_table tgt"
  by (simp add: refs_def empty_table_def)

lemma refs_insert_src [simp]: "refs f src tgt \<Longrightarrow> ref_ok (f r) tgt \<Longrightarrow> refs f (tbl_insert r src) tgt"
  by (auto simp: refs_def tbl_insert_def)

lemma refs_insert_tgt [simp]: "refs f src tgt \<Longrightarrow> refs f src (tbl_insert r tgt)"
  by (auto simp: refs_def)

lemma refs_set_src [simp]: "refs f src tgt \<Longrightarrow> ref_ok (f r) tgt \<Longrightarrow> refs f (tbl_set i r src) tgt"
  by (auto simp: refs_def tbl_set_def tbl_map_def)

lemma refs_map_src: "(\<And>i r. f (g i r) = f r) \<Longrightarrow> refs f (tbl_map g src) tgt \<longleftrightarrow> refs f src tgt"
  by (simp add: refs_def tbl_map_def case_prod_beta)

lemma refs_tgt_simps [simp]:
  "refs f src (tbl_map g tgt) \<longleftrightarrow> refs f src tgt" "refs f src (tbl_set i r tgt) \<longleftrightarrow> refs f src tgt"
  by (simp_all add: refs_def)

lemma refs_delete_src [simp]: "refs f src tgt \<Longrightarrow> refs f (tbl_delete p src) tgt"
  by (simp add: refs_def tbl_delete_def)

lemma tbl_has_delete_id [simp]: "tbl_has (tbl_delete (\<lambda>i _. i = k) tgt) i \<longleftrightarrow> tbl_has tgt i \<and> i \<noteq> k"
  by (force simp: tbl_has_iff tbl_delete_def)

lemma refs_delete_tgt:
  assumes "refs f src tgt" and "\<not> referenced f src k"
  shows "refs f src (tbl_delete (\<lambda>i _. i = k) tgt)"
  using assms by (fastforce simp: refs_def ref_ok_def referenced_def list_ex_iff split: option.splits)

lemma refs_restore [simp]: "refs f (tbl_restore s t) (tbl_restore s' t') \<longleftrightarrow> refs f s s'"
  by (simp add: refs_def)

end
