(* ===== verification/PyFloat.thy ===== *)
theory PyFloat
  imports Complex_Main "HOL-Library.Log_Nat"
begin

text \<open>
  Python's \<^verbatim>\<open>float\<close> (IEEE-754 binary64): a finite double is the rational it denotes, every
  operation rounds its exact result to the nearest double, ties to even, with gradual underflow
  and overflow to infinity. The two zeros are identified: they compare equal and are both falsy,
  and no code of the repository divides by a float zero or looks at its sign bit.
\<close>

datatype pyfloat = Fin rat | PInf | NInf | NaN

subsection \<open>Rounding\<close>

definition pow2 :: "int \<Rightarrow> rat" where
  "pow2 e = (if 0 \<le> e then 2 ^ nat e else 1 / 2 ^ nat (- e))"

text \<open>The exponent \<open>e\<close> with \<open>2^e \<le> q < 2^(e+1)\<close>, for a positive \<open>q\<close>.\<close>

definition expo :: "rat \<Rightarrow> int" where
  "expo q = (case quotient_of q of (p, d) \<Rightarrow>
     let e = bitlen p - bitlen d in if pow2 e \<le> q then e else e - 1)"

definition round_even :: "rat \<Rightarrow> int" where
  "round_even x = (let f = \<lfloor>x\<rfloor>; r = x - of_int f in
     if r < 1 / 2 then f else if r > 1 / 2 then f + 1 else if even f then f else f + 1)"

definition ulp_of :: "rat \<Rightarrow> rat" where
  "ulp_of q = pow2 (max (expo q - 52) (- 1074))"

definition rnd :: "rat \<Rightarrow> pyfloat" where
  "rnd q = (if q = 0 then Fin 0
     else let u = ulp_of \<bar>q\<bar>; v = of_int (round_even (\<bar>q\<bar> / u)) * u in
       if v < 2 ^ 1024 then Fin (sgn q * v) else if 0 < q then PInf else NInf)"

subsection \<open>Operations\<close>

fun fneg :: "pyfloat \<Rightarrow> pyfloat" where
  "fneg (Fin a) = Fin (- a)"
| "fneg PInf = NInf"
| "fneg NInf = PInf"
| "fneg NaN = NaN"

fun fadd :: "pyfloat \<Rightarrow> pyfloat \<Rightarrow> pyfloat" where
  "fadd (Fin a) (Fin b) = rnd (a + b)"
| "fadd NaN _ = NaN"
| "fadd _ NaN = NaN"
| "fadd PInf NInf = NaN"
| "fadd NInf PInf = NaN"
| "fadd PInf _ = PInf"
| "fadd NInf _ = NInf"
| "fadd _ PInf = PInf"
| "fadd _ NInf = NInf"

definition fsub :: "pyfloat \<Rightarrow> pyfloat \<Rightarrow> pyfloat" where
  "fsub a b = fadd a (fneg b)"

definition inf_sgn :: "rat \<Rightarrow> pyfloat \<Rightarrow> pyfloat" where
  "inf_sgn a f = (if a = 0 then NaN else if 0 < a then f else fneg f)"

fun fmul :: "pyfloat \<Rightarrow> pyfloat \<Rightarrow> pyfloat" where
  "fmul (Fin a) (Fin b) = rnd (a * b)"
| "fmul NaN _ = NaN"
| "fmul _ NaN = NaN"
| "fmul (Fin a) f = inf_sgn a f"
| "fmul f (Fin b) = inf_sgn b f"
| "fmul PInf f = f"
| "fmul NInf f = fneg f"

fun flt :: "pyfloat \<Rightarrow> pyfloat \<Rightarrow> bool" where
  "flt NaN _ = False"
| "flt _ NaN = False"
| "flt (Fin a) (Fin b) = (a < b)"
| "flt (Fin a) PInf = True"
| "flt (Fin a) NInf = False"
| "flt PInf _ = False"
| "flt NInf NInf = False"
| "flt NInf _ = True"

definition feq :: "pyfloat \<Rightarrow> pyfloat \<Rightarrow> bool" where
  "feq a b \<longleftrightarrow> a = b \<and> a \<noteq> NaN"

definition fle :: "pyfloat \<Rightarrow> pyfloat \<Rightarrow> bool" where
  "fle a b \<longleftrightarrow> flt a b \<or> feq a b"

fun fabs :: "pyfloat \<Rightarrow> pyfloat" where
  "fabs (Fin a) = Fin \<bar>a\<bar>"
| "fabs NInf = PInf"
| "fabs f = f"

text \<open>Python's \<open>max(a, b)\<close> keeps its first argument unless the second is greater.\<close>

definition fmax :: "pyfloat \<Rightarrow> pyfloat \<Rightarrow> pyfloat" where
  "fmax a b = (if flt a b then b else a)"

text \<open>Python's \<open>round(x, 2)\<close>: the exact value rounded half-even to two decimals, as a double.\<close>

fun fround2 :: "pyfloat \<Rightarrow> pyfloat" where
  "fround2 (Fin a) = rnd (of_int (round_even (a * 100)) / 100)"
| "fround2 f = f"

definition ftruthy :: "pyfloat \<Rightarrow> bool" where
  "ftruthy f \<longleftrightarrow> f \<noteq> Fin 0"

text \<open>The conversion of an integer, which raises OverflowError out of the double range.\<close>

definition float_of_int :: "int \<Rightarrow> pyfloat option" where
  "float_of_int n = (case rnd (of_int n) of Fin q \<Rightarrow> Some (Fin q) | _ \<Rightarrow> None)"

subsection \<open>Rounding: exact on small integers, monotone at zero\<close>

lemma pow2_pos [simp]: "0 < pow2 e"
  by (simp add: pow2_def)

lemma round_even_int [simp]: "round_even (of_int n) = n"
  by (simp add: round_even_def)

lemma round_even_nonneg: "0 \<le> x \<Longrightarrow> 0 \<le> round_even x"
  by (auto simp: round_even_def Let_def)

lemma round_even_close: "\<bar>of_int (round_even x) - x\<bar> \<le> 1 / 2"
proof -
  have "of_int \<lfloor>x\<rfloor> \<le> x" and "x < of_int \<lfloor>x\<rfloor> + 1"
    by (rule of_int_floor_le, rule floor_less_iff [THEN iffD1, of x "\<lfloor>x\<rfloor> + 1", simplified])
  then show ?thesis
    by (simp add: round_even_def Let_def abs_if) linarith
qed

lemma expo_of_int_bound:
  assumes "0 < n" and "n < 2 ^ 53"
  shows "expo (of_int n) \<le> 52"
proof -
  have "bitlen n \<le> 53"
    using assms by (simp add: bitlen_le_iff_power)
  moreover have "quotient_of (of_int n) = (n, 1)"
    by (simp add: quotient_of_int)
  moreover have "bitlen (1 :: int) = 1"
    by (simp add: bitlen_eq_zero_iff compute_bitlen)
  ultimately show ?thesis
    by (simp add: expo_def Let_def)
qed

lemma pow2_div_int:
  assumes "k \<le> 0"
  shows "of_int n / pow2 k = of_int (n * 2 ^ nat (- k))"
  using assms by (cases "k = 0") (simp_all add: pow2_def)

lemma rnd_pos_int:
  assumes "0 < n" and "n < 2 ^ 53"
  shows "rnd (of_int n) = Fin (of_int n)"
proof -
  define k where "k = max (expo (of_int n) - 52) (- 1074)"
  have k: "k \<le> 0" using expo_of_int_bound [OF assms] by (simp add: k_def)
  have ulp: "ulp_of (of_int n) = pow2 k" by (simp add: ulp_of_def k_def)
  have "of_int (round_even (of_int n / pow2 k)) * pow2 k = (of_int n / pow2 k) * pow2 k"
    by (simp only: pow2_div_int [OF k] round_even_int)
  also have "\<dots> = of_int n" using pow2_pos [of k] by (simp del: pow2_pos)
  finally have v: "of_int (round_even (of_int n / pow2 k)) * pow2 k = (of_int n :: rat)" .
  have "(of_int n :: rat) < of_int (2 ^ 53)" using assms(2) by (simp only: of_int_less_iff)
  also have "\<dots> < (2 :: rat) ^ 1024" by simp
  finally have "(of_int n :: rat) < 2 ^ 1024" .
  with assms(1) show ?thesis
    by (simp add: rnd_def Let_def ulp v)
qed

text \<open>The exponent is the binary logarithm, rounded down, and a double is never rounded to zero from
  one or above.\<close>

lemma pow2_diff: "pow2 (int x - int y) = 2 ^ x / 2 ^ y"
proof (cases "y \<le> x")
  case True
  then have "(2 :: rat) ^ x = 2 ^ (x - y) * 2 ^ y" by (simp flip: power_add)
  with True show ?thesis by (simp add: pow2_def nat_diff_distrib)
next
  case False
  then have "(2 :: rat) ^ y = 2 ^ (y - x) * 2 ^ x" by (simp flip: power_add)
  with False show ?thesis by (simp add: pow2_def nat_diff_distrib)
qed

lemma pow2_mono: "a \<le> b \<Longrightarrow> pow2 a \<le> pow2 b"
proof -
  assume "a \<le> b"
  define k where "k = nat (max (- a) 0)"
  have a: "a = int (nat (a + int k)) - int k" and b: "b = int (nat (b + int k)) - int k"
    using \<open>a \<le> b\<close> by (auto simp: k_def)
  have "nat (a + int k) \<le> nat (b + int k)" using \<open>a \<le> b\<close> by simp
  then have "(2 :: rat) ^ nat (a + int k) / 2 ^ k \<le> 2 ^ nat (b + int k) / 2 ^ k"
    by (intro divide_right_mono power_increasing) auto
  then show ?thesis by (subst a, subst b) (simp only: pow2_diff)
qed

lemma pow2_expo_le:
  assumes "0 < q"
  shows "pow2 (expo q) \<le> q"
proof -
  obtain p d where pd: "quotient_of q = (p, d)" by (cases "quotient_of q")
  have d: "0 < d" and q: "q = of_int p / of_int d"
    using pd quotient_of_denom_pos quotient_of_div by blast+
  have p: "0 < p" using assms d by (simp add: q zero_less_divide_iff)
  define a b where "a = nat (bitlen p)" and "b = nat (bitlen d)"
  have ia: "bitlen p = int a" and ib: "bitlen d = int b"
    by (simp_all add: a_def b_def bitlen_nonneg)
  have "nat (bitlen p - 1) = a - 1" by (simp add: a_def)
  then have "2 ^ (a - 1) \<le> p" using bitlen_bounds [OF p] by simp
  moreover have "d < 2 ^ b" using bitlen_bounds [OF d] by (simp add: b_def)
  ultimately have pa: "(2 :: rat) ^ (a - 1) \<le> of_int p" and db: "of_int d \<le> (2 :: rat) ^ b"
    using of_int_le_iff [of "2 ^ (a - 1)" p, where 'a = rat] of_int_le_iff [of d "2 ^ b", where 'a = rat]
    by auto
  have "(2 :: rat) ^ (a - 1) / 2 ^ b \<le> of_int p / of_int d"
    using pa db d p by (intro frac_le) auto
  moreover have "1 \<le> a" using bitlen_bounds [OF p] p by (cases a) (auto simp: a_def)
  then have "pow2 (int a - int b - 1) = 2 ^ (a - 1) / 2 ^ b"
    using pow2_diff [of "a - 1" b] by (simp add: of_nat_diff algebra_simps)
  ultimately have "pow2 (int a - int b - 1) \<le> q" by (simp add: q)
  then show ?thesis by (simp add: expo_def pd Let_def ia ib)
qed

lemma rnd_pos:
  assumes "1 \<le> q"
  shows "rnd q \<noteq> Fin 0"
proof -
  have "pow2 (- 1074) \<le> 1" by (simp add: pow2_def)
  then have "ulp_of q \<le> q"
    using pow2_expo_le [of q] pow2_mono [of "expo q - 52" "expo q"] assms
    by (simp add: ulp_of_def max_def)
  moreover have u: "0 < ulp_of q" by (simp add: ulp_of_def)
  ultimately have "1 \<le> q / ulp_of q" by simp
  then have "1 \<le> \<lfloor>q / ulp_of q\<rfloor>" by simp
  then have "1 \<le> round_even (q / ulp_of q)" by (simp add: round_even_def Let_def)
  with u assms show ?thesis by (simp add: rnd_def Let_def)
qed

lemma rnd_zero [simp]: "rnd 0 = Fin 0"
  by (simp add: rnd_def)

lemma rnd_uminus: "rnd (- q) = fneg (rnd q)"
  by (auto simp: rnd_def Let_def sgn_if)

lemma rnd_of_int_exact: "\<bar>n\<bar> < 2 ^ 53 \<Longrightarrow> rnd (of_int n) = Fin (of_int n)"
proof (cases "n < 0")
  case True
  assume "\<bar>n\<bar> < 2 ^ 53"
  with True have "rnd (of_int (- n)) = Fin (of_int (- n))"
    by (intro rnd_pos_int) auto
  then show ?thesis using rnd_uminus [of "of_int (- n)"] by simp
next
  case False
  assume "\<bar>n\<bar> < 2 ^ 53"
  with False show ?thesis by (cases "n = 0") (auto intro: rnd_pos_int)
qed

lemma rnd_numeral [simp]: "(numeral k :: int) < 2 ^ 53 \<Longrightarrow> rnd (numeral k) = Fin (numeral k)"
  using rnd_of_int_exact [of "numeral k"] by simp

lemma rnd_one [simp]: "rnd 1 = Fin 1"
  using rnd_of_int_exact [of 1] by simp

text \<open>A float that is at least zero: finite and non-negative, or positive infinity.\<close>

definition fnonneg :: "pyfloat \<Rightarrow> bool" where
  "fnonneg f \<longleftrightarrow> fle (Fin 0) f"

lemma fnonneg_simps [simp]:
  "fnonneg (Fin q) \<longleftrightarrow> 0 \<le> q" "fnonneg PInf" "\<not> fnonneg NInf" "\<not> fnonneg NaN"
  by (auto simp: fnonneg_def fle_def feq_def)

lemma fnonnegE: "fnonneg f \<Longrightarrow> (\<And>q. f = Fin q \<Longrightarrow> 0 \<le> q \<Longrightarrow> P) \<Longrightarrow> (f = PInf \<Longrightarrow> P) \<Longrightarrow> P"
  by (cases f) auto

lemma rnd_nonneg: "0 \<le> q \<Longrightarrow> fnonneg (rnd q)"
proof (cases "q = 0")
  case False
  assume "0 \<le> q"
  with False have q: "0 < q" by simp
  have "0 \<le> round_even (q / ulp_of q)"
    using q by (intro round_even_nonneg) (simp add: ulp_of_def less_imp_le)
  then show ?thesis
    using q by (auto simp: rnd_def Let_def ulp_of_def less_imp_le)
qed simp

lemma fadd_nonneg: "fnonneg a \<Longrightarrow> fnonneg b \<Longrightarrow> fnonneg (fadd a b)"
  by (elim fnonnegE) (auto intro: rnd_nonneg)

lemma fmul_nonneg: "0 < a \<Longrightarrow> fnonneg b \<Longrightarrow> fnonneg (fmul (Fin a) b)"
  by (elim fnonnegE) (auto intro: rnd_nonneg simp: inf_sgn_def)

lemma fround2_nonneg: "fnonneg a \<Longrightarrow> fnonneg (fround2 a)"
  by (elim fnonnegE) (auto intro!: rnd_nonneg round_even_nonneg)

lemma fmax_zero_nonneg: "fnonneg (fmax a (Fin 0)) \<longleftrightarrow> a \<noteq> NaN"
  by (cases a) (auto simp: fmax_def)

text \<open>The rounding error of a result in the normal and subnormal range is half an ulp.\<close>

lemma rnd_error:
  assumes "rnd q = Fin v" and "q \<noteq> 0"
  shows "\<bar>v - q\<bar> \<le> ulp_of \<bar>q\<bar> / 2"
proof -
  define u where "u = ulp_of \<bar>q\<bar>"
  have u: "0 < u" by (simp add: u_def ulp_of_def)
  have v: "v = sgn q * (of_int (round_even (\<bar>q\<bar> / u)) * u)"
    using assms by (simp add: rnd_def Let_def u_def split: if_splits)
  have "v - q = sgn q * (of_int (round_even (\<bar>q\<bar> / u)) * u - \<bar>q\<bar>)"
    by (simp add: v right_diff_distrib sgn_mult_abs)
  also have "\<bar>\<dots>\<bar> = \<bar>(of_int (round_even (\<bar>q\<bar> / u)) - \<bar>q\<bar> / u) * u\<bar>"
    using assms(2) u by (simp add: abs_mult left_diff_distrib abs_sgn_eq)
  also have "\<dots> = \<bar>of_int (round_even (\<bar>q\<bar> / u)) - \<bar>q\<bar> / u\<bar> * u"
    using u by (simp add: abs_mult)
  also have "\<dots> \<le> 1 / 2 * u"
    using round_even_close [of "\<bar>q\<bar> / u"] u by (intro mult_right_mono) auto
  finally show ?thesis by (simp add: u_def)
qed

end
