(* ===== verification/PyValue.thy ===== *)
theory PyValue
  imports Prelude PyFloat "HOL-Library.Sublist"
begin

text \<open>
  The Python values the handlers compute with: strings (the ASCII subset: a character is a byte),
  JSON documents as \<^verbatim>\<open>json.loads\<close> builds them, truthiness and the \<^verbatim>\<open>or\<close> operator, the conversions
  \<^verbatim>\<open>int()\<close>, \<^verbatim>\<open>float()\<close> and \<^verbatim>\<open>str()\<close> with the exceptions they raise, and \<^verbatim>\<open>dict.get\<close>.
\<close>

subsection \<open>Strings\<close>

definition lower_char :: "char \<Rightarrow> char" where
  "lower_char c = (let n = (of_char c :: nat) in if 65 \<le> n \<and> n \<le> 90 then char_of (n + 32) else c)"

definition upper_char :: "char \<Rightarrow> char" where
  "upper_char c = (let n = (of_char c :: nat) in if 97 \<le> n \<and> n \<le> 122 then char_of (n - 32) else c)"

definition py_lower :: "string \<Rightarrow> string" where
  "py_lower s = map lower_char s"

definition py_upper :: "string \<Rightarrow> string" where
  "py_upper s = map upper_char s"

definition is_space :: "char \<Rightarrow> bool" where
  "is_space c = (let n = (of_char c :: nat) in n = 32 \<or> 9 \<le> n \<and> n \<le> 13 \<or> 28 \<le> n \<and> n \<le> 31)"

definition lstrip_by :: "(char \<Rightarrow> bool) \<Rightarrow> string \<Rightarrow> string" where
  "lstrip_by p s = dropWhile p s"

definition rstrip_by :: "(char \<Rightarrow> bool) \<Rightarrow> string \<Rightarrow> string" where
  "rstrip_by p s = rev (dropWhile p (rev s))"

definition py_strip :: "string \<Rightarrow> string" where
  "py_strip s = rstrip_by is_space (lstrip_by is_space s)"

text \<open>\<open>s.rstrip('/')\<close>.\<close>

definition rstrip_slash :: "string \<Rightarrow> string" where
  "rstrip_slash s = rstrip_by (\<lambda>c. c = CHR ''/'') s"

definition startswith :: "string \<Rightarrow> string \<Rightarrow> bool" where
  "startswith s p = prefix p s"

definition endswith :: "string \<Rightarrow> string \<Rightarrow> bool" where
  "endswith s p = suffix p s"

text \<open>\<open>p in s\<close>.\<close>

fun contains :: "string \<Rightarrow> string \<Rightarrow> bool" where
  "contains [] p = (p = [])"
| "contains (c # s) p = (prefix p (c # s) \<or> contains s p)"

text \<open>\<open>s.split(c)\<close> on one character: always at least one part.\<close>

fun split_on :: "char \<Rightarrow> string \<Rightarrow> string list" where
  "split_on c [] = [[]]"
| "split_on c (x # xs) = (if x = c then [] # split_on c xs
     else case split_on c xs of [] \<Rightarrow> [[x]] | p # ps \<Rightarrow> (x # p) # ps)"

text \<open>\<open>s.split(c, 1)\<close> as (before, after), None where \<open>c\<close> does not occur.\<close>

fun split1 :: "char \<Rightarrow> string \<Rightarrow> (string \<times> string) option" where
  "split1 c [] = None"
| "split1 c (x # xs) = (if x = c then Some ([], xs)
     else map_option (\<lambda>(a, b). (x # a, b)) (split1 c xs))"

text \<open>\<open>s.rsplit(c, 1)\<close>: at the last occurrence.\<close>

definition rsplit1 :: "char \<Rightarrow> string \<Rightarrow> (string \<times> string) option" where
  "rsplit1 c s = map_option (\<lambda>(a, b). (rev b, rev a)) (split1 c (rev s))"

definition replace_char :: "char \<Rightarrow> string \<Rightarrow> string \<Rightarrow> string" where
  "replace_char c new s = concat (map (\<lambda>x. if x = c then new else [x]) s)"

definition is_alpha :: "char \<Rightarrow> bool" where
  "is_alpha c = (let n = (of_char c :: nat) in 65 \<le> n \<and> n \<le> 90 \<or> 97 \<le> n \<and> n \<le> 122)"

text \<open>\<open>s.title()\<close>: a letter after a non-letter is upper case, after a letter lower case.\<close>

fun title_from :: "bool \<Rightarrow> string \<Rightarrow> string" where
  "title_from after_letter [] = []"
| "title_from after_letter (c # s) =
     (if after_letter then lower_char c else upper_char c) # title_from (is_alpha c) s"

definition py_title :: "string \<Rightarrow> string" where
  "py_title s = title_from False s"

text \<open>\<open>sep.join(parts)\<close>.\<close>

fun join_with :: "string \<Rightarrow> string list \<Rightarrow> string" where
  "join_with sep [] = []"
| "join_with sep [s] = s"
| "join_with sep (s # ss) = s @ sep @ join_with sep ss"

text \<open>\<open>a or b\<close> on strings.\<close>

definition str_or :: "string \<Rightarrow> string \<Rightarrow> string" where
  "str_or a b = (if a = [] then b else a)"

lemma str_or_simps [simp]: "str_or [] b = b" "str_or (c # a) b = c # a"
  by (simp_all add: str_or_def)

lemma py_lower_idem [simp]: "py_lower (py_lower s) = py_lower s"
proof -
  have "lower_char (lower_char c) = lower_char c" for c
    by (auto simp: lower_char_def Let_def)
  then show ?thesis by (simp add: py_lower_def)
qed

lemma py_lower_Nil [simp]: "py_lower s = [] \<longleftrightarrow> s = []"
  by (simp add: py_lower_def)

lemma py_lower_append [simp]: "py_lower (s @ t) = py_lower s @ py_lower t"
  by (simp add: py_lower_def)

lemma rstrip_by_idem: "rstrip_by p (rstrip_by p s) = rstrip_by p s"
  by (simp add: rstrip_by_def)

lemma startswith_append [simp]: "startswith (p @ s) p"
  by (simp add: startswith_def)

lemma contains_iff: "contains s p \<longleftrightarrow> (\<exists>a b. s = a @ p @ b)"
proof (induction s)
  case step: (Cons c s)
  show ?case (is "?l = ?r")
  proof
    assume ?l
    then consider "prefix p (c # s)" | a b where "s = a @ p @ b" using step.IH by auto
    then show ?r
    proof cases
      case 1
      then obtain b where "c # s = [] @ p @ b" by (auto simp: prefix_def)
      then show ?thesis by blast
    next
      case 2
      then have "c # s = (c # a) @ p @ b" by simp
      then show ?thesis by blast
    qed
  next
    assume ?r
    then obtain a b where ab: "c # s = a @ p @ b" by blast
    show ?l
    proof (cases a)
      case Nil
      with ab have "prefix p (c # s)" by (simp add: prefix_def)
      then show ?thesis by simp
    next
      case (Cons x t)
      with ab have "s = t @ p @ b" by simp
      with step.IH have "contains s p" by blast
      then show ?thesis by simp
    qed
  qed
qed auto

lemma split1_Some: "split1 c s = Some (a, b) \<Longrightarrow> s = a @ c # b \<and> c \<notin> set a"
  by (induction s arbitrary: a) (auto split: if_splits)

lemma split1_append: "c \<notin> set a \<Longrightarrow> split1 c (a @ c # b) = Some (a, b)"
  by (induction a) auto

lemma split1_None: "split1 c s = None \<longleftrightarrow> c \<notin> set s"
  by (induction s) auto

lemma rsplit1_append: "c \<notin> set b \<Longrightarrow> rsplit1 c (a @ c # b) = Some (a, b)"
  by (simp add: rsplit1_def split1_append)

lemma rsplit1_Some: "rsplit1 c s = Some (a, b) \<Longrightarrow> s = a @ c # b \<and> c \<notin> set b"
proof -
  assume "rsplit1 c s = Some (a, b)"
  then have "split1 c (rev s) = Some (rev b, rev a)"
    by (auto simp: rsplit1_def)
  then have "rev s = rev b @ c # rev a \<and> c \<notin> set b" by (auto dest: split1_Some)
  then have "rev (rev s) = rev (rev b @ c # rev a) \<and> c \<notin> set b" by simp
  then show ?thesis by simp
qed

lemma split_on_ne [simp]: "split_on c s \<noteq> []"
  by (induction s) (auto split: list.splits)

lemma split_on_absent: "c \<notin> set s \<Longrightarrow> split_on c s = [s]"
  by (induction s) auto

lemma split_on_append: "c \<notin> set a \<Longrightarrow> split_on c (a @ c # b) = a # split_on c b"
  by (induction a) auto

subsection \<open>Decimal numerals\<close>

definition is_digit :: "char \<Rightarrow> bool" where
  "is_digit c = (let n = (of_char c :: nat) in 48 \<le> n \<and> n \<le> 57)"

definition digit_val :: "char \<Rightarrow> nat" where
  "digit_val c = of_char c - 48"

fun digits_val :: "nat \<Rightarrow> string \<Rightarrow> nat" where
  "digits_val acc [] = acc"
| "digits_val acc (c # s) = digits_val (10 * acc + digit_val c) s"

text \<open>Digits with single underscores between them, as Python's numeric literals allow.\<close>

fun plain_digits :: "string \<Rightarrow> string option" where
  "plain_digits [] = None"
| "plain_digits [c] = (if is_digit c then Some [c] else None)"
| "plain_digits (c # d # s) =
     (if \<not> is_digit c then None
      else if d = CHR ''_'' then map_option ((#) c) (plain_digits s)
      else map_option ((#) c) (plain_digits (d # s)))"

definition parse_nat :: "string \<Rightarrow> nat option" where
  "parse_nat s = map_option (digits_val 0) (plain_digits s)"

definition signed :: "(string \<Rightarrow> 'a option) \<Rightarrow> ('a \<Rightarrow> 'a) \<Rightarrow> string \<Rightarrow> 'a option" where
  "signed p neg s = (case s of
     [] \<Rightarrow> p []
   | c # t \<Rightarrow> if c = CHR ''-'' then map_option neg (p t) else if c = CHR ''+'' then p t else p s)"

definition parse_int :: "string \<Rightarrow> int option" where
  "parse_int s = signed (\<lambda>t. map_option int (parse_nat t)) uminus (py_strip s)"

definition ten_pow :: "int \<Rightarrow> rat" where
  "ten_pow e = (if 0 \<le> e then 10 ^ nat e else 1 / 10 ^ nat (- e))"

text \<open>The unsigned mantissa \<open>digits[.digits]\<close> (one side of the point may be empty).\<close>

definition parse_mantissa :: "string \<Rightarrow> rat option" where
  "parse_mantissa s = (case split1 CHR ''.'' s of
     None \<Rightarrow> map_option of_nat (parse_nat s)
   | Some (a, b) \<Rightarrow>
       (case (if a = [] then Some [] else plain_digits a, if b = [] then Some [] else plain_digits b) of
          (Some x, Some y) \<Rightarrow> if x = [] \<and> y = [] then None
            else Some (of_nat (digits_val 0 (x @ y)) / 10 ^ length y)
        | _ \<Rightarrow> None))"

definition parse_decimal :: "string \<Rightarrow> rat option" where
  "parse_decimal s = (case split1 CHR ''e'' (py_lower s) of
     None \<Rightarrow> parse_mantissa s
   | Some (m, e) \<Rightarrow> (case (parse_mantissa m, signed (\<lambda>t. map_option int (parse_nat t)) uminus e) of
       (Some x, Some k) \<Rightarrow> Some (x * ten_pow k)
     | _ \<Rightarrow> None))"

definition parse_ufloat :: "string \<Rightarrow> pyfloat option" where
  "parse_ufloat s = (let l = py_lower s in
     if l = ''inf'' \<or> l = ''infinity'' then Some PInf
     else if l = ''nan'' then Some NaN
     else map_option rnd (parse_decimal s))"

definition parse_float :: "string \<Rightarrow> pyfloat option" where
  "parse_float s = signed parse_ufloat fneg (py_strip s)"

text \<open>\<open>str(n)\<close> of an integer.\<close>

fun nat_str :: "nat \<Rightarrow> string" where
  "nat_str n = (if n < 10 then [char_of (48 + n)] else nat_str (n div 10) @ [char_of (48 + n mod 10)])"

declare nat_str.simps [simp del]

definition int_str :: "int \<Rightarrow> string" where
  "int_str n = (if n < 0 then CHR ''-'' # nat_str (nat (- n)) else nat_str (nat n))"

lemma digit_char: "k < 10 \<Longrightarrow> is_digit (char_of (48 + k)) \<and> digit_val (char_of (48 + k)) = k"
  by (simp add: is_digit_def digit_val_def)

lemma digits_val_append: "digits_val acc (s @ [c]) = 10 * digits_val acc s + digit_val c"
  by (induction s arbitrary: acc) auto

lemma nat_str_digits: "\<forall>c \<in> set (nat_str n). is_digit c"
proof (induction n rule: nat_str.induct)
  case (1 n)
  then show ?case by (subst nat_str.simps) (auto simp: digit_char)
qed

lemma nat_str_ne [simp]: "nat_str n \<noteq> []"
  by (subst nat_str.simps) simp

lemma nat_str_val: "digits_val 0 (nat_str n) = n"
proof (induction n rule: nat_str.induct)
  case (1 n)
  show ?case
  proof (cases "n < 10")
    case True
    then show ?thesis by (subst nat_str.simps) (simp add: digit_char)
  next
    case False
    then have "digits_val 0 (nat_str n) = 10 * (n div 10) + digit_val (char_of (48 + n mod 10))"
      by (subst nat_str.simps) (simp add: digits_val_append 1)
    then show ?thesis by (simp add: digit_char)
  qed
qed

lemma plain_digits_id: "s \<noteq> [] \<Longrightarrow> \<forall>c \<in> set s. is_digit c \<Longrightarrow> plain_digits s = Some s"
proof (induction s rule: plain_digits.induct)
  case (3 c d s)
  have "d \<noteq> CHR ''_''"
    using "3.prems" by (auto simp: is_digit_def)
  with 3 show ?case by auto
qed auto

lemma parse_nat_str [simp]: "parse_nat (nat_str n) = Some n"
  by (simp add: parse_nat_def plain_digits_id nat_str_digits nat_str_val)

text \<open>The round trip \<open>int(str(n)) = n\<close>.\<close>

lemma is_digit_not_space: "is_digit c \<Longrightarrow> \<not> is_space c"
  by (auto simp: is_digit_def is_space_def Let_def)

lemma strip_id:
  assumes "s \<noteq> []" and "\<not> is_space (hd s)" and "\<not> is_space (last s)"
  shows "py_strip s = s"
proof -
  have "dropWhile is_space s = s" using assms by (cases s) auto
  moreover have "dropWhile is_space (rev s) = rev s"
    using assms by (cases s rule: rev_cases) auto
  ultimately show ?thesis by (simp add: py_strip_def lstrip_by_def rstrip_by_def)
qed

lemma parse_int_str: "parse_int (int_str n) = Some n"
proof -
  have digit_not_sign: "c \<noteq> CHR ''-'' \<and> c \<noteq> CHR ''+''" if "is_digit c" for c
    using that by (auto simp: is_digit_def)
  have ends: "is_digit (hd (nat_str k)) \<and> is_digit (last (nat_str k))" for k
    using nat_str_digits [of k] by simp
  have minus: "\<not> is_space CHR ''-''" by (simp add: is_space_def)
  show ?thesis
  proof (cases "n < 0")
    case True
    have "py_strip (CHR ''-'' # nat_str (nat (- n))) = CHR ''-'' # nat_str (nat (- n))"
      using ends [of "nat (- n)"] minus by (intro strip_id) (auto simp: is_digit_not_space)
    with True show ?thesis by (simp add: parse_int_def int_str_def signed_def)
  next
    case False
    have s: "py_strip (nat_str (nat n)) = nat_str (nat n)"
      using ends [of "nat n"] by (intro strip_id) (auto simp: is_digit_not_space)
    obtain c t where ct: "nat_str (nat n) = c # t" by (cases "nat_str (nat n)") auto
    then have "is_digit c" using ends [of "nat n"] by simp
    with digit_not_sign have "signed p f (nat_str (nat n)) = p (nat_str (nat n))"
      for p :: "string \<Rightarrow> int option" and f
      by (simp add: signed_def ct)
    with s False show ?thesis by (simp add: parse_int_def int_str_def)
  qed
qed

end
