(* ===== verification/Json.thy ===== *)
theory Json
  imports PyValue
begin

text \<open>
  JSON documents and the dynamically typed operations the handlers apply to them: truthiness,
  \<^verbatim>\<open>or\<close>, \<^verbatim>\<open>dict.get\<close>, \<^verbatim>\<open>in\<close>, iteration, and the conversions \<^verbatim>\<open>int()\<close>, \<^verbatim>\<open>float()\<close>, \<^verbatim>\<open>str()\<close>. An
  operation on a value of the wrong type raises what Python raises. An object is an association
  list with distinct keys in the order of the document.
\<close>

datatype json = JNull | JBool bool | JInt int | JFloat pyfloat | JStr string
  | JArr "json list" | JObj "(string \<times> json) list"

fun truthy :: "json \<Rightarrow> bool" where
  "truthy JNull = False"
| "truthy (JBool b) = b"
| "truthy (JInt n) = (n \<noteq> 0)"
| "truthy (JFloat f) = ftruthy f"
| "truthy (JStr s) = (s \<noteq> [])"
| "truthy (JArr xs) = (xs \<noteq> [])"
| "truthy (JObj kv) = (kv \<noteq> [])"

text \<open>\<open>a or b\<close>.\<close>

definition jor :: "json \<Rightarrow> json \<Rightarrow> json" where
  "jor a b = (if truthy a then a else b)"

lemma jor_simps [simp]: "truthy a \<Longrightarrow> jor a b = a" "\<not> truthy a \<Longrightarrow> jor a b = b"
  by (simp_all add: jor_def)

text \<open>\<open>d.get(k, default)\<close>.\<close>

fun jget_or :: "json \<Rightarrow> string \<Rightarrow> json \<Rightarrow> json res" where
  "jget_or (JObj kv) k d = Inr (case map_of kv k of None \<Rightarrow> d | Some v \<Rightarrow> v)"
| "jget_or _ k d = Inl AttributeError"

abbreviation jget :: "json \<Rightarrow> string \<Rightarrow> json res" where
  "jget j k \<equiv> jget_or j k JNull"

text \<open>\<open>d.get(k1) or d.get(k2) or ...\<close>: the first truthy value, the last one if there is none.\<close>

fun jget_first :: "json \<Rightarrow> string list \<Rightarrow> json res" where
  "jget_first j [] = Inr JNull"
| "jget_first j [k] = jget j k"
| "jget_first j (k # ks) = res_bind (jget j k) (\<lambda>v. if truthy v then Inr v else jget_first j ks)"

text \<open>\<open>k in d\<close>, for a string \<open>k\<close>.\<close>

fun jhas :: "json \<Rightarrow> string \<Rightarrow> bool res" where
  "jhas (JObj kv) k = Inr (map_of kv k \<noteq> None)"
| "jhas (JArr xs) k = Inr (JStr k \<in> set xs)"
| "jhas (JStr s) k = Inr (contains s k)"
| "jhas _ k = Inl TypeError"

text \<open>\<open>for x in v\<close>.\<close>

fun jiter :: "json \<Rightarrow> json list res" where
  "jiter (JArr xs) = Inr xs"
| "jiter (JStr s) = Inr (map (\<lambda>c. JStr [c]) s)"
| "jiter (JObj kv) = Inr (map (\<lambda>p. JStr (fst p)) kv)"
| "jiter _ = Inl TypeError"

definition rat_trunc :: "rat \<Rightarrow> int" where
  "rat_trunc q = (if 0 \<le> q then \<lfloor>q\<rfloor> else - \<lfloor>- q\<rfloor>)"

text \<open>\<open>int(v)\<close>.\<close>

fun jint :: "json \<Rightarrow> int res" where
  "jint (JInt n) = Inr n"
| "jint (JBool b) = Inr (if b then 1 else 0)"
| "jint (JFloat (Fin q)) = Inr (rat_trunc q)"
| "jint (JFloat NaN) = Inl (ValueError ''cannot convert float NaN to integer'')"
| "jint (JFloat _) = Inl OverflowError"
| "jint (JStr s) = (case parse_int s of None \<Rightarrow> Inl (ValueError ''invalid literal for int()'') | Some n \<Rightarrow> Inr n)"
| "jint _ = Inl TypeError"

definition int_to_float :: "int \<Rightarrow> pyfloat res" where
  "int_to_float n = (case float_of_int n of None \<Rightarrow> Inl OverflowError | Some f \<Rightarrow> Inr f)"

text \<open>\<open>float(v)\<close>.\<close>

fun jfloat :: "json \<Rightarrow> pyfloat res" where
  "jfloat (JFloat f) = Inr f"
| "jfloat (JInt n) = int_to_float n"
| "jfloat (JBool b) = Inr (Fin (if b then 1 else 0))"
| "jfloat (JStr s) = (case parse_float s of None \<Rightarrow> Inl (ValueError ''could not convert string to float'') | Some f \<Rightarrow> Inr f)"
| "jfloat _ = Inl TypeError"

text \<open>\<open>n * x\<close> of an int and a float.\<close>

definition int_mul :: "int \<Rightarrow> pyfloat \<Rightarrow> pyfloat res" where
  "int_mul n x = res_bind (int_to_float n) (\<lambda>f. Inr (fmul f x))"

text \<open>
  \<open>str(v)\<close>: the printed form of floats, lists and dicts (their \<^verbatim>\<open>repr\<close>) is the parameter \<open>rep\<close>.
\<close>

fun jstr :: "(json \<Rightarrow> string) \<Rightarrow> json \<Rightarrow> string" where
  "jstr rep (JStr s) = s"
| "jstr rep (JInt n) = int_str n"
| "jstr rep (JBool b) = (if b then ''True'' else ''False'')"
| "jstr rep JNull = ''None''"
| "jstr rep v = rep v"

text \<open>The value a string method is called on: any other type has no such attribute.\<close>

fun as_str :: "json \<Rightarrow> string res" where
  "as_str (JStr s) = Inr s"
| "as_str _ = Inl AttributeError"

text \<open>\<open>v or ""\<close> and the \<^verbatim>\<open>str | None\<close> views the ORM columns take.\<close>

definition jopt :: "string option \<Rightarrow> json" where
  "jopt v = (case v of None \<Rightarrow> JNull | Some s \<Rightarrow> JStr s)"

definition jint_opt :: "int option \<Rightarrow> json" where
  "jint_opt v = (case v of None \<Rightarrow> JNull | Some n \<Rightarrow> JInt n)"

text \<open>\<open>{**a, **b}\<close> on dicts: later bindings win and keep the first key's place.\<close>

definition obj_update :: "(string \<times> json) list \<Rightarrow> (string \<times> json) list \<Rightarrow> (string \<times> json) list" where
  "obj_update a b = foldl (\<lambda>acc (k, v). alist_set k v acc) a b"

lemma map_of_obj_update: "distinct (map fst b) \<Longrightarrow> map_of (obj_update a b) = map_of a ++ map_of b"
  unfolding obj_update_def
proof (induction b arbitrary: a)
  case (Cons x b)
  obtain k v where x: "x = (k, v)" by (cases x)
  from Cons.prems have "map_of b k = None" by (simp add: x map_of_eq_None_iff)
  with Cons show ?case by (simp add: x map_add_upd_left dom_def fun_upd_def map_add_def fun_eq_iff split: option.splits)
qed simp

lemma jfloat_of_small_int: "\<bar>n\<bar> < 2 ^ 53 \<Longrightarrow> int_to_float n = Inr (Fin (of_int n))"
  by (simp add: int_to_float_def float_of_int_def rnd_of_int_exact)

lemma int_mul_nonneg:
  assumes "0 < n" and "fnonneg x" and "int_mul n x = Inr y"
  shows "fnonneg y"
proof -
  from assms(3) obtain q where q: "rnd (of_int n) = Fin q" and y: "y = fmul (Fin q) x"
    by (auto simp: int_mul_def int_to_float_def float_of_int_def split: pyfloat.splits)
  have "fnonneg (rnd (of_int n))" using assms(1) by (intro rnd_nonneg) simp
  then have "0 \<le> q" by (simp add: q)
  show ?thesis
  proof (cases "q = 0")
    case False
    with \<open>0 \<le> q\<close> have "0 < q" by simp
    then show ?thesis unfolding y using assms(2) by (rule fmul_nonneg)
  next
    case True
    have "rnd (of_int n) \<noteq> Fin 0"
      using assms(1) by (intro rnd_pos) simp
    with q True show ?thesis by simp
  qed
qed

end
