(* ===== verification/Database.thy ===== *)
theory Database
  imports Table PyFloat Json
begin

text \<open>
  The data model of \<open>server/database.py\<close>: one record per ORM model, the database as a record of
  tables, and the statements the program issues against it with the constraints the schema
  declares (unique keys, foreign keys). A nullable column is an option, unless every writer of it
  in the program stores a value (the ORM applies the column's default to a missing or None
  attribute of a new row). Times are microseconds. Lengths of columns are not modelled.
\<close>

record customer_row =
  c_name :: string
  c_email :: string
  c_phone :: "string option"
  c_company :: "string option"
  c_industry :: "string option"
  c_revenue :: "pyfloat option"
  c_notes :: "string option"
  c_created_at :: int
  c_updated_at :: int

record shop_row =
  s_name :: string
  s_address :: string
  s_coordinates :: string
  s_contact_email :: string
  s_contact_phone :: string
  s_is_active :: int
  s_slug :: string
  s_storefront_url :: string
  s_crm_base_url :: string
  s_region :: string
  s_currency :: string
  s_status :: string
  s_notes :: "string option"
  s_created_at :: int
  s_updated_at :: int

record product_row =
  p_shop_id :: "int option"
  p_name :: string
  p_sku :: string
  p_description :: "string option"
  p_price :: pyfloat
  p_stock :: int
  p_category :: "string option"
  p_image_url :: "string option"
  p_is_active :: int
  p_created_at :: int

record order_row =
  o_customer_id :: "int option"
  o_total :: pyfloat
  o_status :: "string option"
  o_notes :: "string option"
  o_shipping_address :: "string option"
  o_source_system :: "string option"
  o_source_order_id :: "string option"
  o_source_customer_email :: "string option"
  o_sync_status :: "string option"
  o_backlog_status :: "string option"
  o_sync_error :: "string option"
  o_source_payload :: "string option"
  o_correlation_id :: "string option"
  o_last_synced_at :: "int option"
  o_created_at :: int

record order_item_row =
  oi_order_id :: "int option"
  oi_product_id :: "int option"
  oi_quantity :: int
  oi_unit_price :: pyfloat

record invoice_row =
  iv_order_id :: "int option"
  iv_invoice_number :: string
  iv_amount :: pyfloat
  iv_tax :: pyfloat
  iv_status :: string
  iv_due_date :: "int option"
  iv_created_at :: int

record ticket_row =
  t_customer_id :: "int option"
  t_subject :: string
  t_description :: "string option"
  t_priority :: string
  t_status :: string
  t_assigned_to :: "string option"
  t_created_at :: int
  t_updated_at :: int

record user_row =
  u_username :: string
  u_email :: string
  u_password_hash :: string
  u_role :: string
  u_is_active :: "int option"
  u_last_login :: "int option"
  u_created_at :: int

record session_row =
  us_session_id :: string
  us_user_id :: int
  us_username :: string
  us_role :: string
  us_auth_method :: string
  us_created_at :: int

record audit_row =
  al_user_id :: "int option"
  al_action :: string
  al_resource :: "string option"
  al_details :: "string option"
  al_ip_address :: "string option"
  al_user_agent :: "string option"
  al_trace_id :: "string option"
  al_created_at :: int

record report_row =
  r_name :: string
  r_report_type :: "string option"
  r_query :: "string option"
  r_parameters :: "string option"
  r_created_by :: "int option"
  r_created_at :: int

record campaign_row =
  cp_name :: string
  cp_campaign_type :: string
  cp_status :: string
  cp_budget :: pyfloat
  cp_spent :: pyfloat
  cp_target_audience :: "string option"
  cp_start_date :: "int option"
  cp_end_date :: "int option"
  cp_created_by :: "int option"
  cp_created_at :: int
  cp_updated_at :: int

record lead_row =
  ld_campaign_id :: "int option"
  ld_customer_id :: "int option"
  ld_email :: string
  ld_name :: "string option"
  ld_source :: "string option"
  ld_status :: "string option"
  ld_score :: "int option"
  ld_notes :: "string option"
  ld_converted_at :: "int option"
  ld_created_at :: int

record shipment_row =
  sh_order_id :: "int option"
  sh_tracking_number :: "string option"
  sh_carrier :: "string option"
  sh_status :: "string option"
  sh_origin_region :: "string option"
  sh_destination_region :: "string option"
  sh_weight_kg :: pyfloat
  sh_shipping_cost :: pyfloat
  sh_estimated_delivery :: "int option"
  sh_actual_delivery :: "int option"
  sh_created_at :: int
  sh_updated_at :: int

record page_view_row =
  pv_page :: string
  pv_visitor_ip :: "string option"
  pv_visitor_region :: "string option"
  pv_user_agent :: "string option"
  pv_load_time_ms :: "int option"
  pv_referrer :: "string option"
  pv_session_id :: "string option"
  pv_created_at :: int

record warehouse_row =
  wh_name :: string
  wh_region :: string
  wh_address :: "string option"
  wh_capacity :: int
  wh_current_stock :: int
  wh_is_active :: int
  wh_created_at :: int

record sync_audit_row =
  osa_source_system :: string
  osa_source_order_id :: "string option"
  osa_sync_action :: string
  osa_sync_status :: string
  osa_message :: "string option"
  osa_correlation_id :: "string option"
  osa_trace_id :: "string option"
  osa_created_at :: int

text \<open>The row of \<open>chaos_state\<close>, whose table is created by raw DDL and may be absent; the payload
  column holds the text of a JSON value.\<close>

record chaos_row =
  ch_id :: string
  ch_scenario_id :: string
  ch_target :: string
  ch_applied_by :: string
  ch_applied_at :: int
  ch_expires_at :: int
  ch_payload :: json

text \<open>\<open>UniqueConstraint("source_system", "source_order_id")\<close>: no key where either is NULL.\<close>

definition order_source_key :: "order_row \<Rightarrow> (string \<times> string) option" where
  "order_source_key r = (case (o_source_system r, o_source_order_id r) of
     (Some s, Some i) \<Rightarrow> Some (s, i) | _ \<Rightarrow> None)"

record db =
  customers :: "customer_row table"
  shops :: "shop_row table"
  products :: "product_row table"
  orders :: "order_row table"
  order_items :: "order_item_row table"
  invoices :: "invoice_row table"
  support_tickets :: "ticket_row table"
  users :: "user_row table"
  user_sessions :: "session_row table"
  audit_logs :: "audit_row table"
  reports :: "report_row table"
  campaigns :: "campaign_row table"
  leads :: "lead_row table"
  shipments :: "shipment_row table"
  page_views :: "page_view_row table"
  warehouses :: "warehouse_row table"
  order_sync_audit :: "sync_audit_row table"
  chaos_state :: "chaos_row list option"

definition empty_db :: db where
  "empty_db = \<lparr>customers = empty_table,
     shops = empty_table,
     products = empty_table,
     orders = empty_table,
     order_items = empty_table,
     invoices = empty_table,
     support_tickets = empty_table,
     users = empty_table,
     user_sessions = empty_table,
     audit_logs = empty_table,
     reports = empty_table,
     campaigns = empty_table,
     leads = empty_table,
     shipments = empty_table,
     page_views = empty_table,
     warehouses = empty_table,
     order_sync_audit = empty_table, chaos_state = None\<rparr>"

subsection \<open>The schema's invariant\<close>

definition ids_ok :: "db \<Rightarrow> bool" where
  "ids_ok d \<longleftrightarrow> tbl_ok (customers d) \<and>
     tbl_ok (shops d) \<and>
     tbl_ok (products d) \<and>
     tbl_ok (orders d) \<and>
     tbl_ok (order_items d) \<and>
     tbl_ok (invoices d) \<and>
     tbl_ok (support_tickets d) \<and>
     tbl_ok (users d) \<and>
     tbl_ok (user_sessions d) \<and>
     tbl_ok (audit_logs d) \<and>
     tbl_ok (reports d) \<and>
     tbl_ok (campaigns d) \<and>
     tbl_ok (leads d) \<and>
     tbl_ok (shipments d) \<and>
     tbl_ok (page_views d) \<and>
     tbl_ok (warehouses d) \<and>
     tbl_ok (order_sync_audit d)"

definition keys_ok :: "db \<Rightarrow> bool" where
  "keys_ok d \<longleftrightarrow> uniq (\<lambda>r. Some (c_email r)) (customers d) \<and>
     uniq (\<lambda>r. Some (s_slug r)) (shops d) \<and>
     uniq (\<lambda>r. Some (p_sku r)) (products d) \<and>
     uniq (order_source_key) (orders d) \<and>
     uniq (\<lambda>r. Some (iv_invoice_number r)) (invoices d) \<and>
     uniq (\<lambda>r. Some (u_username r)) (users d) \<and>
     uniq (\<lambda>r. Some (u_email r)) (users d) \<and>
     uniq (\<lambda>r. Some (us_session_id r)) (user_sessions d)"

definition refs_ok :: "db \<Rightarrow> bool" where
  "refs_ok d \<longleftrightarrow> refs p_shop_id (products d) (shops d) \<and>
     refs o_customer_id (orders d) (customers d) \<and>
     refs oi_order_id (order_items d) (orders d) \<and>
     refs oi_product_id (order_items d) (products d) \<and>
     refs iv_order_id (invoices d) (orders d) \<and>
     refs t_customer_id (support_tickets d) (customers d) \<and>
     refs cp_created_by (campaigns d) (users d) \<and>
     refs ld_campaign_id (leads d) (campaigns d) \<and>
     refs ld_customer_id (leads d) (customers d) \<and>
     refs sh_order_id (shipments d) (orders d)"

definition db_ok :: "db \<Rightarrow> bool" where
  "db_ok d \<longleftrightarrow> ids_ok d \<and> keys_ok d \<and> refs_ok d"

text \<open>No sequence has gone back.\<close>

definition seq_le :: "db \<Rightarrow> db \<Rightarrow> bool" where
  "seq_le d e \<longleftrightarrow> next_id (customers d) \<le> next_id (customers e) \<and>
     next_id (shops d) \<le> next_id (shops e) \<and>
     next_id (products d) \<le> next_id (products e) \<and>
     next_id (orders d) \<le> next_id (orders e) \<and>
     next_id (order_items d) \<le> next_id (order_items e) \<and>
     next_id (invoices d) \<le> next_id (invoices e) \<and>
     next_id (support_tickets d) \<le> next_id (support_tickets e) \<and>
     next_id (users d) \<le> next_id (users e) \<and>
     next_id (user_sessions d) \<le> next_id (user_sessions e) \<and>
     next_id (audit_logs d) \<le> next_id (audit_logs e) \<and>
     next_id (reports d) \<le> next_id (reports e) \<and>
     next_id (campaigns d) \<le> next_id (campaigns e) \<and>
     next_id (leads d) \<le> next_id (leads e) \<and>
     next_id (shipments d) \<le> next_id (shipments e) \<and>
     next_id (page_views d) \<le> next_id (page_views e) \<and>
     next_id (warehouses d) \<le> next_id (warehouses e) \<and>
     next_id (order_sync_audit d) \<le> next_id (order_sync_audit e)"

text \<open>What \<open>ROLLBACK\<close> leaves: the rows from before, the sequences as they are now.\<close>

definition db_rollback :: "db \<Rightarrow> db \<Rightarrow> db" where
  "db_rollback saved cur = \<lparr>customers = tbl_restore (customers saved) (customers cur),
     shops = tbl_restore (shops saved) (shops cur),
     products = tbl_restore (products saved) (products cur),
     orders = tbl_restore (orders saved) (orders cur),
     order_items = tbl_restore (order_items saved) (order_items cur),
     invoices = tbl_restore (invoices saved) (invoices cur),
     support_tickets = tbl_restore (support_tickets saved) (support_tickets cur),
     users = tbl_restore (users saved) (users cur),
     user_sessions = tbl_restore (user_sessions saved) (user_sessions cur),
     audit_logs = tbl_restore (audit_logs saved) (audit_logs cur),
     reports = tbl_restore (reports saved) (reports cur),
     campaigns = tbl_restore (campaigns saved) (campaigns cur),
     leads = tbl_restore (leads saved) (leads cur),
     shipments = tbl_restore (shipments saved) (shipments cur),
     page_views = tbl_restore (page_views saved) (page_views cur),
     warehouses = tbl_restore (warehouses saved) (warehouses cur),
     order_sync_audit = tbl_restore (order_sync_audit saved) (order_sync_audit cur),
     chaos_state = chaos_state saved\<rparr>"

text \<open>Every table holds the same rows.\<close>

definition same_rows :: "db \<Rightarrow> db \<Rightarrow> bool" where
  "same_rows d e \<longleftrightarrow> rows (customers d) = rows (customers e) \<and>
     rows (shops d) = rows (shops e) \<and>
     rows (products d) = rows (products e) \<and>
     rows (orders d) = rows (orders e) \<and>
     rows (order_items d) = rows (order_items e) \<and>
     rows (invoices d) = rows (invoices e) \<and>
     rows (support_tickets d) = rows (support_tickets e) \<and>
     rows (users d) = rows (users e) \<and>
     rows (user_sessions d) = rows (user_sessions e) \<and>
     rows (audit_logs d) = rows (audit_logs e) \<and>
     rows (reports d) = rows (reports e) \<and>
     rows (campaigns d) = rows (campaigns e) \<and>
     rows (leads d) = rows (leads e) \<and>
     rows (shipments d) = rows (shipments e) \<and>
     rows (page_views d) = rows (page_views e) \<and>
     rows (warehouses d) = rows (warehouses e) \<and>
     rows (order_sync_audit d) = rows (order_sync_audit e) \<and>
     chaos_state d = chaos_state e"

subsection \<open>Statements\<close>

definition unique_violation :: "string \<Rightarrow> py_exc" where
  "unique_violation c = IntegrityError (''duplicate key value violates unique constraint '' @ c)"

definition fk_violation :: "string \<Rightarrow> py_exc" where
  "fk_violation c = IntegrityError (''violates foreign key constraint '' @ c)"

definition add_customer :: "customer_row \<Rightarrow> (db, int) pm" where
  "add_customer r d =
     (if conflict (\<lambda>r. Some (c_email r)) (customers d) (next_id (customers d)) r then (Inl (unique_violation ''customers_email_key''), d) else
     (Inr (next_id (customers d)), d\<lparr>customers := tbl_insert r (customers d)\<rparr>))"

definition add_shop :: "shop_row \<Rightarrow> (db, int) pm" where
  "add_shop r d =
     (if conflict (\<lambda>r. Some (s_slug r)) (shops d) (next_id (shops d)) r then (Inl (unique_violation ''shops_slug_key''), d) else
     (Inr (next_id (shops d)), d\<lparr>shops := tbl_insert r (shops d)\<rparr>))"

definition add_product :: "product_row \<Rightarrow> (db, int) pm" where
  "add_product r d =
     (if conflict (\<lambda>r. Some (p_sku r)) (products d) (next_id (products d)) r then (Inl (unique_violation ''products_sku_key''), d) else
     (if \<not> ref_ok (p_shop_id r) (shops d) then (Inl (fk_violation ''products_shop_id_fkey''), d) else
     (Inr (next_id (products d)), d\<lparr>products := tbl_insert r (products d)\<rparr>)))"

definition add_order :: "order_row \<Rightarrow> (db, int) pm" where
  "add_order r d =
     (if conflict (order_source_key) (orders d) (next_id (orders d)) r then (Inl (unique_violation ''uq_orders_source_ref''), d) else
     (if \<not> ref_ok (o_customer_id r) (customers d) then (Inl (fk_violation ''orders_customer_id_fkey''), d) else
     (Inr (next_id (orders d)), d\<lparr>orders := tbl_insert r (orders d)\<rparr>)))"

definition add_order_item :: "order_item_row \<Rightarrow> (db, int) pm" where
  "add_order_item r d =
     (if \<not> ref_ok (oi_order_id r) (orders d) then (Inl (fk_violation ''order_items_order_id_fkey''), d) else
     (if \<not> ref_ok (oi_product_id r) (products d) then (Inl (fk_violation ''order_items_product_id_fkey''), d) else
     (Inr (next_id (order_items d)), d\<lparr>order_items := tbl_insert r (order_items d)\<rparr>)))"

definition add_invoice :: "invoice_row \<Rightarrow> (db, int) pm" where
  "add_invoice r d =
     (if conflict (\<lambda>r. Some (iv_invoice_number r)) (invoices d) (next_id (invoices d)) r then (Inl (unique_violation ''invoices_invoice_number_key''), d) else
     (if \<not> ref_ok (iv_order_id r) (orders d) then (Inl (fk_violation ''invoices_order_id_fkey''), d) else
     (Inr (next_id (invoices d)), d\<lparr>invoices := tbl_insert r (invoices d)\<rparr>)))"

definition add_ticket :: "ticket_row \<Rightarrow> (db, int) pm" where
  "add_ticket r d =
     (if \<not> ref_ok (t_customer_id r) (customers d) then (Inl (fk_violation ''support_tickets_customer_id_fkey''), d) else
     (Inr (next_id (support_tickets d)), d\<lparr>support_tickets := tbl_insert r (support_tickets d)\<rparr>))"

definition add_user :: "user_row \<Rightarrow> (db, int) pm" where
  "add_user r d =
     (if conflict (\<lambda>r. Some (u_username r)) (users d) (next_id (users d)) r then (Inl (unique_violation ''users_username_key''), d) else
     (if conflict (\<lambda>r. Some (u_email r)) (users d) (next_id (users d)) r then (Inl (unique_violation ''users_email_key''), d) else
     (Inr (next_id (users d)), d\<lparr>users := tbl_insert r (users d)\<rparr>)))"

definition add_session :: "session_row \<Rightarrow> (db, int) pm" where
  "add_session r d =
     (if conflict (\<lambda>r. Some (us_session_id r)) (user_sessions d) (next_id (user_sessions d)) r then (Inl (unique_violation ''user_sessions_session_id_key''), d) else
     (Inr (next_id (user_sessions d)), d\<lparr>user_sessions := tbl_insert r (user_sessions d)\<rparr>))"

definition add_audit :: "audit_row \<Rightarrow> (db, int) pm" where
  "add_audit r d =
     (Inr (next_id (audit_logs d)), d\<lparr>audit_logs := tbl_insert r (audit_logs d)\<rparr>)"

definition add_report :: "report_row \<Rightarrow> (db, int) pm" where
  "add_report r d =
     (Inr (next_id (reports d)), d\<lparr>reports := tbl_insert r (reports d)\<rparr>)"

definition add_campaign :: "campaign_row \<Rightarrow> (db, int) pm" where
  "add_campaign r d =
     (if \<not> ref_ok (cp_created_by r) (users d) then (Inl (fk_violation ''campaigns_created_by_fkey''), d) else
     (Inr (next_id (campaigns d)), d\<lparr>campaigns := tbl_insert r (campaigns d)\<rparr>))"

definition add_lead :: "lead_row \<Rightarrow> (db, int) pm" where
  "add_lead r d =
     (if \<not> ref_ok (ld_campaign_id r) (campaigns d) then (Inl (fk_violation ''leads_campaign_id_fkey''), d) else
     (if \<not> ref_ok (ld_customer_id r) (customers d) then (Inl (fk_violation ''leads_customer_id_fkey''), d) else
     (Inr (next_id (leads d)), d\<lparr>leads := tbl_insert r (leads d)\<rparr>)))"

definition add_shipment :: "shipment_row \<Rightarrow> (db, int) pm" where
  "add_shipment r d =
     (if \<not> ref_ok (sh_order_id r) (orders d) then (Inl (fk_violation ''shipments_order_id_fkey''), d) else
     (Inr (next_id (shipments d)), d\<lparr>shipments := tbl_insert r (shipments d)\<rparr>))"

definition add_page_view :: "page_view_row \<Rightarrow> (db, int) pm" where
  "add_page_view r d =
     (Inr (next_id (page_views d)), d\<lparr>page_views := tbl_insert r (page_views d)\<rparr>)"

definition add_warehouse :: "warehouse_row \<Rightarrow> (db, int) pm" where
  "add_warehouse r d =
     (Inr (next_id (warehouses d)), d\<lparr>warehouses := tbl_insert r (warehouses d)\<rparr>)"

definition add_sync_audit :: "sync_audit_row \<Rightarrow> (db, int) pm" where
  "add_sync_audit r d =
     (Inr (next_id (order_sync_audit d)), d\<lparr>order_sync_audit := tbl_insert r (order_sync_audit d)\<rparr>)"

definition put_customer :: "int \<Rightarrow> customer_row \<Rightarrow> (db, unit) pm" where
  "put_customer i r d =
     (if conflict (\<lambda>r. Some (c_email r)) (customers d) i r then (Inl (unique_violation ''customers_email_key''), d) else
     (Inr (), d\<lparr>customers := tbl_set i r (customers d)\<rparr>))"

definition put_shop :: "int \<Rightarrow> shop_row \<Rightarrow> (db, unit) pm" where
  "put_shop i r d =
     (if conflict (\<lambda>r. Some (s_slug r)) (shops d) i r then (Inl (unique_violation ''shops_slug_key''), d) else
     (Inr (), d\<lparr>shops := tbl_set i r (shops d)\<rparr>))"

definition put_product :: "int \<Rightarrow> product_row \<Rightarrow> (db, unit) pm" where
  "put_product i r d =
     (if conflict (\<lambda>r. Some (p_sku r)) (products d) i r then (Inl (unique_violation ''products_sku_key''), d) else
     (if \<not> ref_ok (p_shop_id r) (shops d) then (Inl (fk_violation ''products_shop_id_fkey''), d) else
     (Inr (), d\<lparr>products := tbl_set i r (products d)\<rparr>)))"

definition put_order :: "int \<Rightarrow> order_row \<Rightarrow> (db, unit) pm" where
  "put_order i r d =
     (if conflict (order_source_key) (orders d) i r then (Inl (unique_violation ''uq_orders_source_ref''), d) else
     (if \<not> ref_ok (o_customer_id r) (customers d) then (Inl (fk_violation ''orders_customer_id_fkey''), d) else
     (Inr (), d\<lparr>orders := tbl_set i r (orders d)\<rparr>)))"

definition put_invoice :: "int \<Rightarrow> invoice_row \<Rightarrow> (db, unit) pm" where
  "put_invoice i r d =
     (if conflict (\<lambda>r. Some (iv_invoice_number r)) (invoices d) i r then (Inl (unique_violation ''invoices_invoice_number_key''), d) else
     (if \<not> ref_ok (iv_order_id r) (orders d) then (Inl (fk_violation ''invoices_order_id_fkey''), d) else
     (Inr (), d\<lparr>invoices := tbl_set i r (invoices d)\<rparr>)))"

definition put_user :: "int \<Rightarrow> user_row \<Rightarrow> (db, unit) pm" where
  "put_user i r d =
     (if conflict (\<lambda>r. Some (u_username r)) (users d) i r then (Inl (unique_violation ''users_username_key''), d) else
     (if conflict (\<lambda>r. Some (u_email r)) (users d) i r then (Inl (unique_violation ''users_email_key''), d) else
     (Inr (), d\<lparr>users := tbl_set i r (users d)\<rparr>)))"

definition put_lead :: "int \<Rightarrow> lead_row \<Rightarrow> (db, unit) pm" where
  "put_lead i r d =
     (if \<not> ref_ok (ld_campaign_id r) (campaigns d) then (Inl (fk_violation ''leads_campaign_id_fkey''), d) else
     (if \<not> ref_ok (ld_customer_id r) (customers d) then (Inl (fk_violation ''leads_customer_id_fkey''), d) else
     (Inr (), d\<lparr>leads := tbl_set i r (leads d)\<rparr>)))"

definition put_shipment :: "int \<Rightarrow> shipment_row \<Rightarrow> (db, unit) pm" where
  "put_shipment i r d =
     (if \<not> ref_ok (sh_order_id r) (orders d) then (Inl (fk_violation ''shipments_order_id_fkey''), d) else
     (Inr (), d\<lparr>shipments := tbl_set i r (shipments d)\<rparr>))"

definition drop_product :: "int \<Rightarrow> (db, unit) pm" where
  "drop_product i d =
     (if referenced oi_product_id (order_items d) i then (Inl (fk_violation ''order_items_product_id_fkey''), d) else
     (Inr (), d\<lparr>products := tbl_delete (\<lambda>j _. j = i) (products d)\<rparr>))"

definition drop_shop :: "int \<Rightarrow> (db, unit) pm" where
  "drop_shop i d =
     (if referenced p_shop_id (products d) i then (Inl (fk_violation ''products_shop_id_fkey''), d) else
     (Inr (), d\<lparr>shops := tbl_delete (\<lambda>j _. j = i) (shops d)\<rparr>))"

definition drop_order_items :: "int \<Rightarrow> (db, unit) pm" where
  "drop_order_items oid d =
     (Inr (), d\<lparr>order_items := tbl_delete (\<lambda>_ r. oi_order_id r = Some oid) (order_items d)\<rparr>)"

definition drop_sessions :: "string \<Rightarrow> (db, unit) pm" where
  "drop_sessions sid d =
     (Inr (), d\<lparr>user_sessions := tbl_delete (\<lambda>_ r. us_session_id r = sid) (user_sessions d)\<rparr>)"

subsection \<open>What the statements keep\<close>

lemma db_ok_empty: "db_ok empty_db"
  by (simp add: db_ok_def ids_ok_def keys_ok_def refs_ok_def empty_db_def)

lemma seq_le_refl [simp]: "seq_le d d"
  by (simp add: seq_le_def)

lemma seq_le_trans: "seq_le d e \<Longrightarrow> seq_le e f \<Longrightarrow> seq_le d f"
  unfolding seq_le_def by (elim conjE, intro conjI; linarith)

lemma db_ok_rollback: "db_ok saved \<Longrightarrow> seq_le saved cur \<Longrightarrow> db_ok (db_rollback saved cur)"
  by (simp add: db_ok_def ids_ok_def keys_ok_def refs_ok_def seq_le_def db_rollback_def)

lemma seq_le_rollback: "seq_le cur (db_rollback saved cur)"
  by (simp add: seq_le_def db_rollback_def)

lemma same_rows_refl [simp]: "same_rows d d"
  by (simp add: same_rows_def)

lemma same_rows_rollback [simp]: "same_rows saved (db_rollback saved cur)"
  by (simp add: same_rows_def db_rollback_def)

text \<open>
  A statement is sound: it keeps the schema's invariant, no sequence goes back, and no session appears
  but under an id of \<open>A\<close>.
\<close>

definition has_session :: "db \<Rightarrow> string \<Rightarrow> bool" where
  "has_session d sid \<longleftrightarrow> sid \<in> (\<lambda>p. us_session_id (snd p)) ` set (rows (user_sessions d))"

lemma has_session_update [simp]:
  "has_session (d\<lparr>customers := c\<rparr>) = has_session d" "has_session (d\<lparr>shops := s\<rparr>) = has_session d"
  "has_session (d\<lparr>products := p\<rparr>) = has_session d" "has_session (d\<lparr>orders := o'\<rparr>) = has_session d"
  "has_session (d\<lparr>order_items := i\<rparr>) = has_session d" "has_session (d\<lparr>invoices := v\<rparr>) = has_session d"
  "has_session (d\<lparr>support_tickets := t\<rparr>) = has_session d" "has_session (d\<lparr>users := u\<rparr>) = has_session d"
  "has_session (d\<lparr>audit_logs := a\<rparr>) = has_session d" "has_session (d\<lparr>reports := r\<rparr>) = has_session d"
  "has_session (d\<lparr>campaigns := g\<rparr>) = has_session d" "has_session (d\<lparr>leads := l\<rparr>) = has_session d"
  "has_session (d\<lparr>shipments := h\<rparr>) = has_session d" "has_session (d\<lparr>page_views := w\<rparr>) = has_session d"
  "has_session (d\<lparr>warehouses := x\<rparr>) = has_session d" "has_session (d\<lparr>order_sync_audit := y\<rparr>) = has_session d"
  "has_session (d\<lparr>chaos_state := z\<rparr>) = has_session d"
  by (simp_all add: has_session_def fun_eq_iff)

lemma has_session_insert:
  "has_session (d\<lparr>user_sessions := tbl_insert r (user_sessions d)\<rparr>) sid \<longleftrightarrow> has_session d sid \<or> sid = us_session_id r"
  by (auto simp: has_session_def tbl_insert_def)

lemma has_session_delete: "has_session (d\<lparr>user_sessions := tbl_delete p (user_sessions d)\<rparr>) sid \<Longrightarrow> has_session d sid"
  by (auto simp: has_session_def tbl_delete_def)

lemma has_session_rollback: "has_session (db_rollback saved cur) = has_session saved"
  by (simp add: has_session_def fun_eq_iff db_rollback_def)

lemma has_session_find: "has_session d sid \<longleftrightarrow> tbl_find (\<lambda>r. us_session_id r = sid) (user_sessions d) \<noteq> None"
  by (force simp: has_session_def tbl_find_None)

definition stmt_ok :: "string set \<Rightarrow> (db, 'a) pm \<Rightarrow> bool" where
  "stmt_ok A m \<longleftrightarrow> (\<forall>d. db_ok d \<longrightarrow> db_ok (snd (m d)) \<and> seq_le d (snd (m d)) \<and>
     (\<forall>sid. has_session (snd (m d)) sid \<longrightarrow> has_session d sid \<or> sid \<in> A))"

lemmas db_invs = db_ok_def ids_ok_def keys_ok_def refs_ok_def

lemma add_customer_ok [safe_intro]: "stmt_ok A (add_customer r)"
  by (simp add: stmt_ok_def add_customer_def db_invs seq_le_def uniq_insert)

lemma add_shop_ok [safe_intro]: "stmt_ok A (add_shop r)"
  by (simp add: stmt_ok_def add_shop_def db_invs seq_le_def uniq_insert)

lemma add_product_ok [safe_intro]: "stmt_ok A (add_product r)"
  by (simp add: stmt_ok_def add_product_def db_invs seq_le_def uniq_insert)

lemma add_order_ok [safe_intro]: "stmt_ok A (add_order r)"
  by (simp add: stmt_ok_def add_order_def db_invs seq_le_def uniq_insert)

lemma add_order_item_ok [safe_intro]: "stmt_ok A (add_order_item r)"
  by (simp add: stmt_ok_def add_order_item_def db_invs seq_le_def uniq_insert)

lemma add_invoice_ok [safe_intro]: "stmt_ok A (add_invoice r)"
  by (simp add: stmt_ok_def add_invoice_def db_invs seq_le_def uniq_insert)

lemma add_ticket_ok [safe_intro]: "stmt_ok A (add_ticket r)"
  by (simp add: stmt_ok_def add_ticket_def db_invs seq_le_def uniq_insert)

lemma add_user_ok [safe_intro]: "stmt_ok A (add_user r)"
  by (simp add: stmt_ok_def add_user_def db_invs seq_le_def uniq_insert)

lemma add_session_ok: "us_session_id r \<in> A \<Longrightarrow> stmt_ok A (add_session r)"
  by (simp add: stmt_ok_def add_session_def db_invs seq_le_def uniq_insert has_session_insert)

lemma add_audit_ok [safe_intro]: "stmt_ok A (add_audit r)"
  by (simp add: stmt_ok_def add_audit_def db_invs seq_le_def uniq_insert)

lemma add_report_ok [safe_intro]: "stmt_ok A (add_report r)"
  by (simp add: stmt_ok_def add_report_def db_invs seq_le_def uniq_insert)

lemma add_campaign_ok [safe_intro]: "stmt_ok A (add_campaign r)"
  by (simp add: stmt_ok_def add_campaign_def db_invs seq_le_def uniq_insert)

lemma add_lead_ok [safe_intro]: "stmt_ok A (add_lead r)"
  by (simp add: stmt_ok_def add_lead_def db_invs seq_le_def uniq_insert)

lemma add_shipment_ok [safe_intro]: "stmt_ok A (add_shipment r)"
  by (simp add: stmt_ok_def add_shipment_def db_invs seq_le_def uniq_insert)

lemma add_page_view_ok [safe_intro]: "stmt_ok A (add_page_view r)"
  by (simp add: stmt_ok_def add_page_view_def db_invs seq_le_def uniq_insert)

lemma add_warehouse_ok [safe_intro]: "stmt_ok A (add_warehouse r)"
  by (simp add: stmt_ok_def add_warehouse_def db_invs seq_le_def uniq_insert)

lemma add_sync_audit_ok [safe_intro]: "stmt_ok A (add_sync_audit r)"
  by (simp add: stmt_ok_def add_sync_audit_def db_invs seq_le_def uniq_insert)

lemma put_customer_ok [safe_intro]: "stmt_ok A (put_customer i r)"
  by (simp add: stmt_ok_def put_customer_def db_invs seq_le_def uniq_set)

lemma put_shop_ok [safe_intro]: "stmt_ok A (put_shop i r)"
  by (simp add: stmt_ok_def put_shop_def db_invs seq_le_def uniq_set)

lemma put_product_ok [safe_intro]: "stmt_ok A (put_product i r)"
  by (simp add: stmt_ok_def put_product_def db_invs seq_le_def uniq_set)

lemma put_order_ok [safe_intro]: "stmt_ok A (put_order i r)"
  by (simp add: stmt_ok_def put_order_def db_invs seq_le_def uniq_set)

lemma put_invoice_ok [safe_intro]: "stmt_ok A (put_invoice i r)"
  by (simp add: stmt_ok_def put_invoice_def db_invs seq_le_def uniq_set)

lemma put_user_ok [safe_intro]: "stmt_ok A (put_user i r)"
  by (simp add: stmt_ok_def put_user_def db_invs seq_le_def uniq_set)

lemma put_lead_ok [safe_intro]: "stmt_ok A (put_lead i r)"
  by (simp add: stmt_ok_def put_lead_def db_invs seq_le_def uniq_set)

lemma put_shipment_ok [safe_intro]: "stmt_ok A (put_shipment i r)"
  by (simp add: stmt_ok_def put_shipment_def db_invs seq_le_def uniq_set)

lemma drop_product_ok [safe_intro]: "stmt_ok A (drop_product i)"
  by (simp add: stmt_ok_def drop_product_def db_invs seq_le_def refs_delete_tgt)

lemma drop_shop_ok [safe_intro]: "stmt_ok A (drop_shop i)"
  by (simp add: stmt_ok_def drop_shop_def db_invs seq_le_def refs_delete_tgt)

lemma drop_order_items_ok [safe_intro]: "stmt_ok A (drop_order_items oid)"
  by (simp add: stmt_ok_def drop_order_items_def db_invs seq_le_def)

lemma drop_sessions_ok [safe_intro]: "stmt_ok A (drop_sessions sid)"
  by (simp add: stmt_ok_def drop_sessions_def db_invs seq_le_def, blast dest: has_session_delete)

end
