(* ===== verification/World.thy ===== *)
theory World
  imports Database Config
begin

text \<open>
  The process a handler runs in. \<open>env\<close> holds what does not change while it runs: the configuration,
  the environment variables, and the code outside the repository that is called (hashes, printers,
  the random source, the network). \<open>world\<close> holds what does: the database, the clock, the process
  globals of the modules and the sequence of observable effects (logs, metrics, requests sent).
  \<open>request\<close> is what a handler reads of a request. A handler is a program in the monad over worlds,
  one request at a time; \<open>session_gate\<close>, whose point is concurrency, has its own step relation.
\<close>

record actor =
  a_user_id :: int
  a_username :: string
  a_role :: string

record request =
  rq_method :: string
  rq_path :: string
  rq_scheme :: string
  rq_client :: "string option"
  rq_headers :: "(string \<times> string) list"
  rq_cookies :: "(string \<times> string) list"
  rq_params :: "(string \<times> string) list"
  rq_body :: "json res"
  rq_current_user :: "actor option"
  rq_session :: "(string \<times> json) list option"
  rq_correlation_id :: "string option"
  rq_request_id :: "string option"
  rq_csp_nonce :: "string option"

text \<open>\<open>http\<close> answers the n-th request sent with a status and a body, or fails.\<close>

record http_call =
  hc_method :: string
  hc_url :: string
  hc_headers :: "(string \<times> string) list"
  hc_body :: json

record http_response =
  hr_status :: int
  hr_text :: string
  hr_json :: "json res"

record env =
  cfg :: config
  environ :: environ
  trace_id :: string
  span_id :: string
  traceparent :: string
  md5_hex :: "string \<Rightarrow> string"
  sha256_digest :: "string \<Rightarrow> string"
  sha256_hex :: "string \<Rightarrow> string"
  hmac_hex :: "string \<Rightarrow> string \<Rightarrow> string"
  bcrypt_hash :: "string \<Rightarrow> string"
  bcrypt_verify :: "string \<Rightarrow> string \<Rightarrow> bool option"
  token :: "nat \<Rightarrow> string"
  rep :: "json \<Rightarrow> string"
  dumps :: "json \<Rightarrow> string"
  isoformat :: "int \<Rightarrow> string"
  fromiso :: "string \<Rightarrow> int option"
  jwt_header :: "string \<Rightarrow> json option"
  jwt_decode :: "string \<Rightarrow> json \<Rightarrow> string \<Rightarrow> string \<Rightarrow> json \<Rightarrow> int \<Rightarrow> json option"
  urlencode :: "(string \<times> string) list \<Rightarrow> string"
  http :: "nat \<Rightarrow> http_call \<Rightarrow> http_response res"

datatype effect =
    PushLog string string "(string \<times> json) list"
  | Metric string "json list"
  | Span string string
  | Sent http_call
  | LoggerWarning string "string list"
  | Audit string "(string \<times> json) list"

text \<open>The entries of the process globals: a value with the time it was stored.\<close>

type_synonym 'v timed = "int \<times> 'v"

record world =
  w_db :: db
  w_now :: int
  w_drawn :: nat
  w_calls :: nat
  w_log :: "effect list"
  w_session_cache :: "(string \<times> actor timed) list"
  w_login_attempts :: "(string \<times> int list) list"
  w_lookup_log :: "(string \<times> int) list"
  w_oidc_cache :: "(string \<times> json timed) list"
  w_jwks_cache :: "(string \<times> json timed) list"
  w_product_cache :: "(string \<times> int) list"
  w_api_keys :: "(string \<times> json) list"
  w_leaked :: nat
  w_sim :: "(string \<times> json) list"
  w_db_down :: "string option"
  w_files :: "(string \<times> string) list"

type_synonym 'a handler = "(world, 'a) pm"

text \<open>One second.\<close>

definition sec :: int where
  "sec = 1000000"

subsection \<open>The request\<close>

definition client_ip :: "request \<Rightarrow> string" where
  "client_ip rq = (case rq_client rq of None \<Rightarrow> ''unknown'' | Some h \<Rightarrow> h)"

text \<open>\<open>request.headers.get(k, d)\<close>, \<open>request.cookies.get(k, d)\<close>; header names are lower case.\<close>

definition header :: "request \<Rightarrow> string \<Rightarrow> string option" where
  "header rq k = map_of (rq_headers rq) k"

definition header_or :: "request \<Rightarrow> string \<Rightarrow> string \<Rightarrow> string" where
  "header_or rq k d = (case header rq k of None \<Rightarrow> d | Some v \<Rightarrow> v)"

definition cookie :: "request \<Rightarrow> string \<Rightarrow> string" where
  "cookie rq k = (case map_of (rq_cookies rq) k of None \<Rightarrow> [] | Some v \<Rightarrow> v)"

definition opt_str :: "string option \<Rightarrow> string" where
  "opt_str v = (case v of None \<Rightarrow> [] | Some s \<Rightarrow> s)"

definition is_https :: "request \<Rightarrow> bool" where
  "is_https rq = (rq_scheme rq = ''https'' \<or> header rq ''x-forwarded-proto'' = Some ''https'')"

text \<open>The bounds of the paging parameters, which FastAPI checks before the handler runs.\<close>

definition page_ok :: "int \<Rightarrow> int \<Rightarrow> bool" where
  "page_ok limit offset = (1 \<le> limit \<and> limit \<le> 500 \<and> 0 \<le> offset)"

definition page :: "int \<Rightarrow> int \<Rightarrow> 'a list \<Rightarrow> 'a list" where
  "page limit offset xs = take (nat limit) (drop (nat offset) xs)"

text \<open>\<open>str(e)\<close>; where the interpreter words the message, the name of the class stands for it.\<close>

fun exc_str :: "py_exc \<Rightarrow> string" where
  "exc_str (HTTPException n d) = int_str (int n) @ '': '' @ d"
| "exc_str (ValueError m) = m"
| "exc_str (RuntimeError m) = m"
| "exc_str (ConnectionError m) = m"
| "exc_str (IntegrityError m) = m"
| "exc_str (SessionLookupUnavailable m) = m"
| "exc_str (TransportError m) = m"
| "exc_str (OSError m) = m"
| "exc_str (DBAPIError m) = m"
| "exc_str TypeError = ''TypeError''"
| "exc_str AttributeError = ''AttributeError''"
| "exc_str KeyError = ''KeyError''"
| "exc_str OverflowError = ''OverflowError''"
| "exc_str JSONDecodeError = ''JSONDecodeError''"
| "exc_str DataError = ''DataError''"
| "exc_str DetachedInstanceError = ''DetachedInstanceError''"

text \<open>A value bound to a text, number or integer column: None is NULL, another type is refused.\<close>

fun text_col :: "json \<Rightarrow> string option res" where
  "text_col JNull = Inr None"
| "text_col (JStr s) = Inr (Some s)"
| "text_col _ = Inl DataError"

fun float_col :: "json \<Rightarrow> pyfloat option res" where
  "float_col JNull = Inr None"
| "float_col (JFloat f) = Inr (Some f)"
| "float_col (JInt n) = res_bind (int_to_float n) (\<lambda>f. Inr (Some f))"
| "float_col _ = Inl DataError"

fun int_col :: "json \<Rightarrow> int option res" where
  "int_col JNull = Inr None"
| "int_col (JInt n) = Inr (Some n)"
| "int_col _ = Inl DataError"

text \<open>A NULL in a column declared \<open>nullable=False\<close>.\<close>

definition not_null :: "string \<Rightarrow> 'a option \<Rightarrow> 'a res" where
  "not_null column v = (case v of None \<Rightarrow> Inl (IntegrityError (''null value in column '' @ column)) | Some x \<Rightarrow> Inr x)"

text \<open>\<open>>=\<close> between numbers in SQL, where NaN is the greatest.\<close>

definition sql_fge :: "pyfloat \<Rightarrow> pyfloat \<Rightarrow> bool" where
  "sql_fge x y = (x = NaN \<or> fle y x)"

subsection \<open>Effects\<close>

definition emit :: "effect \<Rightarrow> unit handler" where
  "emit e = modify (\<lambda>w. w\<lparr>w_log := w_log w @ [e]\<rparr>)"

definition push_log :: "string \<Rightarrow> string \<Rightarrow> (string \<times> json) list \<Rightarrow> unit handler" where
  "push_log level message attrs = emit (PushLog level message attrs)"

definition log_security_event :: "string \<Rightarrow> string \<Rightarrow> string \<Rightarrow> string \<Rightarrow> string \<Rightarrow> string \<Rightarrow> (string \<times> json) list \<Rightarrow> unit handler" where
  "log_security_event vuln_type severity message source_ip username payload extra =
     push_log (if severity \<in> {''low'', ''medium''} then ''WARNING'' else ''ERROR'') message
       ([(''security.attack.detected'', JBool True),
         (''security.attack.type'', JStr vuln_type),
         (''security.attack.severity'', JStr severity),
         (''security.source_ip'', JStr source_ip),
         (''security.username'', JStr username),
         (''security.attack.payload'', JStr (take 512 payload))] @ extra)"

text \<open>Opening a \<open>security_span\<close> starts the span and counts the event.\<close>

definition security_span :: "string \<Rightarrow> string \<Rightarrow> unit handler" where
  "security_span vuln_type severity = seq (emit (Span vuln_type severity))
     (emit (Metric ''security_event'' [JStr vuln_type, JStr severity]))"

definition metric :: "string \<Rightarrow> json list \<Rightarrow> unit handler" where
  "metric name args = emit (Metric name args)"

text \<open>\<open>uuid4().hex\<close>, \<open>secrets.token_hex(...)\<close>: the next value of the random source.\<close>

definition draw :: "env \<Rightarrow> string handler" where
  "draw E = bind (gets w_drawn) (\<lambda>n. seq (modify (\<lambda>w. w\<lparr>w_drawn := n + 1\<rparr>)) (ret (token E n)))"

text \<open>A request sent: it is in the log whether or not an answer comes.\<close>

definition send :: "env \<Rightarrow> http_call \<Rightarrow> http_response handler" where
  "send E c = bind (gets w_calls) (\<lambda>n. seq (modify (\<lambda>w. w\<lparr>w_calls := n + 1\<rparr>))
     (seq (emit (Sent c)) (lift (http E n c))))"

definition sleep :: "int \<Rightarrow> unit handler" where
  "sleep us = modify (\<lambda>w. w\<lparr>w_now := w_now w + us\<rparr>)"

subsection \<open>Correlation\<close>

definition build_correlation_id :: "env \<Rightarrow> string \<Rightarrow> string handler" where
  "build_correlation_id E seed =
     (if trace_id E \<noteq> [] then ret (trace_id E) else if seed \<noteq> [] then ret seed else draw E)"

definition outbound_headers :: "env \<Rightarrow> string \<Rightarrow> (string \<times> string) list handler" where
  "outbound_headers E correlation_id = bind (build_correlation_id E correlation_id) (\<lambda>cid. ret
     ([(''X-Correlation-Id'', cid),
       (''X-Service-Name'', otel_service_name (cfg E)),
       (''X-Service-Namespace'', service_namespace (cfg E)),
       (''X-Service-Version'', app_version (cfg E)),
       (''X-OCTO-Stack'', demo_stack_name (cfg E))] @
      (if oracle_dsn (cfg E) \<noteq> [] then [(''X-Database-Connection'', oracle_dsn (cfg E))] else []) @
      (if traceparent E \<noteq> [] then [(''traceparent'', traceparent E)] else [])))"

subsection \<open>Database sessions\<close>

definition on_db :: "(db, 'a) pm \<Rightarrow> 'a handler" where
  "on_db m w = (case m (w_db w) of (r, d) \<Rightarrow> (r, w\<lparr>w_db := d\<rparr>))"

definition query :: "(db \<Rightarrow> 'a) \<Rightarrow> 'a handler" where
  "query f = gets (\<lambda>w. f (w_db w))"

text \<open>A transaction or savepoint: an exception rolls the database back and goes on.\<close>

definition transaction :: "'a handler \<Rightarrow> 'a handler" where
  "transaction m w = (case m w of
     (Inr x, w') \<Rightarrow> (Inr x, w')
   | (Inl e, w') \<Rightarrow> (Inl e, w'\<lparr>w_db := db_rollback (w_db w) (w_db w')\<rparr>))"

text \<open>The engine was created at import time.\<close>

definition engine_ready :: "env \<Rightarrow> bool" where
  "engine_ready E = database_configured (cfg E)"

text \<open>
  \<open>async with get_db() as db: ...\<close>. While the database cannot be reached, opening the session
  fails with the driver's message in \<open>w_db_down\<close>.
\<close>

definition get_db :: "env \<Rightarrow> 'a handler \<Rightarrow> 'a handler" where
  "get_db E body =
     (if simulate_db_disconnect (cfg E) then raise (ConnectionError ''Simulated database disconnect'') else
      seq (if simulate_db_latency (cfg E) then sleep 2500000 else ret ())
     (if \<not> engine_ready E then raise (RuntimeError ''Database engine is not configured'') else
      bind (gets w_db_down) (\<lambda>down. case down of Some m \<Rightarrow> raise (DBAPIError m) | None \<Rightarrow>
      transaction body)))"

text \<open>\<open>async with async_session_factory() as session: ...\<close>, with the commit in the body.\<close>

definition session_factory :: "env \<Rightarrow> 'a handler \<Rightarrow> 'a handler" where
  "session_factory E body =
     (if \<not> engine_ready E then raise TypeError else
      bind (gets w_db_down) (\<lambda>down. case down of Some m \<Rightarrow> raise (DBAPIError m) | None \<Rightarrow>
      transaction body))"

subsection \<open>Runs keep the schema's invariant\<close>

definition w_ok :: "world \<Rightarrow> bool" where
  "w_ok w = db_ok (w_db w)"

text \<open>
  Beside the schema, what becomes of sessions is followed through every run: outside a set \<open>A\<close> of ids, which
  holds at least the ids still to be drawn, no session appears in the table, and a cache entry is
  new only where the table has the session.
\<close>

definition w_inv :: "env \<Rightarrow> string set \<Rightarrow> world \<Rightarrow> bool" where
  "w_inv E A w \<longleftrightarrow> w_ok w \<and> token E ` {w_drawn w..} \<subseteq> A"

definition sessions_le :: "string set \<Rightarrow> world \<Rightarrow> world \<Rightarrow> bool" where
  "sessions_le A w v \<longleftrightarrow> (\<forall>sid. sid \<notin> A \<longrightarrow>
     (has_session (w_db v) sid \<longrightarrow> has_session (w_db w) sid) \<and>
     (map_of (w_session_cache v) sid \<in> {None, map_of (w_session_cache w) sid} \<or> has_session (w_db w) sid))"

definition w_le :: "string set \<Rightarrow> world \<Rightarrow> world \<Rightarrow> bool" where
  "w_le A w v \<longleftrightarrow> seq_le (w_db w) (w_db v) \<and> w_drawn w \<le> w_drawn v \<and> sessions_le A w v"

lemma sessions_le_trans: "sessions_le A w u \<Longrightarrow> sessions_le A u v \<Longrightarrow> sessions_le A w v"
  unfolding sessions_le_def by (metis (no_types, lifting) insert_iff singletonD)

lemma w_le_trans: "w_le A w u \<Longrightarrow> w_le A u v \<Longrightarrow> w_le A w v"
  unfolding w_le_def using seq_le_trans sessions_le_trans order_trans by blast

lemma w_le_same:
  "w_db v = w_db w \<Longrightarrow> w_session_cache v = w_session_cache w \<Longrightarrow> w_drawn w \<le> w_drawn v \<Longrightarrow> w_le A w v"
  by (simp add: w_le_def sessions_le_def)

lemma w_inv_le: "w_inv E A w \<Longrightarrow> w_le A w v \<Longrightarrow> w_ok v \<Longrightarrow> w_inv E A v"
  by (fastforce simp: w_inv_def w_le_def)

interpretation W: safety_logic "w_inv E A" "w_le A" for E A
  by unfold_locales (simp add: w_le_same, rule w_le_trans)

lemmas safe_rules [safe_intro] = W.safe_rules

lemma safe_runI:
  assumes "\<And>w. w_inv E A w \<Longrightarrow> w_ok (snd (m w)) \<and> w_le A w (snd (m w))"
  shows "W.safe E A m"
  by (rule W.safeI) (use assms w_inv_le in blast)

lemma safe_runD: "W.safe E A m \<Longrightarrow> w_inv E A w \<Longrightarrow> w_ok (snd (m w)) \<and> w_le A w (snd (m w))"
  using W.safeD [of E A m w] W.safe_rel [of E A m w] by (simp add: w_inv_def)

text \<open>With every id allowed, only the schema is left.\<close>

lemma w_inv_UNIV [simp]: "w_inv E UNIV w = w_ok w"
  by (simp add: w_inv_def)

lemma safe_ok: "W.safe E UNIV m \<Longrightarrow> w_ok w \<Longrightarrow> w_ok (snd (m w))"
  by (simp add: safe_runD)

lemma safe_on_db [safe_intro]:
  assumes "stmt_ok A m"
  shows "W.safe E A (on_db m)"
proof (rule safe_runI)
  fix w assume "w_inv E A w"
  with assms have "db_ok (snd (m (w_db w)))" "seq_le (w_db w) (snd (m (w_db w)))"
    "\<forall>sid. has_session (snd (m (w_db w))) sid \<longrightarrow> has_session (w_db w) sid \<or> sid \<in> A"
    by (simp_all add: stmt_ok_def w_inv_def w_ok_def)
  then show "w_ok (snd (on_db m w)) \<and> w_le A w (snd (on_db m w))"
    by (auto simp: on_db_def w_ok_def w_le_def sessions_le_def split: prod.split)
qed

lemma safe_query [safe_intro]: "W.safe E A (query f)"
  by (simp add: query_def W.safe_gets)

lemma safe_modify_db:
  assumes "\<And>w. w_db (f w) = w_db w \<and> w_session_cache (f w) = w_session_cache w \<and> w_drawn w \<le> w_drawn (f w)"
  shows "W.safe E A (modify f)"
  by (rule safe_runI) (use assms w_le_same in \<open>simp add: w_ok_def w_inv_def\<close>)

lemma safe_emit [safe_intro]: "W.safe E A (emit e)"
  by (simp add: emit_def safe_modify_db)

lemma safe_push_log [safe_intro]: "W.safe E A (push_log l m f)"
  by (simp add: push_log_def safe_emit)

lemma safe_log_security_event [safe_intro]: "W.safe E A (log_security_event t s m i u p x)"
  by (simp add: log_security_event_def safe_push_log)

lemma safe_security_span [safe_intro]: "W.safe E A (security_span t s)"
  by (simp add: security_span_def safe_emit W.safe_seq)

lemma safe_metric [safe_intro]: "W.safe E A (metric n a)"
  by (simp add: metric_def safe_emit)

lemma safe_sleep [safe_intro]: "W.safe E A (sleep n)"
  by (simp add: sleep_def safe_modify_db)

lemma safe_draw [safe_intro]: "W.safe E A (draw E')"
  by (rule safe_runI) (simp add: draw_def bind_run seq_run w_inv_def w_ok_def w_le_same)

text \<open>What is drawn is one of the ids that may appear.\<close>

lemma safe_draw_then:
  assumes "\<And>x. x \<in> A \<Longrightarrow> W.safe E A (k x)"
  shows "W.safe E A (bind (draw E) k)"
proof (rule safe_runI)
  fix w assume inv: "w_inv E A w"
  let ?u = "w\<lparr>w_drawn := w_drawn w + 1\<rparr>" and ?x = "token E (w_drawn w)"
  have "?x \<in> A" using inv by (auto simp: w_inv_def)
  moreover have u: "w_inv E A ?u" "w_le A w ?u" using inv by (fastforce simp: w_inv_def w_ok_def intro: w_le_same)+
  ultimately have "w_ok (snd (k ?x ?u)) \<and> w_le A ?u (snd (k ?x ?u))" using safe_runD [OF assms u(1)] by blast
  with u(2) show "w_ok (snd (bind (draw E) k w)) \<and> w_le A w (snd (bind (draw E) k w))"
    using w_le_trans by (simp add: draw_def bind_run seq_run)
qed

lemma safe_send [safe_intro]: "W.safe E A (send E' c)"
  unfolding send_def by (intro safe_intro safe_modify_db) simp

lemma safe_build_correlation_id [safe_intro]: "W.safe E A (build_correlation_id E' s)"
  unfolding build_correlation_id_def by (intro safe_intro)

lemma safe_outbound_headers [safe_intro]: "W.safe E A (outbound_headers E' s)"
  unfolding outbound_headers_def by (intro safe_intro)

text \<open>Rolling back is safe.\<close>

lemma safe_rollback:
  assumes "W.safe E A m" and "w_inv E A w" and "m w = (r, v)"
  shows "w_ok v \<and> w_le A w v"
    and "w_ok (v\<lparr>w_db := db_rollback (w_db w) (w_db v)\<rparr>) \<and> w_le A w (v\<lparr>w_db := db_rollback (w_db w) (w_db v)\<rparr>)"
proof -
  show v: "w_ok v \<and> w_le A w v" using safe_runD [OF assms(1,2)] assms(3) by simp
  have "db_ok (w_db w)" using assms(2) by (simp add: w_inv_def w_ok_def)
  with v show "w_ok (v\<lparr>w_db := db_rollback (w_db w) (w_db v)\<rparr>) \<and> w_le A w (v\<lparr>w_db := db_rollback (w_db w) (w_db v)\<rparr>)"
    using seq_le_trans [OF _ seq_le_rollback]
    by (auto simp: w_ok_def w_le_def sessions_le_def db_ok_rollback has_session_rollback)
qed

lemma safe_transaction [safe_intro]:
  assumes "W.safe E A m"
  shows "W.safe E A (transaction m)"
proof (rule safe_runI)
  fix w assume inv: "w_inv E A w"
  obtain r v where m: "m w = (r, v)" by (cases "m w")
  from safe_rollback [OF assms inv m] show "w_ok (snd (transaction m w)) \<and> w_le A w (snd (transaction m w))"
    by (cases r) (simp_all add: transaction_def m)
qed

subsection \<open>Failing transactions, frames\<close>

lemma transaction_Inr: "transaction m w = (Inr x, v) \<longleftrightarrow> m w = (Inr x, v)"
  by (auto simp: transaction_def split: prod.splits sum.splits)

lemma transaction_Inl:
  "transaction m w = (Inl e, v) \<Longrightarrow> \<exists>u. m w = (Inl e, u) \<and> v = u\<lparr>w_db := db_rollback (w_db w) (w_db u)\<rparr>"
  by (auto simp: transaction_def split: prod.splits sum.splits)

text \<open>An exception that leaves \<open>get_db\<close> leaves every table with the rows it had.\<close>

lemma get_db_fails: "get_db E m w = (Inl e, v) \<Longrightarrow> same_rows (w_db w) (w_db v)"
  by (auto simp: get_db_def seq_run bind_run sleep_def split: if_splits option.splits dest!: transaction_Inl)

lemma session_factory_fails: "session_factory E m w = (Inl e, v) \<Longrightarrow> same_rows (w_db w) (w_db v)"
  by (auto simp: session_factory_def bind_run split: if_splits option.splits dest!: transaction_Inl)

lemma get_db_Inr:
  assumes "get_db E m w = (Inr x, v)"
  obtains u where "m u = (Inr x, v)" and "w_db u = w_db w"
  using assms by (auto simp: get_db_def seq_run bind_run sleep_def transaction_Inr split: if_splits option.splits)

lemma w_ok_db: "w_ok w \<Longrightarrow> w_db u = w_db w \<Longrightarrow> w_ok u"
  by (simp add: w_ok_def)

text \<open>When a session opens: the configuration lets it, and the database can be reached.\<close>

definition db_up :: "env \<Rightarrow> world \<Rightarrow> bool" where
  "db_up E w \<longleftrightarrow> \<not> simulate_db_disconnect (cfg E) \<and> \<not> simulate_db_latency (cfg E) \<and> engine_ready E \<and> w_db_down w = None"

lemma db_up_update [simp]:
  "db_up E (w\<lparr>w_log := l\<rparr>) = db_up E w" "db_up E (w\<lparr>w_db := d\<rparr>) = db_up E w" "db_up E (w\<lparr>w_now := t\<rparr>) = db_up E w"
  "db_up E (w\<lparr>w_drawn := n\<rparr>) = db_up E w" "db_up E (w\<lparr>w_calls := n\<rparr>) = db_up E w" "db_up E (w\<lparr>w_login_attempts := a\<rparr>) = db_up E w"
  "db_up E (w\<lparr>w_session_cache := c\<rparr>) = db_up E w" "db_up E (w\<lparr>w_product_cache := p\<rparr>) = db_up E w"
  "db_up E (w\<lparr>w_oidc_cache := o'\<rparr>) = db_up E w" "db_up E (w\<lparr>w_jwks_cache := j\<rparr>) = db_up E w"
  "db_up E (w\<lparr>w_lookup_log := k\<rparr>) = db_up E w" "db_up E (w\<lparr>w_api_keys := a'\<rparr>) = db_up E w" "db_up E (w\<lparr>w_sim := s\<rparr>) = db_up E w"
  "db_up E (w\<lparr>w_files := fs\<rparr>) = db_up E w"
  by (simp_all add: db_up_def)

lemma get_db_up [simp]: "db_up E w \<Longrightarrow> get_db E m w = transaction m w"
  by (simp add: get_db_def db_up_def seq_run bind_run)

lemma session_factory_up [simp]: "db_up E w \<Longrightarrow> session_factory E m w = transaction m w"
  by (simp add: session_factory_def db_up_def bind_run)

text \<open>A program keeps \<open>f\<close> when no run changes it: the safety logic at another relation.\<close>

definition same :: "('w \<Rightarrow> 'x) \<Rightarrow> 'w \<Rightarrow> 'w \<Rightarrow> bool" where
  "same f w v = (f w = f v)"

definition keeps :: "('w \<Rightarrow> 'x) \<Rightarrow> ('w, 'a) pm \<Rightarrow> bool" where
  "keeps f = safety_logic.safe (\<lambda>_. True) (same f)"

lemma same_logic: "safety_logic (same f)"
  by unfold_locales (auto simp: same_def)

lemmas keeps_rules = safety_logic.safe_rules [OF same_logic, where I = "\<lambda>_. True", folded keeps_def]

lemma keepsI: "(\<And>w. f (snd (m w)) = f w) \<Longrightarrow> keeps f m"
  unfolding keeps_def by (rule safety_logic.safeI [OF same_logic]) (simp add: same_def)

lemma keeps_snd: "keeps f m \<Longrightarrow> f (snd (m w)) = f w"
  using safety_logic.safe_rel [OF same_logic, of "\<lambda>_. True" f m w] by (simp add: keeps_def same_def)

lemma keepsD: "keeps f m \<Longrightarrow> m w = (r, v) \<Longrightarrow> f v = f w"
  using keeps_snd [of f m w] by simp

lemma keeps_modify: "(\<And>w. f (g w) = f w) \<Longrightarrow> keeps f (modify g)"
  by (rule keepsI) simp

lemma keeps_db_emit: "keeps (\<lambda>w. f (w_db w)) (emit e)"
  by (simp add: emit_def keeps_modify)

lemma keeps_db_push_log: "keeps (\<lambda>w. f (w_db w)) (push_log l m a)"
  by (simp add: push_log_def keeps_db_emit)

lemma keeps_db_log_security_event: "keeps (\<lambda>w. f (w_db w)) (log_security_event t s m i u p x)"
  by (simp add: log_security_event_def keeps_db_push_log)

lemma keeps_db_security_span: "keeps (\<lambda>w. f (w_db w)) (security_span t s)"
  by (simp add: security_span_def keeps_rules keeps_db_emit)

lemma keeps_db_metric: "keeps (\<lambda>w. f (w_db w)) (metric n a)"
  by (simp add: metric_def keeps_db_emit)

lemma keeps_db_query: "keeps f (query g)"
  by (simp add: query_def keeps_rules)

lemma keeps_db_draw: "keeps (\<lambda>w. f (w_db w)) (draw E)"
  unfolding draw_def by (intro keeps_rules keeps_modify) simp

lemma keeps_db_send: "keeps (\<lambda>w. f (w_db w)) (send E c)"
  unfolding send_def by (intro keeps_rules keeps_modify keeps_db_emit) simp

lemma keeps_db_build_correlation_id: "keeps (\<lambda>w. f (w_db w)) (build_correlation_id E s)"
  unfolding build_correlation_id_def by (intro keeps_rules keeps_db_draw)

lemma keeps_db_outbound_headers: "keeps (\<lambda>w. f (w_db w)) (outbound_headers E s)"
  unfolding outbound_headers_def by (intro keeps_rules keeps_db_build_correlation_id)

lemma keeps_on_db: "(\<And>d. f (snd (m d)) = f d) \<Longrightarrow> keeps (\<lambda>w. f (w_db w)) (on_db m)"
  by (rule keepsI) (simp add: on_db_def split: prod.splits, metis snd_conv)

lemmas keeps_db_rules = keeps_rules keeps_db_emit keeps_db_push_log keeps_db_log_security_event
  keeps_db_security_span keeps_db_metric keeps_db_query keeps_db_draw keeps_db_send
  keeps_db_build_correlation_id keeps_db_outbound_headers

lemma build_correlation_id_run: "\<exists>cid u. build_correlation_id E seed w = (Inr cid, u)"
  by (cases "trace_id E = []"; cases "seed = []") (simp_all add: build_correlation_id_def draw_def bind_run seq_run)

subsection \<open>Safety of sessions\<close>

lemma safe_get_db [safe_intro]: "W.safe E A body \<Longrightarrow> W.safe E A (get_db E' body)"
  unfolding get_db_def by (intro safe_intro)

lemma safe_session_factory [safe_intro]: "W.safe E A body \<Longrightarrow> W.safe E A (session_factory E' body)"
  unfolding session_factory_def by (intro safe_intro)

end
