(* ===== verification/Sessions.thy ===== *)
theory Sessions
  imports World
begin

text \<open>
  Who is asking: the session cache and the lookup behind it (\<open>get_current_user\<close> of
  \<open>server/modules/auth.py\<close>), the guards of \<open>server/modules/_authz.py\<close> and the role dependency of
  \<open>server/security/auth_deps.py\<close>. The caches with a time to live share one contract, a locale: what
  a lookup after a store returns, and what follows for any sequence of stores.
\<close>

subsection \<open>Caches with a time to live\<close>

definition timed_get :: "int \<Rightarrow> (string \<times> 'v timed) list \<Rightarrow> int \<Rightarrow> string \<Rightarrow> 'v option" where
  "timed_get ttl c now k =
     (case map_of c k of None \<Rightarrow> None | Some (ts, v) \<Rightarrow> if now - ts < ttl then Some v else None)"

definition timed_put :: "string \<Rightarrow> int \<Rightarrow> 'v \<Rightarrow> (string \<times> 'v timed) list \<Rightarrow> (string \<times> 'v timed) list" where
  "timed_put k ts v c = alist_set k (ts, v) c"

locale ttl_cache =
  fixes lookup :: "'c \<Rightarrow> int \<Rightarrow> string \<Rightarrow> 'v option"
    and store :: "string \<Rightarrow> int \<Rightarrow> 'v \<Rightarrow> 'c \<Rightarrow> 'c"
    and ttl :: int
  assumes lookup_store:
    "lookup (store k ts v c) now k' = (if k' = k then (if now - ts < ttl then Some v else None) else lookup c now k')"
begin

lemma fresh_hit: "now - ts < ttl \<Longrightarrow> lookup (store k ts v c) now k = Some v"
  by (simp add: lookup_store)

lemma expired: "ttl \<le> now - ts \<Longrightarrow> lookup (store k ts v c) now k = None"
  by (simp add: lookup_store)

fun stores :: "(string \<times> int \<times> 'v) list \<Rightarrow> 'c \<Rightarrow> 'c" where
  "stores [] c = c"
| "stores ((k, ts, v) # ops) c = stores ops (store k ts v c)"

text \<open>A hit is either one of the start, or a store less than \<open>ttl\<close> ago.\<close>

lemma hit_origin:
  "lookup (stores ops c) now k = Some v \<Longrightarrow>
     lookup c now k = Some v \<or> (\<exists>ts. (k, ts, v) \<in> set ops \<and> now - ts < ttl)"
proof (induction ops arbitrary: c)
  case (Cons op ops)
  obtain k' ts v' where op: "op = (k', ts, v')" by (cases op)
  from Cons.IH [of "store k' ts v' c"] Cons.prems op show ?case
    by (auto simp: lookup_store split: if_splits)
qed simp

end

lemma timed_get_put:
  "timed_get ttl (timed_put k ts v c) now k' =
     (if k' = k then (if now - ts < ttl then Some v else None) else timed_get ttl c now k')"
  by (simp add: timed_get_def timed_put_def)

interpretation timed: ttl_cache "timed_get ttl" timed_put ttl for ttl
  by unfold_locales (rule timed_get_put)

lemma timed_get_recent: "timed_get ttl c now k = Some v \<Longrightarrow> \<exists>ts. map_of c k = Some (ts, v) \<and> now - ts < ttl"
  by (auto simp: timed_get_def split: option.splits if_splits)

lemma timed_get_stale: "(\<And>ts v. map_of c k = Some (ts, v) \<Longrightarrow> ttl \<le> now - ts) \<Longrightarrow> timed_get ttl c now k = None"
  by (cases "map_of c k") (fastforce simp: timed_get_def)+

subsection \<open>Session lookup\<close>

definition session_ttl :: int where
  "session_ttl = 30 * sec"

definition lookup_log_window :: int where
  "lookup_log_window = 60 * sec"

text \<open>\<open>type(e).__name__\<close>, for the exceptions a lookup meets.\<close>

definition exc_class :: "py_exc \<Rightarrow> string" where
  "exc_class e = (case e of DBAPIError m \<Rightarrow> ''DBAPIError'' | AttributeError \<Rightarrow> ''AttributeError'' | _ \<Rightarrow> ''Exception'')"

text \<open>
  The driver code: an \<open>ORA-xxxxx\<close> token at the start of the driver's message, else the library's
  own code of the exception class, never the message.
\<close>

definition exc_code :: "py_exc \<Rightarrow> string" where
  "exc_code e = (case e of
     DBAPIError m \<Rightarrow> if startswith m ''ORA-'' \<and> contains m '':''
       then (case split1 CHR '':'' m of None \<Rightarrow> m | Some (a, b) \<Rightarrow> a) else ''dbapi''
   | _ \<Rightarrow> [])"

definition session_actor :: "session_row \<Rightarrow> actor" where
  "session_actor r = \<lparr>a_user_id = us_user_id r, a_username = us_username r, a_role = us_role r\<rparr>"

definition session_id_of :: "request \<Rightarrow> string" where
  "session_id_of rq = str_or (cookie rq ''session_id'') (header_or rq ''x-session-id'' [])"

text \<open>\<open>sync_engine.connect()\<close> and the query.\<close>

definition session_row_lookup :: "env \<Rightarrow> string \<Rightarrow> session_row option handler" where
  "session_row_lookup E sid =
     (if \<not> engine_ready E then raise AttributeError else
      bind (gets w_db_down) (\<lambda>down. case down of
        Some m \<Rightarrow> raise (DBAPIError m)
      | None \<Rightarrow> query (\<lambda>d. map_option snd (tbl_find (\<lambda>r. us_session_id r = sid) (user_sessions d)))))"

definition lookup_failed :: "py_exc \<Rightarrow> 'a handler" where
  "lookup_failed e =
     (let cls = exc_class e; code = exc_code e in
      bind (gets w_now) (\<lambda>now. bind (gets w_lookup_log) (\<lambda>st.
        seq (if now - (case map_of st cls of None \<Rightarrow> 0 | Some t \<Rightarrow> t) > lookup_log_window
             then seq (modify (\<lambda>w. w\<lparr>w_lookup_log := alist_set cls now st\<rparr>))
                      (emit (LoggerWarning ''session lookup failed (rate-limited)'' [cls, str_or code ''unknown'']))
             else ret ())
        (raise (SessionLookupUnavailable (cls @ '':'' @ code))))))"

definition get_current_user :: "env \<Rightarrow> request \<Rightarrow> actor option handler" where
  "get_current_user E rq =
     (let sid = session_id_of rq in
      if sid = [] then ret None else
      bind (gets w_now) (\<lambda>now. bind (gets w_session_cache) (\<lambda>c.
      case timed_get session_ttl c now sid of
        Some u \<Rightarrow> ret (Some u)
      | None \<Rightarrow> bind (catch (session_row_lookup E sid) lookup_failed) (\<lambda>row.
          case row of
            Some r \<Rightarrow> seq (modify (\<lambda>w. w\<lparr>w_session_cache := timed_put sid now (session_actor r) c\<rparr>))
                        (ret (Some (session_actor r)))
          | None \<Rightarrow> seq (modify (\<lambda>w. w\<lparr>w_session_cache := alist_del sid c\<rparr>)) (ret None)))))"

subsection \<open>Guards\<close>

definition get_request_user :: "env \<Rightarrow> request \<Rightarrow> actor option handler" where
  "get_request_user E rq = (case rq_current_user rq of Some u \<Rightarrow> ret (Some u) | None \<Rightarrow> get_current_user E rq)"

definition require_authenticated_user :: "env \<Rightarrow> request \<Rightarrow> actor handler" where
  "require_authenticated_user E rq = bind (get_request_user E rq) (\<lambda>u. case u of
     None \<Rightarrow> raise (HTTPException 401 ''Authentication required'') | Some a \<Rightarrow> ret a)"

definition can_manage_catalog :: "string \<Rightarrow> bool" where
  "can_manage_catalog role = (py_lower (py_strip role) \<in> {''admin'', ''manager''})"

definition require_admin_user :: "env \<Rightarrow> request \<Rightarrow> actor handler" where
  "require_admin_user E rq = bind (require_authenticated_user E rq) (\<lambda>a.
     if py_lower (py_strip (a_role a)) \<notin> {''admin''}
     then raise (HTTPException 403 ''Administrator role required'') else ret a)"

definition require_management_user :: "env \<Rightarrow> request \<Rightarrow> actor handler" where
  "require_management_user E rq = bind (require_authenticated_user E rq) (\<lambda>a.
     if \<not> can_manage_catalog (a_role a)
     then raise (HTTPException 403 ''Management role required'') else ret a)"

text \<open>The role dependency reads \<open>request.state.session\<close>.\<close>

definition extract_roles :: "env \<Rightarrow> request \<Rightarrow> string list res" where
  "extract_roles E rq =
     (let session = JObj (case rq_session rq of None \<Rightarrow> [] | Some s \<Rightarrow> s) in
      res_bind (jget session ''roles'') (\<lambda>r1. res_bind (jget session ''role'') (\<lambda>r2.
      let raw = (if truthy r1 then r1 else if truthy r2 then r2 else JArr []);
          raw' = (case raw of JStr s \<Rightarrow> JArr [JStr s] | _ \<Rightarrow> raw) in
      res_bind (jiter raw') (\<lambda>rs.
      Inr (map (\<lambda>r. py_lower (py_strip (jstr (rep E) r))) (filter truthy rs))))))"

definition require_role :: "env \<Rightarrow> string list \<Rightarrow> request \<Rightarrow> unit handler" where
  "require_role E required rq =
     (let expected = map (\<lambda>r. py_lower (py_strip r)) (filter (\<lambda>r. py_strip r \<noteq> []) required) in
      bind (lift (extract_roles E rq)) (\<lambda>have.
      if expected = [] \<or> \<not> list_ex (\<lambda>r. r \<in> set expected) have
      then raise (HTTPException 403 ''role_required'') else ret ()))"

subsection \<open>What lookups return\<close>

definition session_of :: "db \<Rightarrow> string \<Rightarrow> actor option" where
  "session_of d sid = map_option (\<lambda>p. session_actor (snd p)) (tbl_find (\<lambda>r. us_session_id r = sid) (user_sessions d))"

lemma get_current_user_anonymous: "session_id_of rq = [] \<Longrightarrow> get_current_user E rq w = (Inr None, w)"
  by (simp add: get_current_user_def)

lemma get_current_user_hit:
  "session_id_of rq \<noteq> [] \<Longrightarrow> timed_get session_ttl (w_session_cache w) (w_now w) (session_id_of rq) = Some u \<Longrightarrow>
     get_current_user E rq w = (Inr (Some u), w)"
  by (simp add: get_current_user_def Let_def bind_run)

lemma get_current_user_miss:
  assumes "session_id_of rq \<noteq> []" and "timed_get session_ttl (w_session_cache w) (w_now w) (session_id_of rq) = None"
    and "engine_ready E" and "w_db_down w = None"
  shows "get_current_user E rq w =
    (Inr (session_of (w_db w) (session_id_of rq)),
     w\<lparr>w_session_cache := (case session_of (w_db w) (session_id_of rq) of
        Some u \<Rightarrow> timed_put (session_id_of rq) (w_now w) u (w_session_cache w)
      | None \<Rightarrow> alist_del (session_id_of rq) (w_session_cache w))\<rparr>)"
  using assms
  by (cases "tbl_find (\<lambda>r. us_session_id r = session_id_of rq) (user_sessions (w_db w))")
     (simp_all add: get_current_user_def session_row_lookup_def session_of_def query_def Let_def bind_run
        seq_run catch_run)

lemma get_current_user_down:
  assumes "session_id_of rq \<noteq> []" and "timed_get session_ttl (w_session_cache w) (w_now w) (session_id_of rq) = None"
    and "engine_ready E" and "w_db_down w = Some m"
  shows "fst (get_current_user E rq w) = Inl (SessionLookupUnavailable (''DBAPIError:'' @ exc_code (DBAPIError m)))"
    and "w_session_cache (snd (get_current_user E rq w)) = w_session_cache w"
  using assms
  by (simp_all add: get_current_user_def session_row_lookup_def lookup_failed_def emit_def exc_class_def
        Let_def bind_run seq_run catch_run)

lemma get_current_user_db: "w_db (snd (get_current_user E rq w)) = w_db w"
  by (auto simp: get_current_user_def session_row_lookup_def lookup_failed_def emit_def query_def Let_def
        bind_run seq_run catch_run split: option.splits)

lemma get_current_user_drawn: "w_drawn (snd (get_current_user E rq w)) = w_drawn w"
  by (auto simp: get_current_user_def session_row_lookup_def lookup_failed_def emit_def query_def Let_def
        bind_run seq_run catch_run split: option.splits)

text \<open>A lookup leaves the cache alone, drops one entry, or stores what the table says now.\<close>

lemma lookup_effect:
  "w_session_cache (snd (get_current_user E rq w)) = w_session_cache w \<or>
   w_session_cache (snd (get_current_user E rq w)) = alist_del (session_id_of rq) (w_session_cache w) \<or>
   (\<exists>u. session_of (w_db w) (session_id_of rq) = Some u \<and>
      w_session_cache (snd (get_current_user E rq w)) = timed_put (session_id_of rq) (w_now w) u (w_session_cache w))"
  by (auto simp: get_current_user_def session_row_lookup_def lookup_failed_def emit_def query_def session_of_def Let_def
        bind_run seq_run catch_run split: option.splits)

lemma session_of_has: "session_of d sid = Some u \<Longrightarrow> has_session d sid"
  by (auto simp: session_of_def has_session_find)

lemma session_of_None: "session_of d sid = None \<longleftrightarrow> \<not> has_session d sid"
  by (cases "tbl_find (\<lambda>r. us_session_id r = sid) (user_sessions d)") (auto simp: session_of_def has_session_find)

lemma get_request_user_db: "w_db (snd (get_request_user E rq w)) = w_db w"
  by (simp add: get_request_user_def get_current_user_db split: option.splits)

subsection \<open>Safety\<close>

lemma safe_lookup_failed [safe_intro]: "W.safe E A (lookup_failed e)"
  unfolding lookup_failed_def Let_def by (intro safe_intro safe_modify_db) simp

lemma safe_session_row_lookup [safe_intro]: "W.safe E A (session_row_lookup E sid)"
  unfolding session_row_lookup_def by (intro safe_intro)

lemma safe_get_current_user [safe_intro]: "W.safe E A (get_current_user E rq)"
proof (rule safe_runI)
  fix w assume "w_inv E A w"
  let ?v = "snd (get_current_user E rq w)"
  have db: "w_db ?v = w_db w" "w_drawn ?v = w_drawn w" by (simp_all add: get_current_user_db get_current_user_drawn)
  moreover have "map_of (w_session_cache ?v) sid \<in> {None, map_of (w_session_cache w) sid} \<or> has_session (w_db w) sid" for sid
    using lookup_effect [of E rq w] by (auto simp: timed_put_def session_of_has split: if_splits)
  ultimately show "w_ok ?v \<and> w_le A w ?v"
    using \<open>w_inv E A w\<close> by (simp add: w_inv_def w_ok_def w_le_def sessions_le_def)
qed

lemma safe_get_request_user [safe_intro]: "W.safe E A (get_request_user E rq)"
  unfolding get_request_user_def by (intro safe_intro)

lemma safe_require_authenticated_user [safe_intro]: "W.safe E A (require_authenticated_user E rq)"
  unfolding require_authenticated_user_def by (intro safe_intro)

lemma safe_require_admin_user [safe_intro]: "W.safe E A (require_admin_user E rq)"
  unfolding require_admin_user_def by (intro safe_intro)

lemma safe_require_management_user [safe_intro]: "W.safe E A (require_management_user E rq)"
  unfolding require_management_user_def by (intro safe_intro)

lemma safe_require_role [safe_intro]: "W.safe E A (require_role E rs rq)"
  unfolding require_role_def Let_def by (intro safe_intro)

end
