(* ===== verification/OrderSync.thy ===== *)
theory OrderSync
  imports Sessions
begin

text \<open>
  \<open>server/order_sync.py\<close>: the import of the shop's orders into the CRM database (fetch, normalise,
  one savepoint per order, an audit row per outcome), the product cache it passes around, and the
  backlog and risk queries. The cache is a mutable dict: what an order put into it stays there when
  the order's savepoint is rolled back, so it is part of the state (\<open>w_product_cache\<close>).
\<close>

definition backlog_statuses :: "string set" where
  "backlog_statuses = {''pending'', ''processing'', ''backlog'', ''queued'', ''awaiting_fulfillment''}"

definition coerce_float :: "json \<Rightarrow> pyfloat \<Rightarrow> pyfloat res" where
  "coerce_float v d = (if v = JNull \<or> v = JStr [] then Inr d else
     (case jfloat v of Inr f \<Rightarrow> Inr f
      | Inl TypeError \<Rightarrow> Inr d
      | Inl (ValueError m) \<Rightarrow> Inr d
      | Inl e \<Rightarrow> Inl e))"

definition external_orders_base_url :: "env \<Rightarrow> string" where
  "external_orders_base_url E = str_or (external_orders_url (cfg E)) (str_or (octo_drone_shop_url (cfg E))
     (str_or (mushop_cloudnative_url (cfg E)) (octo_apm_cloudnative_url (cfg E))))"

definition source_name :: "env \<Rightarrow> string" where
  "source_name E = orders_sync_source_name (cfg E)"

subsection \<open>Fetching\<close>

text \<open>\<open>response.raise_for_status()\<close>.\<close>

definition raise_for_status :: "http_response \<Rightarrow> unit res" where
  "raise_for_status r = (if 200 \<le> hr_status r \<and> hr_status r < 300 then Inr () else Inl (TransportError (int_str (hr_status r))))"

fun first_list :: "json \<Rightarrow> string list \<Rightarrow> json list res" where
  "first_list payload [] = Inr []"
| "first_list payload (k # ks) = res_bind (jget payload k) (\<lambda>v.
     case v of JArr xs \<Rightarrow> Inr xs | _ \<Rightarrow> first_list payload ks)"

definition orders_of_payload :: "json \<Rightarrow> json list res" where
  "orders_of_payload payload = (case payload of
     JArr xs \<Rightarrow> Inr xs
   | _ \<Rightarrow> first_list payload [''orders'', ''items'', ''data'', ''results''])"

definition fetch_external_orders :: "env \<Rightarrow> string \<Rightarrow> string \<Rightarrow> int \<Rightarrow> json list handler" where
  "fetch_external_orders E base_url correlation_id limit =
     bind (outbound_headers E correlation_id) (\<lambda>hs.
     let key = drone_shop_internal_key (cfg E);
         headers = (if key \<noteq> [] then alist_set ''X-Internal-Service-Key'' key hs else hs) in
     bind (send E \<lparr>hc_method = ''GET'', hc_url = rstrip_slash base_url @ external_orders_path (cfg E),
                   hc_headers = headers, hc_body = JObj [(''limit'', JInt limit)]\<rparr>) (\<lambda>r.
     lift (res_bind (raise_for_status r) (\<lambda>_. res_bind (hr_json r) orders_of_payload))))"

subsection \<open>Normalising\<close>

record norm_item =
  ni_ref :: json
  ni_name :: json
  ni_quantity :: int
  ni_unit_price :: pyfloat

record norm_order =
  no_source_order_id :: string
  no_customer_email :: string
  no_customer_name :: json
  no_status :: string
  no_shipping_address :: json
  no_created_at :: int
  no_last_synced_at :: int
  no_total :: pyfloat
  no_notes :: json
  no_backlog_status :: string
  no_items :: "norm_item list"
  no_payload :: json

text \<open>The offset of a timestamp is dropped, not applied.\<close>

definition parse_dt :: "env \<Rightarrow> int \<Rightarrow> json \<Rightarrow> int" where
  "parse_dt E now v = (case v of
     JStr (c # s) \<Rightarrow> (case fromiso E (replace_char CHR ''Z'' ''+00:00'' (c # s)) of Some t \<Rightarrow> t | None \<Rightarrow> now)
   | _ \<Rightarrow> now)"

definition normalize_item :: "json \<Rightarrow> norm_item res" where
  "normalize_item item =
     res_bind (jget_first item [''quantity'', ''qty'']) (\<lambda>q.
     res_bind (jint (jor q (JInt 1))) (\<lambda>quantity.
     res_bind (jget_first item [''unit_price'', ''price'']) (\<lambda>p.
     res_bind (coerce_float (jor p (JFloat (Fin 0))) (Fin 0)) (\<lambda>unit_price.
     res_bind (jget_first item [''product_id'', ''sku'', ''product_sku'', ''name'']) (\<lambda>ref.
     res_bind (jget_first item [''product_name'', ''name'']) (\<lambda>nm.
     Inr \<lparr>ni_ref = ref, ni_name = jor nm (JStr ''Synced Item''), ni_quantity = quantity, ni_unit_price = unit_price\<rparr>))))))"

text \<open>The items and their total, in one loop as in the code.\<close>

fun normalize_items :: "json list \<Rightarrow> pyfloat \<Rightarrow> norm_item list \<Rightarrow> (pyfloat \<times> norm_item list) res" where
  "normalize_items [] t acc = Inr (t, acc)"
| "normalize_items (item # items) t acc = res_bind (normalize_item item) (\<lambda>ni.
     res_bind (int_mul (ni_quantity ni) (ni_unit_price ni)) (\<lambda>line.
     normalize_items items (fadd t line) (acc @ [ni])))"

text \<open>\<open>(d.get(k) or {}).get(k2)\<close>.\<close>

definition jget2 :: "json \<Rightarrow> string \<Rightarrow> string \<Rightarrow> json res" where
  "jget2 j k k2 = res_bind (jget j k) (\<lambda>v. jget (jor v (JObj [])) k2)"

definition discount_of :: "json \<Rightarrow> pyfloat res" where
  "discount_of raw = res_bind (jget_first raw [''discount'', ''discount_amount'']) (\<lambda>v.
     res_bind (if truthy v then Inr v else jget2 raw ''coupon'' ''discount'') (\<lambda>u.
     coerce_float (jor u (JFloat (Fin 0))) (Fin 0)))"

definition shipping_of :: "json \<Rightarrow> pyfloat res" where
  "shipping_of raw = res_bind (jget raw ''shipping_cost'') (\<lambda>v.
     res_bind (jfloat (jor v (JFloat (Fin 0)))) (\<lambda>cost.
     if fle cost (Fin 0)
     then res_bind (jget raw ''shipping_amount'') (\<lambda>a.
          res_bind (if truthy a then Inr a else jget2 raw ''shipment'' ''shipping_cost'') (\<lambda>u.
          coerce_float (jor u (JFloat (Fin 0))) (Fin 0)))
     else Inr cost))"

definition expected_total_of :: "pyfloat \<Rightarrow> pyfloat \<Rightarrow> pyfloat \<Rightarrow> pyfloat" where
  "expected_total_of computed discount shipping = fround2 (fadd (fmax (fsub computed discount) (Fin 0)) shipping)"

definition cent :: pyfloat where
  "cent = rnd (1 / 100)"

definition total_mismatch :: "norm_item list \<Rightarrow> pyfloat \<Rightarrow> pyfloat \<Rightarrow> bool" where
  "total_mismatch items declared expected = (items \<noteq> [] \<and> flt (fadd expected cent) declared)"

text \<open>All of the normalisation except its log entry: the order, and whether the entry is made.\<close>

definition normalize_pure :: "env \<Rightarrow> int \<Rightarrow> json \<Rightarrow> (norm_order \<times> bool) res" where
  "normalize_pure E now raw =
     res_bind (jget raw ''customer'') (\<lambda>cu. let customer = jor cu (JObj []) in
     res_bind (jget_first raw [''items'', ''lines'']) (\<lambda>its. let items = jor its (JArr []) in
     res_bind (jget raw ''customer_email'') (\<lambda>e1.
     res_bind (if truthy e1 then Inr e1 else jget customer ''email'') (\<lambda>e2.
     res_bind (if truthy e2 then Inr e2 else jget raw ''email'') (\<lambda>e3.
     res_bind (as_str (jor e3 (JStr []))) (\<lambda>es. let email = py_lower (py_strip es) in
     res_bind (jget customer ''name'') (\<lambda>n1.
     res_bind (if truthy n1 then Inr n1 else jget_first raw [''customer_name'', ''name'']) (\<lambda>n2.
     let name = jor n2 (jor (JStr (py_title (replace_char CHR ''.'' '' '' (hd (split_on CHR ''@'' email))))) (JStr ''External Customer'')) in
     res_bind (jget raw ''status'') (\<lambda>st. let status = py_lower (jstr (rep E) (jor st (JStr ''pending''))) in
     res_bind (jget_first raw [''created_at'', ''created'', ''submitted_at'']) (\<lambda>cr.
     res_bind (jiter items) (\<lambda>xs.
     res_bind (normalize_items xs (Fin 0) []) (\<lambda>(computed, nitems).
     res_bind (discount_of raw) (\<lambda>discount.
     res_bind (shipping_of raw) (\<lambda>shipping. let expected = expected_total_of computed discount shipping in
     res_bind (jget_first raw [''total'', ''amount'']) (\<lambda>tt.
     res_bind (coerce_float (jor tt (jor (JFloat expected) (JFloat (Fin 0)))) (Fin 0)) (\<lambda>declared.
     res_bind (jget_first raw [''id'', ''order_id'', ''number'']) (\<lambda>oid.
     res_bind (jget raw ''shipping_address'') (\<lambda>a1.
     res_bind (if truthy a1 then Inr a1 else jget customer ''address'') (\<lambda>a2.
     res_bind (jget_first raw [''notes'', ''comment'']) (\<lambda>nt.
     Inr (\<lparr>no_source_order_id = jstr (rep E) (jor oid (JStr [])), no_customer_email = email, no_customer_name = name,
           no_status = status, no_shipping_address = jor a2 (JStr []), no_created_at = parse_dt E now cr,
           no_last_synced_at = now, no_total = declared, no_notes = jor nt (JStr []),
           no_backlog_status = (if status \<in> backlog_statuses then ''backlog'' else ''current''),
           no_items = nitems, no_payload = raw\<rparr>,
          total_mismatch nitems declared expected)))))))))))))))))))))"

definition normalize_external_order :: "env \<Rightarrow> json \<Rightarrow> norm_order handler" where
  "normalize_external_order E raw = bind (gets w_now) (\<lambda>now.
     bind (lift (normalize_pure E now raw)) (\<lambda>(n, mismatch).
     seq (if mismatch
          then seq (security_span ''mass_assignment'' ''high'')
               (log_security_event ''mass_assignment'' ''high'' ''External order total mismatch detected'' [] []
                  (take 512 (dumps E raw)) [(''source_system'', JStr (source_name E))])
          else ret ())
     (ret n)))"

subsection \<open>Storing one order\<close>

definition resolve_customer :: "env \<Rightarrow> norm_order \<Rightarrow> int handler" where
  "resolve_customer E n =
     bind (if no_customer_email n \<noteq> []
           then query (\<lambda>d. tbl_find (\<lambda>r. c_email r = no_customer_email n) (customers d)) else ret None) (\<lambda>found.
     case found of Some (i, r) \<Rightarrow> ret i
     | None \<Rightarrow>
         bind (gets w_now) (\<lambda>now.
         bind (lift (res_bind (text_col (no_customer_name n)) (not_null ''name''))) (\<lambda>name.
         on_db (add_customer
           \<lparr>c_name = name,
            c_email = str_or (no_customer_email n) (no_source_order_id n @ ''@external.local''),
            c_phone = None, c_company = Some (source_name E), c_industry = Some ''Retail'',
            c_revenue = Some (no_total n),
            c_notes = Some (''Auto-created from '' @ source_name E @ '' sync''),
            c_created_at = now, c_updated_at = now\<rparr>))))"

definition find_source_order :: "string \<Rightarrow> string \<Rightarrow> db \<Rightarrow> (int \<times> order_row) option" where
  "find_source_order src oid d =
     tbl_find (\<lambda>r. o_source_system r = Some src \<and> o_source_order_id r = Some oid) (orders d)"

definition upsert_order :: "env \<Rightarrow> int \<Rightarrow> norm_order \<Rightarrow> string \<Rightarrow> (string \<times> int \<times> order_row) handler" where
  "upsert_order E customer_id n correlation_id =
     bind (query (find_source_order (source_name E) (no_source_order_id n))) (\<lambda>found.
     bind (lift (text_col (no_notes n))) (\<lambda>notes.
     bind (lift (text_col (no_shipping_address n))) (\<lambda>address.
     case found of
       None \<Rightarrow>
         (let r = \<lparr>o_customer_id = Some customer_id, o_total = no_total n, o_status = Some (no_status n),
            o_notes = notes, o_shipping_address = address, o_source_system = Some (source_name E),
            o_source_order_id = Some (no_source_order_id n), o_source_customer_email = Some (no_customer_email n),
            o_sync_status = Some ''synced'', o_backlog_status = Some (no_backlog_status n), o_sync_error = Some [],
            o_source_payload = Some (dumps E (no_payload n)), o_correlation_id = Some correlation_id,
            o_last_synced_at = Some (no_last_synced_at n), o_created_at = no_created_at n\<rparr> in
          bind (on_db (add_order r)) (\<lambda>i. ret (''created'', i, r)))
     | Some (i, old) \<Rightarrow>
         (let r = old\<lparr>o_customer_id := Some customer_id, o_total := no_total n, o_status := Some (no_status n),
            o_notes := notes, o_shipping_address := address, o_source_customer_email := Some (no_customer_email n),
            o_sync_status := Some ''synced'', o_backlog_status := Some (no_backlog_status n), o_sync_error := Some [],
            o_source_payload := Some (dumps E (no_payload n)), o_last_synced_at := Some (no_last_synced_at n),
            o_correlation_id := Some correlation_id\<rparr> in
          seq (on_db (put_order i r)) (ret (''updated'', i, r))))))"

subsection \<open>Products of synced items\<close>

fun product_entries :: "(int \<times> product_row) list \<Rightarrow> (string \<times> int) list \<Rightarrow> (string \<times> int) list" where
  "product_entries [] cache = cache"
| "product_entries ((i, p) # ps) cache = product_entries ps
     (alist_set (int_str i) i (alist_set (py_lower (p_name p)) i (alist_set (py_lower (p_sku p)) i cache)))"

definition product_lookup :: "unit handler" where
  "product_lookup = bind (query (\<lambda>d. rows (products d))) (\<lambda>ps.
     modify (\<lambda>w. w\<lparr>w_product_cache := product_entries ps []\<rparr>))"

definition item_ref :: "env \<Rightarrow> norm_item \<Rightarrow> string" where
  "item_ref E ni = py_lower (jstr (rep E) (jor (ni_ref ni) (jor (ni_name ni) (JStr []))))"

definition sync_sku :: "env \<Rightarrow> norm_item \<Rightarrow> string" where
  "sync_sku E ni = ''SYNC-'' @ py_upper (take 8 (md5_hex E (str_or (item_ref E ni) (jstr (rep E) (ni_name ni)))))"

definition resolve_product :: "env \<Rightarrow> norm_item \<Rightarrow> int handler" where
  "resolve_product E ni = bind (gets w_product_cache) (\<lambda>cache.
     case map_of cache (item_ref E ni) of
       Some i \<Rightarrow> ret i
     | None \<Rightarrow>
         bind (gets w_now) (\<lambda>now.
         bind (lift (res_bind (text_col (ni_name ni)) (not_null ''name''))) (\<lambda>name.
         bind (on_db (add_product
           \<lparr>p_shop_id = None, p_name = name, p_sku = sync_sku E ni,
            p_description = Some (''Auto-created from '' @ source_name E), p_price = ni_unit_price ni, p_stock = 999,
            p_category = Some ''External Sync'', p_image_url = None, p_is_active = 1, p_created_at = now\<rparr>)) (\<lambda>i.
         seq (modify (\<lambda>w. w\<lparr>w_product_cache :=
                alist_set (py_lower name) i (alist_set (py_lower (sync_sku E ni)) i (w_product_cache w))\<rparr>))
         (ret i)))))"

definition item_json :: "norm_item \<Rightarrow> json" where
  "item_json ni = JObj [(''product_ref'', ni_ref ni), (''product_name'', ni_name ni),
     (''quantity'', JInt (ni_quantity ni)), (''unit_price'', JFloat (ni_unit_price ni))]"

definition store_item :: "env \<Rightarrow> int \<Rightarrow> norm_item \<Rightarrow> unit \<Rightarrow> unit handler" where
  "store_item E order_id ni u = bind (resolve_product E ni) (\<lambda>pid.
     seq (if ni_quantity ni < 0
          then seq (security_span ''mass_assignment'' ''critical'')
               (log_security_event ''mass_assignment'' ''critical'' ''Negative quantity detected during order sync''
                  [] [] (take 512 (dumps E (item_json ni))) [])
          else ret ())
     (bind (on_db (add_order_item \<lparr>oi_order_id = Some order_id, oi_product_id = Some pid,
                     oi_quantity = ni_quantity ni, oi_unit_price = ni_unit_price ni\<rparr>)) (\<lambda>_. ret ())))"

definition replace_order_items :: "env \<Rightarrow> int \<Rightarrow> norm_item list \<Rightarrow> unit handler" where
  "replace_order_items E order_id items = seq (on_db (drop_order_items order_id)) (foldM (store_item E order_id) items ())"

definition record_sync_audit :: "env \<Rightarrow> string \<Rightarrow> string \<Rightarrow> string \<Rightarrow> string \<Rightarrow> string \<Rightarrow> unit handler" where
  "record_sync_audit E source_order_id action status message correlation_id = bind (gets w_now) (\<lambda>now.
     bind (on_db (add_sync_audit
       \<lparr>osa_source_system = source_name E, osa_source_order_id = Some source_order_id, osa_sync_action = action,
        osa_sync_status = status, osa_message = Some message, osa_correlation_id = Some correlation_id,
        osa_trace_id = Some (trace_id E), osa_created_at = now\<rparr>)) (\<lambda>_. ret ()))"

subsection \<open>The batch\<close>

record sync_result =
  sr_created :: int
  sr_updated :: int
  sr_failed :: int
  sr_orders :: "json list"

definition empty_result :: sync_result where
  "empty_result = \<lparr>sr_created = 0, sr_updated = 0, sr_failed = 0, sr_orders = []\<rparr>"

definition synced_json :: "int \<Rightarrow> order_row \<Rightarrow> json" where
  "synced_json i r = JObj [(''id'', JInt i), (''source_order_id'', jopt (o_source_order_id r)),
     (''status'', jopt (o_status r)), (''backlog_status'', jopt (o_backlog_status r)), (''total'', JFloat (o_total r))]"

definition count_action :: "string \<Rightarrow> int \<Rightarrow> order_row \<Rightarrow> sync_result \<Rightarrow> sync_result" where
  "count_action action i r acc =
     (if action = ''created'' then acc\<lparr>sr_created := sr_created acc + 1\<rparr> else acc\<lparr>sr_updated := sr_updated acc + 1\<rparr>)
       \<lparr>sr_orders := sr_orders acc @ [synced_json i r]\<rparr>"

text \<open>The body of one order's savepoint.\<close>

definition store_order :: "env \<Rightarrow> string \<Rightarrow> norm_order \<Rightarrow> (string \<times> int \<times> order_row) handler" where
  "store_order E correlation_id n =
     bind (resolve_customer E n) (\<lambda>cid.
     bind (upsert_order E cid n correlation_id) (\<lambda>(action, i, r).
     seq (replace_order_items E i (no_items n))
     (seq (record_sync_audit E (no_source_order_id n) action ''success''
             (action @ '' order from '' @ source_name E) correlation_id)
     (ret (action, i, r)))))"

definition sync_one :: "env \<Rightarrow> string \<Rightarrow> json \<Rightarrow> sync_result \<Rightarrow> sync_result handler" where
  "sync_one E correlation_id raw acc = bind (normalize_external_order E raw) (\<lambda>n.
     if no_source_order_id n = []
     then seq (record_sync_audit E [] ''skip'' ''invalid'' ''Missing source order id'' correlation_id)
          (ret (acc\<lparr>sr_failed := sr_failed acc + 1\<rparr>))
     else catch
       (bind (transaction (store_order E correlation_id n)) (\<lambda>(action, i, r). ret (count_action action i r acc)))
       (\<lambda>e. seq (record_sync_audit E (no_source_order_id n) ''upsert'' ''failed'' (exc_str e) correlation_id)
            (ret (acc\<lparr>sr_failed := sr_failed acc + 1\<rparr>))))"

definition sync_batch :: "env \<Rightarrow> string \<Rightarrow> json list \<Rightarrow> sync_result handler" where
  "sync_batch E correlation_id raws =
     session_factory E (seq product_lookup (foldM (sync_one E correlation_id) raws empty_result))"

definition sync_external_orders :: "env \<Rightarrow> string \<Rightarrow> int \<Rightarrow> json handler" where
  "sync_external_orders E seed limit = bind (build_correlation_id E seed) (\<lambda>cid.
     let base_url = external_orders_base_url E in
     if base_url = [] then ret (JObj [(''status'', JStr ''skipped''),
        (''reason'', JStr ''external order source not configured''), (''correlation_id'', JStr cid)]) else
     bind (catch (bind (fetch_external_orders E base_url cid limit) (\<lambda>os. ret (Inr os)))
       (\<lambda>e. seq (push_log ''ERROR'' ''External orders sync fetch failed''
                  [(''orders.sync.source'', JStr (source_name E)), (''error.message'', JStr (exc_str e)), (''correlation.id'', JStr cid)])
            (ret (Inl (JObj [(''status'', JStr ''failed''), (''reason'', JStr (exc_str e)),
                  (''source'', JStr (source_name E)), (''correlation_id'', JStr cid)]))))) (\<lambda>got.
     case got of Inl response \<Rightarrow> ret response
     | Inr os \<Rightarrow>
         bind (sync_batch E cid os) (\<lambda>r.
         seq (push_log (if sr_failed r = 0 then ''INFO'' else ''WARNING'') ''External orders sync completed''
                [(''orders.sync.source'', JStr (source_name E)), (''orders.sync.created'', JInt (sr_created r)),
                 (''orders.sync.updated'', JInt (sr_updated r)), (''orders.sync.failed'', JInt (sr_failed r)),
                 (''correlation.id'', JStr cid)])
         (ret (JObj [(''created'', JInt (sr_created r)), (''updated'', JInt (sr_updated r)), (''failed'', JInt (sr_failed r)),
                (''orders'', JArr (sr_orders r)), (''source'', JStr (source_name E)), (''correlation_id'', JStr cid)])))))"

subsection \<open>Backlog and risk\<close>

definition order_count :: "(order_row \<Rightarrow> bool) \<Rightarrow> db \<Rightarrow> int" where
  "order_count p d = int (length (tbl_select p (orders d)))"

definition is_backlog :: "order_row \<Rightarrow> bool" where
  "is_backlog r = (o_backlog_status r = Some ''backlog'')"

definition order_security_summary :: "env \<Rightarrow> json handler" where
  "order_security_summary E = bind (gets w_now) (\<lambda>now.
     let cutoff = now - max (backlog_order_age_minutes (cfg E)) 1 * 60 * sec;
         threshold = suspicious_order_total_threshold (cfg E) in
     session_factory E (bind (query (\<lambda>d. d)) (\<lambda>d.
     bind (lift (int_to_float threshold)) (\<lambda>t.
     ret (JObj
       [(''total_orders'', JInt (order_count (\<lambda>_. True) d)),
        (''backlog_orders'', JInt (order_count is_backlog d)),
        (''stale_backlog_orders'', JInt (order_count (\<lambda>r. is_backlog r \<and> o_created_at r < cutoff) d)),
        (''suspicious_totals'', JInt (order_count (\<lambda>r. sql_fge (o_total r) t) d)),
        (''failed_syncs'', JInt (int (length (tbl_select (\<lambda>r. osa_sync_status r = ''failed'') (order_sync_audit d))))),
        (''thresholds'', JObj [(''suspicious_order_total'', JInt threshold),
           (''backlog_age_minutes'', JInt (backlog_order_age_minutes (cfg E)))])])))))"

definition list_backlog_orders :: "env \<Rightarrow> (int \<times> order_row) list handler" where
  "list_backlog_orders E = session_factory E (query (\<lambda>d.
     take 50 (order_desc (\<lambda>p. o_created_at (snd p)) (tbl_select is_backlog (orders d)))))"

subsection \<open>Safety\<close>

lemma safe_fetch_external_orders [safe_intro]: "W.safe E A (fetch_external_orders E b c l)"
  unfolding fetch_external_orders_def Let_def by (intro safe_intro)

lemma safe_normalize_external_order [safe_intro]: "W.safe E A (normalize_external_order E raw)"
  unfolding normalize_external_order_def by (intro safe_intro)

lemma safe_resolve_customer [safe_intro]: "W.safe E A (resolve_customer E n)"
  unfolding resolve_customer_def by (intro safe_intro)

lemma safe_upsert_order [safe_intro]: "W.safe E A (upsert_order E c n k)"
  unfolding upsert_order_def Let_def by (intro safe_intro)

lemma safe_product_lookup [safe_intro]: "W.safe E A product_lookup"
  unfolding product_lookup_def by (intro safe_intro safe_modify_db) simp

lemma safe_resolve_product [safe_intro]: "W.safe E A (resolve_product E ni)"
  unfolding resolve_product_def by (intro safe_intro safe_modify_db) simp

lemma safe_store_item [safe_intro]: "W.safe E A (store_item E i ni u)"
  unfolding store_item_def by (intro safe_intro)

lemma safe_replace_order_items [safe_intro]: "W.safe E A (replace_order_items E i items)"
  unfolding replace_order_items_def by (intro safe_intro)

lemma safe_record_sync_audit [safe_intro]: "W.safe E A (record_sync_audit E i a s m c)"
  unfolding record_sync_audit_def by (intro safe_intro)

lemma safe_store_order [safe_intro]: "W.safe E A (store_order E c n)"
  unfolding store_order_def by (intro safe_intro)

lemma safe_sync_one [safe_intro]: "W.safe E A (sync_one E c raw acc)"
  unfolding sync_one_def by (intro safe_intro)

lemma safe_sync_batch [safe_intro]: "W.safe E A (sync_batch E c raws)"
  unfolding sync_batch_def by (intro safe_intro)

lemma safe_sync_external_orders [safe_intro]: "W.safe E A (sync_external_orders E c l)"
  unfolding sync_external_orders_def Let_def by (intro safe_intro)

lemma safe_order_security_summary [safe_intro]: "W.safe E A (order_security_summary E)"
  unfolding order_security_summary_def Let_def by (intro safe_intro)

lemma safe_list_backlog_orders [safe_intro]: "W.safe E A (list_backlog_orders E)"
  unfolding list_backlog_orders_def by (intro safe_intro)

end
