(* ===== verification/Orders.thy ===== *)
theory Orders
  imports OrderSync
begin

text \<open>
  \<open>server/modules/orders.py\<close>: listing, detail, creation and status of orders. The total of a new
  order is computed from the stored prices; the client's total is only compared with it.
\<close>

definition iso :: "env \<Rightarrow> int \<Rightarrow> json" where
  "iso E t = JStr (isoformat E t)"

definition iso_opt :: "env \<Rightarrow> int option \<Rightarrow> json" where
  "iso_opt E v = (case v of None \<Rightarrow> JNull | Some t \<Rightarrow> iso E t)"

text \<open>\<open>v or d\<close> on a nullable text column.\<close>

definition text_or :: "string option \<Rightarrow> string \<Rightarrow> string" where
  "text_or v d = str_or (opt_str v) d"

definition customer_of :: "db \<Rightarrow> order_row \<Rightarrow> customer_row option" where
  "customer_of d o' = (case o_customer_id o' of None \<Rightarrow> None | Some c \<Rightarrow> tbl_get (customers d) c)"

definition serialize_order :: "env \<Rightarrow> db \<Rightarrow> int \<times> order_row \<Rightarrow> (string \<times> json) list" where
  "serialize_order E d p = (case p of (i, o') \<Rightarrow>
     [(''id'', JInt i),
      (''customer_id'', jint_opt (o_customer_id o')),
      (''customer_name'', JStr (case customer_of d o' of None \<Rightarrow> ''Unknown'' | Some c \<Rightarrow> c_name c)),
      (''customer_email'', JStr (text_or (o_source_customer_email o') (case customer_of d o' of None \<Rightarrow> [] | Some c \<Rightarrow> c_email c))),
      (''total'', JFloat (o_total o')),
      (''status'', jopt (o_status o')),
      (''source_system'', JStr (text_or (o_source_system o') ''enterprise-crm'')),
      (''source_order_id'', jopt (o_source_order_id o')),
      (''sync_status'', JStr (text_or (o_sync_status o') ''local'')),
      (''backlog_status'', JStr (text_or (o_backlog_status o') ''current'')),
      (''correlation_id'', jopt (o_correlation_id o')),
      (''last_synced_at'', iso_opt E (o_last_synced_at o')),
      (''created_at'', iso E (o_created_at o'))])"

definition list_orders :: "env \<Rightarrow> string \<Rightarrow> int \<Rightarrow> bool \<Rightarrow> int \<Rightarrow> int \<Rightarrow> json handler" where
  "list_orders E status customer_id backlog_only limit offset =
     (if \<not> page_ok limit offset then raise (HTTPException 422 ''Unprocessable Entity'') else
      bind (get_db E (query (\<lambda>d. map (serialize_order E d) (page limit offset
        (order_desc (\<lambda>p. o_created_at (snd p)) (tbl_select (\<lambda>r.
           (status = [] \<or> o_status r = Some status) \<and>
           (customer_id = 0 \<or> o_customer_id r = Some customer_id) \<and>
           (backlog_only \<longrightarrow> o_backlog_status r = Some ''backlog'')) (orders d))))))) (\<lambda>payload.
      ret (JObj [(''orders'', JArr (map JObj payload)), (''total'', JInt (int (length payload))),
        (''limit'', JInt limit), (''offset'', JInt offset),
        (''database_target'', JStr (database_target_label (cfg E))), (''source'', JStr (source_name E))])))"

definition backlog_orders :: "env \<Rightarrow> json handler" where
  "backlog_orders E = bind (list_backlog_orders E) (\<lambda>os. bind (query (\<lambda>d. d)) (\<lambda>d.
     ret (JObj [(''orders'', JArr (map (\<lambda>p. JObj (serialize_order E d p)) os)), (''total'', JInt (int (length os)))])))"

definition security_summary :: "env \<Rightarrow> json handler" where
  "security_summary E = order_security_summary E"

definition sync_orders :: "env \<Rightarrow> request \<Rightarrow> json handler" where
  "sync_orders E rq = bind (build_correlation_id E (opt_str (rq_correlation_id rq))) (\<lambda>cid.
     bind (sync_external_orders E cid 200) (\<lambda>r.
     bind (lift (jget_or r ''created'' (JInt 0))) (\<lambda>c. bind (lift (jget_or r ''updated'' (JInt 0))) (\<lambda>u.
     bind (lift (jget_or r ''failed'' (JInt 0))) (\<lambda>f.
     seq (metric ''order_sync'' [c, u, f]) (ret r))))))"

definition items_of :: "db \<Rightarrow> int \<Rightarrow> (int \<times> order_item_row) list" where
  "items_of d oid = tbl_select (\<lambda>r. oi_order_id r = Some oid) (order_items d)"

definition item_detail :: "db \<Rightarrow> int \<times> order_item_row \<Rightarrow> json res" where
  "item_detail d p = (case p of (i, it) \<Rightarrow>
     res_bind (int_mul (oi_quantity it) (oi_unit_price it)) (\<lambda>line.
     Inr (JObj
     [(''id'', JInt i), (''product_id'', jint_opt (oi_product_id it)),
      (''product_name'', JStr (case oi_product_id it of None \<Rightarrow> ''Unknown''
         | Some k \<Rightarrow> (case tbl_get (products d) k of None \<Rightarrow> ''Unknown'' | Some q \<Rightarrow> p_name q))),
      (''quantity'', JInt (oi_quantity it)), (''unit_price'', JFloat (oi_unit_price it)), (''line_total'', JFloat line)])))"

definition null_if_empty :: "string \<Rightarrow> json" where
  "null_if_empty s = (if s = [] then JNull else JStr s)"

definition get_order :: "env \<Rightarrow> int \<Rightarrow> request \<Rightarrow> json handler" where
  "get_order E order_id rq = bind (get_db E (query (\<lambda>d. (d, tbl_get (orders d) order_id)))) (\<lambda>(d, found).
     case found of None \<Rightarrow> ret (JObj [(''error'', JStr ''Order not found'')])
     | Some o' \<Rightarrow>
         bind (lift (res_map (item_detail d) (items_of d order_id))) (\<lambda>items.
         bind (if opt_str (o_correlation_id o') \<noteq> [] then ret (opt_str (o_correlation_id o'))
               else build_correlation_id E (opt_str (rq_correlation_id rq))) (\<lambda>cid.
         ret (JObj [(''order'', JObj (obj_update (serialize_order E d (order_id, o'))
           [(''notes'', jopt (o_notes o')), (''shipping_address'', jopt (o_shipping_address o')),
            (''sync_error'', jopt (o_sync_error o')), (''items'', JArr items),
            (''db_drilldown'', JObj
              [(''database_target'', JStr (database_target_label (cfg E))),
               (''atp_ocid'', null_if_empty (atp_ocid (cfg E))),
               (''atp_connection_name'', null_if_empty (oracle_dsn (cfg E))),
               (''db_query_preview'', JStr ''SELECT * FROM orders WHERE id = :id; SELECT * FROM order_items WHERE order_id = :id''),
               (''db_management_console_url'', JStr (db_management_console_url (cfg E))),
               (''opsi_console_url'', JStr (opsi_console_url (cfg E)))]),
            (''telemetry'', JObj
              [(''correlation_id'', JStr cid), (''trace_id'', JStr (trace_id E)), (''span_id'', JStr (span_id E)),
               (''traceparent'', JStr (traceparent E)), (''apm_console_url'', JStr (apm_console_url (cfg E))),
               (''log_analytics_console_url'', JStr (log_analytics_console_url (cfg E)))])]))]))))"

subsection \<open>Creation\<close>

definition require_internal_key_if_configured :: "env \<Rightarrow> request \<Rightarrow> unit handler" where
  "require_internal_key_if_configured E rq =
     (let required = drone_shop_internal_key (cfg E);
          supplied = py_strip (opt_str (header rq ''x-internal-service-key'')) in
      if required = [] then ret ()
      else if supplied = [] \<or> supplied \<noteq> required
      then raise (HTTPException 401 ''Invalid or missing X-Internal-Service-Key'')
      else ret ())"

text \<open>The items of the body, or the one item its top-level product stands for.\<close>

definition body_items :: "json \<Rightarrow> json res" where
  "body_items body = res_bind (jget body ''items'') (\<lambda>its.
     let items = jor its (JArr []) in
     if truthy items then Inr items else
     res_bind (jget body ''product_id'') (\<lambda>pid.
     if \<not> truthy pid then Inr items else
     res_bind (jget body ''quantity'') (\<lambda>q. res_bind (jint (jor q (JInt 1))) (\<lambda>quantity.
     res_bind (jget body ''unit_price'') (\<lambda>u. res_bind (jfloat (jor u (JInt 0))) (\<lambda>unit_price.
     Inr (JArr [JObj [(''product_id'', pid), (''quantity'', JInt quantity), (''unit_price'', JFloat unit_price)]])))))))"

definition item_int :: "json \<Rightarrow> string \<Rightarrow> int res" where
  "item_int item k = res_bind (jget item k) (\<lambda>v. jint (jor v (JInt 0)))"

fun product_ids :: "json list \<Rightarrow> int list res" where
  "product_ids [] = Inr []"
| "product_ids (item # items) = res_bind (jget item ''product_id'') (\<lambda>v.
     if truthy v then res_bind (item_int item ''product_id'') (\<lambda>i. res_bind (product_ids items) (\<lambda>is. Inr (i # is)))
     else product_ids items)"

record priced_item =
  pi_product :: "int option"
  pi_quantity :: int
  pi_unit_price :: pyfloat

text \<open>The price of an item: the product's, and the client's where the product is not known.\<close>

definition item_price :: "(int \<times> product_row) list \<Rightarrow> json \<Rightarrow> (int option \<times> pyfloat) res" where
  "item_price ps item = res_bind (item_int item ''product_id'') (\<lambda>pid.
     case map_of ps pid of
       Some p \<Rightarrow> Inr (Some pid, p_price p)
     | None \<Rightarrow> res_bind (jget item ''unit_price'') (\<lambda>u. res_bind (jfloat (jor u (JFloat (Fin 0)))) (\<lambda>f. Inr (None, f))))"

text \<open>The loop over the items; None where it returns at a quantity that is not positive.\<close>

fun price_items :: "env \<Rightarrow> request \<Rightarrow> (int \<times> product_row) list \<Rightarrow> json list \<Rightarrow> pyfloat \<Rightarrow> priced_item list
    \<Rightarrow> (pyfloat \<times> priced_item list) option handler" where
  "price_items E rq ps [] t acc = ret (Some (t, acc))"
| "price_items E rq ps (item # items) t acc = bind (lift (item_int item ''quantity'')) (\<lambda>quantity.
     if quantity \<le> 0
     then seq (security_span ''mass_assignment'' ''high'')
         (seq (log_security_event ''mass_assignment'' ''high'' ''Invalid quantity detected on order create''
                (client_ip rq) [] (jstr (rep E) item) [])
         (ret None))
     else bind (lift (item_price ps item)) (\<lambda>(pid, price).
          bind (lift (int_mul quantity price)) (\<lambda>line.
          price_items E rq ps items (fadd t line)
            (acc @ [\<lparr>pi_product = pid, pi_quantity = quantity, pi_unit_price = price\<rparr>]))))"

definition log_tampering :: "env \<Rightarrow> request \<Rightarrow> string \<Rightarrow> pyfloat \<Rightarrow> pyfloat \<Rightarrow> unit handler" where
  "log_tampering E rq cid client_total computed =
     (if ftruthy client_total \<and> flt cent (fabs (fsub client_total computed))
      then seq (security_span ''mass_assignment'' ''critical'')
           (log_security_event ''mass_assignment'' ''critical'' ''Order total tampering detected'' (client_ip rq) []
             (''client_total='' @ rep E (JFloat client_total) @ '', computed_total='' @ rep E (JFloat computed))
             [(''correlation_id'', JStr cid)])
      else ret ())"

definition add_priced_item :: "int \<Rightarrow> priced_item \<Rightarrow> unit \<Rightarrow> unit handler" where
  "add_priced_item oid it u = bind (on_db (add_order_item \<lparr>oi_order_id = Some oid, oi_product_id = pi_product it,
     oi_quantity = pi_quantity it, oi_unit_price = pi_unit_price it\<rparr>)) (\<lambda>_. ret ())"

definition new_order :: "env \<Rightarrow> json \<Rightarrow> int \<Rightarrow> customer_row \<Rightarrow> string \<Rightarrow> pyfloat \<Rightarrow> order_row handler" where
  "new_order E body cid c corr t =
     bind (lift (res_bind (jget body ''source_system'') (\<lambda>v. as_str (jor v (JStr []))))) (\<lambda>sys.
     bind (lift (res_bind (jget body ''source_order_id'') (\<lambda>v. as_str (jor v (JStr []))))) (\<lambda>soid.
     bind (if py_strip soid \<noteq> [] then ret (py_strip soid)
           else bind (draw E) (\<lambda>u. ret (''manual-'' @ int_str cid @ ''-'' @ take 12 u))) (\<lambda>source_order_id.
     bind (lift (res_bind (jget_or body ''notes'' (JStr [])) text_col)) (\<lambda>notes.
     bind (lift (res_bind (jget_or body ''shipping_address'' (JStr [])) text_col)) (\<lambda>address.
     bind (gets w_now) (\<lambda>now.
     ret \<lparr>o_customer_id = Some cid, o_total = t, o_status = Some ''pending'', o_notes = notes,
          o_shipping_address = address, o_source_system = Some (str_or (py_strip sys) ''enterprise-crm''),
          o_source_order_id = Some source_order_id, o_source_customer_email = Some (c_email c),
          o_sync_status = Some ''local'', o_backlog_status = Some ''backlog'', o_sync_error = None,
          o_source_payload = None, o_correlation_id = Some corr, o_last_synced_at = None, o_created_at = now\<rparr>))))))"

text \<open>The session of \<open>create_order\<close>: an error response, or the id, the total and the items.\<close>

definition create_order_tx :: "env \<Rightarrow> request \<Rightarrow> json \<Rightarrow> string \<Rightarrow> int \<Rightarrow> json \<Rightarrow> (string + int \<times> pyfloat \<times> priced_item list) handler" where
  "create_order_tx E rq body corr customer_id items =
     bind (if customer_id \<noteq> 0 then query (\<lambda>d. tbl_get (customers d) customer_id) else ret None) (\<lambda>customer.
     case customer of None \<Rightarrow> ret (Inl ''Customer not found'')
     | Some c \<Rightarrow>
       bind (lift (jiter items)) (\<lambda>xs.
       bind (lift (product_ids xs)) (\<lambda>ids.
       bind (query (\<lambda>d. filter (\<lambda>p. fst p \<in> set ids) (rows (products d)))) (\<lambda>ps.
       bind (price_items E rq ps xs (Fin 0) []) (\<lambda>priced.
       case priced of None \<Rightarrow> ret (Inl ''Quantity must be positive'')
       | Some (t, its) \<Rightarrow>
         bind (lift (res_bind (jget body ''total'') (\<lambda>v. jfloat (jor v (JFloat (Fin 0)))))) (\<lambda>client_total.
         seq (log_tampering E rq corr client_total t)
         (bind (new_order E body customer_id c corr t) (\<lambda>r.
          bind (on_db (add_order r)) (\<lambda>oid.
          seq (foldM (add_priced_item oid) its ()) (ret (Inr (oid, t, its)))))))))))) "

definition create_order :: "env \<Rightarrow> request \<Rightarrow> json handler" where
  "create_order E rq =
     seq (require_internal_key_if_configured E rq)
     (bind (lift (rq_body rq)) (\<lambda>body.
      bind (build_correlation_id E (opt_str (rq_correlation_id rq))) (\<lambda>corr.
      bind (lift (item_int body ''customer_id'')) (\<lambda>customer_id.
      bind (lift (body_items body)) (\<lambda>items.
      bind (get_db E (create_order_tx E rq body corr customer_id items)) (\<lambda>outcome.
      case outcome of Inl msg \<Rightarrow> ret (JObj [(''error'', JStr msg)])
      | Inr (oid, t, its) \<Rightarrow>
          seq (metric ''order_created'' [JFloat t, JStr ''enterprise-crm''])
          (seq (push_log ''INFO'' (''Order #'' @ int_str oid @ '' created'')
                 [(''orders.id'', JInt oid), (''orders.total'', JFloat t), (''orders.items_count'', JInt (int (length its))),
                  (''orders.source_system'', JStr ''enterprise-crm''), (''correlation.id'', JStr corr)])
          (ret (JObj [(''status'', JStr ''created''), (''order_id'', JInt oid), (''total'', JFloat t)])))))))))"

definition update_order_status :: "env \<Rightarrow> int \<Rightarrow> request \<Rightarrow> json handler" where
  "update_order_status E order_id rq =
     bind (lift (rq_body rq)) (\<lambda>body.
     bind (lift (jget body ''status'')) (\<lambda>v.
     let new_status = py_lower (py_strip (jstr (rep E) (jor v (JStr [])))) in
     bind (get_db E (bind (query (\<lambda>d. tbl_get (orders d) order_id)) (\<lambda>found.
       case found of None \<Rightarrow> ret False
       | Some o' \<Rightarrow> seq (on_db (put_order order_id (o'\<lparr>o_status := Some new_status,
            o_backlog_status := Some (if new_status \<in> {''pending'', ''processing'', ''queued''} then ''backlog'' else ''current'')\<rparr>)))
           (ret True)))) (\<lambda>ok.
     if \<not> ok then ret (JObj [(''error'', JStr ''Order not found'')])
     else ret (JObj [(''status'', JStr ''updated''), (''order_id'', JInt order_id), (''new_status'', JStr new_status)]))))"

subsection \<open>Safety\<close>

lemma safe_list_orders [safe_intro]: "W.safe E A (list_orders E s c b l k)"
  unfolding list_orders_def by (intro safe_intro)

lemma safe_backlog_orders [safe_intro]: "W.safe E A (backlog_orders E)"
  unfolding backlog_orders_def by (intro safe_intro)

lemma safe_sync_orders [safe_intro]: "W.safe E A (sync_orders E rq)"
  unfolding sync_orders_def by (intro safe_intro)

lemma safe_get_order [safe_intro]: "W.safe E A (get_order E i rq)"
  unfolding get_order_def by (intro safe_intro)

lemma safe_price_items [safe_intro]: "W.safe E A (price_items E rq ps xs t acc)"
  by (induction xs arbitrary: t acc) (simp_all, (intro safe_intro | assumption)+)

lemma safe_new_order [safe_intro]: "W.safe E A (new_order E b i c k t)"
  unfolding new_order_def by (intro safe_intro)

lemma safe_add_priced_item [safe_intro]: "W.safe E A (add_priced_item i it u)"
  unfolding add_priced_item_def by (intro safe_intro)

lemma safe_create_order_tx [safe_intro]: "W.safe E A (create_order_tx E rq b k c items)"
  unfolding create_order_tx_def log_tampering_def by (intro safe_intro)

lemma safe_create_order [safe_intro]: "W.safe E A (create_order E rq)"
  unfolding create_order_def require_internal_key_if_configured_def Let_def by (intro safe_intro)

lemma safe_update_order_status [safe_intro]: "W.safe E A (update_order_status E i rq)"
  unfolding update_order_status_def Let_def by (intro safe_intro)

end
