(* ===== verification/Orders_Facts.thy ===== *)
theory Orders_Facts
  imports Orders
begin

text \<open>
  What creating an order stores: positive quantities at the prices of the product table, a total
  that is their sum, and either the whole order or nothing.
\<close>

subsection \<open>Pricing\<close>

text \<open>The total of priced items, in their order (float addition is not associative).\<close>

definition items_total :: "priced_item list \<Rightarrow> pyfloat \<Rightarrow> pyfloat res" where
  "items_total = res_fold (\<lambda>it t. res_bind (int_mul (pi_quantity it) (pi_unit_price it)) (\<lambda>line. Inr (fadd t line)))"

definition well_priced :: "(int \<times> product_row) list \<Rightarrow> priced_item \<Rightarrow> bool" where
  "well_priced ps it \<longleftrightarrow> 0 < pi_quantity it \<and>
     (\<forall>pid. pi_product it = Some pid \<longrightarrow> (\<exists>p. map_of ps pid = Some p \<and> pi_unit_price it = p_price p))"

lemma item_price_known:
  "item_price ps item = Inr (pid, price) \<Longrightarrow> pid = Some k \<Longrightarrow> \<exists>p. map_of ps k = Some p \<and> price = p_price p"
  by (auto simp: item_price_def res_bind_Inr_iff split: option.splits)

lemma price_items_Some:
  "price_items E rq ps xs t acc w = (Inr (Some (t', its)), v) \<Longrightarrow>
     v = w \<and> (\<exists>new. its = acc @ new \<and> length new = length xs \<and> items_total new t = Inr t' \<and> list_all (well_priced ps) new)"
proof (induction xs arbitrary: t acc)
  case Nil
  then show ?case by (auto simp: items_total_def)
next
  case (Cons x xs)
  obtain q where q: "item_int x ''quantity'' = Inr q" "0 < q"
    using Cons.prems by (auto simp: bind_run seq_run split: sum.splits prod.splits if_splits)
  obtain pid price where p: "item_price ps x = Inr (pid, price)"
    using Cons.prems q by (cases "item_price ps x") (auto simp: bind_run)
  obtain line where l: "int_mul q price = Inr line"
    using Cons.prems q p by (cases "int_mul q price") (auto simp: bind_run)
  let ?it = "\<lparr>pi_product = pid, pi_quantity = q, pi_unit_price = price\<rparr>"
  have "price_items E rq ps xs (fadd t line) (acc @ [?it]) w = (Inr (Some (t', its)), v)"
    using Cons.prems q p l by (simp add: bind_run)
  from Cons.IH [OF this] obtain new where new: "v = w" "its = acc @ ?it # new" "length new = length xs"
      "items_total new (fadd t line) = Inr t'" "list_all (well_priced ps) new"
    by auto
  moreover have "well_priced ps ?it"
    using q item_price_known [OF p] by (simp add: well_priced_def)
  ultimately show ?case
    using l by (intro conjI exI [of _ "?it # new"]) (simp_all add: items_total_def)
qed

text \<open>A quantity that is not positive stops the pricing: nothing is returned to be stored.\<close>

lemma price_items_positive:
  "price_items E rq ps xs t acc w = (Inr (Some (t', its)), v) \<Longrightarrow> x \<in> set xs \<Longrightarrow> \<exists>q. item_int x ''quantity'' = Inr q \<and> 0 < q"
proof (induction xs arbitrary: t acc)
  case (Cons y ys)
  obtain q where q: "item_int y ''quantity'' = Inr q" "0 < q"
    using Cons.prems by (auto simp: bind_run seq_run split: sum.splits prod.splits if_splits)
  obtain t1 acc1 where "price_items E rq ps ys t1 acc1 w = (Inr (Some (t', its)), v)"
    using Cons.prems q by (auto simp: bind_run split: sum.splits prod.splits)
  with Cons q show ?case by auto
qed simp

subsection \<open>Storing the items\<close>

definition item_row :: "int \<Rightarrow> priced_item \<Rightarrow> order_item_row" where
  "item_row oid it = \<lparr>oi_order_id = Some oid, oi_product_id = pi_product it, oi_quantity = pi_quantity it, oi_unit_price = pi_unit_price it\<rparr>"

lemma add_priced_item_run:
  "add_priced_item oid it u w = (Inr u', v) \<Longrightarrow>
     v = w\<lparr>w_db := (w_db w)\<lparr>order_items := tbl_insert (item_row oid it) (order_items (w_db w))\<rparr>\<rparr>"
  by (auto simp: add_priced_item_def item_row_def bind_run on_db_def add_order_item_def split: if_splits)

lemma items_of_insert:
  "items_of (d\<lparr>order_items := tbl_insert (item_row oid it) (order_items d)\<rparr>) oid =
     items_of d oid @ [(next_id (order_items d), item_row oid it)]"
  by (simp add: items_of_def tbl_select_def tbl_insert_def item_row_def)

lemma store_items:
  "foldM (add_priced_item oid) its () w = (Inr (), v) \<Longrightarrow>
     map snd (items_of (w_db v) oid) = map snd (items_of (w_db w) oid) @ map (item_row oid) its \<and>
     orders (w_db v) = orders (w_db w) \<and> products (w_db v) = products (w_db w) \<and> customers (w_db v) = customers (w_db w)"
proof (induction its arbitrary: w)
  case (Cons it its)
  obtain u where 1: "add_priced_item oid it () w = (Inr (), u)" and 2: "foldM (add_priced_item oid) its () u = (Inr (), v)"
    using Cons.prems unfolding foldM.simps by (rule bind_InrE) auto
  from Cons.IH [OF 2] add_priced_item_run [OF 1] show ?case
    by (simp add: items_of_insert)
qed simp

lemma no_items_yet:
  assumes "db_ok d" and "\<not> tbl_has (orders d) oid"
  shows "items_of d oid = []"
  using assms by (fastforce simp: db_invs refs_def ref_ok_def items_of_def tbl_select_def filter_empty_conv split: option.splits)

subsection \<open>The stored order\<close>

text \<open>The text of the body under a key.\<close>

definition body_text :: "json \<Rightarrow> string \<Rightarrow> string res" where
  "body_text body k = res_bind (jget body k) (\<lambda>v. as_str (jor v (JStr [])))"

definition keyed :: "json \<Rightarrow> order_row \<Rightarrow> bool" where
  "keyed body r \<longleftrightarrow> (\<exists>sys soid. body_text body ''source_system'' = Inr sys \<and> body_text body ''source_order_id'' = Inr soid \<and>
     o_source_system r = Some (str_or (py_strip sys) ''enterprise-crm'') \<and>
     (py_strip soid \<noteq> [] \<longrightarrow> o_source_order_id r = Some (py_strip soid)))"

lemma new_order_run:
  assumes "new_order E body cid c corr t w = (Inr r, v)"
  shows "o_total r = t" "o_customer_id r = Some cid" "o_status r = Some ''pending''" "o_backlog_status r = Some ''backlog''"
    "o_sync_status r = Some ''local''" "o_source_customer_email r = Some (c_email c)" "w_db v = w_db w"
    "keyed body r"
  using assms
  by (auto simp: new_order_def bind_run seq_run draw_def keyed_def body_text_def split: sum.splits prod.splits if_splits)

lemma keeps_log_tampering: "keeps (\<lambda>w. f (w_db w)) (log_tampering E rq cid a b)"
  unfolding log_tampering_def by (intro keeps_db_rules)

definition order_stored :: "json \<Rightarrow> db \<Rightarrow> db \<Rightarrow> int \<Rightarrow> int \<Rightarrow> pyfloat \<Rightarrow> priced_item list \<Rightarrow> bool" where
  "order_stored body d e customer_id oid t its \<longleftrightarrow>
     \<not> tbl_has (orders d) oid \<and> tbl_has (customers d) customer_id \<and>
     (\<exists>r. tbl_get (orders e) oid = Some r \<and> o_total r = t \<and> o_customer_id r = Some customer_id \<and>
        o_status r = Some ''pending'' \<and> o_backlog_status r = Some ''backlog'' \<and> keyed body r) \<and>
     map snd (items_of e oid) = map (item_row oid) its \<and>
     items_total its (Fin 0) = Inr t \<and> list_all (well_priced (rows (products d))) its \<and>
     (\<forall>k. k \<noteq> oid \<longrightarrow> tbl_get (orders e) k = tbl_get (orders d) k) \<and> products e = products d \<and> customers e = customers d"

lemma well_priced_subset:
  assumes "tbl_ok t" and "well_priced (filter p (rows t)) it"
  shows "well_priced (rows t) it"
proof -
  have "distinct (map fst (filter p (rows t)))" "distinct (map fst (rows t))"
    using assms(1) by (simp_all add: tbl_ok_def distinct_map_filter)
  then have "map_of (filter p (rows t)) k = Some q \<Longrightarrow> map_of (rows t) k = Some q" for k q
    by simp
  with assms(2) show ?thesis unfolding well_priced_def by blast
qed

lemma create_order_tx_stored:
  assumes ok: "w_ok w" and run: "create_order_tx E rq body corr customer_id items w = (Inr (Inr (oid, t, its)), v)"
  shows "order_stored body (w_db w) (w_db v) customer_id oid t its"
proof -
  obtain c where c: "tbl_get (customers (w_db w)) customer_id = Some c" and nz: "customer_id \<noteq> 0"
    using run by (auto simp: create_order_tx_def bind_run query_def split: if_splits option.splits)
  obtain xs where xs: "jiter items = Inr xs"
    using run c nz by (cases "jiter items") (auto simp: create_order_tx_def bind_run query_def)
  obtain ids where ids: "product_ids xs = Inr ids"
    using run c nz xs by (cases "product_ids xs") (auto simp: create_order_tx_def bind_run query_def)
  let ?ps = "filter (\<lambda>p. fst p \<in> set ids) (rows (products (w_db w)))"
  obtain q w1 where p1: "price_items E rq ?ps xs (Fin 0) [] w = (q, w1)" by (cases "price_items E rq ?ps xs (Fin 0) [] w")
  obtain t1 its1 where q: "q = Inr (Some (t1, its1))"
    using run c nz xs ids p1 by (cases q) (auto simp: create_order_tx_def bind_run query_def split: option.splits)
  have w1: "w1 = w" and tot: "items_total its1 (Fin 0) = Inr t1" and wp: "list_all (well_priced ?ps) its1"
    using price_items_Some [OF p1 [unfolded q]] by auto
  have run1: "bind (lift (res_bind (jget body ''total'') (\<lambda>v. jfloat (jor v (JFloat (Fin 0)))))) (\<lambda>client_total.
       seq (log_tampering E rq corr client_total t1)
       (bind (new_order E body customer_id c corr t1) (\<lambda>r. bind (on_db (add_order r)) (\<lambda>oid.
        seq (foldM (add_priced_item oid) its1 ()) (ret (Inr (oid, t1, its1) :: string + int \<times> pyfloat \<times> priced_item list)))))) w =
       (Inr (Inr (oid, t, its)), v)"
    using run c nz xs ids p1 q w1 by (simp add: create_order_tx_def bind_run query_def)
  then obtain ct w2 w3 r w4 where w2: "w_db w2 = w_db w" and w3: "new_order E body customer_id c corr t1 w2 = (Inr r, w3)"
      and w4: "on_db (add_order r) w3 = (Inr oid, w4)" and fo: "foldM (add_priced_item oid) its1 () w4 = (Inr (), v)"
      and eq: "t1 = t" "its1 = its"
    apply (elim bind_InrE seq_InrE)
    subgoal premises prems for x t2 t3 r t4 o' t5 t6
      using prems keepsD [OF keeps_log_tampering [of "\<lambda>d. d"] prems(3)] by (auto simp: lift_def intro: that)
    done
  note r = new_order_run [OF w3]
  have db3: "w_db w3 = w_db w" using r w2 by simp
  have oid: "oid = next_id (orders (w_db w))" and db4: "w_db w4 = (w_db w)\<lparr>orders := tbl_insert r (orders (w_db w))\<rparr>"
    using w4 db3 by (auto simp: on_db_def add_order_def split: if_splits)
  have t: "tbl_ok (orders (w_db w))" "tbl_ok (products (w_db w))" and dok: "db_ok (w_db w)" using ok by (simp_all add: w_ok_def db_invs)
  have fresh: "\<not> tbl_has (orders (w_db w)) oid" unfolding oid by (rule tbl_fresh [OF t(1)])
  have "items_of (w_db w4) oid = items_of (w_db w) oid" by (simp add: db4 items_of_def)
  with no_items_yet [OF dok fresh] store_items [OF fo]
  have items: "map snd (items_of (w_db v) oid) = map (item_row oid) its" and o': "orders (w_db v) = tbl_insert r (orders (w_db w))"
    and pc: "products (w_db v) = products (w_db w)" "customers (w_db v) = customers (w_db w)"
    using eq by (simp_all add: db4)
  have "list_all (well_priced (rows (products (w_db w)))) its"
    using wp well_priced_subset [OF t(2)] eq by (auto simp: list_all_iff)
  with fresh items o' pc tot c r eq show ?thesis
    by (simp add: order_stored_def tbl_get_insert [OF t(1)] oid [symmetric] tbl_get_has)
qed

end
