(* ===== verification/Samples.thy ===== *)
theory Samples
  imports Sessions
begin

text \<open>
  A small concrete deployment, on which the hypotheses of the theorems are discharged: a production
  configuration on the Oracle backend, readable stand-ins for the outside code (a hash that tags its
  input, an id source that numbers), and a database with an admin, a manager's session, a customer
  and a product.
\<close>

definition sample_config :: config where
  "sample_config =
    \<lparr>app_name = ''CRM'', brand_name = [], app_version = ''1'', app_port = 0, app_env = ''production'',
     app_secret_key = ''secret'', app_runtime = [], service_namespace = [], service_instance_id = [],
     demo_stack_name = [], dns_domain = [], crm_base_url = [], cors_allowed_origins_raw = [],
     db_pool_size = 0, db_max_overflow = 0, db_pool_timeout = 0, db_auth_pool_size = 0,
     db_auth_max_overflow = 0, db_auth_pool_timeout = 0, auth_executor_max_workers = 2,
     database_url_raw = [], database_sync_url_raw = [], oracle_dsn = ''atp_low'', oracle_user = ''CRM'',
     oracle_password = ''pw'', oracle_wallet_dir = [], oracle_wallet_password = [], atp_ocid = [],
     database_observability_enabled = False, oci_apm_endpoint = [], oci_apm_private_datakey = [],
     oci_apm_public_datakey = [], otel_service_name = ''enterprise-crm'', otlp_log_export_enabled = False,
     oci_apm_rum_endpoint = [], oci_apm_rum_public_datakey = [], oci_log_id = [], oci_log_group_id = [],
     oci_auth_mode = [], splunk_hec_url = [], splunk_hec_token = [], mushop_cloudnative_url = [],
     octo_apm_cloudnative_url = [], octo_drone_shop_url = ''https://shop.test'', control_plane_url = [],
     platform_backend_url = [], opsi_console_url = [], db_management_console_url = [],
     log_analytics_console_url = [], apm_console_url = [], c22_skp_url = [], external_orders_url = [],
     external_orders_path = ''/api/orders'', orders_sync_enabled = True,
     orders_sync_interval_seconds = 300, orders_sync_source_name = ''octo-drone-shop'',
     suspicious_order_total_threshold = 50000, backlog_order_age_minutes = 60,
     security_log_enabled = False, session_timeout_seconds = 3600, max_login_attempts = 2,
     bootstrap_admin_password = ''boot'', drone_shop_internal_key = ''k1'',
     idcs_domain_url = ''https://idcs.test'', idcs_client_id = ''cid'', idcs_client_secret = ''cs'',
     idcs_redirect_uri = ''https://crm.test/api/auth/sso/callback'', simulate_db_latency = False,
     simulate_db_disconnect = False, simulate_memory_leak = False, simulate_cpu_spike = False,
     simulate_slow_queries = False\<rparr>"

definition sample_environ :: environ where
  "sample_environ k = (if k = ''CHAOS_ENABLED'' then Some ''true'' else None)"

definition sample_env :: env where
  "sample_env =
    \<lparr>cfg = sample_config, environ = sample_environ, trace_id = ''t1'', span_id = ''s1'', traceparent = [],
     md5_hex = (\<lambda>s. ''0123456789abcdef''), sha256_digest = (\<lambda>s. s), sha256_hex = (\<lambda>s. s), hmac_hex = (\<lambda>k s. ''ab''),
     bcrypt_hash = (\<lambda>p. ''H'' @ p), bcrypt_verify = (\<lambda>p h. Some (h = ''H'' @ p)),
     token = (\<lambda>n. ''tok'' @ int_str (int n)), rep = (\<lambda>j. ''repr''), dumps = (\<lambda>j. ''dump''),
     isoformat = (\<lambda>t. int_str t), fromiso = (\<lambda>s. None),
     jwt_header = (\<lambda>s. None), jwt_decode = (\<lambda>s k a aud iss now. None), urlencode = (\<lambda>ps. []),
     http = (\<lambda>n c. Inl (TransportError ''refused''))\<rparr>"

definition sample_customer :: customer_row where
  "sample_customer = \<lparr>c_name = ''Ada'', c_email = ''ada@x.test'', c_phone = None, c_company = None, c_industry = None,
     c_revenue = None, c_notes = None, c_created_at = 0, c_updated_at = 0\<rparr>"

definition sample_product :: product_row where
  "sample_product = \<lparr>p_shop_id = None, p_name = ''Drone'', p_sku = ''DR-1'', p_description = None, p_price = Fin 20,
     p_stock = 5, p_category = None, p_image_url = None, p_is_active = 1, p_created_at = 0\<rparr>"

definition sample_shop :: shop_row where
  "sample_shop = \<lparr>s_name = ''Main'', s_address = [], s_coordinates = [], s_contact_email = [], s_contact_phone = [],
     s_is_active = 1, s_slug = ''main'', s_storefront_url = ''https://shop.test'', s_crm_base_url = ''https://crm.test'',
     s_region = ''eu'', s_currency = ''EUR'', s_status = ''active'', s_notes = None, s_created_at = 0, s_updated_at = 0\<rparr>"

definition sample_user :: user_row where
  "sample_user = \<lparr>u_username = ''admin'', u_email = ''admin@crm-enterprise.local'', u_password_hash = ''Hboot'',
     u_role = ''admin'', u_is_active = Some 1, u_last_login = None, u_created_at = 0\<rparr>"

definition sample_session :: session_row where
  "sample_session = \<lparr>us_session_id = ''S1'', us_user_id = 7, us_username = ''mona'', us_role = ''manager'',
     us_auth_method = ''password'', us_created_at = 0\<rparr>"

definition sample_db :: db where
  "sample_db = empty_db\<lparr>customers := \<lparr>rows = [(1, sample_customer)], next_id = 2\<rparr>,
     shops := \<lparr>rows = [(1, sample_shop)], next_id = 2\<rparr>,
     products := \<lparr>rows = [(1, sample_product)], next_id = 2\<rparr>,
     users := \<lparr>rows = [(1, sample_user)], next_id = 2\<rparr>,
     user_sessions := \<lparr>rows = [(1, sample_session)], next_id = 2\<rparr>\<rparr>"

definition sample_world :: world where
  "sample_world = \<lparr>w_db = sample_db, w_now = 1000000000, w_drawn = 0, w_calls = 0, w_log = [], w_session_cache = [],
     w_login_attempts = [], w_lookup_log = [], w_oidc_cache = [], w_jwks_cache = [], w_product_cache = [],
     w_api_keys = [], w_leaked = 0, w_sim = [], w_db_down = None, w_files = []\<rparr>"

definition sample_request :: request where
  "sample_request = \<lparr>rq_method = ''POST'', rq_path = ''/api/orders'', rq_scheme = ''https'', rq_client = Some ''10.0.0.9'',
     rq_headers = [(''x-internal-service-key'', ''k1'')], rq_cookies = [(''session_id'', ''S1'')], rq_params = [],
     rq_body = Inr (JObj [(''customer_id'', JInt 1), (''total'', JInt 1),
       (''items'', JArr [JObj [(''product_id'', JInt 1), (''quantity'', JInt 2), (''unit_price'', JInt 1)]])]),
     rq_current_user = None, rq_session = None, rq_correlation_id = None, rq_request_id = None, rq_csp_nonce = None\<rparr>"

lemmas sample_defs = sample_config_def sample_environ_def sample_env_def sample_customer_def sample_product_def sample_shop_def
  sample_user_def sample_session_def sample_db_def sample_world_def sample_request_def

text \<open>What evaluates the string and number functions on literals.\<close>

lemmas string_evals = py_strip_def lstrip_by_def rstrip_by_def is_space_def py_lower_def lower_char_def py_upper_def upper_char_def

lemmas number_evals = int_mul_def int_to_float_def float_of_int_def

text \<open>The fields, so that evaluating a run never unfolds a whole record.\<close>

lemma sample_config_simps [simp]:
  "app_env sample_config = ''production''" "app_secret_key sample_config = ''secret''"
  "drone_shop_internal_key sample_config = ''k1''" "max_login_attempts sample_config = 2"
  "session_timeout_seconds sample_config = 3600" "auth_executor_max_workers sample_config = 2"
  "simulate_db_latency sample_config = False" "simulate_db_disconnect sample_config = False"
  "simulate_cpu_spike sample_config = False" "simulate_memory_leak sample_config = False"
  "simulate_slow_queries sample_config = False"
  "oracle_dsn sample_config = ''atp_low''" "oracle_password sample_config = ''pw''" "database_url_raw sample_config = []"
  "orders_sync_source_name sample_config = ''octo-drone-shop''" "octo_drone_shop_url sample_config = ''https://shop.test''"
  "external_orders_url sample_config = []" "external_orders_path sample_config = ''/api/orders''"
  "otel_service_name sample_config = ''enterprise-crm''" "idcs_client_id sample_config = ''cid''"
  "idcs_domain_url sample_config = ''https://idcs.test''" "idcs_client_secret sample_config = ''cs''"
  "bootstrap_admin_password sample_config = ''boot''" "service_namespace sample_config = []"
  "app_version sample_config = ''1''" "demo_stack_name sample_config = []"
  "idcs_redirect_uri sample_config = ''https://crm.test/api/auth/sso/callback''"
  by (simp_all add: sample_config_def)

lemma sample_env_simps [simp]:
  "cfg sample_env = sample_config" "environ sample_env = sample_environ" "trace_id sample_env = ''t1''"
  "traceparent sample_env = []" "md5_hex sample_env s = ''0123456789abcdef''" "hmac_hex sample_env k s = ''ab''"
  "sha256_hex sample_env s = s"
  "bcrypt_hash sample_env s = ''H'' @ s" "bcrypt_verify sample_env s h = Some (h = ''H'' @ s)"
  "token sample_env n = ''tok'' @ int_str (int n)" "rep sample_env j = ''repr''" "dumps sample_env j = ''dump''"
  "http sample_env n c = Inl (TransportError ''refused'')" "fromiso sample_env s = None"
  by (simp_all add: sample_env_def)

lemma sample_world_simps [simp]:
  "w_db sample_world = sample_db" "w_now sample_world = 1000000000" "w_drawn sample_world = 0" "w_calls sample_world = 0"
  "w_log sample_world = []" "w_session_cache sample_world = []" "w_login_attempts sample_world = []"
  "w_product_cache sample_world = []" "w_db_down sample_world = None" "w_sim sample_world = []" "w_lookup_log sample_world = []"
  by (simp_all add: sample_world_def)

lemma sample_db_simps [simp]:
  "customers sample_db = \<lparr>rows = [(1, sample_customer)], next_id = 2\<rparr>" "shops sample_db = \<lparr>rows = [(1, sample_shop)], next_id = 2\<rparr>"
  "products sample_db = \<lparr>rows = [(1, sample_product)], next_id = 2\<rparr>" "orders sample_db = empty_table"
  "order_items sample_db = empty_table" "users sample_db = \<lparr>rows = [(1, sample_user)], next_id = 2\<rparr>"
  "user_sessions sample_db = \<lparr>rows = [(1, sample_session)], next_id = 2\<rparr>" "audit_logs sample_db = empty_table"
  "order_sync_audit sample_db = empty_table" "chaos_state sample_db = None"
  by (simp_all add: sample_db_def empty_db_def)

lemma sample_request_simps [simp]:
  "rq_path sample_request = ''/api/orders''" "rq_client sample_request = Some ''10.0.0.9''"
  "rq_headers sample_request = [(''x-internal-service-key'', ''k1'')]" "rq_cookies sample_request = [(''session_id'', ''S1'')]"
  "rq_scheme sample_request = ''https''" "rq_params sample_request = []"
  "rq_body sample_request = Inr (JObj [(''customer_id'', JInt 1), (''total'', JInt 1),
       (''items'', JArr [JObj [(''product_id'', JInt 1), (''quantity'', JInt 2), (''unit_price'', JInt 1)]])])"
  "rq_current_user sample_request = None" "rq_session sample_request = None" "rq_correlation_id sample_request = None"
  "rq_request_id sample_request = None"
  by (simp_all add: sample_request_def)

lemma sample_rows [simp]:
  "p_price sample_product = Fin 20" "p_sku sample_product = ''DR-1''" "p_name sample_product = ''Drone''"
  "p_shop_id sample_product = None" "c_email sample_customer = ''ada@x.test''" "c_name sample_customer = ''Ada''"
  "u_username sample_user = ''admin''" "u_email sample_user = ''admin@crm-enterprise.local''"
  "u_password_hash sample_user = ''Hboot''" "u_role sample_user = ''admin''" "us_session_id sample_session = ''S1''"
  "us_user_id sample_session = 7" "us_username sample_session = ''mona''" "us_role sample_session = ''manager''"
  "s_slug sample_shop = ''main''"
  by (simp_all add: sample_product_def sample_customer_def sample_user_def sample_session_def sample_shop_def)

lemma tbl_get_rows [simp]: "tbl_get \<lparr>rows = rs, next_id = n\<rparr> i = map_of rs i" "tbl_get empty_table i = None"
  "tbl_has \<lparr>rows = rs, next_id = n\<rparr> i = (map_of rs i \<noteq> None)" "rows empty_table = []" "next_id empty_table = 1"
  by (simp_all add: tbl_get_def empty_table_def tbl_has_def)

lemma sample_up [simp]: "engine_ready sample_env" "db_up sample_env sample_world"
  by (simp_all add: engine_ready_def db_up_def database_configured_def use_postgres_def)

lemma sample_ok [simp]: "w_ok sample_world"
  by (simp add: w_ok_def db_invs sample_world_def sample_db_def empty_db_def empty_table_def tbl_ok_def uniq_def refs_def)

end
