(* ===== verification/Order_Props.thy ===== *)
theory Order_Props
  imports Orders_Facts Samples
begin

text \<open>
  The properties of \<open>server/modules/orders.py\<close>: creating an order stores exactly what was priced, or
  nothing; the service key; the status update and its backlog flag.
\<close>

subsection \<open>The session inside \<open>create_order\<close>\<close>

definition created_json :: "int \<Rightarrow> pyfloat \<Rightarrow> json" where
  "created_json oid t = JObj [(''status'', JStr ''created''), (''order_id'', JInt oid), (''total'', JFloat t)]"

text \<open>The answer to the outcome of the session.\<close>

fun order_answer :: "(string + int \<times> pyfloat \<times> priced_item list) res \<Rightarrow> json res" where
  "order_answer (Inl e) = Inl e"
| "order_answer (Inr (Inl msg)) = Inr (JObj [(''error'', JStr msg)])"
| "order_answer (Inr (Inr (oid, t, its))) = Inr (created_json oid t)"

lemma create_order_cases:
  assumes "create_order E rq w = (r, v)"
  obtains (early) e where "r = Inl e" and "w_db v = w_db w"
  | (session) body corr cid items w1 y w2 where "rq_body rq = Inr body" and "item_int body ''customer_id'' = Inr cid"
    and "body_items body = Inr items" and "w_db w1 = w_db w"
    and "get_db E (create_order_tx E rq body corr cid items) w1 = (y, w2)" and "w_db v = w_db w2" and "r = order_answer y"
proof -
  obtain g k where k: "require_internal_key_if_configured E rq w = (g, k)" and dk: "w_db k = w_db w"
    by (cases "require_internal_key_if_configured E rq w") (auto simp: require_internal_key_if_configured_def Let_def split: if_splits)
  obtain q u where u: "build_correlation_id E (opt_str (rq_correlation_id rq)) k = (q, u)" by (cases "build_correlation_id E (opt_str (rq_correlation_id rq)) k")
  have du: "w_db u = w_db w" using keepsD [OF keeps_db_build_correlation_id [of "\<lambda>d. d"] u] dk by simp
  consider (stop) e where "r = Inl e" "w_db v = w_db w"
    | (go) body corr cid items where "g = Inr ()" "rq_body rq = Inr body" "q = Inr corr"
        "item_int body ''customer_id'' = Inr cid" "body_items body = Inr items"
  proof (cases "(\<exists>e. g = Inl e) \<or> (\<exists>e. rq_body rq = Inl e) \<or> (\<exists>e. q = Inl e) \<or>
      (\<exists>b e. rq_body rq = Inr b \<and> (item_int b ''customer_id'' = Inl e \<or> body_items b = Inl e))")
    case True
    then have "\<exists>e. r = Inl e \<and> w_db v = w_db w"
      by (elim disjE exE conjE; use assms dk du in \<open>auto simp: create_order_def seq_run bind_run k u split: sum.splits\<close>)
        (rule exI, erule sym)+
    then show ?thesis using stop by blast
  next
    case False
    then obtain body corr where b: "g = Inr ()" "rq_body rq = Inr body" "q = Inr corr"
      by (cases g; cases "rq_body rq"; cases q) auto
    moreover obtain cid items where "item_int body ''customer_id'' = Inr cid" "body_items body = Inr items"
      using False b by (cases "item_int body ''customer_id''"; cases "body_items body") auto
    ultimately show ?thesis by (rule go)
  qed
  then show ?thesis
  proof cases
    case stop
    then show ?thesis by (rule early)
  next
    case go
    obtain y w2 where g: "get_db E (create_order_tx E rq body corr cid items) u = (y, w2)" by (cases "get_db E (create_order_tx E rq body corr cid items) u")
    have "w_db v = w_db w2 \<and> r = order_answer y"
      using assms go g by (cases y rule: order_answer.cases)
        (auto simp: create_order_def seq_run bind_run k u metric_def push_log_def emit_def created_json_def)
    with go g du show ?thesis by (intro session [of body cid items u corr y w2]) simp_all
  qed
qed

lemma keeps_price_items: "keeps (\<lambda>w. f (w_db w)) (price_items E rq ps xs t acc)"
  by (induction xs arbitrary: t acc) (simp_all, (intro keeps_db_rules | assumption)+)

lemma create_order_tx_refused:
  assumes run: "create_order_tx E rq body corr cid items w = (Inr (Inl msg), v)"
  shows "w_db v = w_db w"
proof (cases "if cid \<noteq> 0 then tbl_get (customers (w_db w)) cid else None")
  case None
  then show ?thesis using run by (auto simp: create_order_tx_def bind_run query_def split: if_splits)
next
  case (Some c)
  then have c: "cid \<noteq> 0" "tbl_get (customers (w_db w)) cid = Some c" by (simp_all split: if_splits)
  obtain xs where xs: "jiter items = Inr xs"
    using run c by (cases "jiter items") (auto simp: create_order_tx_def bind_run query_def)
  obtain ids where ids: "product_ids xs = Inr ids"
    using run c xs by (cases "product_ids xs") (auto simp: create_order_tx_def bind_run query_def)
  let ?ps = "filter (\<lambda>p. fst p \<in> set ids) (rows (products (w_db w)))"
  obtain q u where u: "price_items E rq ?ps xs (Fin 0) [] w = (q, u)" by (cases "price_items E rq ?ps xs (Fin 0) [] w")
  have du: "w_db u = w_db w" by (rule keepsD [OF keeps_price_items [of "\<lambda>d. d"] u])
  show ?thesis
    using run c xs ids u du
    by (cases q) (auto simp: create_order_tx_def bind_run seq_run query_def split: option.splits sum.splits prod.splits)
qed

subsection \<open>Creation\<close>

lemma create_order_outcome:
  assumes "w_ok w" and "create_order E rq w = (r, v)"
  shows "same_rows (w_db w) (w_db v) \<and> (\<forall>oid t. r \<noteq> Inr (created_json oid t)) \<or>
    (\<exists>oid t body cid its. r = Inr (created_json oid t) \<and> rq_body rq = Inr body \<and> item_int body ''customer_id'' = Inr cid \<and>
       order_stored body (w_db w) (w_db v) cid oid t its)"
  using assms(2)
proof (cases rule: create_order_cases)
  case (early e)
  then show ?thesis by (simp add: same_rows_def)
next
  case (session body corr cid items w1 y w2)
  show ?thesis
  proof (cases y rule: order_answer.cases)
    case (1 e)
    with session get_db_fails show ?thesis by fastforce
  next
    case (2 msg)
    with session show ?thesis
      by (auto simp: created_json_def same_rows_def elim!: get_db_Inr dest: create_order_tx_refused)
  next
    case (3 oid t its)
    obtain u where u: "create_order_tx E rq body corr cid items u = (Inr (Inr (oid, t, its)), w2)" "w_db u = w_db w1"
      using session(5) 3 by (auto elim: get_db_Inr)
    with create_order_tx_stored [OF w_ok_db [OF assms(1)] u(1)] session 3 show ?thesis by auto
  qed
qed


text \<open>The equations that run \<open>create_order\<close> on a literal request.\<close>

lemmas order_evals = create_order_def create_order_tx_def require_internal_key_if_configured_def Let_def monad_simps header_def
  opt_str_def build_correlation_id_def item_int_def body_items_def query_def item_price_def new_order_def add_priced_item_def
  log_tampering_def transaction_def on_db_def add_order_def add_order_item_def metric_def push_log_def emit_def created_json_def
  draw_def security_span_def log_security_event_def conflict_def string_evals number_evals


subsection \<open>Duplicates, the service key\<close>

lemma stored_key_fresh:
  assumes "w_ok v" and "order_stored body d (w_db v) cid oid t its" and "tbl_get (orders d) i = Some old"
    and "body_text body ''source_system'' = Inr sys" and "body_text body ''source_order_id'' = Inr soid" and "py_strip soid \<noteq> []"
  shows "order_source_key old \<noteq> Some (str_or (py_strip sys) ''enterprise-crm'', py_strip soid)"
proof
  assume key: "order_source_key old = Some (str_or (py_strip sys) ''enterprise-crm'', py_strip soid)"
  obtain r where r: "tbl_get (orders (w_db v)) oid = Some r" and k: "keyed body r"
    using assms(2) unfolding order_stored_def by blast
  have rk: "order_source_key r = Some (str_or (py_strip sys) ''enterprise-crm'', py_strip soid)"
    using k assms(4,5,6) by (auto simp: keyed_def order_source_key_def)
  have "uniq order_source_key (orders (w_db v))" using assms(1) by (simp add: w_ok_def db_invs)
  have "\<not> tbl_has (orders d) oid" and get: "k \<noteq> oid \<longrightarrow> tbl_get (orders (w_db v)) k = tbl_get (orders d) k" for k
    using assms(2) unfolding order_stored_def by blast+
  then have "i \<noteq> oid" using assms(3) by (auto simp: tbl_has_def)
  then have "tbl_get (orders (w_db v)) i = Some old" using get assms(3) by simp
  from uniqD [OF \<open>uniq order_source_key (orders (w_db v))\<close> tbl_get_in [OF this] tbl_get_in [OF r] key rk] have "i = oid" .
  with \<open>i \<noteq> oid\<close> show False ..
qed

text \<open>
  C31. An order submitted again under a source reference that is stored is not created a second time,
  nor answered with the first one: no row changes and no ''created'' answer is given.
\<close>

theorem create_order_duplicate:
  assumes "w_ok w" and "rq_body rq = Inr body" and "body_text body ''source_system'' = Inr sys"
    and "body_text body ''source_order_id'' = Inr soid" and "py_strip soid \<noteq> []"
    and "tbl_get (orders (w_db w)) i = Some old" and "order_source_key old = Some (str_or (py_strip sys) ''enterprise-crm'', py_strip soid)"
    and "create_order E rq w = (r, v)"
  shows "same_rows (w_db w) (w_db v) \<and> r \<noteq> Inr (created_json oid t)"
proof -
  have "w_ok v" using safe_ok [OF safe_create_order assms(1), of E rq] assms(8) by simp
  then show ?thesis
    using create_order_outcome [OF assms(1,8)] stored_key_fresh [OF \<open>w_ok v\<close> _ assms(6,3,4,5)] assms(2,7) by auto
qed

definition keyed_request :: request where
  "keyed_request = sample_request\<lparr>rq_body := Inr (JObj [(''customer_id'', JInt 1), (''source_system'', JStr ''shop''),
     (''source_order_id'', JStr ''A-1''), (''items'', JArr [JObj [(''product_id'', JInt 1), (''quantity'', JInt 2)]])])\<rparr>"

theorem create_order_duplicate_witness:
  "fst (create_order sample_env keyed_request sample_world) = Inr (created_json 1 (Fin 40)) \<and>
   (case create_order sample_env keyed_request sample_world of (r, w1) \<Rightarrow>
      same_rows (w_db w1) (w_db (snd (create_order sample_env keyed_request w1))))"
proof -
  let ?body = "JObj [(''customer_id'', JInt 1), (''source_system'', JStr ''shop''),
     (''source_order_id'', JStr ''A-1''), (''items'', JArr [JObj [(''product_id'', JInt 1), (''quantity'', JInt 2)]])]"
  have b: "rq_body keyed_request = Inr ?body" "body_text ?body ''source_system'' = Inr ''shop''"
      "body_text ?body ''source_order_id'' = Inr ''A-1''" "py_strip ''A-1'' = ''A-1''" "str_or (py_strip ''shop'') ''enterprise-crm'' = ''shop''"
    by (simp_all add: keyed_request_def body_text_def string_evals)
  have f: "fst (create_order sample_env keyed_request sample_world) = Inr (created_json 1 (Fin 40))"
    by (simp add: keyed_request_def order_evals)
  obtain r w1 where w1: "create_order sample_env keyed_request sample_world = (r, w1)" by (cases "create_order sample_env keyed_request sample_world")
  have ok: "w_ok w1" using safe_ok [OF safe_create_order sample_ok, of sample_env keyed_request] w1 by simp
  have "\<exists>oid t cid its. order_stored ?body (w_db sample_world) (w_db w1) cid oid t its"
    using create_order_outcome [OF sample_ok w1] f w1 b(1) by auto
  then obtain oid old where old: "tbl_get (orders (w_db w1)) oid = Some old" "keyed ?body old" unfolding order_stored_def by blast
  then have "order_source_key old = Some (str_or (py_strip ''shop'') ''enterprise-crm'', py_strip ''A-1'')"
    using b by (auto simp: keyed_def order_source_key_def)
  moreover obtain r2 w2 where w2: "create_order sample_env keyed_request w1 = (r2, w2)" by (cases "create_order sample_env keyed_request w1")
  ultimately have "same_rows (w_db w1) (w_db w2)"
    using create_order_duplicate [OF ok b(1) b(2) b(3) _ old(1) _ w2] b(4) by simp
  with f w1 w2 show ?thesis by simp
qed

text \<open>
  With a service key configured, a request that does not carry exactly that key (up to white space
  around it) is answered 401 and nothing happens: no row, no log entry, no counter.
\<close>

theorem create_order_needs_key:
  assumes "drone_shop_internal_key (cfg E) \<noteq> []" and "py_strip (opt_str (header rq ''x-internal-service-key'')) \<noteq> drone_shop_internal_key (cfg E)"
  shows "create_order E rq w = (Inl (HTTPException 401 ''Invalid or missing X-Internal-Service-Key''), w)"
  using assms by (simp add: create_order_def require_internal_key_if_configured_def Let_def seq_run)

theorem create_order_needs_key_witness:
  "create_order sample_env (sample_request\<lparr>rq_headers := []\<rparr>) sample_world =
     (Inl (HTTPException 401 ''Invalid or missing X-Internal-Service-Key''), sample_world)"
  by (rule create_order_needs_key) (simp_all add: header_def opt_str_def string_evals)

subsection \<open>The status of an order\<close>

lemma put_order_status:
  assumes "db_ok d" and "tbl_get (orders d) i = Some r"
  shows "put_order i (r\<lparr>o_status := s, o_backlog_status := b\<rparr>) d = (Inr (), d\<lparr>orders := tbl_set i (r\<lparr>o_status := s, o_backlog_status := b\<rparr>) (orders d)\<rparr>)"
proof -
  have r: "(i, r) \<in> set (rows (orders d))" using assms(2) by (rule tbl_get_in)
  then have "ref_ok (o_customer_id r) (customers d)" using assms(1) by (auto simp: db_invs refs_def)
  moreover have "\<not> conflict order_source_key (orders d) i (r\<lparr>o_status := s, o_backlog_status := b\<rparr>)"
    using assms(1) r by (intro no_conflict_same) (simp_all add: db_invs order_source_key_def)
  ultimately show ?thesis by (simp add: put_order_def)
qed

text \<open>
  \<open>PATCH /api/orders/{id}/status\<close> on an order that exists stores the status, stripped and in lower
  case, and the backlog flag, and changes nothing else. The flag disagrees with the one the import
  of orders gives the same status exactly for ''backlog'' and ''awaiting\_fulfillment'', which leave the
  backlog here.
\<close>

theorem update_order_status_sets:
  assumes "w_ok w" and "db_up E w" and "rq_body rq = Inr body" and "jget body ''status'' = Inr v"
    and "s = py_lower (py_strip (jstr (rep E) (jor v (JStr []))))" and "tbl_get (orders (w_db w)) i = Some r"
    and "flag = (if s \<in> backlog_statuses - {''backlog'', ''awaiting_fulfillment''} then ''backlog'' else ''current'')"
  shows "update_order_status E i rq w =
    (Inr (JObj [(''status'', JStr ''updated''), (''order_id'', JInt i), (''new_status'', JStr s)]),
     w\<lparr>w_db := (w_db w)\<lparr>orders := tbl_set i (r\<lparr>o_status := Some s, o_backlog_status := Some flag\<rparr>) (orders (w_db w))\<rparr>\<rparr>)"
proof -
  have "(if s \<in> {''pending'', ''processing'', ''queued''} then ''backlog'' else ''current'') = flag"
    by (auto simp: assms(7) backlog_statuses_def)
  with assms(1-4,6) put_order_status [OF _ assms(6), where s = "Some s" and b = "Some flag"] show ?thesis
    by (simp add: update_order_status_def Let_def bind_run seq_run query_def transaction_def on_db_def w_ok_def assms(5) [symmetric]
        del: insert_iff)
qed

theorem update_order_status_sets_witness:
  "(case create_order sample_env sample_request sample_world of (x, w1) \<Rightarrow>
     fst (update_order_status sample_env 1 (sample_request\<lparr>rq_body := Inr (JObj [(''status'', JStr '' backlog'')])\<rparr>) w1) =
       Inr (JObj [(''status'', JStr ''updated''), (''order_id'', JInt 1), (''new_status'', JStr ''backlog'')]))"
proof -
  obtain x w1 where w1: "create_order sample_env sample_request sample_world = (x, w1)" by (cases "create_order sample_env sample_request sample_world")
  have ok: "w_ok w1" using safe_ok [OF safe_create_order sample_ok, of sample_env sample_request] w1 by simp
  have "db_up sample_env (snd (create_order sample_env sample_request sample_world)) \<and>
      tbl_get (orders (w_db (snd (create_order sample_env sample_request sample_world)))) 1 \<noteq> None"
    by (simp add: order_evals db_up_def tbl_insert_def empty_table_def)
  then obtain r where "db_up sample_env w1" "tbl_get (orders (w_db w1)) 1 = Some r" using w1 by auto
  with ok w1 show ?thesis
    using update_order_status_sets [OF ok, of sample_env "sample_request\<lparr>rq_body := Inr (JObj [(''status'', JStr '' backlog'')])\<rparr>"
        "JObj [(''status'', JStr '' backlog'')]" "JStr '' backlog''" "''backlog''" 1 r "''current''"]
    by (simp add: string_evals backlog_statuses_def)
qed

end
