(* ===== verification/OrderSync_Facts.thy ===== *)
theory OrderSync_Facts
  imports OrderSync
begin

text \<open>
  What the import of orders guarantees: every order of a batch is counted once and audited once, a
  failed order changes nothing but the audit, a stored order is found again under its source key
  and never duplicated; and the products of synced items, including the case that fails.
\<close>

subsection \<open>Frames\<close>

definition audits :: "db \<Rightarrow> (int \<times> sync_audit_row) list" where
  "audits d = rows (order_sync_audit d)"

lemma add_customer_audits: "audits (snd (add_customer r d)) = audits d"
  by (simp add: add_customer_def audits_def)

lemma add_order_audits: "audits (snd (add_order r d)) = audits d"
  by (simp add: add_order_def audits_def)

lemma put_order_audits: "audits (snd (put_order i r d)) = audits d"
  by (simp add: put_order_def audits_def)

lemma add_product_audits: "audits (snd (add_product r d)) = audits d"
  by (simp add: add_product_def audits_def)

lemma add_order_item_audits: "audits (snd (add_order_item r d)) = audits d"
  by (simp add: add_order_item_def audits_def)

lemma drop_order_items_audits: "audits (snd (drop_order_items i d)) = audits d"
  by (simp add: drop_order_items_def audits_def)

text \<open>\<open>keeps_on_db\<close> for the audit table.\<close>

lemmas keeps_audits = keeps_on_db [where f = audits]

lemmas on_db_audits = keeps_audits [OF add_customer_audits] keeps_audits [OF add_order_audits]
  keeps_audits [OF put_order_audits] keeps_audits [OF add_product_audits]
  keeps_audits [OF add_order_item_audits] keeps_audits [OF drop_order_items_audits]

lemma keeps_audits_modify:
  assumes "\<And>w. w_db (g w) = w_db w"
  shows "keeps (\<lambda>w. audits (w_db w)) (modify g)"
  by (rule keeps_modify) (simp add: assms)

lemma keeps_normalize: "keeps (\<lambda>w. f (w_db w)) (normalize_external_order E raw)"
  unfolding normalize_external_order_def by (intro keeps_db_rules)

lemma keeps_resolve_customer: "keeps (\<lambda>w. audits (w_db w)) (resolve_customer E n)"
  unfolding resolve_customer_def by (intro keeps_db_rules on_db_audits)

lemma keeps_upsert_order: "keeps (\<lambda>w. audits (w_db w)) (upsert_order E c n k)"
  unfolding upsert_order_def Let_def by (intro keeps_db_rules on_db_audits)

lemma keeps_resolve_product: "keeps (\<lambda>w. audits (w_db w)) (resolve_product E ni)"
  unfolding resolve_product_def by (intro keeps_db_rules on_db_audits keeps_audits_modify) simp

lemma keeps_store_item: "keeps (\<lambda>w. audits (w_db w)) (store_item E i ni u)"
  unfolding store_item_def by (intro keeps_db_rules on_db_audits keeps_resolve_product)

lemma keeps_replace_order_items: "keeps (\<lambda>w. audits (w_db w)) (replace_order_items E i items)"
  unfolding replace_order_items_def by (intro keeps_db_rules on_db_audits keeps_store_item)

subsection \<open>The audit trail\<close>

lemma record_sync_audit_run:
  "record_sync_audit E oid a st m c w =
    (Inr (), w\<lparr>w_db := (w_db w)\<lparr>order_sync_audit := tbl_insert
       \<lparr>osa_source_system = source_name E, osa_source_order_id = Some oid, osa_sync_action = a, osa_sync_status = st,
        osa_message = Some m, osa_correlation_id = Some c, osa_trace_id = Some (trace_id E), osa_created_at = w_now w\<rparr>
       (order_sync_audit (w_db w))\<rparr>\<rparr>)"
  by (simp add: record_sync_audit_def bind_run on_db_def add_sync_audit_def)

definition counted :: "sync_result \<Rightarrow> int" where
  "counted r = sr_created r + sr_updated r + sr_failed r"

lemma store_order_audits:
  assumes "store_order E c n w = (Inr (a, i, r), v)"
  shows "length (audits (w_db v)) = length (audits (w_db w)) + 1"
proof -
  obtain cid w1 where 1: "resolve_customer E n w = (Inr cid, w1)"
      and s1: "bind (upsert_order E cid n c) (\<lambda>(a, i, r). seq (replace_order_items E i (no_items n))
          (seq (record_sync_audit E (no_source_order_id n) a ''success'' (a @ '' order from '' @ source_name E) c)
          (ret (a, i, r)))) w1 = (Inr (a, i, r), v)"
    using assms unfolding store_order_def by (rule bind_InrE)
  obtain x w2 where 2: "upsert_order E cid n c w1 = (Inr x, w2)"
      and s2: "(case x of (a, i, r) \<Rightarrow> seq (replace_order_items E i (no_items n))
          (seq (record_sync_audit E (no_source_order_id n) a ''success'' (a @ '' order from '' @ source_name E) c)
          (ret (a, i, r)))) w2 = (Inr (a, i, r), v)"
    using s1 by (rule bind_InrE)
  obtain a' i' r' where x: "x = (a', i', r')" by (cases x)
  obtain w3 where 3: "replace_order_items E i' (no_items n) w2 = (Inr (), w3)"
      and s3: "seq (record_sync_audit E (no_source_order_id n) a' ''success'' (a' @ '' order from '' @ source_name E) c)
          (ret (a', i', r')) w3 = (Inr (a, i, r), v)"
    using s2 unfolding x prod.case by (rule seq_InrE)
  have "audits (w_db w3) = audits (w_db w)"
    using keepsD [OF keeps_resolve_customer 1] keepsD [OF keeps_upsert_order 2]
      keepsD [OF keeps_replace_order_items 3] by simp
  with s3 show ?thesis
    by (auto simp: seq_run record_sync_audit_run audits_def tbl_insert_def)
qed

lemma counted_simps [simp]:
  "counted (count_action a i r acc) = counted acc + 1" "counted (acc\<lparr>sr_failed := sr_failed acc + 1\<rparr>) = counted acc + 1"
  "counted empty_result = 0"
  by (simp_all add: counted_def count_action_def empty_result_def)

lemma sync_one_audits:
  assumes "sync_one E c raw acc w = (Inr acc', v)"
  shows "length (audits (w_db v)) = length (audits (w_db w)) + 1 \<and> counted acc' = counted acc + 1"
proof -
  obtain n w1 where n: "normalize_external_order E raw w = (Inr n, w1)"
    and s: "(if no_source_order_id n = []
     then seq (record_sync_audit E [] ''skip'' ''invalid'' ''Missing source order id'' c)
          (ret (acc\<lparr>sr_failed := sr_failed acc + 1\<rparr>))
     else catch
       (bind (transaction (store_order E c n)) (\<lambda>(action, i, r). ret (count_action action i r acc)))
       (\<lambda>e. seq (record_sync_audit E (no_source_order_id n) ''upsert'' ''failed'' (exc_str e) c)
            (ret (acc\<lparr>sr_failed := sr_failed acc + 1\<rparr>)))) w1 = (Inr acc', v)"
    using assms unfolding sync_one_def by (rule bind_InrE)
  have w1: "audits (w_db w1) = audits (w_db w)" by (rule keepsD [OF keeps_normalize n])
  show ?thesis
  proof (cases "no_source_order_id n = []")
    case True
    with s w1 show ?thesis
      by (auto simp: seq_run record_sync_audit_run audits_def tbl_insert_def)
  next
    case False
    obtain q u where t: "transaction (store_order E c n) w1 = (q, u)" by (cases "transaction (store_order E c n) w1")
    show ?thesis
    proof (cases q)
      case (Inl e)
      then have "audits (w_db u) = audits (w_db w1)"
        using t by (auto dest!: transaction_Inl simp: audits_def db_rollback_def)
      with s w1 False t Inl show ?thesis
        by (auto simp: catch_run bind_run seq_run record_sync_audit_run audits_def tbl_insert_def)
    next
      case (Inr x)
      obtain a i r where x: "x = (a, i, r)" by (cases x)
      have "length (audits (w_db u)) = length (audits (w_db w1)) + 1"
        using t store_order_audits unfolding Inr x transaction_Inr by blast
      with s w1 False t Inr x show ?thesis
        by (auto simp: catch_run bind_run)
    qed
  qed
qed

lemma sync_fold_audits:
  "foldM (sync_one E c) raws acc w = (Inr acc', v) \<Longrightarrow>
     length (audits (w_db v)) = length (audits (w_db w)) + length raws \<and> counted acc' = counted acc + int (length raws)"
proof (induction raws arbitrary: acc w)
  case (Cons raw raws)
  obtain a u where 1: "sync_one E c raw acc w = (Inr a, u)" and 2: "foldM (sync_one E c) raws a u = (Inr acc', v)"
    using Cons.prems unfolding foldM.simps by (rule bind_InrE)
  from sync_one_audits [OF 1] Cons.IH [OF 2] show ?case by simp
qed simp

lemma sync_batch_accounts:
  assumes "sync_batch E c raws w = (Inr r, v)" and "db_up E w"
  shows "counted r = int (length raws)"
    and "length (audits (w_db v)) = length (audits (w_db w)) + length raws"
proof -
  have run: "seq product_lookup (foldM (sync_one E c) raws empty_result) w = (Inr r, v)"
    using assms unfolding sync_batch_def session_factory_up [OF assms(2)] transaction_Inr by simp
  then obtain u where u: "product_lookup w = (Inr (), u)" and f: "foldM (sync_one E c) raws empty_result u = (Inr r, v)"
    by (rule seq_InrE)
  have "audits (w_db u) = audits (w_db w)"
    using u by (auto simp: product_lookup_def bind_run query_def)
  with sync_fold_audits [OF f] show "counted r = int (length raws)"
    and "length (audits (w_db v)) = length (audits (w_db w)) + length raws" by simp_all
qed

subsection \<open>A failed order\<close>

text \<open>Tables other than the audit hold the same rows.\<close>

definition same_but_audit :: "db \<Rightarrow> db \<Rightarrow> bool" where
  "same_but_audit d e \<longleftrightarrow> same_rows (d\<lparr>order_sync_audit := empty_table\<rparr>) (e\<lparr>order_sync_audit := empty_table\<rparr>)"

lemma same_but_audit_rollback: "same_but_audit d ((db_rollback d e)\<lparr>order_sync_audit := t\<rparr>)"
  by (simp add: same_but_audit_def same_rows_def db_rollback_def)

lemma sync_one_failed:
  assumes "sync_one E c raw acc w = (Inr acc', v)" and "sr_failed acc' \<noteq> sr_failed acc"
  shows "same_but_audit (w_db w) (w_db v)"
proof -
  obtain n w1 where n: "normalize_external_order E raw w = (Inr n, w1)"
    and s: "(if no_source_order_id n = []
     then seq (record_sync_audit E [] ''skip'' ''invalid'' ''Missing source order id'' c)
          (ret (acc\<lparr>sr_failed := sr_failed acc + 1\<rparr>))
     else catch
       (bind (transaction (store_order E c n)) (\<lambda>(action, i, r). ret (count_action action i r acc)))
       (\<lambda>e. seq (record_sync_audit E (no_source_order_id n) ''upsert'' ''failed'' (exc_str e) c)
            (ret (acc\<lparr>sr_failed := sr_failed acc + 1\<rparr>)))) w1 = (Inr acc', v)"
    using assms(1) unfolding sync_one_def by (rule bind_InrE)
  have db: "w_db w1 = w_db w" by (rule keepsD [OF keeps_normalize [of "\<lambda>d. d"] n])
  show ?thesis
  proof (cases "no_source_order_id n = []")
    case True
    with s db show ?thesis
      by (auto simp: seq_run record_sync_audit_run same_but_audit_def)
  next
    case False
    obtain q u where t: "transaction (store_order E c n) w1 = (q, u)" by (cases "transaction (store_order E c n) w1")
    show ?thesis
    proof (cases q)
      case (Inl e)
      then obtain u' where "u = u'\<lparr>w_db := db_rollback (w_db w1) (w_db u')\<rparr>" using t by (auto dest: transaction_Inl)
      with s db False t Inl show ?thesis
        by (auto simp: catch_run bind_run seq_run record_sync_audit_run same_but_audit_rollback)
    next
      case (Inr x)
      with s assms(2) False t show ?thesis
        by (cases x) (auto simp: catch_run bind_run count_action_def split: if_splits)
    qed
  qed
qed

subsection \<open>Orders keep their identity\<close>

lemma keeps_orders_modify:
  assumes "\<And>w. w_db (g w) = w_db w"
  shows "keeps (\<lambda>w. orders (w_db w)) (modify g)"
  by (rule keeps_modify) (simp add: assms)

lemmas keeps_orders = keeps_on_db [where f = orders]

lemma keeps_orders_add_product: "keeps (\<lambda>w. orders (w_db w)) (on_db (add_product r))"
  by (rule keeps_orders) (simp add: add_product_def)

lemma keeps_orders_add_order_item: "keeps (\<lambda>w. orders (w_db w)) (on_db (add_order_item r))"
  by (rule keeps_orders) (simp add: add_order_item_def)

lemma keeps_orders_drop_order_items: "keeps (\<lambda>w. orders (w_db w)) (on_db (drop_order_items i))"
  by (rule keeps_orders) (simp add: drop_order_items_def)

lemma keeps_orders_add_customer: "keeps (\<lambda>w. orders (w_db w)) (on_db (add_customer r))"
  by (rule keeps_orders) (simp add: add_customer_def)

lemma keeps_orders_add_sync_audit: "keeps (\<lambda>w. orders (w_db w)) (on_db (add_sync_audit r))"
  by (rule keeps_orders) (simp add: add_sync_audit_def)

lemma keeps_orders_resolve_customer: "keeps (\<lambda>w. orders (w_db w)) (resolve_customer E n)"
  unfolding resolve_customer_def by (intro keeps_db_rules keeps_orders_add_customer)

lemma keeps_orders_replace_order_items: "keeps (\<lambda>w. orders (w_db w)) (replace_order_items E i items)"
  unfolding replace_order_items_def store_item_def resolve_product_def
  by (intro keeps_db_rules keeps_orders_drop_order_items keeps_orders_add_product keeps_orders_add_order_item
      keeps_orders_modify) simp

lemma keeps_orders_record_sync_audit: "keeps (\<lambda>w. orders (w_db w)) (record_sync_audit E i a s m c)"
  unfolding record_sync_audit_def by (intro keeps_db_rules keeps_orders_add_sync_audit)

lemma upsert_order_found:
  assumes ok: "w_ok w" and up: "upsert_order E cid n c w = (Inr (a, i, r), v)"
  shows "find_source_order (source_name E) (no_source_order_id n) (w_db v) = Some (i, r)"
    and "a = (case find_source_order (source_name E) (no_source_order_id n) (w_db w) of None \<Rightarrow> ''created'' | Some _ \<Rightarrow> ''updated'')"
    and "\<And>j q. find_source_order (source_name E) (no_source_order_id n) (w_db w) = Some (j, q) \<Longrightarrow> i = j"
    and "o_total r = no_total n" and "o_status r = Some (no_status n)" and "o_customer_id r = Some cid"
    and "o_backlog_status r = Some (no_backlog_status n)"
proof -
  let ?p = "\<lambda>r. o_source_system r = Some (source_name E) \<and> o_source_order_id r = Some (no_source_order_id n)"
  have t: "tbl_ok (orders (w_db w))" using ok by (simp add: w_ok_def db_invs)
  have keep: "find_source_order (source_name E) (no_source_order_id n) d = tbl_find ?p (orders d)" for d
    by (simp add: find_source_order_def)
  have find_set: "tbl_find ?p (tbl_set j q (orders (w_db w))) = Some (j, q)"
    if "tbl_find ?p (orders (w_db w)) = Some (j, old)" "o_source_system q = o_source_system old"
      "o_source_order_id q = o_source_order_id old" for j old q
    using tbl_find_set [OF t that(1), of q] tbl_find_in [OF that(1)] that(2,3) by simp
  show "find_source_order (source_name E) (no_source_order_id n) (w_db v) = Some (i, r)"
    "a = (case find_source_order (source_name E) (no_source_order_id n) (w_db w) of None \<Rightarrow> ''created'' | Some _ \<Rightarrow> ''updated'')"
    "\<And>j q. find_source_order (source_name E) (no_source_order_id n) (w_db w) = Some (j, q) \<Longrightarrow> i = j"
    "o_total r = no_total n" "o_status r = Some (no_status n)" "o_customer_id r = Some cid"
    "o_backlog_status r = Some (no_backlog_status n)"
    using up unfolding keep
    by (auto simp: upsert_order_def bind_run seq_run query_def keep on_db_def add_order_def put_order_def
          tbl_find_insert Let_def find_set
        split: sum.splits option.splits if_splits)
qed

text \<open>What the savepoint of one order leaves in \<open>orders\<close>, on its success.\<close>

lemma store_order_run:
  assumes "store_order E c n w = (Inr (a, i, r), v)"
  obtains cid w1 w2 where "resolve_customer E n w = (Inr cid, w1)" and "upsert_order E cid n c w1 = (Inr (a, i, r), w2)"
    and "orders (w_db v) = orders (w_db w2)" and "orders (w_db w1) = orders (w_db w)"
proof -
  obtain cid w1 where 1: "resolve_customer E n w = (Inr cid, w1)"
      and s1: "bind (upsert_order E cid n c) (\<lambda>(a, i, r). seq (replace_order_items E i (no_items n))
          (seq (record_sync_audit E (no_source_order_id n) a ''success'' (a @ '' order from '' @ source_name E) c)
          (ret (a, i, r)))) w1 = (Inr (a, i, r), v)"
    using assms unfolding store_order_def by (rule bind_InrE)
  obtain x w2 where 2: "upsert_order E cid n c w1 = (Inr x, w2)"
      and s2: "(case x of (a, i, r) \<Rightarrow> seq (replace_order_items E i (no_items n))
          (seq (record_sync_audit E (no_source_order_id n) a ''success'' (a @ '' order from '' @ source_name E) c)
          (ret (a, i, r)))) w2 = (Inr (a, i, r), v)"
    using s1 by (rule bind_InrE)
  obtain a' i' r' where x: "x = (a', i', r')" by (cases x)
  obtain w3 where 3: "replace_order_items E i' (no_items n) w2 = (Inr (), w3)"
      and s3: "seq (record_sync_audit E (no_source_order_id n) a' ''success'' (a' @ '' order from '' @ source_name E) c)
          (ret (a', i', r')) w3 = (Inr (a, i, r), v)"
    using s2 unfolding x prod.case by (rule seq_InrE)
  obtain w4 where 4: "record_sync_audit E (no_source_order_id n) a' ''success'' (a' @ '' order from '' @ source_name E) c w3 = (Inr (), w4)"
      and eq: "(a', i', r') = (a, i, r)" "w4 = v"
    using s3 by (auto elim: seq_InrE)
  have "orders (w_db v) = orders (w_db w2)"
    using keepsD [OF keeps_orders_replace_order_items 3] keepsD [OF keeps_orders_record_sync_audit 4] eq by simp
  with 1 2 eq x keepsD [OF keeps_orders_resolve_customer 1] show thesis by (intro that [of cid w1 w2]) auto
qed

lemma store_order_found:
  assumes ok: "w_ok w" and run: "store_order E c n w = (Inr (a, i, r), v)"
  shows "find_source_order (source_name E) (no_source_order_id n) (w_db v) = Some (i, r)"
    and "a = (case find_source_order (source_name E) (no_source_order_id n) (w_db w) of None \<Rightarrow> ''created'' | Some _ \<Rightarrow> ''updated'')"
    and "\<And>j q. find_source_order (source_name E) (no_source_order_id n) (w_db w) = Some (j, q) \<Longrightarrow> i = j"
    and "o_total r = no_total n" and "o_status r = Some (no_status n)" and "o_backlog_status r = Some (no_backlog_status n)"
proof -
  obtain cid w1 w2 where 1: "resolve_customer E n w = (Inr cid, w1)" and 2: "upsert_order E cid n c w1 = (Inr (a, i, r), w2)"
    and o2: "orders (w_db v) = orders (w_db w2)" and o1: "orders (w_db w1) = orders (w_db w)"
    using run by (rule store_order_run)
  have "w_ok w1" using safe_ok [OF safe_resolve_customer ok, of E n] 1 by simp
  note up = upsert_order_found [OF this 2]
  have f: "find_source_order s k (w_db v) = find_source_order s k (w_db w2)"
    "find_source_order s k (w_db w1) = find_source_order s k (w_db w)" for s k
    by (simp_all add: find_source_order_def o1 o2)
  from up show "find_source_order (source_name E) (no_source_order_id n) (w_db v) = Some (i, r)"
    and "a = (case find_source_order (source_name E) (no_source_order_id n) (w_db w) of None \<Rightarrow> ''created'' | Some _ \<Rightarrow> ''updated'')"
    and "\<And>j q. find_source_order (source_name E) (no_source_order_id n) (w_db w) = Some (j, q) \<Longrightarrow> i = j"
    and "o_total r = no_total n" and "o_status r = Some (no_status n)" and "o_backlog_status r = Some (no_backlog_status n)"
    unfolding f by auto
qed

text \<open>Storing an order again, in any later state that still holds it, updates the same row.\<close>

lemma store_order_again:
  assumes "w_ok w" and "store_order E c n w = (Inr (a, i, r), v)"
    and "no_source_order_id m = no_source_order_id n" and "store_order E c' m v = (Inr (a', i', r'), u)"
  shows "a' = ''updated'' \<and> i' = i"
proof -
  have v: "w_ok v" using safe_ok [OF safe_store_order assms(1), of E c n] assms(2) by simp
  have f: "find_source_order (source_name E) (no_source_order_id m) (w_db v) = Some (i, r)"
    using store_order_found(1) [OF assms(1,2)] assms(3) by simp
  show ?thesis
    using store_order_found(2,3) [OF v assms(4)] f by auto
qed

subsection \<open>Products of synced items\<close>

lemma resolve_product_cached: "map_of (w_product_cache w) (item_ref E ni) = Some i \<Longrightarrow> resolve_product E ni w = (Inr i, w)"
  by (simp add: resolve_product_def bind_run)

text \<open>A SKU that is taken, under a reference the cache does not know: the unique key refuses the product.\<close>

lemma resolve_product_taken:
  assumes "w_ok w" and "map_of (w_product_cache w) (item_ref E ni) = None" and "ni_name ni = JStr name"
    and "(j, q) \<in> set (rows (products (w_db w)))" and "p_sku q = sync_sku E ni"
  shows "resolve_product E ni w = (Inl (unique_violation ''products_sku_key''), w)"
proof -
  have "j \<noteq> next_id (products (w_db w))"
    using assms(1,4) by (force simp: w_ok_def db_invs tbl_ok_def)
  then have "conflict (\<lambda>r. Some (p_sku r)) (products (w_db w)) (next_id (products (w_db w))) r" if "p_sku r = sync_sku E ni" for r
    using assms(4,5) that by (force simp: conflict_def list_ex_iff)
  with assms(2,3) show ?thesis
    by (simp add: resolve_product_def bind_run not_null_def on_db_def add_product_def)
qed

text \<open>A product created for a reference is cached under its SKU and its name, not under the reference.\<close>

lemma resolve_product_created:
  assumes "map_of (w_product_cache w) (item_ref E ni) = None" and "resolve_product E ni w = (Inr i, v)"
  obtains name q where "ni_name ni = JStr name" and "(i, q) \<in> set (rows (products (w_db v)))" and "p_sku q = sync_sku E ni"
    and "w_product_cache v = alist_set (py_lower name) i (alist_set (py_lower (sync_sku E ni)) i (w_product_cache w))"
proof (cases "ni_name ni")
  case (JStr name)
  with assms show ?thesis
    by (intro that [of name "snd (last (rows (products (w_db v))))"])
       (auto simp: resolve_product_def bind_run seq_run not_null_def on_db_def add_product_def tbl_insert_def
          split: sum.splits prod.splits if_splits)
qed (use assms in \<open>auto simp: resolve_product_def bind_run not_null_def split: sum.splits prod.splits\<close>)

text \<open>So the second item with the same unknown reference fails, unless the reference is the name or the SKU.\<close>

lemma resolve_product_twice:
  assumes "w_ok w" and "map_of (w_product_cache w) (item_ref E ni) = None" and "resolve_product E ni w = (Inr i, v)"
    and "\<And>name. ni_name ni = JStr name \<Longrightarrow> item_ref E ni \<noteq> py_lower name" and "item_ref E ni \<noteq> py_lower (sync_sku E ni)"
  shows "fst (resolve_product E ni v) = Inl (unique_violation ''products_sku_key'')"
proof -
  obtain name q where n: "ni_name ni = JStr name" and q: "(i, q) \<in> set (rows (products (w_db v)))" "p_sku q = sync_sku E ni"
    and c: "w_product_cache v = alist_set (py_lower name) i (alist_set (py_lower (sync_sku E ni)) i (w_product_cache w))"
    using assms(2,3) by (rule resolve_product_created)
  have "w_ok v" using safe_ok [OF safe_resolve_product assms(1), of E ni] assms(3) by simp
  moreover have "map_of (w_product_cache v) (item_ref E ni) = None"
    using assms(2,4,5) n by (simp add: c)
  ultimately show ?thesis using resolve_product_taken n q by fastforce
qed

end
