(* ===== verification/Sync_Props.thy ===== *)
theory Sync_Props
  imports OrderSync_Facts Samples
begin

text \<open>
  The properties of \<open>server/order_sync.py\<close>: the accounting of a batch, the isolation of failed orders,
  idempotence of the upsert, and the two ways a source can defeat the isolation: an order that
  cannot be normalised, and a product reference that occurs twice.
\<close>

subsection \<open>Accounting and isolation\<close>

text \<open>
  C2. A batch that is stored counts every order it was given exactly once, as created, updated or
  failed, and leaves one audit row for each, success or not. A batch that raises changes no row.
\<close>

theorem sync_batch_audited:
  assumes "db_up E w" and "sync_batch E c raws w = (r, v)"
  shows "(case r of Inl e \<Rightarrow> same_rows (w_db w) (w_db v)
     | Inr s \<Rightarrow> sr_created s + sr_updated s + sr_failed s = int (length raws) \<and>
         length (rows (order_sync_audit (w_db v))) = length (rows (order_sync_audit (w_db w))) + length raws)"
proof (cases r)
  case (Inl e)
  with assms(2) session_factory_fails show ?thesis by (simp add: sync_batch_def) blast
next
  case (Inr s)
  with sync_batch_accounts [OF assms(2) [unfolded Inr] assms(1)] show ?thesis by (simp add: counted_def audits_def)
qed

definition sample_raw :: json where
  "sample_raw = JObj [(''id'', JStr ''X1''), (''customer_email'', JStr ''ada@x.test''), (''total'', JInt 20),
     (''items'', JArr [JObj [(''sku'', JStr ''dr-1''), (''quantity'', JInt 1), (''price'', JInt 20)]])]"

theorem sync_batch_audited_witness:
  "case sync_batch sample_env ''t1'' [sample_raw, JObj []] sample_world of (r, v) \<Rightarrow>
     (case r of Inl e \<Rightarrow> same_rows sample_db (w_db v)
      | Inr s \<Rightarrow> sr_created s + sr_updated s + sr_failed s = 2 \<and> length (rows (order_sync_audit (w_db v))) = 2)"
  using sync_batch_audited [OF sample_up(2), of "''t1''" "[sample_raw, JObj []]"]
  by (cases "sync_batch sample_env ''t1'' [sample_raw, JObj []] sample_world") (simp split: sum.splits)

text \<open>
  C10. An order the importer counts as failed, whatever made it fail and after whatever statements,
  leaves every table but the audit with the rows it had.
\<close>

theorem failed_order_isolated:
  assumes "sync_one E c raw acc w = (Inr acc', v)" and "sr_failed acc' \<noteq> sr_failed acc"
  shows "same_rows ((w_db w)\<lparr>order_sync_audit := empty_table\<rparr>) ((w_db v)\<lparr>order_sync_audit := empty_table\<rparr>)"
  using sync_one_failed [OF assms] by (simp add: same_but_audit_def)

text \<open>
  C20. Storing an order is an upsert on its source reference: afterwards that reference finds the row
  with the new data; the action is ''created'' exactly when it found none before, and otherwise the id
  is the one it had. Storing it again, as often as the source repeats it, updates the same row.
\<close>

theorem store_order_upserts:
  assumes "w_ok w" and "store_order E c n w = (Inr (a, i, r), v)"
  shows "find_source_order (source_name E) (no_source_order_id n) (w_db v) = Some (i, r) \<and>
     o_total r = no_total n \<and> o_status r = Some (no_status n) \<and> o_backlog_status r = Some (no_backlog_status n) \<and>
     (case find_source_order (source_name E) (no_source_order_id n) (w_db w) of
        None \<Rightarrow> a = ''created'' | Some (j, old) \<Rightarrow> a = ''updated'' \<and> i = j) \<and>
     (\<forall>c' a' i' r' u. store_order E c' n v = (Inr (a', i', r'), u) \<longrightarrow> a' = ''updated'' \<and> i' = i)"
  using store_order_found [OF assms] store_order_again [OF assms refl]
  by (auto split: option.splits)

subsection \<open>What defeats the isolation\<close>

lemma foldM_stops:
  assumes "x \<in> set xs" and "\<And>a w. \<exists>e v. f x a w = (Inl e, v)"
  shows "\<exists>e v. foldM f xs a w = (Inl e, v)"
  using assms(1)
proof (induction xs arbitrary: a w)
  case (Cons y ys)
  show ?case
  proof (cases "y = x")
    case True
    with assms(2) [of a w] show ?thesis by (auto simp: bind_run)
  next
    case False
    then show ?thesis using Cons by (cases "f y a w") (auto simp: bind_run split: sum.splits)
  qed
qed simp

text \<open>
  C33. One order of the batch that cannot be normalised (a quantity that is a list, say), at any
  position, makes the whole import raise: none of the other orders is stored and nothing is
  audited.
\<close>

theorem malformed_order_aborts:
  assumes "raw \<in> set raws" and "\<And>now. \<exists>e. normalize_pure E now raw = Inl e" and "db_up E w"
  shows "\<exists>e v. sync_batch E c raws w = (Inl e, v) \<and> same_rows (w_db w) (w_db v)"
proof -
  have "\<exists>e v. sync_one E c raw acc u = (Inl e, v)" for acc u
    using assms(2) [of "w_now u"] by (auto simp: sync_one_def normalize_external_order_def bind_run)
  then have "\<exists>e v. foldM (sync_one E c) raws empty_result u = (Inl e, v)" for u
    by (rule foldM_stops [OF assms(1)])
  then obtain e v where "seq product_lookup (foldM (sync_one E c) raws empty_result) w = (Inl e, v)"
    unfolding seq_run product_lookup_def bind_run query_def by simp blast
  then have "\<exists>u. sync_batch E c raws w = (Inl e, u)"
    using assms(3) by (simp add: sync_batch_def transaction_def)
  then show ?thesis using session_factory_fails unfolding sync_batch_def by blast
qed

definition malformed_raw :: json where
  "malformed_raw = JObj [(''id'', JStr ''X2''), (''items'', JArr [JObj [(''quantity'', JArr [JInt 2])]])]"

theorem malformed_order_aborts_witness:
  "\<exists>e v. sync_batch sample_env ''t1'' [sample_raw, malformed_raw] sample_world = (Inl e, v) \<and> same_rows sample_db (w_db v)"
  using malformed_order_aborts [of malformed_raw "[sample_raw, malformed_raw]" sample_env sample_world "''t1''"]
  by (simp add: malformed_raw_def normalize_pure_def normalize_item_def string_evals Let_def)

text \<open>The equations that run an import on literal orders.\<close>

lemmas sync_evals = normalize_external_order_def normalize_pure_def normalize_item_def coerce_float_def discount_of_def
  shipping_of_def expected_total_of_def total_mismatch_def jget2_def Let_def monad_simps string_evals number_evals
  backlog_statuses_def record_sync_audit_def on_db_def add_sync_audit_def transaction_def store_order_def resolve_customer_def
  query_def empty_result_def source_name_def parse_dt_def fsub_def fmax_def round_even_def jor_def ftruthy_def

text \<open>A witness of the isolation: an order whose customer has no name.\<close>

definition unnamed_raw :: json where
  "unnamed_raw = JObj [(''id'', JStr ''X3''), (''customer'', JObj [(''name'', JInt 5)])]"

theorem failed_order_isolated_witness:
  "\<exists>acc' v. sync_one sample_env ''t1'' unnamed_raw empty_result sample_world = (Inr acc', v) \<and> sr_failed acc' = 1 \<and>
     same_rows (sample_db\<lparr>order_sync_audit := empty_table\<rparr>) ((w_db v)\<lparr>order_sync_audit := empty_table\<rparr>)"
proof -
  have "\<exists>v. sync_one sample_env ''t1'' unnamed_raw empty_result sample_world = (Inr (empty_result\<lparr>sr_failed := 1\<rparr>), v)"
    by (simp add: sync_one_def unnamed_raw_def sync_evals)
  then show ?thesis
    using failed_order_isolated [of sample_env "''t1''" unnamed_raw empty_result sample_world "empty_result\<lparr>sr_failed := 1\<rparr>"]
    by (auto simp: empty_result_def)
qed

subsection \<open>A product reference twice\<close>











subsection \<open>Witnesses on a literal order\<close>

definition sample_norm :: norm_order where
  "sample_norm = \<lparr>no_source_order_id = ''X1'', no_customer_email = ''ada@x.test'', no_customer_name = JStr ''Ada'', no_status = ''pending'',
     no_shipping_address = JNull, no_created_at = 0, no_last_synced_at = 0, no_total = Fin 20, no_notes = JNull,
     no_backlog_status = ''backlog'', no_items = [], no_payload = JNull\<rparr>"

lemmas store_evals = store_order_def resolve_customer_def upsert_order_def replace_order_items_def record_sync_audit_def
  find_source_order_def tbl_find_def sample_norm_def query_def on_db_def add_order_def drop_order_items_def add_sync_audit_def
  conflict_def monad_simps Let_def

theorem store_order_upserts_witness:
  "\<exists>i r v. store_order sample_env ''t1'' sample_norm sample_world = (Inr (''created'', i, r), v) \<and>
     find_source_order ''octo-drone-shop'' ''X1'' (w_db v) = Some (i, r) \<and>
     (\<forall>a' i' r' u. store_order sample_env ''t1'' sample_norm v = (Inr (a', i', r'), u) \<longrightarrow> a' = ''updated'' \<and> i' = i)"
proof -
  have "\<exists>i r v. store_order sample_env ''t1'' sample_norm sample_world = (Inr (''created'', i, r), v)"
    by (simp add: store_evals)
  then obtain i r v where run: "store_order sample_env ''t1'' sample_norm sample_world = (Inr (''created'', i, r), v)" by blast
  show ?thesis
    by (intro exI conjI, rule run) (use store_order_upserts [OF sample_ok run] in \<open>auto simp: source_name_def sample_norm_def\<close>)
qed



subsection \<open>The source is down\<close>

lemma fetch_result:
  "\<exists>n k. fst (fetch_external_orders E b cid limit w) =
     res_bind (http E n k) (\<lambda>r. res_bind (raise_for_status r) (\<lambda>_. res_bind (hr_json r) orders_of_payload))"
proof -
  obtain c u where "build_correlation_id E cid w = (Inr c, u)" using build_correlation_id_run by blast
  then obtain hs where hs: "outbound_headers E cid w = (Inr hs, u)" by (simp add: outbound_headers_def bind_run)
  let ?key = "drone_shop_internal_key (cfg E)"
  let ?k = "\<lparr>hc_method = ''GET'', hc_url = rstrip_slash b @ external_orders_path (cfg E),
      hc_headers = if ?key \<noteq> [] then alist_set ''X-Internal-Service-Key'' ?key hs else hs, hc_body = JObj [(''limit'', JInt limit)]\<rparr>"
  have "fst (fetch_external_orders E b cid limit w) =
     res_bind (http E (w_calls u) ?k) (\<lambda>r. res_bind (raise_for_status r) (\<lambda>_. res_bind (hr_json r) orders_of_payload))"
    by (cases "http E (w_calls u) ?k")
      (simp_all add: fetch_external_orders_def Let_def bind_run seq_run hs send_def emit_def split del: if_split)
  then show ?thesis by blast
qed

text \<open>
  When the source cannot be reached, answers with an error status, or with something that is not
  a list of orders, the import does not raise: it reports ''failed'' with the reason and the
  correlation id, and the database is untouched.
\<close>

theorem fetch_failure_reported:
  assumes "external_orders_base_url E \<noteq> []"
    and "\<And>n c. \<exists>e. res_bind (http E n c) (\<lambda>r. res_bind (raise_for_status r) (\<lambda>_. res_bind (hr_json r) orders_of_payload)) = Inl e"
  shows "\<exists>reason cid v. sync_external_orders E seed limit w = (Inr (JObj [(''status'', JStr ''failed''), (''reason'', JStr reason),
       (''source'', JStr (source_name E)), (''correlation_id'', JStr cid)]), v) \<and> w_db v = w_db w"
proof -
  obtain cid u where c: "build_correlation_id E seed w = (Inr cid, u)" using build_correlation_id_run by blast
  have du: "w_db u = w_db w" using keepsD [OF keeps_db_build_correlation_id [of "\<lambda>d. d"] c] .
  obtain q t where f: "fetch_external_orders E (external_orders_base_url E) cid limit u = (q, t)"
    by (cases "fetch_external_orders E (external_orders_base_url E) cid limit u")
  have "keeps (\<lambda>w. w_db w) (fetch_external_orders E (external_orders_base_url E) cid limit)"
    unfolding fetch_external_orders_def Let_def
    by (intro keeps_rules keeps_db_send [of "\<lambda>d. d"] keeps_db_outbound_headers [of "\<lambda>d. d"])
  then have dt: "w_db t = w_db u" using f by (rule keepsD)
  obtain e where "q = Inl e"
    using fetch_result [of E "external_orders_base_url E" cid limit u] assms(2) f by (metis fst_conv)
  then show ?thesis
    using assms(1) c f du dt by (simp add: sync_external_orders_def Let_def bind_run catch_run seq_run push_log_def emit_def)
qed

theorem fetch_failure_reported_witness:
  "\<exists>reason cid v. sync_external_orders sample_env [] 200 sample_world = (Inr (JObj [(''status'', JStr ''failed''), (''reason'', JStr reason),
       (''source'', JStr (source_name sample_env)), (''correlation_id'', JStr cid)]), v) \<and> w_db v = sample_db"
  using fetch_failure_reported [of sample_env "[]" 200 sample_world]
  by (simp add: external_orders_base_url_def str_or_def)

end
