(* ===== verification/Refine_Props.thy ===== *)
theory Refine_Props
  imports Sync_Props
begin

text \<open>
  The import of orders against an abstract specification: seen through the references of the source, a
  batch is a sequence of updates of a map.
\<close>

subsection \<open>The abstract import\<close>

text \<open>What the CRM knows of an order of a source: its total, its status and whether it is in the backlog.\<close>

type_synonym order_view = "string \<times> string \<Rightarrow> (pyfloat \<times> string option \<times> string option) option"

definition order_view :: "db \<Rightarrow> order_view" where
  "order_view d k = map_option (\<lambda>(i, r). (o_total r, o_status r, o_backlog_status r)) (find_source_order (fst k) (snd k) d)"

definition import_step :: "env \<Rightarrow> int \<Rightarrow> order_view \<Rightarrow> json \<times> bool \<Rightarrow> order_view" where
  "import_step E now m p = (case (normalize_pure E now (fst p), snd p) of
     (Inr (n, _), True) \<Rightarrow> m((source_name E, no_source_order_id n) \<mapsto> (no_total n, Some (no_status n), Some (no_backlog_status n)))
   | _ \<Rightarrow> m)"

subsection \<open>One order\<close>

lemma find_source_order_orders: "orders d = orders e \<Longrightarrow> find_source_order s k d = find_source_order s k e"
  by (simp add: find_source_order_def)

lemma order_view_orders: "orders d = orders e \<Longrightarrow> order_view d = order_view e"
  by (rule ext) (simp add: order_view_def find_source_order_orders [of d e])

text \<open>The rows of another reference are found as before.\<close>

lemma upsert_order_others:
  assumes ok: "w_ok w" and run: "upsert_order E cid n c w = (Inr (a, i, r), v)"
    and other: "(s, k) \<noteq> (source_name E, no_source_order_id n)"
  shows "find_source_order s k (w_db v) = find_source_order s k (w_db w)"
proof -
  let ?p = "\<lambda>r. o_source_system r = Some s \<and> o_source_order_id r = Some k"
  let ?q = "\<lambda>r. o_source_system r = Some (source_name E) \<and> o_source_order_id r = Some (no_source_order_id n)"
  have t: "tbl_ok (orders (w_db w))" using ok by (simp add: w_ok_def db_invs)
  have set: "tbl_find ?p (tbl_set j q (orders (w_db w))) = tbl_find ?p (orders (w_db w))"
    if "tbl_find ?q (orders (w_db w)) = Some (j, old)" and "o_source_system q = o_source_system old"
      and "o_source_order_id q = o_source_order_id old" for j old q
  proof -
    have "tbl_get (orders (w_db w)) j = Some old \<and> ?q old" by (rule tbl_find_get [OF t that(1)])
    with that(2,3) other show ?thesis by (intro tbl_find_set_other [OF t, of j old]) auto
  qed
  show ?thesis
    using run other unfolding find_source_order_def
    by (auto simp: upsert_order_def bind_run seq_run query_def find_source_order_def on_db_def add_order_def put_order_def
          tbl_find_insert Let_def set
        split: sum.splits option.splits if_splits)
qed

text \<open>How many orders there are: one more exactly for ''created''.\<close>

lemma upsert_order_count:
  assumes "upsert_order E cid n c w = (Inr (a, i, r), v)"
  shows "int (length (rows (orders (w_db v)))) = int (length (rows (orders (w_db w)))) + (if a = ''created'' then 1 else 0)"
  using assms
  by (auto simp: upsert_order_def bind_run seq_run query_def on_db_def add_order_def put_order_def tbl_insert_def tbl_set_def tbl_map_def
        Let_def split: sum.splits option.splits if_splits)

lemma store_order_view:
  assumes ok: "w_ok w" and run: "store_order E c n w = (Inr (a, i, r), v)"
  shows "order_view (w_db v) = (order_view (w_db w))
      ((source_name E, no_source_order_id n) \<mapsto> (no_total n, Some (no_status n), Some (no_backlog_status n)))"
    and "int (length (rows (orders (w_db v)))) = int (length (rows (orders (w_db w)))) + (if a = ''created'' then 1 else 0)"
proof -
  obtain cid w1 w2 where 1: "resolve_customer E n w = (Inr cid, w1)" and 2: "upsert_order E cid n c w1 = (Inr (a, i, r), w2)"
    and o2: "orders (w_db v) = orders (w_db w2)" and o1: "orders (w_db w1) = orders (w_db w)"
    using run by (rule store_order_run)
  have ok1: "w_ok w1" using safe_ok [OF safe_resolve_customer ok, of E n] 1 by simp
  have "order_view (w_db v) k = ((order_view (w_db w))
      ((source_name E, no_source_order_id n) \<mapsto> (no_total n, Some (no_status n), Some (no_backlog_status n)))) k" for k
  proof (cases "k = (source_name E, no_source_order_id n)")
    case True
    with store_order_found [OF ok run] show ?thesis by (simp add: order_view_def)
  next
    case False
    with upsert_order_others [OF ok1 2, of "fst k" "snd k"] show ?thesis
      by (simp add: order_view_def find_source_order_orders [OF o2] find_source_order_orders [OF o1])
  qed
  then show "order_view (w_db v) = (order_view (w_db w))
      ((source_name E, no_source_order_id n) \<mapsto> (no_total n, Some (no_status n), Some (no_backlog_status n)))" by (rule ext)
  show "int (length (rows (orders (w_db v)))) = int (length (rows (orders (w_db w)))) + (if a = ''created'' then 1 else 0)"
    using upsert_order_count [OF 2] by (simp add: o1 o2)
qed

subsection \<open>Time does not pass\<close>

text \<open>The clock and the number of requests sent.\<close>

definition clock :: "world \<Rightarrow> int \<times> nat" where
  "clock w = (w_now w, w_calls w)"

lemma keeps_clock_transaction:
  assumes "keeps clock m"
  shows "keeps clock (transaction m)"
proof (rule keepsI)
  fix w
  obtain r v where m: "m w = (r, v)" by (cases "m w")
  have "clock v = clock w" by (rule keepsD [OF assms m])
  then show "clock (snd (transaction m w)) = clock w"
    by (cases r) (simp_all add: transaction_def m clock_def)
qed

lemma keeps_clock_emit: "keeps clock (emit e)"
  by (simp add: emit_def keeps_modify clock_def)

lemma keeps_clock_on_db: "keeps clock (on_db m)"
  by (rule keepsI) (simp add: on_db_def clock_def split: prod.splits)

lemma keeps_clock_alert: "keeps clock (seq (security_span a b) (log_security_event t s m i u p x))"
  unfolding security_span_def metric_def log_security_event_def push_log_def by (intro keeps_rules keeps_clock_emit)

lemmas keeps_clock_rules = keeps_rules keeps_db_query keeps_clock_transaction keeps_clock_emit keeps_clock_on_db keeps_clock_alert

lemma keeps_clock_audit: "keeps clock (record_sync_audit E i a s m c)"
  unfolding record_sync_audit_def by (intro keeps_clock_rules)

lemma keeps_clock_normalize: "keeps clock (normalize_external_order E raw)"
  unfolding normalize_external_order_def by (intro keeps_clock_rules)

lemma keeps_clock_resolve_product: "keeps clock (resolve_product E ni)"
  unfolding resolve_product_def by (intro keeps_clock_rules keeps_modify) (simp add: clock_def)

lemma keeps_clock_store_order: "keeps clock (store_order E c n)"
  unfolding store_order_def resolve_customer_def upsert_order_def replace_order_items_def store_item_def Let_def
  by (intro keeps_clock_rules keeps_clock_resolve_product keeps_clock_audit)

lemma keeps_clock_sync_one: "keeps clock (sync_one E c raw acc)"
  unfolding sync_one_def by (intro keeps_clock_rules keeps_clock_normalize keeps_clock_store_order keeps_clock_audit)

subsection \<open>A batch\<close>

definition stored_count :: "sync_result \<Rightarrow> int" where
  "stored_count s = sr_created s + sr_updated s"

lemma count_action_counts:
  "stored_count (count_action a i r acc) = stored_count acc + 1"
  "sr_created (count_action a i r acc) = sr_created acc + (if a = ''created'' then 1 else 0)"
  by (simp_all add: stored_count_def count_action_def)

text \<open>The outcome of one order: whether it was stored, and what the view and the number of orders became.\<close>

lemma sync_one_view:
  assumes ok: "w_ok w" and run: "sync_one E c raw acc w = (Inr acc', v)"
  shows "\<exists>b. order_view (w_db v) = import_step E (w_now w) (order_view (w_db w)) (raw, b) \<and>
     stored_count acc' = stored_count acc + (if b then 1 else 0) \<and>
     int (length (rows (orders (w_db v)))) - sr_created acc' = int (length (rows (orders (w_db w)))) - sr_created acc"
proof -
  obtain n w1 where n: "normalize_external_order E raw w = (Inr n, w1)"
    and s: "(if no_source_order_id n = []
     then seq (record_sync_audit E [] ''skip'' ''invalid'' ''Missing source order id'' c)
          (ret (acc\<lparr>sr_failed := sr_failed acc + 1\<rparr>))
     else catch
       (bind (transaction (store_order E c n)) (\<lambda>(action, i, r). ret (count_action action i r acc)))
       (\<lambda>e. seq (record_sync_audit E (no_source_order_id n) ''upsert'' ''failed'' (exc_str e) c)
            (ret (acc\<lparr>sr_failed := sr_failed acc + 1\<rparr>)))) w1 = (Inr acc', v)"
    using run unfolding sync_one_def by (rule bind_InrE)
  have db: "w_db w1 = w_db w" by (rule keepsD [OF keeps_normalize [of "\<lambda>d. d"] n])
  have ok1: "w_ok w1" using ok db by (simp add: w_ok_def)
  obtain mm where pure: "normalize_pure E (w_now w) raw = Inr (n, mm)"
    using n by (auto simp: normalize_external_order_def bind_run seq_run split: sum.splits prod.splits if_splits)
  have failed: ?thesis if "acc' = acc\<lparr>sr_failed := sr_failed acc + 1\<rparr>" and "orders (w_db v) = orders (w_db w)"
    by (rule exI [of _ False]) (simp add: that import_step_def order_view_orders [OF that(2)] stored_count_def split: sum.split)
  show ?thesis
  proof (cases "no_source_order_id n = []")
    case True
    with s db show ?thesis by (intro failed) (auto simp: seq_run record_sync_audit_run)
  next
    case False
    obtain q u where t: "transaction (store_order E c n) w1 = (q, u)" by (cases "transaction (store_order E c n) w1")
    show ?thesis
    proof (cases q)
      case (Inl e)
      then obtain u' where "u = u'\<lparr>w_db := db_rollback (w_db w1) (w_db u')\<rparr>" using t by (auto dest: transaction_Inl)
      then have "rows (orders (w_db u)) = rows (orders (w_db w))" using db by (simp add: db_rollback_def)
      with s db False t Inl show ?thesis
        by (intro exI [of _ False])
          (auto simp: catch_run bind_run seq_run record_sync_audit_run import_step_def stored_count_def order_view_def
             find_source_order_def tbl_find_def fun_eq_iff split: sum.splits)
    next
      case (Inr x)
      obtain a i r where x: "x = (a, i, r)" by (cases x)
      have "store_order E c n w1 = (Inr (a, i, r), u)" using t by (simp add: Inr x transaction_Inr)
      note view = store_order_view [OF ok1 this]
      have "acc' = count_action a i r acc" "v = u"
        using s False t Inr x by (auto simp: catch_run bind_run)
      then show ?thesis
        using view db by (intro exI [of _ True]) (simp add: import_step_def pure count_action_counts)
    qed
  qed
qed

lemma sync_fold_view:
  assumes "w_ok w" and "foldM (sync_one E c) raws acc w = (Inr acc', v)"
  shows "\<exists>stored. length stored = length raws \<and>
     order_view (w_db v) = foldl (import_step E (w_now w)) (order_view (w_db w)) (zip raws stored) \<and>
     stored_count acc' = stored_count acc + int (length (filter (\<lambda>b. b) stored)) \<and>
     int (length (rows (orders (w_db v)))) - sr_created acc' = int (length (rows (orders (w_db w)))) - sr_created acc"
  using assms
proof (induction raws arbitrary: acc w)
  case (Cons raw raws)
  obtain a u where 1: "sync_one E c raw acc w = (Inr a, u)" and 2: "foldM (sync_one E c) raws a u = (Inr acc', v)"
    using Cons.prems(2) unfolding foldM.simps by (rule bind_InrE)
  have "w_ok u" using safe_ok [OF safe_sync_one Cons.prems(1), of E c raw acc] 1 by simp
  from Cons.IH [OF this 2] obtain bs where bs: "length bs = length raws"
      "order_view (w_db v) = foldl (import_step E (w_now u)) (order_view (w_db u)) (zip raws bs)"
      "stored_count acc' = stored_count a + int (length (filter (\<lambda>b. b) bs))"
      "int (length (rows (orders (w_db v)))) - sr_created acc' = int (length (rows (orders (w_db u)))) - sr_created a" by blast
  have now: "w_now u = w_now w" using keepsD [OF keeps_clock_sync_one 1] by (simp add: clock_def)
  from sync_one_view [OF Cons.prems(1) 1] obtain b where b:
      "order_view (w_db u) = import_step E (w_now w) (order_view (w_db w)) (raw, b)"
      "stored_count a = stored_count acc + (if b then 1 else 0)"
      "int (length (rows (orders (w_db u)))) - sr_created a = int (length (rows (orders (w_db w)))) - sr_created acc" by blast
  show ?case by (rule exI [of _ "b # bs"]) (use bs b now in \<open>cases b; simp\<close>)
qed simp

text \<open>
  C3. A batch that is stored refines the abstract import: there is a choice of the orders that were
  stored, as many as the result counts as created or updated, such that the map from source references
  to total, status and backlog flag is the old map with the data of these orders put in, one after
  another; and the orders table has grown by exactly the number counted as created.
\<close>

theorem import_refines_map:
  assumes "w_ok w" and "db_up E w" and "sync_batch E c raws w = (Inr s, v)"
  shows "\<exists>stored. length stored = length raws \<and> int (length (filter (\<lambda>b. b) stored)) = sr_created s + sr_updated s \<and>
     order_view (w_db v) = foldl (import_step E (w_now w)) (order_view (w_db w)) (zip raws stored) \<and>
     int (length (rows (orders (w_db v)))) = int (length (rows (orders (w_db w)))) + sr_created s"
proof -
  have "seq product_lookup (foldM (sync_one E c) raws empty_result) w = (Inr s, v)"
    using assms(2,3) unfolding sync_batch_def session_factory_up [OF assms(2)] transaction_Inr by simp
  then obtain u where u: "product_lookup w = (Inr (), u)" and f: "foldM (sync_one E c) raws empty_result u = (Inr s, v)"
    by (rule seq_InrE)
  have "w_db u = w_db w" "w_now u = w_now w" using u by (auto simp: product_lookup_def bind_run query_def)
  moreover from this have "w_ok u" using assms(1) by (simp add: w_ok_def)
  note view = sync_fold_view [OF this f]
  ultimately show ?thesis by (auto simp: stored_count_def empty_result_def dest: view [THEN exE] intro: exI)
qed


definition plain_raw :: json where
  "plain_raw = JObj [(''id'', JStr ''X1''), (''customer'', JObj [(''name'', JStr ''Ada''), (''email'', JStr ''ada@x.test'')]), (''total'', JInt 20)]"

lemma plain_one: "\<exists>s v. sync_one sample_env ''t1'' plain_raw empty_result (sample_world\<lparr>w_product_cache := pc\<rparr>) = (Inr s, v) \<and>
    sr_created s = 1 \<and> sr_updated s = 0 \<and> sr_failed s = 0"
  by (simp add: sync_one_def plain_raw_def sync_evals store_evals count_action_def)

lemma plain_batch: "\<exists>s v. sync_batch sample_env ''t1'' [plain_raw] sample_world = (Inr s, v) \<and>
    sr_created s = 1 \<and> sr_updated s = 0 \<and> sr_failed s = 0"
proof -
  have "product_lookup sample_world = (Inr (), sample_world\<lparr>w_product_cache := product_entries (rows (products sample_db)) []\<rparr>)"
    by (simp add: product_lookup_def query_def bind_run)
  then show ?thesis
    using plain_one [of "product_entries (rows (products sample_db)) []"]
    by (auto simp: sync_batch_def seq_run bind_run transaction_def)
qed

theorem import_refines_map_witness:
  "\<exists>s v. sync_batch sample_env ''t1'' [plain_raw] sample_world = (Inr s, v) \<and>
     (\<exists>stored. length stored = 1 \<and> int (length (filter (\<lambda>b. b) stored)) = 1 \<and>
        order_view (w_db v) = foldl (import_step sample_env (w_now sample_world)) (order_view sample_db) (zip [plain_raw] stored) \<and>
        int (length (rows (orders (w_db v)))) = int (length (rows (orders sample_db))) + 1)"
proof -
  obtain s v where run: "sync_batch sample_env ''t1'' [plain_raw] sample_world = (Inr s, v)"
    and s: "sr_created s = 1" "sr_updated s = 0" using plain_batch by blast
  from import_refines_map [OF sample_ok sample_up(2) run] s show ?thesis
    by (intro exI [of _ s] exI [of _ v] conjI, simp add: run) simp
qed

end
