(* ===== verification/Auth.thy ===== *)
theory Auth
  imports Sessions
begin

text \<open>
  \<open>server/modules/auth.py\<close>, local accounts: login with its rate limit, registration, session info
  and logout. A response carries a status, a body and what it does to cookies.
\<close>

record set_cookie =
  ck_name :: string
  ck_value :: string
  ck_httponly :: bool
  ck_samesite :: string
  ck_secure :: bool
  ck_max_age :: "int option"

record response =
  rs_status :: nat
  rs_body :: json
  rs_location :: "string option"
  rs_cookies :: "set_cookie list"
  rs_deleted :: "string list"

definition json_response :: "json \<Rightarrow> response" where
  "json_response j = \<lparr>rs_status = 200, rs_body = j, rs_location = None, rs_cookies = [], rs_deleted = []\<rparr>"

definition redirect :: "string \<Rightarrow> response" where
  "redirect url = \<lparr>rs_status = 307, rs_body = JNull, rs_location = Some url, rs_cookies = [], rs_deleted = []\<rparr>"

definition login_window :: int where
  "login_window = 300 * sec"

subsection \<open>Login\<close>

text \<open>Attempts of a client that still count.\<close>

definition recent_attempts :: "world \<Rightarrow> string \<Rightarrow> int list" where
  "recent_attempts w ip = filter (\<lambda>ts. w_now w - ts \<le> login_window)
     (case map_of (w_login_attempts w) ip of None \<Rightarrow> [] | Some ts \<Rightarrow> ts)"

definition put_attempts :: "string \<Rightarrow> int list \<Rightarrow> unit handler" where
  "put_attempts ip ts = modify (\<lambda>w. w\<lparr>w_login_attempts := alist_set ip ts (w_login_attempts w)\<rparr>)"

text \<open>The \<open>ORDER BY\<close> of the lookup: CRM-owned users first, then the exact username, then the prefixed one.\<close>

definition login_rank :: "string \<Rightarrow> user_row \<Rightarrow> nat" where
  "login_rank u r = (if endswith (u_email r) ''@crm-enterprise.local'' then 0 else 3) +
     (if u_username r = u then 0 else if u_username r = ''crm-'' @ u then 1 else 2)"

definition login_lookup :: "string \<Rightarrow> db \<Rightarrow> (int \<times> user_row) option" where
  "login_lookup u d = (case sort_key (\<lambda>p. login_rank u (snd p))
       (tbl_select (\<lambda>r. u_username r = u \<or> u_username r = ''crm-'' @ u \<or> u_email r = u) (users d)) of
     [] \<Rightarrow> None | p # ps \<Rightarrow> Some p)"

definition check_bcrypt :: "env \<Rightarrow> string \<Rightarrow> string \<Rightarrow> bool" where
  "check_bcrypt E password hash = (case bcrypt_verify E password hash of None \<Rightarrow> False | Some b \<Rightarrow> b)"

definition add_user_session :: "string \<Rightarrow> int \<Rightarrow> user_row \<Rightarrow> string \<Rightarrow> unit handler" where
  "add_user_session sid uid u how = bind (gets w_now) (\<lambda>now.
     bind (on_db (add_session \<lparr>us_session_id = sid, us_user_id = uid, us_username = u_username u, us_role = u_role u,
       us_auth_method = how, us_created_at = now\<rparr>)) (\<lambda>_. ret ()))"

definition login_failed :: "string \<Rightarrow> string \<Rightarrow> int list \<Rightarrow> response handler" where
  "login_failed ip reason attempts =
     seq (metric ''login_failure'' [JStr reason])
     (bind (gets w_now) (\<lambda>now. seq (put_attempts ip (attempts @ [now]))
     (ret (json_response (JObj [(''error'', JStr ''Invalid credentials''), (''status'', JStr ''failed'')])))))"

definition rate_limited :: "string \<Rightarrow> string \<Rightarrow> response handler" where
  "rate_limited ip username =
     seq (security_span ''broken_auth'' ''high'')
     (seq (log_security_event ''broken_auth'' ''high'' (''Login rate limit exceeded from '' @ ip) ip username [] [])
     (ret ((json_response (JObj [(''error'', JStr ''Too many login attempts. Try again later.''),
        (''status'', JStr ''rate_limited'')]))\<lparr>rs_status := 429\<rparr>)))"

definition login_success :: "env \<Rightarrow> request \<Rightarrow> string \<Rightarrow> string \<Rightarrow> int \<Rightarrow> user_row \<Rightarrow> response handler" where
  "login_success E rq ip username uid u = bind (draw E) (\<lambda>sid.
     seq (add_user_session sid uid u ''password'')
     (seq (modify (\<lambda>w. w\<lparr>w_login_attempts := alist_del ip (w_login_attempts w)\<rparr>))
     (seq (metric ''login_success'' [JStr ''password'', JStr (str_or (u_role u) ''user'')])
     (seq (push_log ''INFO'' (''User '' @ username @ '' logged in'')
            [(''auth.username'', JStr username), (''auth.role'', JStr (u_role u)), (''http.client_ip'', JStr ip)])
     (ret ((json_response (JObj [(''status'', JStr ''success''), (''user'', JObj [(''id'', JInt uid),
          (''username'', JStr (u_username u)), (''role'', JStr (u_role u))])]))
        \<lparr>rs_cookies := [\<lparr>ck_name = ''session_id'', ck_value = sid, ck_httponly = True, ck_samesite = ''lax'',
            ck_secure = is_https rq, ck_max_age = Some (session_timeout_seconds (cfg E))\<rparr>]\<rparr>))))))"

definition login :: "env \<Rightarrow> string \<Rightarrow> string \<Rightarrow> request \<Rightarrow> response handler" where
  "login E username password rq =
     (let ip = client_ip rq in
      bind (gets (\<lambda>w. recent_attempts w ip)) (\<lambda>attempts.
      seq (put_attempts ip attempts)
      (if max_login_attempts (cfg E) \<le> int (length attempts) then rate_limited ip username else
       get_db E (bind (query (login_lookup username)) (\<lambda>found.
         case found of None \<Rightarrow> login_failed ip ''user_not_found'' attempts
         | Some (uid, u) \<Rightarrow>
             if \<not> check_bcrypt E password (u_password_hash u) then login_failed ip ''invalid_password'' attempts
             else login_success E rq ip username uid u)))))"

subsection \<open>Registration, session, logout\<close>

definition register :: "env \<Rightarrow> string \<Rightarrow> string \<Rightarrow> string \<Rightarrow> request \<Rightarrow> json handler" where
  "register E username email password rq =
     bind (lift (rq_body rq)) (\<lambda>body.
     bind (lift (jget_or body ''role'' (JStr []))) (\<lambda>r.
     let role = ''user''; requested_role = py_lower (py_strip (jstr (rep E) r)) in
     seq (if requested_role \<noteq> [] \<and> requested_role \<noteq> role
          then seq (security_span ''mass_assignment'' ''high'')
            (log_security_event ''mass_assignment'' ''high'' (''Ignored role assignment attempt by '' @ username)
               (client_ip rq) username [] [])
          else ret ())
     (bind (gets w_now) (\<lambda>now.
      seq (get_db E (bind (on_db (add_user \<lparr>u_username = username, u_email = email,
             u_password_hash = bcrypt_hash E password, u_role = role, u_is_active = None, u_last_login = None,
             u_created_at = now\<rparr>)) (\<lambda>_. ret ())))
      (ret (JObj [(''status'', JStr ''created''), (''username'', JStr username), (''role'', JStr role)]))))))"

definition get_session :: "env \<Rightarrow> request \<Rightarrow> json handler" where
  "get_session E rq =
     (let sid = cookie rq ''session_id''; no = JObj [(''authenticated'', JBool False)] in
      if sid = [] then ret no else
      bind (get_db E (query (tbl_find (\<lambda>r. us_session_id r = sid) \<circ> user_sessions))) (\<lambda>row.
      case row of None \<Rightarrow> ret no
      | Some (i, r) \<Rightarrow> ret (JObj [(''authenticated'', JBool True), (''user_id'', JInt (us_user_id r)),
          (''username'', JStr (us_username r)), (''role'', JStr (us_role r))])))"

definition logout :: "env \<Rightarrow> request \<Rightarrow> response handler" where
  "logout E rq =
     (let sid = cookie rq ''session_id'' in
      seq (if sid \<noteq> [] then seq (get_db E (on_db (drop_sessions sid))) (metric ''logout'' []) else ret ())
      (ret ((json_response (JObj [(''status'', JStr ''logged_out'')]))\<lparr>rs_deleted := [''session_id'']\<rparr>)))"

subsection \<open>Safety\<close>

lemma safe_put_attempts [safe_intro]: "W.safe E A (put_attempts ip ts)"
  unfolding put_attempts_def by (rule safe_modify_db) simp

lemma safe_add_user_session: "s \<in> A \<Longrightarrow> W.safe E A (add_user_session s i u h)"
  unfolding add_user_session_def by (intro safe_intro add_session_ok) simp

lemma safe_login_success [safe_intro]: "W.safe E A (login_success E rq ip n i u)"
  unfolding login_success_def
  by (rule safe_draw_then, intro safe_intro safe_add_user_session, assumption, intro safe_modify_db) simp

lemma safe_login [safe_intro]: "W.safe E A (login E u p rq)"
  unfolding login_def Let_def rate_limited_def login_failed_def by (intro safe_intro)

lemma safe_register [safe_intro]: "W.safe E A (register E u e p rq)"
  unfolding register_def Let_def by (intro safe_intro)

lemma safe_get_session [safe_intro]: "W.safe E A (get_session E rq)"
  unfolding get_session_def Let_def by (intro safe_intro)

lemma safe_logout [safe_intro]: "W.safe E A (logout E rq)"
  unfolding logout_def Let_def by (intro safe_intro)

end
