(* ===== verification/Base64.thy ===== *)
theory Base64
  imports PyValue
begin

text \<open>
  The parts of Python's \<open>base64\<close> and \<open>binascii\<close> that the server calls, on strings of bytes: encoding with
  the standard and the URL-safe alphabet, and decoding, which skips what is not in the alphabet and
  stops at a complete padding. Encoding and decoding round trip, also where the padding was stripped
  and is put back too long, as \<open>_decode_jwt_claims\<close> does.
\<close>

subsection \<open>Digits\<close>

text \<open>\<open>A\<close> to \<open>Z\<close>, \<open>a\<close> to \<open>z\<close>, \<open>0\<close> to \<open>9\<close>, \<open>+\<close> and \<open>/\<close>.\<close>

definition b64_digit :: "nat \<Rightarrow> char" where
  "b64_digit n = (if n < 26 then char_of (n + 65) else if n < 52 then char_of (n + 71) else if n < 62 then char_of (n - 4)
     else if n = 62 then CHR ''+'' else CHR ''/'')"

definition b64_value :: "char \<Rightarrow> nat option" where
  "b64_value c = (let n = (of_char c :: nat) in
     if 65 \<le> n \<and> n \<le> 90 then Some (n - 65) else if 97 \<le> n \<and> n \<le> 122 then Some (n - 71)
     else if 48 \<le> n \<and> n \<le> 57 then Some (n + 4) else if c = CHR ''+'' then Some 62 else if c = CHR ''/'' then Some 63 else None)"

definition byte :: "nat \<Rightarrow> char" where
  "byte n = char_of n"

subsection \<open>Encoding\<close>

text \<open>The digits without padding; the padding fills the last group of four.\<close>

fun b64_data :: "string \<Rightarrow> string" where
  "b64_data [] = []"
| "b64_data [a] = (let x = of_char a in [b64_digit (x div 4), b64_digit (x mod 4 * 16)])"
| "b64_data [a, b] = (let x = of_char a; y = of_char b in
     [b64_digit (x div 4), b64_digit (x mod 4 * 16 + y div 16), b64_digit (y mod 16 * 4)])"
| "b64_data (a # b # c # s) = (let x = of_char a; y = of_char b; z = of_char c in
     b64_digit (x div 4) # b64_digit (x mod 4 * 16 + y div 16) # b64_digit (y mod 16 * 4 + z div 64) # b64_digit (z mod 64) # b64_data s)"

definition b64encode :: "string \<Rightarrow> string" where
  "b64encode s = b64_data s @ replicate ((3 - length s mod 3) mod 3) CHR ''=''"

definition urlsafe_char :: "char \<Rightarrow> char" where
  "urlsafe_char c = (if c = CHR ''+'' then CHR ''-'' else if c = CHR ''/'' then CHR ''_'' else c)"

definition urlsafe_b64encode :: "string \<Rightarrow> string" where
  "urlsafe_b64encode s = map urlsafe_char (b64encode s)"

subsection \<open>Decoding\<close>

text \<open>
  \<open>binascii.a2b_base64\<close>, not strict: \<open>n\<close> digits read, \<open>q\<close> of them in the current group, \<open>l\<close> the bits left
  over and \<open>p\<close> pads in a row.
\<close>

definition emit_byte :: "nat \<Rightarrow> string + string \<Rightarrow> string + string" where
  "emit_byte v r = (case r of Inl m \<Rightarrow> Inl m | Inr s \<Rightarrow> Inr (byte v # s))"

fun a2b_base64 :: "nat \<Rightarrow> nat \<Rightarrow> nat \<Rightarrow> nat \<Rightarrow> string \<Rightarrow> string + string" where
  "a2b_base64 n q l p [] =
     (if q = 0 then Inr []
      else if q = 1 then Inl (''Invalid base64-encoded string: number of data characters ('' @ int_str (int n) @
        '') cannot be 1 more than a multiple of 4'')
      else Inl ''Incorrect padding'')"
| "a2b_base64 n q l p (c # cs) =
     (if c = CHR ''='' then (if 2 \<le> q \<and> 4 \<le> q + p + 1 then Inr [] else a2b_base64 n q l (if 2 \<le> q then p + 1 else p) cs)
      else case b64_value c of
        None \<Rightarrow> a2b_base64 n q l p cs
      | Some v \<Rightarrow>
          if q = 0 then a2b_base64 (n + 1) 1 v 0 cs
          else if q = 1 then emit_byte (l * 4 + v div 16) (a2b_base64 (n + 1) 2 (v mod 16) 0 cs)
          else if q = 2 then emit_byte (l * 16 + v div 4) (a2b_base64 (n + 1) 3 (v mod 4) 0 cs)
          else emit_byte (l * 64 + v) (a2b_base64 (n + 1) 0 0 0 cs))"

definition b64decode :: "string \<Rightarrow> string + string" where
  "b64decode s = a2b_base64 0 0 0 0 s"

definition from_urlsafe :: "char \<Rightarrow> char" where
  "from_urlsafe c = (if c = CHR ''-'' then CHR ''+'' else if c = CHR ''_'' then CHR ''/'' else c)"

definition urlsafe_b64decode :: "string \<Rightarrow> string + string" where
  "urlsafe_b64decode s = b64decode (map from_urlsafe s)"

subsection \<open>Round trip\<close>

lemma b64_digit_value: "n < 64 \<Longrightarrow> b64_value (b64_digit n) = Some n"
  by (auto simp: b64_digit_def b64_value_def Let_def)

lemma b64_value_code: "b64_value c = Some n \<Longrightarrow> c \<noteq> CHR ''='' \<and> c \<noteq> CHR ''-'' \<and> c \<noteq> CHR ''_'' \<and> c \<noteq> CHR ''.''"
  by (auto simp: b64_value_def Let_def split: if_splits)

lemmas b64_digit_other = b64_value_code [OF b64_digit_value]

lemma byte_of_char [simp]: "byte (of_char c) = c"
  by (simp add: byte_def)

lemma code_bound: "(of_char c :: nat) < 256"
  by (metis (mono_tags) nat_of_char_less_256)

lemma digit_step: "v < 64 \<Longrightarrow> a2b_base64 n q l p (b64_digit v # cs) =
     (if q = 0 then a2b_base64 (n + 1) 1 v 0 cs
      else if q = 1 then emit_byte (l * 4 + v div 16) (a2b_base64 (n + 1) 2 (v mod 16) 0 cs)
      else if q = 2 then emit_byte (l * 16 + v div 4) (a2b_base64 (n + 1) 3 (v mod 4) 0 cs)
      else emit_byte (l * 64 + v) (a2b_base64 (n + 1) 0 0 0 cs))"
  using b64_digit_other [of v] by (simp add: b64_digit_value)

lemma pad_step: "a2b_base64 n q l p (CHR ''='' # cs) =
     (if 2 \<le> q \<and> 4 \<le> q + p + 1 then Inr [] else a2b_base64 n q l (if 2 \<le> q then p + 1 else p) cs)"
  by simp

lemma only_padding: "a2b_base64 n 0 l p (replicate k CHR ''='') = Inr []"
  by (induction k arbitrary: p) simp_all

lemma byte_arith:
  fixes x y z :: nat
  assumes "x < 256" and "y < 256" and "z < 256"
  shows "x div 4 < 64" "x mod 4 * 16 < 64" "x mod 4 * 16 + y div 16 < 64" "y mod 16 * 4 < 64" "y mod 16 * 4 + z div 64 < 64" "z mod 64 < 64"
    "x div 4 * 4 + x mod 4 * 16 div 16 = x"
    "x div 4 * 4 + (x mod 4 * 16 + y div 16) div 16 = x"
    "(x mod 4 * 16 + y div 16) mod 16 * 16 + y mod 16 * 4 div 4 = y"
    "(x mod 4 * 16 + y div 16) mod 16 * 16 + (y mod 16 * 4 + z div 64) div 4 = y"
    "(y mod 16 * 4 + z div 64) mod 4 * 64 + z mod 64 = z"
proof -
  have yz: "y div 16 < 16" "z div 64 < 4" using assms by (simp_all add: less_mult_imp_div_less)
  have m: "x mod 4 < 4" "y mod 16 < 16" by simp_all
  show "x div 4 < 64" "z mod 64 < 64" using assms by (simp_all add: less_mult_imp_div_less)
  show "x mod 4 * 16 < 64" "y mod 16 * 4 < 64" "x mod 4 * 16 + y div 16 < 64" "y mod 16 * 4 + z div 64 < 64"
    using m yz by linarith+
  have "(a * 16 + y div 16) div 16 = a" "(a * 16 + y div 16) mod 16 = y div 16" "(a * 4 + z div 64) div 4 = a" "(a * 4 + z div 64) mod 4 = z div 64" for a
    using yz by (simp_all add: div_mult_self3 mod_mult_self3)
  then show "x div 4 * 4 + (x mod 4 * 16 + y div 16) div 16 = x"
    "(x mod 4 * 16 + y div 16) mod 16 * 16 + (y mod 16 * 4 + z div 64) div 4 = y"
    "(x mod 4 * 16 + y div 16) mod 16 * 16 + y mod 16 * 4 div 4 = y"
    "(y mod 16 * 4 + z div 64) mod 4 * 64 + z mod 64 = z"
    by (simp_all only: nonzero_mult_div_cancel_right [of 4] zero_neq_numeral not_False_eq_True div_mult_mod_eq simp_thms)
  show "x div 4 * 4 + x mod 4 * 16 div 16 = x" by simp
qed

lemma digit_steps:
  assumes "v < 64"
  shows "a2b_base64 n 0 l p (b64_digit v # cs) = a2b_base64 (n + 1) 1 v 0 cs"
    "a2b_base64 n 1 l p (b64_digit v # cs) = emit_byte (l * 4 + v div 16) (a2b_base64 (n + 1) 2 (v mod 16) 0 cs)"
    "a2b_base64 n 2 l p (b64_digit v # cs) = emit_byte (l * 16 + v div 4) (a2b_base64 (n + 1) 3 (v mod 4) 0 cs)"
    "a2b_base64 n 3 l p (b64_digit v # cs) = emit_byte (l * 64 + v) (a2b_base64 (n + 1) 0 0 0 cs)"
  by (subst digit_step [OF assms], simp)+

lemma pad_done: "a2b_base64 n 2 l 0 (CHR ''='' # CHR ''='' # cs) = Inr []" "a2b_base64 n 3 l 0 (CHR ''='' # cs) = Inr []"
  by simp_all

text \<open>Enough padding for the bytes: too much does no harm.\<close>

lemma b64_data_decodes:
  "length s mod 3 = 0 \<or> length s mod 3 = 1 \<and> 2 \<le> k \<or> length s mod 3 = 2 \<and> 1 \<le> k \<Longrightarrow>
     a2b_base64 n 0 l p (b64_data s @ replicate k CHR ''='') = Inr s"
proof (induction s arbitrary: n l p rule: b64_data.induct)
  case 1
  then show ?case by (simp add: only_padding)
next
  case (2 a)
  then obtain j where k: "replicate k CHR ''='' = CHR ''='' # CHR ''='' # replicate j CHR ''=''"
    by (auto dest!: le_Suc_ex simp: numeral_2_eq_2)
  note arith = byte_arith [OF code_bound [of a] code_bound [of a] code_bound [of a]]
  show ?case
    by (simp only: b64_data.simps Let_def append_Cons append_Nil k digit_steps arith pad_done emit_byte_def sum.case byte_of_char)
next
  case (3 a b)
  then obtain j where k: "replicate k CHR ''='' = CHR ''='' # replicate j CHR ''=''" by (cases k) auto
  note arith = byte_arith [OF code_bound [of a] code_bound [of b] code_bound [of b]]
  show ?case
    by (simp only: b64_data.simps Let_def append_Cons append_Nil k digit_steps arith pad_done emit_byte_def sum.case byte_of_char)
next
  case (4 a b c s)
  note arith = byte_arith [OF code_bound [of a] code_bound [of b] code_bound [of c]]
  have "length s mod 3 = length (a # b # c # s) mod 3" by simp
  then have "a2b_base64 m 0 0 0 (b64_data s @ replicate k CHR ''='') = Inr s" for m using 4 by simp
  then show ?case
    by (simp only: b64_data.simps Let_def append_Cons digit_steps arith emit_byte_def sum.case byte_of_char)
qed

lemma b64_data_digits: "c \<in> set (b64_data s) \<Longrightarrow> b64_value c \<noteq> None"
proof (induction s rule: b64_data.induct)
  case (2 a)
  note arith = byte_arith [OF code_bound [of a] code_bound [of a] code_bound [of a]]
  show ?case using 2 arith(1,2) by (auto simp: Let_def b64_digit_value)
next
  case (3 a b)
  note arith = byte_arith [OF code_bound [of a] code_bound [of b] code_bound [of b]]
  show ?case using 3 arith(1,3,4) by (auto simp: Let_def b64_digit_value)
next
  case (4 a b c s)
  note arith = byte_arith [OF code_bound [of a] code_bound [of b] code_bound [of c]]
  show ?case using 4 arith(1,3,5,6) by (auto simp: Let_def b64_digit_value)
qed simp

lemma b64_data_length: "length (b64_data s) mod 4 = (if length s mod 3 = 0 then 0 else length s mod 3 + 1)"
proof (induction s rule: b64_data.induct)
  case (4 a b c s)
  have "length s mod 3 = length (a # b # c # s) mod 3" by simp
  moreover have "length (b64_data (a # b # c # s)) mod 4 = length (b64_data s) mod 4" by (simp add: Let_def)
  ultimately show ?case using 4 by presburger
qed (simp_all add: Let_def)

lemma mod3_cases: "n mod 3 = 0 \<or> n mod 3 = 1 \<or> n mod 3 = (2 :: nat)"
  by linarith

lemma b64decode_encode [simp]: "b64decode (b64encode s) = Inr s"
  unfolding b64decode_def b64encode_def using mod3_cases [of "length s"] by (intro b64_data_decodes) auto

lemma from_urlsafe_char: "b64_value c \<noteq> None \<or> c = CHR ''='' \<Longrightarrow> from_urlsafe (urlsafe_char c) = c"
  using b64_value_code [of c] by (auto simp: from_urlsafe_def urlsafe_char_def)

lemma map_from_urlsafe: "map from_urlsafe (map urlsafe_char (b64_data s)) = b64_data s"
  using from_urlsafe_char b64_data_digits by (auto simp: map_idI)

lemma urlsafe_b64decode_encode [simp]: "urlsafe_b64decode (urlsafe_b64encode s) = Inr s"
proof -
  have "map from_urlsafe (urlsafe_b64encode s) = b64encode s"
    using from_urlsafe_char b64_data_digits [of _ s] by (auto simp: urlsafe_b64encode_def b64encode_def map_idI)
  then show ?thesis by (simp add: urlsafe_b64decode_def)
qed

text \<open>\<open>.rstrip(b"=")\<close> of an encoding is its digits; with one to four pads put back, it decodes again.\<close>

definition strip_pads :: "string \<Rightarrow> string" where
  "strip_pads s = rstrip_by (\<lambda>c. c = CHR ''='') s"

lemma strip_pads_digits: "CHR ''='' \<notin> set s \<Longrightarrow> strip_pads (s @ replicate k CHR ''='') = s"
proof -
  assume "CHR ''='' \<notin> set s"
  then have "dropWhile (\<lambda>c. c = CHR ''='') (rev s) = rev s" by (cases "rev s") (auto simp: rev_eq_Cons_iff)
  moreover have "dropWhile (\<lambda>c. c = CHR ''='') (replicate k CHR ''='' @ xs) = dropWhile (\<lambda>c. c = CHR ''='') xs" for xs
    by (induction k) simp_all
  ultimately show ?thesis by (simp add: strip_pads_def rstrip_by_def)
qed

lemma strip_urlsafe: "strip_pads (urlsafe_b64encode s) = map urlsafe_char (b64_data s)"
proof -
  have "c \<noteq> CHR ''=''" if "c \<in> set (map urlsafe_char (b64_data s))" for c
    using that b64_data_digits [of _ s] b64_value_code by (auto simp: urlsafe_char_def split: if_splits)
  moreover have "urlsafe_b64encode s = map urlsafe_char (b64_data s) @ replicate ((3 - length s mod 3) mod 3) CHR ''=''"
    by (simp add: urlsafe_b64encode_def b64encode_def urlsafe_char_def)
  ultimately show ?thesis by (metis strip_pads_digits)
qed

lemma urlsafe_no_dot: "CHR ''.'' \<notin> set (strip_pads (urlsafe_b64encode s))"
  using b64_data_digits [of _ s] b64_value_code by (auto simp: strip_urlsafe urlsafe_char_def split: if_splits)

lemma repadded_decodes:
  assumes "p = strip_pads (urlsafe_b64encode s)"
  shows "urlsafe_b64decode (p @ replicate (4 - length p mod 4) CHR ''='') = Inr s"
proof -
  let ?k = "4 - length (b64_data s) mod 4"
  have len: "length p = length (b64_data s)" by (simp add: assms strip_urlsafe)
  have "map from_urlsafe (p @ replicate ?k CHR ''='') = b64_data s @ replicate ?k CHR ''=''"
    using map_from_urlsafe [of s] by (simp add: assms strip_urlsafe from_urlsafe_def)
  moreover have "a2b_base64 0 0 0 0 (b64_data s @ replicate ?k CHR ''='') = Inr s"
    using mod3_cases [of "length s"] b64_data_length [of s] by (intro b64_data_decodes) auto
  ultimately show ?thesis by (simp add: urlsafe_b64decode_def b64decode_def len)
qed

end
