(* ===== verification/Sso.thy ===== *)
theory Sso
  imports Auth OrderSync Base64
begin

text \<open>
  \<open>server/modules/auth.py\<close>, single sign-on: the signed PKCE cookie, the discovery and key caches,
  the verification of the ID token, the authorize redirect and the callback that mints a session.
  The token library is the parameters \<open>jwt_header\<close> and \<open>jwt_decode\<close> (token, key, algorithm,
  audience, issuer, time).
\<close>

subsection \<open>Signed values\<close>

definition signature :: "env \<Rightarrow> string \<Rightarrow> string" where
  "signature E v = take 16 (hmac_hex E (app_secret_key (cfg E)) v)"

definition sign_value :: "env \<Rightarrow> string \<Rightarrow> string" where
  "sign_value E v = v @ ''.'' @ signature E v"

definition verify_signed :: "env \<Rightarrow> string \<Rightarrow> string option" where
  "verify_signed E s = (case rsplit1 CHR ''.'' s of
     None \<Rightarrow> None
   | Some (v, sig) \<Rightarrow> if sig \<noteq> signature E v then None else Some v)"

subsection \<open>Discovery and keys\<close>

definition oidc_ttl :: int where
  "oidc_ttl = 3600 * sec"

definition get_json :: "env \<Rightarrow> string \<Rightarrow> json handler" where
  "get_json E url = bind (send E \<lparr>hc_method = ''GET'', hc_url = url, hc_headers = [], hc_body = JNull\<rparr>) (\<lambda>r.
     lift (res_bind (raise_for_status r) (\<lambda>_. hr_json r)))"

definition fetch_oidc_discovery :: "env \<Rightarrow> string \<Rightarrow> json handler" where
  "fetch_oidc_discovery E issuer_base =
     bind (gets w_now) (\<lambda>now. bind (gets w_oidc_cache) (\<lambda>c.
     case timed_get oidc_ttl c now issuer_base of Some doc \<Rightarrow> ret doc
     | None \<Rightarrow> bind (get_json E (issuer_base @ ''/.well-known/openid-configuration'')) (\<lambda>doc.
         seq (modify (\<lambda>w. w\<lparr>w_oidc_cache := timed_put issuer_base now doc (w_oidc_cache w)\<rparr>)) (ret doc))))"

definition fetch_jwks :: "env \<Rightarrow> string \<Rightarrow> bool \<Rightarrow> json handler" where
  "fetch_jwks E jwks_uri force_refresh =
     bind (gets w_now) (\<lambda>now. bind (gets w_jwks_cache) (\<lambda>c.
     case (if force_refresh then None else timed_get oidc_ttl c now jwks_uri) of Some jwks \<Rightarrow> ret jwks
     | None \<Rightarrow> bind (get_json E jwks_uri) (\<lambda>jwks.
         seq (modify (\<lambda>w. w\<lparr>w_jwks_cache := timed_put jwks_uri now jwks (w_jwks_cache w)\<rparr>)) (ret jwks))))"

text \<open>The first key with the id.\<close>

fun key_with_id :: "json \<Rightarrow> json list \<Rightarrow> json option res" where
  "key_with_id kid [] = Inr None"
| "key_with_id kid (k # ks) = res_bind (jget k ''kid'') (\<lambda>i. if i = kid then Inr (Some k) else key_with_id kid ks)"

definition warn :: "string \<Rightarrow> unit handler" where
  "warn m = emit (LoggerWarning m [])"

definition key_in :: "json \<Rightarrow> json \<Rightarrow> json option res" where
  "key_in kid jwks = res_bind (jget_or jwks ''keys'' (JArr [])) (\<lambda>ks. res_bind (jiter ks) (key_with_id kid))"

text \<open>The keys of the cache first, then those of a fresh fetch; a failed fetch ends the search.\<close>

definition find_key :: "env \<Rightarrow> string \<Rightarrow> json \<Rightarrow> json option handler" where
  "find_key E jwks_uri kid =
     (let try = (\<lambda>force. bind (catch (bind (fetch_jwks E jwks_uri force) (\<lambda>j. ret (Some j)))
            (\<lambda>e. seq (warn ''JWKS fetch failed'') (ret None))) (\<lambda>jwks. case jwks of
              None \<Rightarrow> ret (Inl ()) | Some j \<Rightarrow> bind (lift (key_in kid j)) (\<lambda>k. ret (Inr k)))) in
      bind (try False) (\<lambda>k1. case k1 of
        Inl u \<Rightarrow> ret None
      | Inr (Some k) \<Rightarrow> ret (Some k)
      | Inr None \<Rightarrow> bind (try True) (\<lambda>k2. case k2 of Inl u \<Rightarrow> ret None | Inr k \<Rightarrow> ret k)))"

definition refuse :: "string \<Rightarrow> json option handler" where
  "refuse m = seq (warn m) (ret None)"

definition verify_id_token :: "env \<Rightarrow> string \<Rightarrow> string \<Rightarrow> string \<Rightarrow> json option handler" where
  "verify_id_token E id_token expected_nonce expected_audience =
     bind (catch (bind (fetch_oidc_discovery E (idcs_domain_url (cfg E))) (\<lambda>d. ret (Some d)))
       (\<lambda>e. refuse ''OIDC discovery fetch failed'')) (\<lambda>discovery.
     case discovery of None \<Rightarrow> ret None
     | Some doc \<Rightarrow>
       bind (lift (jget doc ''jwks_uri'')) (\<lambda>uri. bind (lift (jget doc ''issuer'')) (\<lambda>issuer.
       if \<not> truthy uri \<or> \<not> truthy issuer then refuse ''OIDC discovery missing jwks_uri or issuer'' else
       case jwt_header E id_token of None \<Rightarrow> refuse ''ID token has malformed header''
       | Some hdr \<Rightarrow>
         bind (lift (jget hdr ''kid'')) (\<lambda>kid. bind (lift (jget_or hdr ''alg'' (JStr ''RS256''))) (\<lambda>alg.
         case alg of JStr a \<Rightarrow>
           (if a \<notin> {''RS256'', ''RS384'', ''RS512''} then refuse ''ID token uses unsupported alg'' else
            bind (find_key E (jstr (rep E) uri) kid) (\<lambda>key.
            case key of None \<Rightarrow> refuse ''ID token kid not found in JWKS''
            | Some k \<Rightarrow>
              if \<not> truthy k then refuse ''ID token kid not found in JWKS'' else
              bind (gets w_now) (\<lambda>now.
              case jwt_decode E id_token k a expected_audience issuer now of
                None \<Rightarrow> refuse ''ID token invalid''
              | Some claims \<Rightarrow>
                  bind (lift (jget claims ''nonce'')) (\<lambda>nonce.
                  if expected_nonce = [] \<or> nonce \<noteq> JStr expected_nonce
                  then refuse ''ID token nonce mismatch'' else ret (Some claims)))))
         | _ \<Rightarrow> refuse ''ID token uses unsupported alg'')))))"

subsection \<open>The authorize redirect\<close>

text \<open>The challenge of a verifier: its digest in URL-safe base64, the padding stripped.\<close>

definition code_challenge :: "env \<Rightarrow> string \<Rightarrow> string" where
  "code_challenge E verifier = strip_pads (urlsafe_b64encode (sha256_digest E verifier))"

definition sso_login :: "env \<Rightarrow> request \<Rightarrow> response handler" where
  "sso_login E rq =
     (if \<not> idcs_configured (cfg E) then ret (json_response (JObj [(''error'', JStr ''SSO not configured'')])) else
      bind (draw E) (\<lambda>state. bind (draw E) (\<lambda>code_verifier. bind (draw E) (\<lambda>nonce.
      ret ((redirect (idcs_domain_url (cfg E) @ ''/oauth2/v1/authorize?'' @ urlencode E
         [(''response_type'', ''code''), (''client_id'', idcs_client_id (cfg E)),
          (''redirect_uri'', idcs_redirect_uri (cfg E)), (''scope'', ''openid profile email''),
          (''state'', state), (''nonce'', nonce), (''code_challenge'', code_challenge E code_verifier),
          (''code_challenge_method'', ''S256'')]))
        \<lparr>rs_cookies := [\<lparr>ck_name = ''_sso_pkce'', ck_value = sign_value E (state @ '':'' @ code_verifier @ '':'' @ nonce),
            ck_httponly = True, ck_samesite = ''lax'', ck_secure = is_https rq, ck_max_age = Some 600\<rparr>]\<rparr>)))))"

subsection \<open>The callback\<close>

text \<open>\<open>pkce_data.split(":", 2)\<close> into three parts.\<close>

definition pkce_parts :: "string \<Rightarrow> (string \<times> string \<times> string) option" where
  "pkce_parts s = (case split1 CHR '':'' s of None \<Rightarrow> None
     | Some (state, rest) \<Rightarrow> (case split1 CHR '':'' rest of None \<Rightarrow> None
        | Some (verifier, nonce) \<Rightarrow> Some (state, verifier, nonce)))"

definition sso_error :: "string \<Rightarrow> string \<Rightarrow> string \<Rightarrow> response handler" where
  "sso_error level message code = seq (push_log level message []) (ret (redirect (''/login?error='' @ code)))"

text \<open>What the cookie must hold for the callback to go on: the verifier and the nonce.\<close>

definition pkce_check :: "env \<Rightarrow> request \<Rightarrow> string \<Rightarrow> string + string \<times> string" where
  "pkce_check E rq state =
     (let pkce = cookie rq ''_sso_pkce'' in
      case (if pkce \<noteq> [] then verify_signed E pkce else None) of
        None \<Rightarrow> Inl ''SSO callback with missing PKCE cookie''
      | Some data \<Rightarrow> if data = [] then Inl ''SSO callback with missing PKCE cookie'' else
          (case pkce_parts data of None \<Rightarrow> Inl ''SSO callback with legacy PKCE cookie format''
           | Some (stored_state, verifier, nonce) \<Rightarrow>
               if stored_state \<noteq> state then Inl ''SSO callback with mismatched state'' else Inr (verifier, nonce)))"

text \<open>The code for tokens; the credentials of the client are those of HTTP's basic scheme.\<close>

definition exchange_code :: "env \<Rightarrow> string \<Rightarrow> string \<Rightarrow> http_response handler" where
  "exchange_code E code verifier = send E
     \<lparr>hc_method = ''POST'', hc_url = idcs_domain_url (cfg E) @ ''/oauth2/v1/token'',
      hc_headers = [(''Content-Type'', ''application/x-www-form-urlencoded''),
        (''Authorization'', ''Basic '' @ b64encode (idcs_client_id (cfg E) @ '':'' @ idcs_client_secret (cfg E)))],
      hc_body = JObj [(''grant_type'', JStr ''authorization_code''), (''code'', JStr code),
        (''redirect_uri'', JStr (idcs_redirect_uri (cfg E))), (''code_verifier'', JStr verifier)]\<rparr>"

definition user_by_email :: "string \<Rightarrow> db \<Rightarrow> (int \<times> user_row) option" where
  "user_by_email email d = tbl_find (\<lambda>r. py_lower (u_email r) = email) (users d)"

definition add_sso_user :: "string \<Rightarrow> string \<Rightarrow> string \<Rightarrow> unit handler" where
  "add_sso_user username email hash = bind (gets w_now) (\<lambda>now.
     bind (on_db (add_user \<lparr>u_username = username, u_email = email, u_password_hash = hash, u_role = ''user'',
       u_is_active = None, u_last_login = None, u_created_at = now\<rparr>)) (\<lambda>_. ret ()))"

text \<open>
  The insert, and its retry under a prefixed name where a unique key refused it. PostgreSQL refuses
  every statement after a failed one until the transaction ends; Oracle undoes the statement alone.
\<close>

definition provision_user :: "env \<Rightarrow> string \<Rightarrow> string \<Rightarrow> string \<Rightarrow> string handler" where
  "provision_user E base_username email hash =
     catch (seq (add_sso_user base_username email hash) (ret base_username))
       (\<lambda>e. let msg = py_upper (exc_str e) in
         if \<not> contains msg ''ORA-00001'' \<and> \<not> contains msg ''UNIQUE''
         then seq (warn ''SSO user provisioning failed with non-unique error'') (raise e)
         else if use_postgres (cfg E) then raise (DBAPIError ''current transaction is aborted'')
         else seq (add_sso_user (''crm-'' @ base_username) email hash) (ret (''crm-'' @ base_username)))"

definition provision_tx :: "env \<Rightarrow> string \<Rightarrow> string \<Rightarrow> string \<Rightarrow> (int \<times> user_row) option handler" where
  "provision_tx E base_username email hash =
     bind (query (user_by_email email)) (\<lambda>found. case found of Some u \<Rightarrow> ret (Some u)
     | None \<Rightarrow> bind (provision_user E base_username email hash) (\<lambda>username.
         bind (query (user_by_email email)) (\<lambda>u.
         seq (push_log ''INFO'' (''SSO auto-provisioned user: '' @ username)
                [(''auth.method'', JStr ''idcs_sso''), (''auth.username'', JStr username), (''auth.email'', JStr email)])
         (ret u))))"

text \<open>The identity the claims name: email, name of a new account, subject.\<close>

definition identity :: "env \<Rightarrow> json \<Rightarrow> (string \<times> string \<times> string) res" where
  "identity E claims =
     res_bind (jget_first claims [''email'', ''sub'']) (\<lambda>e. res_bind (as_str (jor e (JStr []))) (\<lambda>raw.
     let email = py_lower (py_strip raw); local = hd (split_on CHR ''@'' email) in
     res_bind (jget_first claims [''name'', ''preferred_username'']) (\<lambda>n.
     res_bind (as_str (jor (jor n (JStr local)) (JStr []))) (\<lambda>display.
     res_bind (jget_or claims ''sub'' (JStr [])) (\<lambda>sub.
     Inr (email, str_or (replace_char CHR '' '' ''.'' (py_lower display)) local, jstr (rep E) sub))))))"

definition sso_session :: "env \<Rightarrow> request \<Rightarrow> json \<Rightarrow> response handler" where
  "sso_session E rq claims =
     bind (lift (identity E claims)) (\<lambda>(email, base_username, sub).
     bind (get_db E (provision_tx E base_username email (''sso:'' @ sub))) (\<lambda>user.
     case user of None \<Rightarrow> sso_error ''ERROR'' ''SSO user missing after provisioning'' ''provisioning_failed''
     | Some (uid, u) \<Rightarrow>
         bind (draw E) (\<lambda>sid.
         seq (get_db E (add_user_session sid uid u ''sso''))
         (seq (metric ''login_success'' [JStr ''sso'', JStr (str_or (u_role u) ''user'')])
         (seq (push_log ''INFO'' (''SSO login: '' @ u_username u)
                [(''auth.username'', JStr (u_username u)), (''auth.method'', JStr ''idcs_sso''),
                 (''auth.idcs_sub'', JStr sub), (''auth.role'', JStr (u_role u))])
         (ret ((redirect ''/'')\<lparr>rs_status := 302,
            rs_cookies := [\<lparr>ck_name = ''session_id'', ck_value = sid, ck_httponly = True,
               ck_samesite = (if is_https rq then ''none'' else ''lax''), ck_secure = is_https rq, ck_max_age = None\<rparr>],
            rs_deleted := [''_sso_pkce'']\<rparr>)))))))"

definition sso_callback :: "env \<Rightarrow> request \<Rightarrow> string \<Rightarrow> string \<Rightarrow> string \<Rightarrow> response handler" where
  "sso_callback E rq code state err =
     (if err \<noteq> [] then sso_error ''WARN'' (''SSO callback error: '' @ err) err else
      case pkce_check E rq state of Inl message \<Rightarrow> sso_error ''WARN'' message ''invalid_state''
      | Inr (verifier, nonce) \<Rightarrow>
        bind (exchange_code E code verifier) (\<lambda>resp.
        if hr_status resp \<noteq> 200
        then seq (push_log ''ERROR'' (''SSO token exchange failed: '' @ int_str (hr_status resp))
                   [(''auth.sso_status'', JInt (hr_status resp)), (''auth.sso_error'', JStr (take 200 (hr_text resp)))])
               (ret (redirect ''/login?error=token_exchange_failed''))
        else
        bind (lift (res_bind (hr_json resp) (\<lambda>tokens. jget_or tokens ''id_token'' (JStr [])))) (\<lambda>id_token.
        if \<not> truthy id_token then sso_error ''WARN'' ''SSO token response missing id_token'' ''invalid_token'' else
        bind (verify_id_token E (jstr (rep E) id_token) nonce (idcs_client_id (cfg E))) (\<lambda>claims.
        case claims of None \<Rightarrow> sso_error ''WARN'' ''SSO ID token validation failed'' ''invalid_token''
        | Some cl \<Rightarrow> sso_session E rq cl))))"

definition sso_status :: "env \<Rightarrow> json" where
  "sso_status E = JObj [(''configured'', JBool (idcs_configured (cfg E))),
     (''provider'', if idcs_configured (cfg E) then JStr ''OCI Identity Domain (IDCS)'' else JNull),
     (''domain_url'', if idcs_configured (cfg E) then JStr (idcs_domain_url (cfg E)) else JNull)]"

text \<open>\<open>_decode_jwt_claims\<close>, which nothing calls: the payload of a token as \<open>json.loads\<close> reads it, the signature not looked at.\<close>

definition decode_jwt_claims :: "(string \<Rightarrow> json option) \<Rightarrow> string \<Rightarrow> json option" where
  "decode_jwt_claims loads tok = (case split_on CHR ''.'' tok of
     [h, p, s] \<Rightarrow>
       (case urlsafe_b64decode (p @ replicate (4 - length p mod 4) CHR ''='') of Inl m \<Rightarrow> None | Inr bytes \<Rightarrow> loads bytes)
   | _ \<Rightarrow> None)"

subsection \<open>Safety\<close>

lemma safe_get_json [safe_intro]: "W.safe E A (get_json E u)"
  unfolding get_json_def by (intro safe_intro)

lemma safe_fetch_oidc_discovery [safe_intro]: "W.safe E A (fetch_oidc_discovery E u)"
  unfolding fetch_oidc_discovery_def by (intro safe_intro safe_modify_db) simp

lemma safe_fetch_jwks [safe_intro]: "W.safe E A (fetch_jwks E u f)"
  unfolding fetch_jwks_def by (intro safe_intro safe_modify_db) simp

lemma safe_warn [safe_intro]: "W.safe E A (warn m)"
  unfolding warn_def by (intro safe_intro)

lemma safe_find_key [safe_intro]: "W.safe E A (find_key E u k)"
  unfolding find_key_def Let_def by (intro safe_intro)

lemma safe_refuse [safe_intro]: "W.safe E A (refuse m)"
  unfolding refuse_def by (intro safe_intro)

lemma safe_json [safe_intro]: "(\<And>s. W.safe E A (f s)) \<Longrightarrow> W.safe E A k \<Longrightarrow> W.safe E A (case v of JStr s \<Rightarrow> f s | _ \<Rightarrow> k)"
  by (cases v) auto

lemma safe_verify_id_token [safe_intro]: "W.safe E A (verify_id_token E t n a)"
  unfolding verify_id_token_def by (intro safe_intro)

lemma safe_sso_login [safe_intro]: "W.safe E A (sso_login E rq)"
  unfolding sso_login_def by (intro safe_intro)

lemma safe_sso_error [safe_intro]: "W.safe E A (sso_error l m c)"
  unfolding sso_error_def by (intro safe_intro)

lemma safe_provision_tx [safe_intro]: "W.safe E A (provision_tx E b e h)"
  unfolding provision_tx_def provision_user_def add_sso_user_def Let_def by (intro safe_intro)

lemma safe_sso_session [safe_intro]: "W.safe E A (sso_session E rq c)"
  unfolding sso_session_def by (intro safe_draw_then safe_add_user_session safe_intro)

lemma safe_sso_callback [safe_intro]: "W.safe E A (sso_callback E rq c s e)"
  unfolding sso_callback_def exchange_code_def by (intro safe_intro)

end
