(* ===== verification/Auth_Facts.thy ===== *)
theory Auth_Facts
  imports Auth Sso
begin

text \<open>
  What logging in guarantees (the rate limit, the session it creates and that the next request finds
  it again), what registering cannot do, what logging out leaves for the time the session cache
  holds the entry; and what a sign-on callback must have checked before it mints a session.
\<close>

subsection \<open>The rate limit\<close>

lemma login_limited:
  assumes "max_login_attempts (cfg E) \<le> int (length (recent_attempts w (client_ip rq)))"
  obtains r v where "login E u p rq w = (Inr r, v)" and "rs_status r = 429" and "rs_cookies r = []" and "w_db v = w_db w"
    and "recent_attempts v (client_ip rq) = recent_attempts w (client_ip rq)"
  using assms
  by (auto simp: login_def Let_def bind_run seq_run put_attempts_def rate_limited_def security_span_def emit_def
        log_security_event_def push_log_def recent_attempts_def json_response_def intro!: that)

definition refused :: "response \<Rightarrow> bool" where
  "refused r \<longleftrightarrow> rs_cookies r = [] \<and> rs_status r = 200"

lemma login_failed_run:
  "login_failed ip reason attempts w = (Inr (json_response (JObj [(''error'', JStr ''Invalid credentials''), (''status'', JStr ''failed'')])),
     w\<lparr>w_log := w_log w @ [Metric ''login_failure'' [JStr reason]],
       w_login_attempts := alist_set ip (attempts @ [w_now w]) (w_login_attempts w)\<rparr>)"
  by (simp add: login_failed_def metric_def emit_def put_attempts_def bind_run seq_run)

text \<open>An attempt that is neither limited nor accepted counts once and stores nothing.\<close>

lemma login_rejected:
  assumes up: "db_up E w" and few: "int (length (recent_attempts w (client_ip rq))) < max_login_attempts (cfg E)"
    and bad: "\<And>uid x. login_lookup u (w_db w) = Some (uid, x) \<Longrightarrow> \<not> check_bcrypt E p (u_password_hash x)"
  obtains r v where "login E u p rq w = (Inr r, v)" and "refused r" and "w_db v = w_db w" and "w_now v = w_now w"
    and "recent_attempts v (client_ip rq) = recent_attempts w (client_ip rq) @ [w_now w]" and "db_up E v"
proof -
  let ?ip = "client_ip rq"
  let ?w1 = "w\<lparr>w_login_attempts := alist_set ?ip (recent_attempts w ?ip) (w_login_attempts w)\<rparr>"
  have up1: "db_up E ?w1" using up by (simp add: db_up_def)
  obtain reason where l: "login E u p rq w = login_failed ?ip reason (recent_attempts w ?ip) ?w1"
  proof (cases "login_lookup u (w_db w)")
    case None
    then show ?thesis
      using few up1 by (intro that [of "''user_not_found''"])
        (simp add: login_def Let_def bind_run seq_run put_attempts_def query_def transaction_def login_failed_run)
  next
    case (Some x)
    obtain uid y where x: "x = (uid, y)" by (cases x)
    with Some bad [of uid y] few up1 show ?thesis
      by (intro that [of "''invalid_password''"])
        (simp add: login_def Let_def bind_run seq_run put_attempts_def query_def transaction_def login_failed_run)
  qed
  show ?thesis
    using up by (intro that [OF l [unfolded login_failed_run]])
      (simp_all add: refused_def json_response_def recent_attempts_def db_up_def login_window_def sec_def)
qed

text \<open>The responses of a sequence of logins of one client.\<close>

fun logins :: "env \<Rightarrow> request \<Rightarrow> (string \<times> string) list \<Rightarrow> world \<Rightarrow> response res list" where
  "logins E rq [] w = []"
| "logins E rq ((u, p) # ups) w = fst (login E u p rq w) # logins E rq ups (snd (login E u p rq w))"

text \<open>The credentials are wrong: no account matches with the password.\<close>

definition wrong :: "env \<Rightarrow> db \<Rightarrow> string \<times> string \<Rightarrow> bool" where
  "wrong E d up \<longleftrightarrow> (\<forall>uid x. login_lookup (fst up) d = Some (uid, x) \<longrightarrow> \<not> check_bcrypt E (snd up) (u_password_hash x))"

text \<open>Of any number of wrong guesses at one time, at most the configured number is tried.\<close>

definition tried :: "response res \<Rightarrow> bool" where
  "tried r = (case r of Inr x \<Rightarrow> rs_status x \<noteq> 429 | Inl e \<Rightarrow> True)"

lemma logins_wrong:
  "db_up E w \<Longrightarrow> list_all (wrong E (w_db w)) ups \<Longrightarrow>
     int (length (filter tried (logins E rq ups w))) \<le> max 0 (max_login_attempts (cfg E) - int (length (recent_attempts w (client_ip rq))))"
proof (induction ups arbitrary: w)
  case (Cons up ups)
  obtain u p where up: "up = (u, p)" by (cases up)
  show ?case
  proof (cases "max_login_attempts (cfg E) \<le> int (length (recent_attempts w (client_ip rq)))")
    case True
    then obtain r v where l: "login E u p rq w = (Inr r, v)" "rs_status r = 429" "w_db v = w_db w"
        "recent_attempts v (client_ip rq) = recent_attempts w (client_ip rq)"
      by (rule login_limited)
    have "db_up E v"
      using Cons.prems(1) l(1) by (auto simp: login_def Let_def bind_run seq_run put_attempts_def rate_limited_def
        security_span_def emit_def log_security_event_def push_log_def db_up_def True)
    with Cons.IH [of v] Cons.prems l up show ?thesis by (simp add: tried_def)
  next
    case False
    have bad: "\<And>uid x. login_lookup u (w_db w) = Some (uid, x) \<Longrightarrow> \<not> check_bcrypt E p (u_password_hash x)"
      using Cons.prems(2) up by (simp add: wrong_def)
    have few: "int (length (recent_attempts w (client_ip rq))) < max_login_attempts (cfg E)" using False by simp
    obtain r v where l: "login E u p rq w = (Inr r, v)" "refused r" "w_db v = w_db w"
        "recent_attempts v (client_ip rq) = recent_attempts w (client_ip rq) @ [w_now w]" "db_up E v"
      by (rule login_rejected [OF Cons.prems(1) few bad])
    with Cons.IH [of v] Cons.prems up False show ?thesis by (simp add: tried_def refused_def)
  qed
qed simp

subsection \<open>The session a login creates\<close>

lemma login_accepted:
  assumes up: "db_up E w" and few: "int (length (recent_attempts w (client_ip rq))) < max_login_attempts (cfg E)"
    and found: "login_lookup u (w_db w) = Some (uid, x)" and good: "check_bcrypt E p (u_password_hash x)"
    and fresh: "tbl_find (\<lambda>r. us_session_id r = token E (w_drawn w)) (user_sessions (w_db w)) = None"
  obtains r v c where "login E u p rq w = (Inr r, v)" and "rs_cookies r = [c]" and "ck_value c = token E (w_drawn w)"
    and "ck_httponly c" and "session_of (w_db v) (token E (w_drawn w)) =
      Some \<lparr>a_user_id = uid, a_username = u_username x, a_role = u_role x\<rparr>"
    and "users (w_db v) = users (w_db w)" and "w_session_cache v = w_session_cache w"
    and "w_db_down v = w_db_down w" and "w_now v = w_now w"
    and "recent_attempts v (client_ip rq) = []"
proof -
  let ?sid = "token E (w_drawn w)"
  let ?s = "\<lparr>us_session_id = ?sid, us_user_id = uid, us_username = u_username x, us_role = u_role x,
     us_auth_method = ''password'', us_created_at = w_now w\<rparr>"
  have free: "\<not> conflict (\<lambda>r. Some (us_session_id r)) (user_sessions (w_db w)) k ?s" for k
    using fresh by (auto simp: tbl_find_None conflict_def list_ex_iff)
  have up1: "db_up E (w\<lparr>w_login_attempts := a\<rparr>)" for a using up by (simp add: db_up_def)
  have f: "tbl_find (\<lambda>r. us_session_id r = ?sid) (tbl_insert ?s (user_sessions (w_db w))) = Some (next_id (user_sessions (w_db w)), ?s)"
    using fresh by (simp add: tbl_find_insert)
  let ?ip = "client_ip rq"
  let ?w1 = "w\<lparr>w_login_attempts := alist_set ?ip (recent_attempts w ?ip) (w_login_attempts w)\<rparr>"
  obtain r v where s: "login_success E rq ?ip u uid x ?w1 = (Inr r, v)"
    and r: "rs_cookies r = [\<lparr>ck_name = ''session_id'', ck_value = ?sid, ck_httponly = True, ck_samesite = ''lax'',
            ck_secure = is_https rq, ck_max_age = Some (session_timeout_seconds (cfg E))\<rparr>]"
    and v: "w_db v = (w_db w)\<lparr>user_sessions := tbl_insert ?s (user_sessions (w_db w))\<rparr>" "w_session_cache v = w_session_cache w"
      "w_db_down v = w_db_down w" "w_now v = w_now w"
      "w_login_attempts v = alist_del ?ip (alist_set ?ip (recent_attempts w ?ip) (w_login_attempts w))"
    using free by (simp add: login_success_def draw_def add_user_session_def on_db_def add_session_def metric_def emit_def
        push_log_def json_response_def bind_run seq_run)
  have l: "login E u p rq w = (Inr r, v)"
    using few found good up1 s
    by (simp add: login_def Let_def bind_run seq_run put_attempts_def query_def transaction_def)
  show ?thesis
    by (rule that [OF l r]) (simp_all add: v session_of_def f session_actor_def recent_attempts_def)
qed

subsection \<open>Logging out\<close>

lemma drop_sessions_find: "tbl_find (\<lambda>r. us_session_id r = sid) (user_sessions (snd (drop_sessions sid d))) = None"
  by (auto simp: drop_sessions_def tbl_delete_def tbl_find_None)

lemma logout_run:
  assumes "db_up E w" and "cookie rq ''session_id'' \<noteq> []"
  obtains r v where "logout E rq w = (Inr r, v)" and "w_db v = snd (drop_sessions (cookie rq ''session_id'') (w_db w))"
    and "w_session_cache v = w_session_cache w" and "w_now v = w_now w" and "db_up E v"
  using assms
  by (auto simp: logout_def Let_def seq_run transaction_def on_db_def drop_sessions_def metric_def emit_def db_up_def intro!: that)

subsection \<open>Sign-on\<close>

text \<open>A value that verifies is exactly one that was signed.\<close>

lemma verify_signed_iff:
  assumes "CHR ''.'' \<notin> set (signature E v)"
  shows "verify_signed E s = Some v \<longleftrightarrow> s = sign_value E v"
proof
  assume "verify_signed E s = Some v"
  then show "s = sign_value E v"
    by (auto simp: verify_signed_def sign_value_def dest: rsplit1_Some split: option.splits if_splits)
next
  assume "s = sign_value E v"
  then show "verify_signed E s = Some v"
    using rsplit1_append [OF assms, of v] by (simp add: verify_signed_def sign_value_def)
qed

lemma pkce_parts_join:
  assumes "CHR '':'' \<notin> set a" and "CHR '':'' \<notin> set b"
  shows "pkce_parts (a @ '':'' @ b @ '':'' @ c) = Some (a, b, c)"
  using split1_append [OF assms(1), of "b @ '':'' @ c"] split1_append [OF assms(2), of c] by (simp add: pkce_parts_def)

lemma keeps_get_json: "keeps (\<lambda>w. f (w_db w)) (get_json E u)"
  unfolding get_json_def by (intro keeps_db_rules)

lemma keeps_modify_db:
  assumes "\<And>w. w_db (g w) = w_db w"
  shows "keeps (\<lambda>w. f (w_db w)) (modify g)"
  by (rule keeps_modify) (simp add: assms)

lemma keeps_fetch_oidc_discovery: "keeps (\<lambda>w. f (w_db w)) (fetch_oidc_discovery E u)"
  unfolding fetch_oidc_discovery_def by (intro keeps_db_rules keeps_get_json keeps_modify_db) simp

lemma keeps_fetch_jwks: "keeps (\<lambda>w. f (w_db w)) (fetch_jwks E u b)"
  unfolding fetch_jwks_def by (intro keeps_db_rules keeps_get_json keeps_modify_db) simp

lemma keeps_warn: "keeps (\<lambda>w. f (w_db w)) (warn m)"
  unfolding warn_def by (intro keeps_db_rules)

lemma keeps_refuse: "keeps (\<lambda>w. f (w_db w)) (refuse m)"
  unfolding refuse_def by (intro keeps_db_rules keeps_warn)

lemma keeps_find_key: "keeps (\<lambda>w. f (w_db w)) (find_key E u k)"
  unfolding find_key_def Let_def by (intro keeps_db_rules keeps_fetch_jwks keeps_warn)

lemma keeps_json: "(\<And>s. keeps g (f s)) \<Longrightarrow> keeps g k \<Longrightarrow> keeps g (case v of JStr s \<Rightarrow> f s | _ \<Rightarrow> k)"
  by (cases v) auto

lemma keeps_verify_id_token: "keeps (\<lambda>w. f (w_db w)) (verify_id_token E t n a)"
  unfolding verify_id_token_def
  by (intro keeps_db_rules keeps_fetch_oidc_discovery keeps_find_key keeps_refuse keeps_json)

text \<open>Claims that are returned carry the expected nonce and came out of the token library for the audience.\<close>

lemma refuse_run: "refuse m w = (Inr None, w\<lparr>w_log := w_log w @ [LoggerWarning m []]\<rparr>)"
  by (simp add: refuse_def warn_def emit_def seq_run)


lemma verify_id_token_Some:
  assumes "verify_id_token E t n aud w = (Inr (Some claims), v)"
  shows "\<exists>k alg iss now. jwt_decode E t k alg aud iss now = Some claims \<and> alg \<in> {''RS256'', ''RS384'', ''RS512''} \<and>
     n \<noteq> [] \<and> jget claims ''nonce'' = Inr (JStr n)"
  using assms unfolding verify_id_token_def
  apply -
  apply (erule bind_InrE)
  subgoal for d w1
  apply (cases d; simp only: option.case ret_run prod.inject sum.inject option.distinct simp_thms)
   apply simp
  apply (erule bind_InrE)+
  apply (clarsimp simp: refuse_run split: if_splits option.split_asm json.split_asm)
    apply ((erule bind_InrE)+, clarsimp simp: refuse_run split: if_splits option.split_asm json.split_asm)+
  apply blast
  done
  done
lemma sso_error_run: "sso_error l m c w = (Inr (redirect (''/login?error='' @ c)), w\<lparr>w_log := w_log w @ [PushLog l m []]\<rparr>)"
  by (simp add: sso_error_def push_log_def emit_def seq_run)

text \<open>What must hold where a callback changes the database.\<close>

definition sso_verified :: "env \<Rightarrow> request \<Rightarrow> string \<Rightarrow> json \<Rightarrow> bool" where
  "sso_verified E rq state claims \<longleftrightarrow> (\<exists>verifier nonce k alg iss now t.
     verify_signed E (cookie rq ''_sso_pkce'') = Some (state @ '':'' @ verifier @ '':'' @ nonce) \<and> nonce \<noteq> [] \<and>
     jwt_decode E t k alg (idcs_client_id (cfg E)) iss now = Some claims \<and> alg \<in> {''RS256'', ''RS384'', ''RS512''} \<and>
     jget claims ''nonce'' = Inr (JStr nonce))"

lemma pkce_check_Inr:
  assumes "pkce_check E rq state = Inr (verifier, nonce)"
  shows "verify_signed E (cookie rq ''_sso_pkce'') = Some (state @ '':'' @ verifier @ '':'' @ nonce)"
  using assms
  by (auto simp: pkce_check_def Let_def pkce_parts_def dest!: split1_Some split: option.splits if_splits)

text \<open>The callback after each of its checks, in their order.\<close>

definition after_claims :: "env \<Rightarrow> request \<Rightarrow> json option \<Rightarrow> response handler" where
  "after_claims E rq claims = (case claims of
     None \<Rightarrow> sso_error ''WARN'' ''SSO ID token validation failed'' ''invalid_token'' | Some cl \<Rightarrow> sso_session E rq cl)"

definition after_exchange :: "env \<Rightarrow> request \<Rightarrow> string \<Rightarrow> http_response \<Rightarrow> response handler" where
  "after_exchange E rq nonce resp = (if hr_status resp \<noteq> 200
     then seq (push_log ''ERROR'' (''SSO token exchange failed: '' @ int_str (hr_status resp))
                [(''auth.sso_status'', JInt (hr_status resp)), (''auth.sso_error'', JStr (take 200 (hr_text resp)))])
            (ret (redirect ''/login?error=token_exchange_failed''))
     else bind (lift (res_bind (hr_json resp) (\<lambda>tokens. jget_or tokens ''id_token'' (JStr [])))) (\<lambda>id_token.
       if \<not> truthy id_token then sso_error ''WARN'' ''SSO token response missing id_token'' ''invalid_token'' else
       bind (verify_id_token E (jstr (rep E) id_token) nonce (idcs_client_id (cfg E))) (after_claims E rq)))"

lemma sso_callback_steps:
  "sso_callback E rq code state err =
     (if err \<noteq> [] then sso_error ''WARN'' (''SSO callback error: '' @ err) err else
      case pkce_check E rq state of Inl message \<Rightarrow> sso_error ''WARN'' message ''invalid_state''
      | Inr (verifier, nonce) \<Rightarrow> bind (exchange_code E code verifier) (after_exchange E rq nonce))"
  unfolding sso_callback_def after_exchange_def [abs_def] after_claims_def [abs_def] ..

lemma after_claims_changes: "w_db (snd (after_claims E rq c w)) \<noteq> w_db w \<Longrightarrow> \<exists>claims. c = Some claims"
  by (cases c) (simp_all add: after_claims_def sso_error_run)

lemma after_exchange_changes:
  assumes "w_db (snd (after_exchange E rq nonce resp w)) \<noteq> w_db w"
  shows "\<exists>t claims v. verify_id_token E t nonce (idcs_client_id (cfg E)) w = (Inr (Some claims), v)"
proof -
  have ok: "hr_status resp = 200"
    using assms by (auto simp: after_exchange_def seq_run push_log_def emit_def split: if_splits)
  obtain idt where idt: "res_bind (hr_json resp) (\<lambda>tokens. jget_or tokens ''id_token'' (JStr [])) = Inr idt"
    using assms ok by (cases "res_bind (hr_json resp) (\<lambda>tokens. jget_or tokens ''id_token'' (JStr []))")
      (simp_all add: after_exchange_def bind_run)
  then have "truthy idt" using assms ok by (auto simp: after_exchange_def bind_run sso_error_run split: if_splits)
  obtain r v where v: "verify_id_token E (jstr (rep E) idt) nonce (idcs_client_id (cfg E)) w = (r, v)"
    by (cases "verify_id_token E (jstr (rep E) idt) nonce (idcs_client_id (cfg E)) w")
  have db: "w_db v = w_db w" by (rule keepsD [OF keeps_verify_id_token [of "\<lambda>d. d"] v])
  show ?thesis
  proof (cases r)
    case (Inl e)
    with assms ok idt \<open>truthy idt\<close> v db show ?thesis by (simp add: after_exchange_def bind_run)
  next
    case (Inr c)
    with assms ok idt \<open>truthy idt\<close> v db have "w_db (snd (after_claims E rq c v)) \<noteq> w_db v"
      by (simp add: after_exchange_def bind_run)
    from after_claims_changes [OF this] v Inr show ?thesis by blast
  qed
qed

lemma sso_callback_verified:
  assumes "w_db (snd (sso_callback E rq code state err w)) \<noteq> w_db w"
  shows "\<exists>claims. sso_verified E rq state claims"
proof -
  have e: "err = []" using assms by (cases "err = []") (simp_all add: sso_callback_steps sso_error_run)
  obtain verifier nonce where pk: "pkce_check E rq state = Inr (verifier, nonce)"
    using assms e by (cases "pkce_check E rq state") (auto simp: sso_callback_steps sso_error_run)
  obtain q w1 where x: "exchange_code E code verifier w = (q, w1)" by (cases "exchange_code E code verifier w")
  have "keeps (\<lambda>w. w_db w) (exchange_code E code verifier)"
    unfolding exchange_code_def by (rule keeps_db_send [of "\<lambda>d. d"])
  then have w1: "w_db w1 = w_db w" using x by (rule keepsD)
  obtain resp where q: "q = Inr resp"
    using assms pk e x w1 by (cases q) (simp_all add: sso_callback_steps bind_run)
  have "w_db (snd (after_exchange E rq nonce resp w1)) \<noteq> w_db w1"
    using assms pk e x w1 q by (simp add: sso_callback_steps bind_run)
  then obtain t claims v where "verify_id_token E t nonce (idcs_client_id (cfg E)) w1 = (Inr (Some claims), v)"
    using after_exchange_changes by blast
  from verify_id_token_Some [OF this] pkce_check_Inr [OF pk] show ?thesis
    unfolding sso_verified_def by blast
qed

text \<open>A token is read whatever its signature says.\<close>

lemma split_on_here: "c \<notin> set s \<Longrightarrow> split_on c (s @ c # t) = s # split_on c t"
  by (induction s) auto

lemma split_on_none: "c \<notin> set s \<Longrightarrow> split_on c s = [s]"
  by (induction s) auto

lemma decode_jwt_claims_unverified:
  "CHR ''.'' \<notin> set h \<Longrightarrow> CHR ''.'' \<notin> set sig \<Longrightarrow>
     decode_jwt_claims loads (h @ ''.'' @ strip_pads (urlsafe_b64encode p) @ ''.'' @ sig) = loads p"
  by (simp add: decode_jwt_claims_def split_on_here split_on_none urlsafe_no_dot repadded_decodes [OF refl])

end
