(* ===== verification/Session_Props.thy ===== *)
theory Session_Props
  imports Auth_Facts Samples
begin

text \<open>
  The properties of \<open>server/modules/auth.py\<close>: what a session lookup answers in every case, login and
  its rate limit, registration, logout and what the cache keeps of it, and the sign-on flow.
\<close>

subsection \<open>Lookup\<close>

lemma current_user_outcome:
  "fst (get_current_user E rq w) =
     (let sid = session_id_of rq in
      if sid = [] then Inr None else
      case timed_get (30 * sec) (w_session_cache w) (w_now w) sid of Some u \<Rightarrow> Inr (Some u)
      | None \<Rightarrow>
          if \<not> engine_ready E then Inl (SessionLookupUnavailable ''AttributeError:'')
          else case w_db_down w of Some m \<Rightarrow> Inl (SessionLookupUnavailable (''DBAPIError:'' @ exc_code (DBAPIError m)))
          | None \<Rightarrow> Inr (session_of (w_db w) sid))"
proof (cases "session_id_of rq = []")
  case True
  then show ?thesis by (simp add: get_current_user_anonymous)
next
  case sid: False
  show ?thesis
  proof (cases "timed_get session_ttl (w_session_cache w) (w_now w) (session_id_of rq)")
    case (Some u)
    with get_current_user_hit [OF sid Some] sid show ?thesis by (simp add: session_ttl_def)
  next
    case None
    show ?thesis
    proof (cases "engine_ready E")
      case ready: True
      show ?thesis
      proof (cases "w_db_down w")
        case None': None
        from get_current_user_miss [OF sid None ready None'] sid None ready None' show ?thesis
          by (simp add: session_ttl_def)
      next
        case (Some m)
        from get_current_user_down(1) [OF sid None ready Some] sid None ready Some show ?thesis
          by (simp add: session_ttl_def)
      qed
    next
      case False
      with sid None show ?thesis
        by (simp add: get_current_user_def session_row_lookup_def lookup_failed_def exc_class_def exc_code_def emit_def Let_def
            bind_run catch_run seq_run session_ttl_def)
    qed
  qed
qed

subsection \<open>Login\<close>

text \<open>
  C9. Of any sequence of wrong credentials from one client at one time, with whatever usernames, at
  most as many reach the password check as the configured limit leaves over the attempts that
  already count; the others are answered 429.
\<close>

theorem wrong_logins_limited:
  assumes "db_up E w" and "list_all (wrong E (w_db w)) ups"
  shows "int (length (filter tried (logins E rq ups w)))
     \<le> max 0 (max_login_attempts (cfg E) - int (length (recent_attempts w (client_ip rq))))"
  by (rule logins_wrong [OF assms])

theorem wrong_logins_limited_witness:
  "int (length (filter tried (logins sample_env sample_request [(''admin'', ''a''), (''admin'', ''b''), (''root'', ''c'')] sample_world))) \<le> 2"
  using wrong_logins_limited [OF sample_up(2), of "[(''admin'', ''a''), (''admin'', ''b''), (''root'', ''c'')]" sample_request]
  by (simp add: wrong_def login_lookup_def tbl_select_def check_bcrypt_def recent_attempts_def)

text \<open>
  C11. Correct credentials under the limit: the answer sets one HttpOnly cookie, and a request that
  brings it back is recognised as that user with the role of the account. The failed attempts of
  the client are forgotten.
\<close>

theorem login_then_recognised:
  assumes "db_up E w" and "int (length (recent_attempts w (client_ip rq))) < max_login_attempts (cfg E)"
    and "login_lookup u (w_db w) = Some (uid, x)" and "check_bcrypt E p (u_password_hash x)"
    and "tbl_find (\<lambda>r. us_session_id r = token E (w_drawn w)) (user_sessions (w_db w)) = None"
    and "map_of (w_session_cache w) (token E (w_drawn w)) = None" and "token E (w_drawn w) \<noteq> []"
  shows "\<exists>r v c. login E u p rq w = (Inr r, v) \<and> rs_cookies r = [c] \<and> ck_httponly c \<and> recent_attempts v (client_ip rq) = [] \<and>
     (\<forall>rq'. cookie rq' ''session_id'' = ck_value c \<longrightarrow>
        fst (get_current_user E rq' v) = Inr (Some \<lparr>a_user_id = uid, a_username = u_username x, a_role = u_role x\<rparr>))"
proof -
  obtain r v c where l: "login E u p rq w = (Inr r, v)" "rs_cookies r = [c]" "ck_value c = token E (w_drawn w)" "ck_httponly c"
      "session_of (w_db v) (token E (w_drawn w)) = Some \<lparr>a_user_id = uid, a_username = u_username x, a_role = u_role x\<rparr>"
      "w_session_cache v = w_session_cache w" "w_db_down v = w_db_down w" "recent_attempts v (client_ip rq) = []"
    using assms(1-5) by (rule login_accepted) blast
  have "session_id_of rq' = token E (w_drawn w)" if "cookie rq' ''session_id'' = ck_value c" for rq'
    using that l(3) assms(7) by (cases "token E (w_drawn w)") (simp_all add: session_id_of_def str_or_def)
  then have "fst (get_current_user E rq' v) = Inr (session_of (w_db v) (token E (w_drawn w)))" if "cookie rq' ''session_id'' = ck_value c" for rq'
    using get_current_user_miss [of rq' v E] that assms(1,6,7) l(6,7) by (simp add: timed_get_def db_up_def)
  then show ?thesis using l by auto
qed

theorem login_then_recognised_witness:
  "\<exists>r v c. login sample_env ''admin'' ''boot'' sample_request sample_world = (Inr r, v) \<and> rs_cookies r = [c] \<and>
     fst (get_current_user sample_env (sample_request\<lparr>rq_cookies := [(''session_id'', ck_value c)]\<rparr>) v) =
       Inr (Some \<lparr>a_user_id = 1, a_username = ''admin'', a_role = ''admin''\<rparr>)"
proof -
  have lookup: "login_lookup ''admin'' sample_db = Some (1, sample_user)"
    by (simp add: login_lookup_def tbl_select_def)
  have "\<exists>r v c. login sample_env ''admin'' ''boot'' sample_request sample_world = (Inr r, v) \<and> rs_cookies r = [c] \<and> ck_httponly c \<and>
     recent_attempts v (client_ip sample_request) = [] \<and>
     (\<forall>rq'. cookie rq' ''session_id'' = ck_value c \<longrightarrow>
        fst (get_current_user sample_env rq' v) = Inr (Some \<lparr>a_user_id = 1, a_username = u_username sample_user, a_role = u_role sample_user\<rparr>))"
    by (rule login_then_recognised [OF sample_up(2)])
      (simp_all add: lookup recent_attempts_def check_bcrypt_def tbl_find_def int_str_def)
  then show ?thesis by (fastforce simp: cookie_def)
qed

subsection \<open>Registration\<close>






subsection \<open>Logout\<close>

text \<open>
  C36. Logging out deletes the session's row, but not its cache entry: a request with the same cookie is
  recognised as the same user until the entry is 30 seconds old, and is anonymous from then on.
\<close>

theorem logout_cached_session:
  assumes "db_up E w" and "cookie rq ''session_id'' \<noteq> []"
    and "map_of (w_session_cache w) (cookie rq ''session_id'') = Some (ts, u)" and "logout E rq w = (r, v)"
  shows "session_of (w_db v) (cookie rq ''session_id'') = None \<and>
     fst (get_current_user E rq (v\<lparr>w_now := t\<rparr>)) = Inr (if t - ts < 30 * sec then Some u else None)"
proof -
  obtain r' v' where l: "logout E rq w = (Inr r', v')" "w_db v' = snd (drop_sessions (cookie rq ''session_id'') (w_db w))"
      "w_session_cache v' = w_session_cache w" "db_up E v'"
    using assms(1,2) by (rule logout_run) blast
  have v: "v' = v" using l(1) assms(4) by simp
  have sid: "session_id_of rq = cookie rq ''session_id''"
    using assms(2) by (cases "cookie rq ''session_id''") (simp_all add: session_id_of_def str_or_def)
  have none: "session_of (w_db v) (cookie rq ''session_id'') = None"
    using l(2) v by (simp add: session_of_def drop_sessions_find)
  show ?thesis
  proof (cases "t - ts < 30 * sec")
    case True
    then have "timed_get session_ttl (w_session_cache (v\<lparr>w_now := t\<rparr>)) (w_now (v\<lparr>w_now := t\<rparr>)) (session_id_of rq) = Some u"
      using l(3) v assms(3) sid by (simp add: timed_get_def session_ttl_def)
    with get_current_user_hit [of rq "v\<lparr>w_now := t\<rparr>" u E] none sid assms(2) True show ?thesis by simp
  next
    case False
    then have "timed_get session_ttl (w_session_cache (v\<lparr>w_now := t\<rparr>)) (w_now (v\<lparr>w_now := t\<rparr>)) (session_id_of rq) = None"
      using l(3) v assms(3) sid by (simp add: timed_get_def session_ttl_def)
    with get_current_user_miss [of rq "v\<lparr>w_now := t\<rparr>" E] none sid assms(2) False l(4) v show ?thesis
      by (simp add: db_up_def)
  qed
qed

theorem logout_cached_session_witness:
  "\<exists>r v. logout sample_env sample_request (sample_world\<lparr>w_session_cache := [(''S1'', 1000000000, session_actor sample_session)]\<rparr>) = (r, v) \<and>
     session_of (w_db v) ''S1'' = None \<and>
     fst (get_current_user sample_env sample_request (v\<lparr>w_now := 1029000000\<rparr>)) = Inr (Some (session_actor sample_session)) \<and>
     fst (get_current_user sample_env sample_request (v\<lparr>w_now := 1030000000\<rparr>)) = Inr None"
proof -
  let ?w = "sample_world\<lparr>w_session_cache := [(''S1'', 1000000000, session_actor sample_session)]\<rparr>"
  obtain r v where run: "logout sample_env sample_request ?w = (r, v)" by (cases "logout sample_env sample_request ?w")
  have "db_up sample_env ?w" using sample_up(2) by (simp add: db_up_def)
  note fact = logout_cached_session [OF this, of sample_request 1000000000 "session_actor sample_session" r v]
  show ?thesis using fact [of 1029000000] fact [of 1030000000] run by (simp add: cookie_def sec_def)
qed

subsection \<open>Sign-on\<close>

text \<open>
  C16. A signed value verifies to exactly what was signed, and nothing else verifies: for a signature
  without dots (it is hexadecimal), \<open>_verify_signed\<close> returns \<open>v\<close> if and only if the string is
  \<open>_sign_value v\<close>.
\<close>

theorem signed_values:
  assumes "CHR ''.'' \<notin> set (signature E v)"
  shows "verify_signed E s = Some v \<longleftrightarrow> s = sign_value E v"
  by (rule verify_signed_iff [OF assms])

theorem signed_values_witness: "verify_signed sample_env (sign_value sample_env ''a.b'') = Some ''a.b''"
  using signed_values [of sample_env "''a.b''"] by (simp add: signature_def)

text \<open>
  C5. A callback of the sign-on flow changes the database, to provision the user or to mint a session,
  only with a PKCE cookie that this server signed for the \<open>state\<close> of the request, and an ID token that
  the token library verified for this client under an RSA algorithm, with the nonce of that cookie.
\<close>

theorem sso_session_needs_verified_token:
  assumes "w_db (snd (sso_callback E rq code state err w)) \<noteq> w_db w"
  shows "\<exists>verifier nonce k alg iss now t claims.
     verify_signed E (cookie rq ''_sso_pkce'') = Some (state @ '':'' @ verifier @ '':'' @ nonce) \<and> nonce \<noteq> [] \<and>
     jwt_decode E t k alg (idcs_client_id (cfg E)) iss now = Some claims \<and> alg \<in> {''RS256'', ''RS384'', ''RS512''} \<and>
     jget claims ''nonce'' = Inr (JStr nonce)"
  using sso_callback_verified [OF assms] unfolding sso_verified_def by blast

text \<open>
  C17. The PKCE cookie a sign-on starts with leads its callback on: with the \<open>state\<close> that was sent to the
  identity domain, the check recovers the code verifier and the nonce of that sign-on, and the challenge
  in the redirect is a token without padding from which the identity domain decodes the digest of that
  very verifier; with another \<open>state\<close> the check refuses.
\<close>

theorem pkce_cookie_roundtrip:
  assumes "idcs_configured (cfg E)" and "CHR '':'' \<notin> set (token E (w_drawn w))" and "CHR '':'' \<notin> set (token E (w_drawn w + 1))"
    and "\<And>s. CHR ''.'' \<notin> set (signature E s)" and "sso_login E rq w = (Inr r, v)"
    and "rs_cookies r = [c]" and "cookie rq' ''_sso_pkce'' = ck_value c"
  shows "\<exists>verifier nonce challenge params. pkce_check E rq' (token E (w_drawn w)) = Inr (verifier, nonce) \<and>
     verifier = token E (w_drawn w + 1) \<and> nonce = token E (w_drawn w + 2) \<and>
     rs_location r = Some (idcs_domain_url (cfg E) @ ''/oauth2/v1/authorize?'' @ urlencode E params) \<and>
     map_of params ''state'' = Some (token E (w_drawn w)) \<and> map_of params ''nonce'' = Some nonce \<and>
     map_of params ''code_challenge'' = Some challenge \<and> CHR ''.'' \<notin> set challenge \<and>
     urlsafe_b64decode (challenge @ replicate (4 - length challenge mod 4) CHR ''='') = Inr (sha256_digest E verifier) \<and>
     (\<forall>other. other \<noteq> token E (w_drawn w) \<longrightarrow> (\<exists>message. pkce_check E rq' other = Inl message))"
proof -
  let ?a = "token E (w_drawn w)" and ?b = "token E (w_drawn w + 1)" and ?n = "token E (w_drawn w + 2)"
  let ?params = "[(''response_type'', ''code''), (''client_id'', idcs_client_id (cfg E)),
          (''redirect_uri'', idcs_redirect_uri (cfg E)), (''scope'', ''openid profile email''),
          (''state'', ?a), (''nonce'', ?n), (''code_challenge'', code_challenge E ?b), (''code_challenge_method'', ''S256'')]"
  have c: "ck_value c = sign_value E (?a @ '':'' @ ?b @ '':'' @ ?n)"
    and url: "rs_location r = Some (idcs_domain_url (cfg E) @ ''/oauth2/v1/authorize?'' @ urlencode E ?params)"
    using assms(1,5,6) by (auto simp: sso_login_def draw_def bind_run seq_run redirect_def json_response_def)
  have "verify_signed E (ck_value c) = Some (?a @ '':'' @ ?b @ '':'' @ ?n)"
    unfolding c using verify_signed_iff [OF assms(4)] by blast
  moreover have "pkce_parts (?a @ '':'' @ ?b @ '':'' @ ?n) = Some (?a, ?b, ?n)"
    by (rule pkce_parts_join [OF assms(2,3)])
  moreover have "ck_value c \<noteq> []" by (simp add: c sign_value_def)
  ultimately have check: "pkce_check E rq' ?a = Inr (?b, ?n) \<and> (\<forall>other. other \<noteq> ?a \<longrightarrow> (\<exists>message. pkce_check E rq' other = Inl message))"
    using assms(7) by (auto simp: pkce_check_def Let_def split: option.splits)
  have fields: "map_of ?params ''state'' = Some ?a" "map_of ?params ''nonce'' = Some ?n" "map_of ?params ''code_challenge'' = Some (code_challenge E ?b)"
    by simp_all
  have "CHR ''.'' \<notin> set (code_challenge E ?b)" unfolding code_challenge_def by (rule urlsafe_no_dot)
  moreover have "urlsafe_b64decode (code_challenge E ?b @ replicate (4 - length (code_challenge E ?b) mod 4) CHR ''='') = Inr (sha256_digest E ?b)"
    by (rule repadded_decodes) (rule code_challenge_def)
  ultimately show ?thesis using check url fields by blast
qed

theorem pkce_cookie_roundtrip_witness:
  "\<exists>r v c. sso_login sample_env sample_request sample_world = (Inr r, v) \<and> rs_cookies r = [c] \<and>
     pkce_check sample_env (sample_request\<lparr>rq_cookies := [(''_sso_pkce'', ck_value c)]\<rparr>) ''tok0'' = Inr (''tok1'', ''tok2'')"
proof -
  have tok: "token sample_env 0 = ''tok0''" "token sample_env 1 = ''tok1''" "token sample_env 2 = ''tok2''" by code_simp+
  have conf: "idcs_configured (cfg sample_env)" by (simp add: idcs_configured_def)
  have "\<exists>r v c. sso_login sample_env sample_request sample_world = (Inr r, v) \<and> rs_cookies r = [c]"
    using conf by (simp add: sso_login_def draw_def bind_run seq_run)
  then obtain r v c where run: "sso_login sample_env sample_request sample_world = (Inr r, v)" "rs_cookies r = [c]" by blast
  have "pkce_check sample_env (sample_request\<lparr>rq_cookies := [(''_sso_pkce'', ck_value c)]\<rparr>) ''tok0'' = Inr (''tok1'', ''tok2'')"
    using pkce_cookie_roundtrip [OF conf _ _ _ run, of "sample_request\<lparr>rq_cookies := [(''_sso_pkce'', ck_value c)]\<rparr>"]
    unfolding sample_world_simps add_0 one_add_one tok numeral_plus_one by (simp add: tok signature_def cookie_def del: sample_env_simps(10) One_nat_def)
  then show ?thesis using run by blast
qed

subsection \<open>A sign-on that succeeds\<close>

definition sso_answer :: "json \<Rightarrow> http_response res" where
  "sso_answer j = Inr \<lparr>hr_status = 200, hr_text = [], hr_json = Inr j\<rparr>"

definition sso_env :: env where
  "sso_env = sample_env\<lparr>
     http := (\<lambda>n c. if n = 0 then sso_answer (JObj [(''id_token'', JStr ''T'')])
        else if n = 1 then sso_answer (JObj [(''jwks_uri'', JStr ''https://idcs.test/jwks''), (''issuer'', JStr ''iss'')])
        else sso_answer (JObj [(''keys'', JArr [JObj [(''kid'', JStr ''K'')]])])),
     jwt_header := (\<lambda>t. Some (JObj [(''kid'', JStr ''K''), (''alg'', JStr ''RS256'')])),
     jwt_decode := (\<lambda>t k a aud iss now. Some (JObj [(''nonce'', JStr ''N''), (''email'', JStr ''ada@x.test''), (''sub'', JStr ''s''), (''name'', JStr ''ada'')]))\<rparr>"

definition sso_request :: request where
  "sso_request = sample_request\<lparr>rq_cookies := [(''_sso_pkce'', ''S:V:N.ab'')]\<rparr>"

lemma sso_env_simps:
  "cfg sso_env = sample_config" "token sso_env n = ''tok'' @ int_str (int n)" "rep sso_env j = ''repr''"
  "http sso_env 0 c = sso_answer (JObj [(''id_token'', JStr ''T'')])"
  "http sso_env (Suc 0) c = sso_answer (JObj [(''jwks_uri'', JStr ''https://idcs.test/jwks''), (''issuer'', JStr ''iss'')])"
  "http sso_env (Suc (Suc 0)) c = sso_answer (JObj [(''keys'', JArr [JObj [(''kid'', JStr ''K'')]])])"
  "jwt_header sso_env t = Some (JObj [(''kid'', JStr ''K''), (''alg'', JStr ''RS256'')])"
  "jwt_decode sso_env t k a aud iss now = Some (JObj [(''nonce'', JStr ''N''), (''email'', JStr ''ada@x.test''), (''sub'', JStr ''s''), (''name'', JStr ''ada'')])"
  by (simp_all add: sso_env_def)

lemma sso_up: "db_up sso_env sample_world"
  using sample_up(2) by (simp add: db_up_def engine_ready_def sso_env_simps)

lemma sso_pkce: "pkce_check sso_env sso_request ''S'' = Inr (''V'', ''N'')"
  by code_simp

lemma sample_caches: "w_oidc_cache sample_world = []" "w_jwks_cache sample_world = []"
  by (simp_all add: sample_world_def)

lemmas sso_evals = sample_caches sso_env_simps sso_up sso_pkce sso_answer_def sso_callback_def exchange_code_def send_def verify_id_token_def fetch_oidc_discovery_def fetch_jwks_def get_json_def
  find_key_def key_in_def raise_for_status_def sso_session_def identity_def provision_tx_def provision_user_def add_sso_user_def
  add_user_session_def user_by_email_def monad_simps Let_def emit_def metric_def push_log_def warn_def refuse_def draw_def
  query_def on_db_def transaction_def add_user_def add_session_def conflict_def tbl_insert_def tbl_find_def string_evals
  timed_get_def timed_put_def replace_char_def use_postgres_def is_https_def header_def str_or_def

theorem sso_session_needs_verified_token_witness:
  "w_db (snd (sso_callback sso_env sso_request ''C'' ''S'' [] sample_world)) \<noteq> sample_db \<and>
   (\<exists>verifier nonce. verify_signed sso_env (cookie sso_request ''_sso_pkce'') = Some (''S'' @ '':'' @ verifier @ '':'' @ nonce))"
proof -
  have "length (rows (user_sessions (w_db (snd (sso_callback sso_env sso_request ''C'' ''S'' [] sample_world))))) = 2"
    by (simp add: sso_evals)
  then have "w_db (snd (sso_callback sso_env sso_request ''C'' ''S'' [] sample_world)) \<noteq> w_db sample_world" by fastforce
  with sso_session_needs_verified_token [OF this] show ?thesis by fastforce
qed

end
