(* ===== verification/Catalog.thy ===== *)
theory Catalog
  imports Sessions "HOL-Library.List_Lexorder" "HOL-Library.Char_ord"
begin

text \<open>
  What the catalog modules share: URLs, SQL patterns, the audit row of a management action
  (\<open>_record_audit\<close> of \<open>products.py\<close> and \<open>shops.py\<close>), the push of catalog changes to the shop
  (\<open>server/shop_catalog_sync.py\<close>), and the contract of an operation behind a guard, a locale that
  the theories of the operations interpret.
\<close>

subsection \<open>Guarded operations\<close>

locale guarded_operation =
  fixes guard :: "request \<Rightarrow> actor handler"
    and op :: "request \<Rightarrow> json handler"
  assumes guard_db: "w_db (snd (guard rq w)) = w_db w"
    and guarded: "guard rq w = (Inl e, v) \<Longrightarrow> \<exists>e' v'. op rq w = (Inl e', v') \<and> w_db v' = w_db w"
begin

lemma change_needs_guard:
  assumes "w_db (snd (op rq w)) \<noteq> w_db w"
  shows "\<exists>a v. guard rq w = (Inr a, v)"
proof (cases "guard rq w")
  case (Pair r v)
  then show ?thesis using guarded [of rq w _ v] assms by (cases r) auto
qed

lemma success_needs_guard:
  assumes "op rq w = (Inr x, v)"
  shows "\<exists>a u. guard rq w = (Inr a, u)"
proof (cases "guard rq w")
  case (Pair r u)
  then show ?thesis using guarded [of rq w _ u] assms by (cases r) auto
qed

text \<open>A sequence of requests, none of which the guard accepts in any state, leaves the database alone.\<close>

fun serve :: "request list \<Rightarrow> world \<Rightarrow> world" where
  "serve [] w = w"
| "serve (rq # rqs) w = serve rqs (snd (op rq w))"

lemma serve_refused: "(\<And>rq w. rq \<in> set rqs \<Longrightarrow> \<exists>e v. guard rq w = (Inl e, v)) \<Longrightarrow> w_db (serve rqs w) = w_db w"
proof (induction rqs arbitrary: w)
  case (Cons rq rqs)
  obtain e v where "guard rq w = (Inl e, v)" using Cons.prems by (meson list.set_intros(1))
  then have "w_db (snd (op rq w)) = w_db w" using guarded by fastforce
  with Cons show ?case by (simp add: list.set_intros(2))
qed simp

end

text \<open>An operation that checks its payload, then asks the guard, then works.\<close>

definition checked :: "'p option \<Rightarrow> ('p \<Rightarrow> 'a handler) \<Rightarrow> 'a handler" where
  "checked p k = (case p of None \<Rightarrow> raise (HTTPException 422 ''Unprocessable Entity'') | Some x \<Rightarrow> k x)"

lemma require_management_user_db: "w_db (snd (require_management_user E rq w)) = w_db w"
  using get_request_user_db [of E rq w]
  by (auto simp: require_management_user_def require_authenticated_user_def bind_run split: prod.splits sum.splits option.splits)

lemma require_admin_user_db: "w_db (snd (require_admin_user E rq w)) = w_db w"
  using get_request_user_db [of E rq w]
  by (auto simp: require_admin_user_def require_authenticated_user_def bind_run split: prod.splits sum.splits option.splits)

lemma checked_guarded:
  assumes "guard w = (Inl e, v)" and "w_db (snd (guard w)) = w_db w"
  shows "\<exists>e' v'. checked p (\<lambda>x. bind guard (k x)) w = (Inl e', v') \<and> w_db v' = w_db w"
  using assms by (cases p) (auto simp: checked_def bind_run)

lemma bind_guarded:
  assumes "guard w = (Inl e, v)" and "w_db (snd (guard w)) = w_db w"
  shows "\<exists>e' v'. bind guard k w = (Inl e', v') \<and> w_db v' = w_db w"
  using assms by (auto simp: bind_run)

lemma management_role: "require_management_user E rq w = (Inr a, v) \<Longrightarrow> can_manage_catalog (a_role a)"
  by (auto simp: require_management_user_def bind_run split: prod.splits sum.splits if_splits)

lemma admin_role: "require_admin_user E rq w = (Inr a, v) \<Longrightarrow> py_lower (py_strip (a_role a)) = ''admin''"
  by (auto simp: require_admin_user_def bind_run split: prod.splits sum.splits if_splits)

subsection \<open>URLs and patterns\<close>

definition scheme_char :: "char \<Rightarrow> bool" where
  "scheme_char c = (is_alpha c \<or> is_digit c \<or> c \<in> {CHR ''+'', CHR ''-'', CHR ''.''})"

text \<open>
  \<open>urlparse\<close>: the scheme, the network location and the path, None where it raises. (That a bracketed host
  is an address is not checked.) The parameters of the last segment are no part of the path.
\<close>

definition params_schemes :: "string list" where
  "params_schemes = [[], ''ftp'', ''hdl'', ''prospero'', ''http'', ''https'', ''shttp'', ''rtsp'', ''rtsps'', ''rtspu'', ''sip'', ''sips'',
     ''mms'', ''sftp'', ''tel'']"

definition strip_params :: "string \<Rightarrow> string" where
  "strip_params path = (case rsplit1 CHR ''/'' path of
     None \<Rightarrow> takeWhile (\<lambda>c. c \<noteq> CHR '';'') path
   | Some (d, f) \<Rightarrow> d @ ''/'' @ takeWhile (\<lambda>c. c \<noteq> CHR '';'') f)"

definition url_parts :: "string \<Rightarrow> (string \<times> string \<times> string) option" where
  "url_parts u0 =
     (let u = filter (\<lambda>c. c \<notin> {CHR 9, CHR 10, CHR 13}) (dropWhile (\<lambda>c. of_char c \<le> (32::nat)) u0);
          (scheme, rest) = (case split1 CHR '':'' u of
             Some (a, b) \<Rightarrow> (if a \<noteq> [] \<and> is_alpha (hd a) \<and> list_all scheme_char a then (py_lower a, b) else ([], u))
           | None \<Rightarrow> ([], u));
          netloc = (if startswith rest ''//''
             then takeWhile (\<lambda>c. c \<notin> {CHR ''/'', CHR ''?'', CHR ''#''}) (drop 2 rest) else []);
          path = takeWhile (\<lambda>c. c \<notin> {CHR ''?'', CHR ''#''}) (if startswith rest ''//'' then drop (2 + length netloc) rest else rest)
      in if (CHR ''['' \<in> set netloc) \<noteq> (CHR '']'' \<in> set netloc) then None
         else Some (scheme, netloc, if scheme \<in> set params_schemes then strip_params path else path))"

definition absolute_http_url :: "string \<Rightarrow> bool" where
  "absolute_http_url u = (case url_parts u of None \<Rightarrow> False
     | Some (scheme, netloc, path) \<Rightarrow> scheme \<in> {''http'', ''https''} \<and> netloc \<noteq> [])"

text \<open>\<open>s LIKE p\<close>, without an escape character.\<close>

fun like :: "string \<Rightarrow> string \<Rightarrow> bool" where
  "like [] s = (s = [])"
| "like (c # p) [] = (c = CHR ''%'' \<and> like p [])"
| "like (c # p) (x # s) =
     (if c = CHR ''%'' then like p (x # s) \<or> like (c # p) s
      else (c = CHR ''_'' \<or> c = x) \<and> like p s)"

lemma like_percent_all: "like ''%'' s"
  by (induction s) auto

lemma like_here: "like p s \<Longrightarrow> like (CHR ''%'' # p) (a @ s)"
proof (induction a)
  case Nil
  then show ?case by (cases s) auto
qed auto

lemma like_plain: "CHR ''%'' \<notin> set q \<Longrightarrow> CHR ''_'' \<notin> set q \<Longrightarrow> like p s \<Longrightarrow> like (q @ p) (q @ s)"
  by (induction q) auto

text \<open>A pattern without wildcards of its own finds every string that contains it.\<close>

lemma like_contains:
  assumes "CHR ''%'' \<notin> set q" and "CHR ''_'' \<notin> set q" and "contains s q"
  shows "like (''%'' @ q @ ''%'') s"
proof -
  obtain a b where "s = a @ q @ b" using assms(3) by (auto simp: contains_iff)
  then show ?thesis
    using like_here [OF like_plain [OF assms(1,2) like_percent_all]] by simp
qed

subsection \<open>The audit of management actions\<close>

definition record_audit :: "request \<Rightarrow> actor \<Rightarrow> string \<Rightarrow> string \<Rightarrow> string \<Rightarrow> unit handler" where
  "record_audit rq a action resource details = bind (gets w_now) (\<lambda>now.
     bind (on_db (add_audit
       \<lparr>al_user_id = Some (a_user_id a), al_action = action, al_resource = Some resource, al_details = Some details,
        al_ip_address = rq_client rq, al_user_agent = Some (header_or rq ''user-agent'' []),
        al_trace_id = Some (opt_str (rq_correlation_id rq)), al_created_at = now\<rparr>)) (\<lambda>_. ret ()))"

lemma safe_record_audit [safe_intro]: "W.safe E A (record_audit rq a x y z)"
  unfolding record_audit_def by (intro safe_intro)

lemma safe_checked [safe_intro]: "(\<And>x. W.safe E A (k x)) \<Longrightarrow> W.safe E A (checked p k)"
  unfolding checked_def by (intro safe_intro)

subsection \<open>Pushing the catalog to the shop\<close>

definition sync_path :: string where
  "sync_path = ''/api/integrations/crm/catalog-sync''"

definition shop_catalog_sync_configured :: "env \<Rightarrow> bool" where
  "shop_catalog_sync_configured E =
     (py_strip (octo_drone_shop_url (cfg E)) \<noteq> [] \<and> py_strip (drone_shop_internal_key (cfg E)) \<noteq> [])"

text \<open>\<open>str(product.get(k, "") or "").strip()\<close>.\<close>

definition text_of :: "env \<Rightarrow> json \<Rightarrow> string \<Rightarrow> string res" where
  "text_of E p k = res_bind (jget_or p k (JStr [])) (\<lambda>v. Inr (py_strip (jstr (rep E) (jor v (JStr [])))))"

definition build_shop_sync_payload :: "env \<Rightarrow> json \<Rightarrow> json res" where
  "build_shop_sync_payload E p =
     res_bind (text_of E p ''name'') (\<lambda>name.
     res_bind (text_of E p ''sku'') (\<lambda>sku.
     res_bind (text_of E p ''description'') (\<lambda>description.
     res_bind (res_bind (jget p ''price'') (\<lambda>v. jfloat (jor v (JFloat (Fin 0))))) (\<lambda>price.
     res_bind (res_bind (jget p ''stock'') (\<lambda>v. jint (jor v (JInt 0)))) (\<lambda>stock.
     res_bind (text_of E p ''category'') (\<lambda>category.
     res_bind (text_of E p ''image_url'') (\<lambda>image_url.
     res_bind (res_bind (jget_or p ''is_active'' (JInt 1)) (\<lambda>v. jint (jor v (JInt 0)))) (\<lambda>active.
     Inr (JObj [(''name'', JStr name), (''sku'', JStr (py_upper sku)), (''description'', JStr description),
       (''price'', JFloat price), (''stock'', JInt stock), (''category'', JStr category), (''image_url'', JStr image_url),
       (''is_active'', JInt (if active \<noteq> 0 then 1 else 0))])))))))))"

definition sync_products_to_shop :: "env \<Rightarrow> json list \<Rightarrow> string \<Rightarrow> string \<Rightarrow> (string \<times> json) list handler" where
  "sync_products_to_shop E ps action correlation_id =
     bind (build_correlation_id E correlation_id) (\<lambda>cid.
     bind (lift (res_map (build_shop_sync_payload E) ps)) (\<lambda>prepared.
     let base_url = rstrip_slash (octo_drone_shop_url (cfg E));
         key = drone_shop_internal_key (cfg E);
         count = JInt (int (length prepared)) in
     if base_url = [] then ret [(''configured'', JBool False), (''synced'', JBool False),
        (''reason'', JStr ''OCTO_DRONE_SHOP_URL not configured'')]
     else if key = [] then ret [(''configured'', JBool False), (''synced'', JBool False),
        (''reason'', JStr ''DRONE_SHOP_INTERNAL_KEY not configured'')]
     else if prepared = [] then ret [(''configured'', JBool True), (''synced'', JBool True), (''count'', JInt 0),
        (''action'', JStr action), (''skipped'', JBool True)]
     else bind (outbound_headers E cid) (\<lambda>hs.
       bind (catch (bind (send E \<lparr>hc_method = ''POST'', hc_url = base_url @ sync_path,
                 hc_headers = alist_set ''X-Internal-Service-Key'' key hs,
                 hc_body = JObj [(''action'', JStr action), (''source'', JStr ''enterprise-crm-portal''), (''products'', JArr prepared)]\<rparr>)
               (\<lambda>r. bind (lift (hr_json r)) (\<lambda>body. ret (Inr (hr_status r, body)))))
             (\<lambda>e. seq (push_log ''ERROR'' ''Shop catalog sync failed''
                   [(''catalog.sync.action'', JStr action), (''catalog.sync.count'', count),
                    (''catalog.sync.reason'', JStr (exc_str e)), (''integration.target_service'', JStr ''octo-drone-shop''),
                    (''correlation.id'', JStr cid)])
                (ret (Inl [(''configured'', JBool True), (''synced'', JBool False), (''action'', JStr action),
                   (''count'', count), (''reason'', JStr (exc_str e))])))) (\<lambda>got.
       case got of Inl response \<Rightarrow> ret response
       | Inr (status, body) \<Rightarrow>
           bind (lift (if status \<in> {200, 201} then res_bind (jget body ''error'') (\<lambda>err. Inr (\<not> truthy err)) else Inr False)) (\<lambda>synced.
           seq (push_log (if synced then ''INFO'' else ''WARNING'')
                  (if synced then ''Shop catalog sync completed'' else ''Shop catalog sync returned error'')
                  [(''catalog.sync.action'', JStr action), (''catalog.sync.count'', count),
                   (''catalog.sync.status_code'', JInt status), (''integration.target_service'', JStr ''octo-drone-shop''),
                   (''correlation.id'', JStr cid)])
           (ret [(''configured'', JBool True), (''synced'', JBool synced), (''action'', JStr action), (''count'', count),
              (''status_code'', JInt status), (''response'', body)]))))))"

definition sync_product_to_shop :: "env \<Rightarrow> json \<Rightarrow> string \<Rightarrow> string \<Rightarrow> (string \<times> json) list handler" where
  "sync_product_to_shop E p action correlation_id = sync_products_to_shop E [p] action correlation_id"

lemma safe_sync_products_to_shop [safe_intro]: "W.safe E A (sync_products_to_shop E ps a c)"
  unfolding sync_products_to_shop_def Let_def by (intro safe_intro)

lemma safe_sync_product_to_shop [safe_intro]: "W.safe E A (sync_product_to_shop E p a c)"
  unfolding sync_product_to_shop_def by (intro safe_intro)

lemma keeps_sync_products_to_shop: "keeps (\<lambda>w. f (w_db w)) (sync_products_to_shop E ps a c)"
  unfolding sync_products_to_shop_def Let_def by (intro keeps_db_rules)

end
