(* ===== verification/Products.thy ===== *)
theory Products
  imports Catalog
begin

text \<open>
  \<open>server/modules/products.py\<close>: the governed product catalog. A payload is checked, the caller must
  be a manager or an administrator, SKUs stay unique, a product with order history is archived
  instead of deleted, every change leaves an audit row and is pushed to the shop after the commit.
\<close>

record product_mutation =
  pm_name :: string
  pm_sku :: string
  pm_description :: string
  pm_price :: pyfloat
  pm_stock :: int
  pm_category :: string
  pm_image_url :: "string option"
  pm_shop_id :: "int option"
  pm_is_active :: int

definition sku_char :: "char \<Rightarrow> bool" where
  "sku_char c = (is_alpha c \<or> is_digit c \<or> c \<in> {CHR ''.'', CHR ''_'', CHR ''-''})"

text \<open>The validator of \<open>image_url\<close>: None where it raises.\<close>

definition validate_image_url :: "string option \<Rightarrow> string option option" where
  "validate_image_url v = (case v of None \<Rightarrow> Some None
     | Some value \<Rightarrow> (let cleaned = py_strip value in
         if cleaned = [] then Some None
         else if startswith cleaned ''/'' then Some (Some cleaned)
         else if absolute_http_url cleaned then Some (Some cleaned) else None))"

text \<open>\<open>ProductMutation\<close>: the constraints of its fields, on the stripped strings.\<close>

definition check_product :: "product_mutation \<Rightarrow> product_mutation option" where
  "check_product p0 =
     (let p = p0\<lparr>pm_name := py_strip (pm_name p0), pm_sku := py_strip (pm_sku p0),
            pm_description := py_strip (pm_description p0), pm_category := py_strip (pm_category p0),
            pm_image_url := map_option py_strip (pm_image_url p0)\<rparr> in
      if 1 \<le> length (pm_name p) \<and> length (pm_name p) \<le> 200 \<and>
         2 \<le> length (pm_sku p) \<and> length (pm_sku p) \<le> 50 \<and> list_all sku_char (pm_sku p) \<and>
         length (pm_description p) \<le> 4000 \<and>
         fle (Fin 0) (pm_price p) \<and> fle (pm_price p) (Fin 1000000) \<and>
         0 \<le> pm_stock p \<and> pm_stock p \<le> 1000000 \<and> length (pm_category p) \<le> 100 \<and>
         (case pm_image_url p of None \<Rightarrow> True | Some u \<Rightarrow> length u \<le> 500) \<and>
         (case pm_shop_id p of None \<Rightarrow> True | Some i \<Rightarrow> 1 \<le> i) \<and>
         0 \<le> pm_is_active p \<and> pm_is_active p \<le> 1
      then (case validate_image_url (pm_image_url p) of None \<Rightarrow> None | Some u \<Rightarrow> Some (p\<lparr>pm_image_url := u\<rparr>))
      else None)"

text \<open>A product with the shop that was loaded with it.\<close>

definition serialize_product :: "env \<Rightarrow> int \<Rightarrow> product_row \<Rightarrow> shop_row option \<Rightarrow> (string \<times> json) list" where
  "serialize_product E i p shop =
     [(''id'', JInt i), (''shop_id'', jint_opt (p_shop_id p)),
      (''shop_name'', (case shop of None \<Rightarrow> JNull | Some s \<Rightarrow> JStr (s_name s))),
      (''name'', JStr (p_name p)), (''sku'', JStr (p_sku p)), (''description'', jopt (p_description p)),
      (''price'', JFloat (p_price p)), (''stock'', JInt (p_stock p)), (''category'', jopt (p_category p)),
      (''image_url'', jopt (p_image_url p)), (''is_active'', JInt (p_is_active p)),
      (''status'', JStr (if p_is_active p \<noteq> 0 then ''active'' else ''inactive'')),
      (''created_at'', JStr (isoformat E (p_created_at p)))]"

definition shop_of :: "db \<Rightarrow> product_row \<Rightarrow> shop_row option" where
  "shop_of d p = (case p_shop_id p of None \<Rightarrow> None | Some s \<Rightarrow> tbl_get (shops d) s)"

definition search_filter :: "string \<Rightarrow> product_row \<Rightarrow> bool" where
  "search_filter search p =
     (let pattern = ''%'' @ py_lower search @ ''%'' in
      like pattern (py_lower (p_name p)) \<or> like pattern (py_lower (p_sku p)) \<or>
      like pattern (py_lower (opt_str (p_category p))))"

text \<open>The filter on \<open>is_active\<close> of a listing.\<close>

definition active_filter :: "string \<Rightarrow> bool \<Rightarrow> product_row \<Rightarrow> bool" where
  "active_filter status include_inactive p =
     (let normalized = py_lower (py_strip (str_or status ''active'')) in
      if normalized = ''active'' then p_is_active p = 1
      else if normalized = ''inactive'' then p_is_active p = 0
      else if \<not> include_inactive then p_is_active p = 1 else True)"

definition list_products :: "env \<Rightarrow> string \<Rightarrow> string \<Rightarrow> int \<Rightarrow> string \<Rightarrow> bool \<Rightarrow> int \<Rightarrow> int \<Rightarrow> json handler" where
  "list_products E search category shop_id status include_inactive limit offset =
     (if \<not> page_ok limit offset \<or> shop_id < 0 then raise (HTTPException 422 ''Unprocessable Entity'') else
      bind (get_db E (query (\<lambda>d. map (\<lambda>(i, p). JObj (serialize_product E i p (shop_of d p))) (page limit offset
        (sort_key (\<lambda>x. p_name (snd x)) (tbl_select (\<lambda>p.
           (search \<noteq> [] \<longrightarrow> search_filter search p) \<and>
           (category \<noteq> [] \<longrightarrow> p_category p = Some category) \<and>
           (shop_id \<noteq> 0 \<longrightarrow> p_shop_id p = Some shop_id) \<and>
           active_filter status include_inactive p) (products d))))))) (\<lambda>payload.
      ret (JObj [(''products'', JArr payload), (''total'', JInt (int (length payload))),
        (''limit'', JInt limit), (''offset'', JInt offset)])))"

definition get_product :: "env \<Rightarrow> int \<Rightarrow> json handler" where
  "get_product E product_id = bind (get_db E (query (\<lambda>d. (d, tbl_get (products d) product_id)))) (\<lambda>(d, found).
     case found of None \<Rightarrow> ret (JObj [(''error'', JStr ''Product not found'')])
     | Some p \<Rightarrow> ret (JObj [(''product'', JObj (serialize_product E product_id p (shop_of d p)))]))"

text \<open>The row of a payload: a new one, and an update of an old one.\<close>

definition apply_mutation :: "product_mutation \<Rightarrow> int \<Rightarrow> product_row" where
  "apply_mutation m created_at =
     \<lparr>p_shop_id = pm_shop_id m, p_name = pm_name m, p_sku = pm_sku m, p_description = Some (pm_description m),
      p_price = pm_price m, p_stock = pm_stock m, p_category = Some (pm_category m), p_image_url = pm_image_url m,
      p_is_active = pm_is_active m, p_created_at = created_at\<rparr>"

text \<open>The shop a payload names, None where there is none of that id.\<close>

definition named_shop :: "product_mutation \<Rightarrow> db \<Rightarrow> shop_row option option" where
  "named_shop m d = (case pm_shop_id m of None \<Rightarrow> Some None | Some s \<Rightarrow>
     (case tbl_get (shops d) s of None \<Rightarrow> None | Some r \<Rightarrow> Some (Some r)))"

definition correlation_id_of :: "request \<Rightarrow> string" where
  "correlation_id_of rq = opt_str (rq_correlation_id rq)"

text \<open>The session of an operation: an error message, or what is serialised and its response.\<close>

definition create_product_tx :: "env \<Rightarrow> request \<Rightarrow> actor \<Rightarrow> product_mutation \<Rightarrow> (string + (string \<times> json) list) handler" where
  "create_product_tx E rq a m =
     bind (query (\<lambda>d. tbl_find (\<lambda>p. p_sku p = pm_sku m) (products d))) (\<lambda>existing.
     if existing \<noteq> None then ret (Inl ''SKU already exists'') else
     bind (query (named_shop m)) (\<lambda>shop.
     case shop of None \<Rightarrow> ret (Inl ''Shop not found'')
     | Some s \<Rightarrow>
         bind (gets w_now) (\<lambda>now.
         bind (on_db (add_product (apply_mutation m now))) (\<lambda>i.
         seq (record_audit rq a ''products.create'' (''products/'' @ int_str i) (''Created product '' @ pm_sku m))
         (ret (Inr (serialize_product E i (apply_mutation m now) s)))))))"

definition pushed :: "env \<Rightarrow> request \<Rightarrow> string \<Rightarrow> string \<Rightarrow> string + (string \<times> json) list \<Rightarrow> json handler" where
  "pushed E rq status action outcome = (case outcome of
     Inl msg \<Rightarrow> ret (JObj [(''error'', JStr msg)])
   | Inr serialized \<Rightarrow>
       bind (sync_product_to_shop E (JObj serialized) action (correlation_id_of rq)) (\<lambda>shop_sync.
       ret (JObj [(''status'', JStr status), (''product'', JObj serialized), (''shop_sync'', JObj shop_sync)])))"

definition create_product :: "env \<Rightarrow> product_mutation \<Rightarrow> request \<Rightarrow> json handler" where
  "create_product E p rq = checked (check_product p) (\<lambda>m.
     bind (require_management_user E rq) (\<lambda>a.
     bind (get_db E (create_product_tx E rq a m)) (pushed E rq ''created'' ''upsert'')))"

definition update_product_tx :: "env \<Rightarrow> request \<Rightarrow> actor \<Rightarrow> int \<Rightarrow> product_mutation \<Rightarrow> (string + (string \<times> json) list) handler" where
  "update_product_tx E rq a product_id m =
     bind (query (\<lambda>d. tbl_get (products d) product_id)) (\<lambda>found.
     case found of None \<Rightarrow> ret (Inl ''Product not found'')
     | Some old \<Rightarrow>
         bind (query (\<lambda>d. find (\<lambda>(i, p). p_sku p = pm_sku m \<and> i \<noteq> product_id) (rows (products d)))) (\<lambda>duplicate.
         if duplicate \<noteq> None then ret (Inl ''SKU already exists'') else
         bind (query (named_shop m)) (\<lambda>shop.
         case shop of None \<Rightarrow> ret (Inl ''Shop not found'')
         | Some s \<Rightarrow>
             (let p = apply_mutation m (p_created_at old) in
              seq (on_db (put_product product_id p))
              (seq (record_audit rq a ''products.update'' (''products/'' @ int_str product_id) (''Updated product '' @ pm_sku m))
              (ret (Inr (serialize_product E product_id p s))))))))"

definition update_product :: "env \<Rightarrow> int \<Rightarrow> product_mutation \<Rightarrow> request \<Rightarrow> json handler" where
  "update_product E product_id p rq = checked (check_product p) (\<lambda>m.
     bind (require_management_user E rq) (\<lambda>a.
     bind (get_db E (update_product_tx E rq a product_id m)) (pushed E rq ''updated'' ''upsert'')))"

definition sync_catalog_to_shop :: "env \<Rightarrow> request \<Rightarrow> json handler" where
  "sync_catalog_to_shop E rq = bind (require_management_user E rq) (\<lambda>a.
     bind (get_db E (bind (query (\<lambda>d. map (\<lambda>(i, p). JObj (serialize_product E i p (shop_of d p)))
             (sort_key fst (rows (products d))))) (\<lambda>payload.
         seq (record_audit rq a ''products.sync.shop'' ''products''
                (''Triggered full catalog sync for '' @ int_str (int (length payload)) @ '' products''))
         (ret payload)))) (\<lambda>payload.
     bind (sync_products_to_shop E payload ''upsert'' (correlation_id_of rq)) (\<lambda>shop_sync.
     ret (JObj [(''status'', JStr (if (case map_of shop_sync ''synced'' of None \<Rightarrow> False | Some v \<Rightarrow> truthy v)
                                   then ''completed'' else ''warning'')),
       (''product_count'', JInt (int (length payload))), (''shop_sync'', JObj shop_sync)]))))"

text \<open>Archived or deleted: the response and what is pushed.\<close>

definition delete_product_tx :: "env \<Rightarrow> request \<Rightarrow> actor \<Rightarrow> int \<Rightarrow> (string + (string \<times> json) list \<times> (string \<times> json) list) handler" where
  "delete_product_tx E rq a product_id =
     bind (query (\<lambda>d. tbl_get (products d) product_id)) (\<lambda>found.
     case found of None \<Rightarrow> ret (Inl ''Product not found'')
     | Some p \<Rightarrow>
         bind (query (\<lambda>d. length (tbl_select (\<lambda>it. oi_product_id it = Some product_id) (order_items d)))) (\<lambda>linked_orders.
         if linked_orders \<noteq> 0 then
           (let archived = p\<lparr>p_is_active := 0\<rparr>; snapshot = serialize_product E product_id archived None in
            seq (on_db (put_product product_id archived))
            (seq (record_audit rq a ''products.archive'' (''products/'' @ int_str product_id)
                    (''Archived product '' @ p_sku p @ '' because it has order history''))
            (ret (Inr ([(''status'', JStr ''archived''), (''product'', JObj snapshot),
                (''reason'', JStr ''Product has historical orders and was deactivated instead of deleted'')], snapshot)))))
         else
           (let snapshot = obj_update (serialize_product E product_id p None) [(''is_active'', JInt 0)] in
            seq (on_db (drop_product product_id))
            (seq (record_audit rq a ''products.delete'' (''products/'' @ int_str product_id) (''Deleted product '' @ p_sku p))
            (ret (Inr ([(''status'', JStr ''deleted''), (''product_id'', JInt product_id), (''product'', JObj snapshot)], snapshot)))))))"

definition delete_product :: "env \<Rightarrow> int \<Rightarrow> request \<Rightarrow> json handler" where
  "delete_product E product_id rq =
     bind (require_management_user E rq) (\<lambda>a.
     bind (get_db E (delete_product_tx E rq a product_id)) (\<lambda>outcome.
     case outcome of Inl msg \<Rightarrow> ret (JObj [(''error'', JStr msg)])
     | Inr (response, snapshot) \<Rightarrow>
         bind (sync_product_to_shop E (JObj snapshot) ''deactivate'' (correlation_id_of rq)) (\<lambda>shop_sync.
         ret (JObj (response @ [(''shop_sync'', JObj shop_sync)])))))"

subsection \<open>Safety\<close>

lemma safe_create_product_tx [safe_intro]: "W.safe E A (create_product_tx E rq a m)"
  unfolding create_product_tx_def by (intro safe_intro)

lemma safe_update_product_tx [safe_intro]: "W.safe E A (update_product_tx E rq a i m)"
  unfolding update_product_tx_def Let_def by (intro safe_intro)

lemma safe_delete_product_tx [safe_intro]: "W.safe E A (delete_product_tx E rq a i)"
  unfolding delete_product_tx_def Let_def by (intro safe_intro)

lemma safe_pushed [safe_intro]: "W.safe E A (pushed E rq s t x)"
  unfolding pushed_def by (intro safe_intro)

lemma safe_list_products [safe_intro]: "W.safe E A (list_products E a b c d e l k)"
  unfolding list_products_def by (intro safe_intro)

lemma safe_get_product [safe_intro]: "W.safe E A (get_product E i)"
  unfolding get_product_def by (intro safe_intro)

lemma safe_create_product [safe_intro]: "W.safe E A (create_product E p rq)"
  unfolding create_product_def by (intro safe_intro)

lemma safe_update_product [safe_intro]: "W.safe E A (update_product E i p rq)"
  unfolding update_product_def by (intro safe_intro)

lemma safe_sync_catalog_to_shop [safe_intro]: "W.safe E A (sync_catalog_to_shop E rq)"
  unfolding sync_catalog_to_shop_def by (intro safe_intro)

lemma safe_delete_product [safe_intro]: "W.safe E A (delete_product E i rq)"
  unfolding delete_product_def by (intro safe_intro)

subsection \<open>The guard\<close>

interpretation create_guard: guarded_operation "require_management_user E" "create_product E p" for E p
  by unfold_locales (rule require_management_user_db, unfold create_product_def, erule checked_guarded, rule require_management_user_db)

interpretation update_guard: guarded_operation "require_management_user E" "update_product E i p" for E i p
  by unfold_locales (rule require_management_user_db, unfold update_product_def, erule checked_guarded, rule require_management_user_db)

interpretation delete_guard: guarded_operation "require_management_user E" "delete_product E i" for E i
  by unfold_locales (rule require_management_user_db, unfold delete_product_def, erule bind_guarded, rule require_management_user_db)

interpretation sync_guard: guarded_operation "require_management_user E" "sync_catalog_to_shop E" for E
  by unfold_locales (rule require_management_user_db, unfold sync_catalog_to_shop_def, erule bind_guarded, rule require_management_user_db)

end
