(* ===== verification/Shops.thy ===== *)
theory Shops
  imports Catalog
begin

text \<open>
  \<open>server/modules/shops.py\<close>: the storefronts. The same governance as for products; a shop that
  still has products is not deleted.
\<close>

record shop_mutation =
  sm_name :: string
  sm_slug :: string
  sm_storefront_url :: string
  sm_crm_base_url :: string
  sm_region :: string
  sm_currency :: string
  sm_status :: string
  sm_notes :: string

definition allowed_shop_statuses :: "string set" where
  "allowed_shop_statuses = {''active'', ''maintenance'', ''inactive''}"

definition slug_char :: "char \<Rightarrow> bool" where
  "slug_char c = (is_digit c \<or> c = CHR ''-'' \<or> (is_alpha c \<and> lower_char c = c))"

text \<open>\<open>ShopMutation\<close>: the constraints on the stripped strings, then the validators.\<close>

definition check_shop :: "shop_mutation \<Rightarrow> shop_mutation option" where
  "check_shop m0 =
     (let m = m0\<lparr>sm_name := py_strip (sm_name m0), sm_slug := py_strip (sm_slug m0),
            sm_storefront_url := py_strip (sm_storefront_url m0), sm_crm_base_url := py_strip (sm_crm_base_url m0),
            sm_region := py_strip (sm_region m0), sm_currency := py_strip (sm_currency m0),
            sm_status := py_strip (sm_status m0), sm_notes := py_strip (sm_notes m0)\<rparr> in
      if 1 \<le> length (sm_name m) \<and> length (sm_name m) \<le> 200 \<and>
         2 \<le> length (sm_slug m) \<and> length (sm_slug m) \<le> 80 \<and> list_all slug_char (sm_slug m) \<and>
         length (sm_storefront_url m) \<le> 500 \<and> length (sm_crm_base_url m) \<le> 500 \<and>
         2 \<le> length (sm_region m) \<and> length (sm_region m) \<le> 80 \<and>
         3 \<le> length (sm_currency m) \<and> length (sm_currency m) \<le> 10 \<and>
         3 \<le> length (sm_status m) \<and> length (sm_status m) \<le> 50 \<and> length (sm_notes m) \<le> 4000 \<and>
         absolute_http_url (sm_storefront_url m) \<and> absolute_http_url (sm_crm_base_url m) \<and>
         py_lower (sm_status m) \<in> allowed_shop_statuses
      then Some (m\<lparr>sm_status := py_lower (sm_status m), sm_currency := py_upper (sm_currency m)\<rparr>)
      else None)"

definition serialize_shop :: "env \<Rightarrow> int \<Rightarrow> shop_row \<Rightarrow> int \<Rightarrow> json" where
  "serialize_shop E i s product_count = JObj
     [(''id'', JInt i), (''name'', JStr (s_name s)), (''slug'', JStr (s_slug s)),
      (''storefront_url'', JStr (s_storefront_url s)), (''crm_base_url'', JStr (s_crm_base_url s)),
      (''region'', JStr (s_region s)), (''currency'', JStr (s_currency s)), (''status'', JStr (s_status s)),
      (''notes'', jopt (s_notes s)), (''product_count'', JInt product_count),
      (''created_at'', JStr (isoformat E (s_created_at s))), (''updated_at'', JStr (isoformat E (s_updated_at s)))]"

definition shop_product_count :: "db \<Rightarrow> int \<Rightarrow> int" where
  "shop_product_count d i = int (length (tbl_select (\<lambda>p. p_shop_id p = Some i) (products d)))"

definition list_shops :: "env \<Rightarrow> string \<Rightarrow> string \<Rightarrow> int \<Rightarrow> int \<Rightarrow> json handler" where
  "list_shops E search status_filter limit offset =
     (if \<not> page_ok limit offset then raise (HTTPException 422 ''Unprocessable Entity'') else
      (let q = py_lower (py_strip search); pattern = ''%'' @ q @ ''%'' in
      bind (get_db E (query (\<lambda>d. map (\<lambda>(i, s). serialize_shop E i s (shop_product_count d i)) (page limit offset
        (sort_key (\<lambda>x. s_name (snd x)) (tbl_select (\<lambda>s.
           (q \<noteq> [] \<longrightarrow> like pattern (py_lower (s_name s)) \<or> like pattern (py_lower (s_slug s)) \<or> like pattern (py_lower (s_region s))) \<and>
           (status_filter \<noteq> [] \<longrightarrow> s_status s = py_lower (py_strip status_filter))) (shops d))))))) (\<lambda>payload.
      ret (JObj [(''shops'', JArr payload), (''total'', JInt (int (length payload))),
        (''limit'', JInt limit), (''offset'', JInt offset)]))))"

definition get_shop :: "env \<Rightarrow> int \<Rightarrow> json handler" where
  "get_shop E shop_id = bind (get_db E (query (\<lambda>d. (d, tbl_get (shops d) shop_id)))) (\<lambda>(d, found).
     case found of None \<Rightarrow> ret (JObj [(''error'', JStr ''Shop not found'')])
     | Some s \<Rightarrow> ret (JObj [(''shop'', serialize_shop E shop_id s (shop_product_count d shop_id))]))"

definition create_shop_tx :: "env \<Rightarrow> request \<Rightarrow> actor \<Rightarrow> shop_mutation \<Rightarrow> json handler" where
  "create_shop_tx E rq a m =
     bind (query (\<lambda>d. tbl_find (\<lambda>s. s_slug s = sm_slug m) (shops d))) (\<lambda>duplicate.
     if duplicate \<noteq> None then ret (JObj [(''error'', JStr ''Shop slug already exists'')]) else
     bind (gets w_now) (\<lambda>now.
     let s = \<lparr>s_name = sm_name m, s_address = [], s_coordinates = [], s_contact_email = [], s_contact_phone = [],
        s_is_active = 1, s_slug = sm_slug m, s_storefront_url = sm_storefront_url m, s_crm_base_url = sm_crm_base_url m,
        s_region = sm_region m, s_currency = sm_currency m, s_status = sm_status m, s_notes = Some (sm_notes m),
        s_created_at = now, s_updated_at = now\<rparr> in
     bind (on_db (add_shop s)) (\<lambda>i.
     seq (record_audit rq a ''shops.create'' (''shops/'' @ int_str i) (''Created shop '' @ sm_slug m))
     (ret (JObj [(''status'', JStr ''created''), (''shop'', serialize_shop E i s 0)])))))"

definition create_shop :: "env \<Rightarrow> shop_mutation \<Rightarrow> request \<Rightarrow> json handler" where
  "create_shop E p rq = checked (check_shop p) (\<lambda>m.
     bind (require_management_user E rq) (\<lambda>a. get_db E (create_shop_tx E rq a m)))"

text \<open>
  The loop of \<open>setattr\<close>, and the \<open>UPDATE\<close> of the flush: only where a value changed is there one, and \<open>onupdate\<close>
  sets \<open>updated_at\<close> in it.
\<close>

definition assign_shop :: "shop_mutation \<Rightarrow> int \<Rightarrow> shop_row \<Rightarrow> shop_row" where
  "assign_shop m now old =
     (let new = old\<lparr>s_name := sm_name m, s_slug := sm_slug m, s_storefront_url := sm_storefront_url m,
            s_crm_base_url := sm_crm_base_url m, s_region := sm_region m, s_currency := sm_currency m,
            s_status := sm_status m, s_notes := Some (sm_notes m)\<rparr> in
      if new = old then old else new\<lparr>s_updated_at := now\<rparr>)"

text \<open>
  An early return leaves the block with its answer; otherwise the shop goes on, and whether the flush
  wrote it: then its \<open>updated_at\<close> is one that only the server knows.
\<close>

definition update_shop_tx :: "env \<Rightarrow> request \<Rightarrow> actor \<Rightarrow> int \<Rightarrow> shop_mutation \<Rightarrow> (json + shop_row \<times> bool \<times> int) handler" where
  "update_shop_tx E rq a shop_id m =
     bind (query (\<lambda>d. tbl_get (shops d) shop_id)) (\<lambda>found.
     case found of None \<Rightarrow> ret (Inl (JObj [(''error'', JStr ''Shop not found'')]))
     | Some old \<Rightarrow>
         bind (query (\<lambda>d. find (\<lambda>(i, s). s_slug s = sm_slug m \<and> i \<noteq> shop_id) (rows (shops d)))) (\<lambda>duplicate.
         if duplicate \<noteq> None then ret (Inl (JObj [(''error'', JStr ''Shop slug already exists'')])) else
         bind (gets w_now) (\<lambda>now.
         let s = assign_shop m now old in
         seq (on_db (put_shop shop_id s))
         (bind (query (\<lambda>d. shop_product_count d shop_id)) (\<lambda>product_count.
         seq (record_audit rq a ''shops.update'' (''shops/'' @ int_str shop_id) (''Updated shop '' @ sm_slug m))
         (ret (Inr (s, assign_shop m now old \<noteq> old, product_count))))))))"

text \<open>
  The shop is serialised after the block. An \<open>UPDATE\<close> with a server-side \<open>onupdate\<close> leaves the attribute expired,
  to be loaded when it is read next, and by then the session is closed.
\<close>

definition updated_shop :: "env \<Rightarrow> int \<Rightarrow> json + shop_row \<times> bool \<times> int \<Rightarrow> json handler" where
  "updated_shop E shop_id outcome = (case outcome of
     Inl early \<Rightarrow> ret early
   | Inr (s, expired, product_count) \<Rightarrow>
       if expired then raise DetachedInstanceError
       else ret (JObj [(''status'', JStr ''updated''), (''shop'', serialize_shop E shop_id s product_count)]))"

definition update_shop :: "env \<Rightarrow> int \<Rightarrow> shop_mutation \<Rightarrow> request \<Rightarrow> json handler" where
  "update_shop E shop_id p rq = checked (check_shop p) (\<lambda>m.
     bind (require_management_user E rq) (\<lambda>a. bind (get_db E (update_shop_tx E rq a shop_id m)) (updated_shop E shop_id)))"

definition delete_shop_tx :: "request \<Rightarrow> actor \<Rightarrow> int \<Rightarrow> json handler" where
  "delete_shop_tx rq a shop_id =
     bind (query (\<lambda>d. tbl_get (shops d) shop_id)) (\<lambda>found.
     case found of None \<Rightarrow> ret (JObj [(''error'', JStr ''Shop not found'')])
     | Some s \<Rightarrow>
         bind (query (\<lambda>d. shop_product_count d shop_id)) (\<lambda>product_count.
         if product_count \<noteq> 0 then raise (HTTPException 409 ''Shop still has assigned products'')
         else seq (on_db (drop_shop shop_id))
           (seq (record_audit rq a ''shops.delete'' (''shops/'' @ int_str shop_id) (''Deleted shop '' @ s_slug s))
           (ret (JObj [(''status'', JStr ''deleted''), (''shop_id'', JInt shop_id)])))))"

definition delete_shop :: "env \<Rightarrow> int \<Rightarrow> request \<Rightarrow> json handler" where
  "delete_shop E shop_id rq = bind (require_management_user E rq) (\<lambda>a. get_db E (delete_shop_tx rq a shop_id))"

subsection \<open>Safety and the guard\<close>

lemma safe_list_shops [safe_intro]: "W.safe E A (list_shops E a b l k)"
  unfolding list_shops_def Let_def by (intro safe_intro)

lemma safe_get_shop [safe_intro]: "W.safe E A (get_shop E i)"
  unfolding get_shop_def by (intro safe_intro)

lemma safe_create_shop [safe_intro]: "W.safe E A (create_shop E p rq)"
  unfolding create_shop_def create_shop_tx_def Let_def by (intro safe_intro)

lemma safe_updated_shop [safe_intro]: "W.safe E A (updated_shop E i r)"
  unfolding updated_shop_def by (intro safe_intro)

lemma safe_update_shop [safe_intro]: "W.safe E A (update_shop E i p rq)"
  unfolding update_shop_def update_shop_tx_def Let_def by (intro safe_intro)

lemma safe_delete_shop [safe_intro]: "W.safe E A (delete_shop E i rq)"
  unfolding delete_shop_def delete_shop_tx_def by (intro safe_intro)

interpretation create_shop_guard: guarded_operation "require_management_user E" "create_shop E p" for E p
  by unfold_locales (rule require_management_user_db, unfold create_shop_def, erule checked_guarded, rule require_management_user_db)

interpretation update_shop_guard: guarded_operation "require_management_user E" "update_shop E i p" for E i p
  by unfold_locales (rule require_management_user_db, unfold update_shop_def, erule checked_guarded, rule require_management_user_db)

interpretation delete_shop_guard: guarded_operation "require_management_user E" "delete_shop E i" for E i
  by unfold_locales (rule require_management_user_db, unfold delete_shop_def, erule bind_guarded, rule require_management_user_db)

end
