(* ===== verification/Catalog_Facts.thy ===== *)
theory Catalog_Facts
  imports Products Shops
begin

text \<open>
  The functional behaviour of the catalog operations: their sessions never fail on a constraint of
  the schema, and what each branch stores.
\<close>

lemma record_audit_run:
  "record_audit rq a x y z w = (Inr (), w\<lparr>w_db := (w_db w)\<lparr>audit_logs := tbl_insert
     \<lparr>al_user_id = Some (a_user_id a), al_action = x, al_resource = Some y, al_details = Some z,
      al_ip_address = rq_client rq, al_user_agent = Some (header_or rq ''user-agent'' []),
      al_trace_id = Some (opt_str (rq_correlation_id rq)), al_created_at = w_now w\<rparr> (audit_logs (w_db w))\<rparr>\<rparr>)"
  by (simp add: record_audit_def bind_run on_db_def add_audit_def)

text \<open>The last audit row.\<close>

definition audited :: "db \<Rightarrow> db \<Rightarrow> actor \<Rightarrow> string \<Rightarrow> bool" where
  "audited d e a action \<longleftrightarrow> (\<exists>r. rows (audit_logs e) = rows (audit_logs d) @ [(next_id (audit_logs d), r)] \<and>
     al_user_id r = Some (a_user_id a) \<and> al_action r = action)"

subsection \<open>Products\<close>

lemma sku_free:
  "tbl_find (\<lambda>p. p_sku p = k) (products d) = None \<Longrightarrow> p_sku r = k \<Longrightarrow> \<not> conflict (\<lambda>r. Some (p_sku r)) (products d) i r"
  by (auto simp: tbl_find_None conflict_def list_ex_iff)

lemma sku_free_else:
  "find (\<lambda>(j, p). p_sku p = k \<and> j \<noteq> i) (rows (products d)) = None \<Longrightarrow> p_sku r = k \<Longrightarrow>
     \<not> conflict (\<lambda>r. Some (p_sku r)) (products d) i r"
  by (fastforce simp: find_None_iff conflict_def list_ex_iff)

lemma named_shop_ref: "named_shop m d = Some s \<Longrightarrow> ref_ok (pm_shop_id m) (shops d)"
  by (cases "pm_shop_id m"; cases "tbl_get (shops d) (the (pm_shop_id m))") (auto simp: named_shop_def tbl_has_def)

lemma create_product_tx_stored:
  assumes "tbl_find (\<lambda>p. p_sku p = pm_sku m) (products (w_db w)) = None" and "named_shop m (w_db w) = Some s"
  shows "\<exists>v. create_product_tx E rq a m w =
      (Inr (Inr (serialize_product E (next_id (products (w_db w))) (apply_mutation m (w_now w)) s)), v) \<and>
    products (w_db v) = tbl_insert (apply_mutation m (w_now w)) (products (w_db w)) \<and>
    audited (w_db w) (w_db v) a ''products.create''"
  using assms sku_free [OF assms(1), of "apply_mutation m (w_now w)"] named_shop_ref [OF assms(2)]
  by (simp add: create_product_tx_def bind_run seq_run query_def on_db_def add_product_def apply_mutation_def
      record_audit_run audited_def tbl_insert_def)

lemma create_product_tx_refused:
  assumes "tbl_find (\<lambda>p. p_sku p = pm_sku m) (products (w_db w)) \<noteq> None \<or> named_shop m (w_db w) = None"
  shows "\<exists>msg. create_product_tx E rq a m w = (Inr (Inl msg), w)"
  using assms by (auto simp: create_product_tx_def bind_run query_def)

lemma update_product_tx_stored:
  assumes "tbl_get (products (w_db w)) i = Some old"
    and "find (\<lambda>(j, p). p_sku p = pm_sku m \<and> j \<noteq> i) (rows (products (w_db w))) = None" and "named_shop m (w_db w) = Some s"
  shows "\<exists>v. update_product_tx E rq a i m w = (Inr (Inr (serialize_product E i (apply_mutation m (p_created_at old)) s)), v) \<and>
    products (w_db v) = tbl_set i (apply_mutation m (p_created_at old)) (products (w_db w)) \<and>
    audited (w_db w) (w_db v) a ''products.update''"
  using assms sku_free_else [OF assms(2), of "apply_mutation m (p_created_at old)"] named_shop_ref [OF assms(3)]
  by (simp add: update_product_tx_def bind_run seq_run query_def on_db_def put_product_def apply_mutation_def Let_def
      record_audit_run audited_def tbl_insert_def)

text \<open>Whether a product has order history.\<close>

definition has_history :: "db \<Rightarrow> int \<Rightarrow> bool" where
  "has_history d i \<longleftrightarrow> referenced oi_product_id (order_items d) i"

lemma has_history_count: "has_history d i \<longleftrightarrow> length (tbl_select (\<lambda>it. oi_product_id it = Some i) (order_items d)) \<noteq> 0"
  by (auto simp: has_history_def referenced_def tbl_select_def list_ex_iff filter_empty_conv)

lemma put_same_key:
  assumes "db_ok d" and "tbl_get (products d) i = Some p" and "p_sku q = p_sku p" and "p_shop_id q = p_shop_id p"
  shows "\<not> conflict (\<lambda>r. Some (p_sku r)) (products d) i q" "ref_ok (p_shop_id q) (shops d)"
proof -
  have "(i, p) \<in> set (rows (products d))" using assms(2) by (rule tbl_get_in)
  with assms show "\<not> conflict (\<lambda>r. Some (p_sku r)) (products d) i q" "ref_ok (p_shop_id q) (shops d)"
    by (auto simp: db_invs conflict_def list_ex_iff refs_def dest: uniqD)
qed

lemma delete_product_tx_archives:
  assumes "w_ok w" and "tbl_get (products (w_db w)) i = Some p" and "has_history (w_db w) i"
  shows "\<exists>x v. delete_product_tx E rq a i w = (Inr (Inr x), v) \<and>
    tbl_get (products (w_db v)) i = Some (p\<lparr>p_is_active := 0\<rparr>) \<and>
    order_items (w_db v) = order_items (w_db w) \<and> audited (w_db w) (w_db v) a ''products.archive''"
  using assms put_same_key [of "w_db w" i p "p\<lparr>p_is_active := 0\<rparr>"]
  by (simp add: delete_product_tx_def has_history_count bind_run seq_run query_def on_db_def put_product_def Let_def
      record_audit_run audited_def tbl_insert_def w_ok_def tbl_get_set)

lemma delete_product_tx_deletes:
  assumes "w_ok w" and "tbl_get (products (w_db w)) i = Some p" and "\<not> has_history (w_db w) i"
  shows "\<exists>x v. delete_product_tx E rq a i w = (Inr (Inr x), v) \<and>
    (\<forall>k. tbl_get (products (w_db v)) k = (if k = i then None else tbl_get (products (w_db w)) k)) \<and>
    order_items (w_db v) = order_items (w_db w) \<and> audited (w_db w) (w_db v) a ''products.delete''"
proof -
  have "tbl_ok (products (w_db w))" using assms(1) by (simp add: w_ok_def db_invs)
  note get = tbl_delete_id_get [OF this]
  have "\<not> referenced oi_product_id (order_items (w_db w)) i" using assms(3) by (simp add: has_history_def)
  with assms(2,3) show ?thesis
    by (simp add: delete_product_tx_def has_history_count bind_run seq_run query_def on_db_def drop_product_def Let_def
        record_audit_run audited_def tbl_insert_def get)
qed

subsection \<open>Shops\<close>

lemma shop_products_referenced: "shop_product_count d i \<noteq> 0 \<longleftrightarrow> referenced p_shop_id (products d) i"
  by (auto simp: shop_product_count_def referenced_def tbl_select_def list_ex_iff filter_empty_conv)

lemma delete_shop_tx_refused:
  assumes "tbl_get (shops (w_db w)) i = Some s" and "referenced p_shop_id (products (w_db w)) i"
  shows "delete_shop_tx rq a i w = (Inl (HTTPException 409 ''Shop still has assigned products''), w)"
  using assms shop_products_referenced [of "w_db w" i] by (simp add: delete_shop_tx_def bind_run query_def)

lemma delete_shop_tx_deletes:
  assumes "w_ok w" and "tbl_get (shops (w_db w)) i = Some s" and "\<not> referenced p_shop_id (products (w_db w)) i"
  shows "\<exists>v. delete_shop_tx rq a i w = (Inr (JObj [(''status'', JStr ''deleted''), (''shop_id'', JInt i)]), v) \<and>
    (\<forall>k. tbl_get (shops (w_db v)) k = (if k = i then None else tbl_get (shops (w_db w)) k)) \<and>
    products (w_db v) = products (w_db w) \<and> audited (w_db w) (w_db v) a ''shops.delete''"
proof -
  have "tbl_ok (shops (w_db w))" using assms(1) by (simp add: w_ok_def db_invs)
  note get = tbl_delete_id_get [OF this]
  from assms(2,3) shop_products_referenced [of "w_db w" i] show ?thesis
    by (simp add: delete_shop_tx_def bind_run seq_run query_def on_db_def drop_shop_def
        record_audit_run audited_def tbl_insert_def get)
qed

end
