(* ===== verification/Catalog_Props.thy ===== *)
theory Catalog_Props
  imports Catalog_Facts Samples
begin

text \<open>
  The properties of the catalog (\<open>server/modules/products.py\<close>, \<open>server/modules/shops.py\<close>): the one
  guard and the one audit rule of its seven changing operations, and what each of them stores.
\<close>

subsection \<open>The changing operations\<close>

datatype catalog_op =
    CreateProduct product_mutation
  | UpdateProduct int product_mutation
  | DeleteProduct int
  | SyncCatalog
  | CreateShop shop_mutation
  | UpdateShop int shop_mutation
  | DeleteShop int

fun catalog_handler :: "env \<Rightarrow> catalog_op \<Rightarrow> request \<Rightarrow> json handler" where
  "catalog_handler E (CreateProduct m) rq = create_product E m rq"
| "catalog_handler E (UpdateProduct i m) rq = update_product E i m rq"
| "catalog_handler E (DeleteProduct i) rq = delete_product E i rq"
| "catalog_handler E SyncCatalog rq = sync_catalog_to_shop E rq"
| "catalog_handler E (CreateShop m) rq = create_shop E m rq"
| "catalog_handler E (UpdateShop i m) rq = update_shop E i m rq"
| "catalog_handler E (DeleteShop i) rq = delete_shop E i rq"

text \<open>The actions an operation is audited as.\<close>

fun audit_actions :: "catalog_op \<Rightarrow> string set" where
  "audit_actions (CreateProduct m) = {''products.create''}"
| "audit_actions (UpdateProduct i m) = {''products.update''}"
| "audit_actions (DeleteProduct i) = {''products.archive'', ''products.delete''}"
| "audit_actions SyncCatalog = {''products.sync.shop''}"
| "audit_actions (CreateShop m) = {''shops.create''}"
| "audit_actions (UpdateShop i m) = {''shops.update''}"
| "audit_actions (DeleteShop i) = {''shops.delete''}"

interpretation catalog: guarded_operation "require_management_user E" "catalog_handler E op" for E op
proof (cases op)
  case (CreateProduct m)
  with create_guard.guarded_operation_axioms [of E m] show "guarded_operation (require_management_user E) (catalog_handler E op)"
    by (simp add: guarded_operation_def)
next
  case (UpdateProduct i m)
  with update_guard.guarded_operation_axioms [of E i m] show "guarded_operation (require_management_user E) (catalog_handler E op)"
    by (simp add: guarded_operation_def)
next
  case (DeleteProduct i)
  with delete_guard.guarded_operation_axioms [of E i] show "guarded_operation (require_management_user E) (catalog_handler E op)"
    by (simp add: guarded_operation_def)
next
  case SyncCatalog
  with sync_guard.guarded_operation_axioms [of E] show "guarded_operation (require_management_user E) (catalog_handler E op)"
    by (simp add: guarded_operation_def)
next
  case (CreateShop m)
  with create_shop_guard.guarded_operation_axioms [of E m] show "guarded_operation (require_management_user E) (catalog_handler E op)"
    by (simp add: guarded_operation_def)
next
  case (UpdateShop i m)
  with update_shop_guard.guarded_operation_axioms [of E i m] show "guarded_operation (require_management_user E) (catalog_handler E op)"
    by (simp add: guarded_operation_def)
next
  case (DeleteShop i)
  with delete_shop_guard.guarded_operation_axioms [of E i] show "guarded_operation (require_management_user E) (catalog_handler E op)"
    by (simp add: guarded_operation_def)
qed

subsection \<open>Every change is audited\<close>

text \<open>A session that changes nothing, or ends with the audit row of an action of \<open>A\<close>.\<close>

definition audits_as :: "actor \<Rightarrow> string set \<Rightarrow> 'a handler \<Rightarrow> bool" where
  "audits_as a A tx \<longleftrightarrow> (\<forall>w x v. tx w = (Inr x, v) \<longrightarrow> w_db v = w_db w \<or> (\<exists>act \<in> A. audited (w_db w) (w_db v) a act))"

lemmas tx_simps = bind_run seq_run query_def on_db_def Let_def record_audit_run audited_def tbl_insert_def

lemma audits_create_product: "audits_as a {''products.create''} (create_product_tx E rq a m)"
  by (auto simp: audits_as_def create_product_tx_def add_product_def tx_simps split: if_splits option.splits)

lemma audits_update_product: "audits_as a {''products.update''} (update_product_tx E rq a i m)"
  by (auto simp: audits_as_def update_product_tx_def put_product_def tx_simps split: if_splits option.splits)

lemma audits_delete_product: "audits_as a {''products.archive'', ''products.delete''} (delete_product_tx E rq a i)"
  by (auto simp: audits_as_def delete_product_tx_def put_product_def drop_product_def tx_simps split: if_splits option.splits)

lemma audits_create_shop: "audits_as a {''shops.create''} (create_shop_tx E rq a m)"
  by (auto simp: audits_as_def create_shop_tx_def add_shop_def tx_simps split: if_splits option.splits)

lemma audits_update_shop: "audits_as a {''shops.update''} (update_shop_tx E rq a i m)"
  by (auto simp: audits_as_def update_shop_tx_def put_shop_def tx_simps split: if_splits option.splits)

lemma keeps_updated_shop: "keeps w_db (updated_shop E i r)"
  unfolding updated_shop_def by (auto intro: keeps_rules split: sum.split)

lemma audits_delete_shop: "audits_as a {''shops.delete''} (delete_shop_tx rq a i)"
  by (auto simp: audits_as_def delete_shop_tx_def drop_shop_def tx_simps split: if_splits option.splits)

lemma audited_session:
  assumes "audits_as a A tx" and "\<And>x. keeps w_db (k x)" and "w_db u = w_db w"
  shows "same_rows (w_db w) (w_db (snd (bind (get_db E tx) k u))) \<or> (\<exists>act \<in> A. audited (w_db w) (w_db (snd (bind (get_db E tx) k u))) a act)"
proof (cases "get_db E tx u")
  case (Pair r v)
  show ?thesis
  proof (cases r)
    case (Inl e)
    with get_db_fails [OF Pair [unfolded Inl]] Pair assms(3) show ?thesis by (simp add: bind_run)
  next
    case (Inr x)
    obtain t where "tx t = (Inr x, v)" "w_db t = w_db u" using Pair [unfolded Inr] by (rule get_db_Inr)
    then have "w_db v = w_db u \<or> (\<exists>act \<in> A. audited (w_db u) (w_db v) a act)" using assms(1) unfolding audits_as_def by metis
    moreover have "w_db (snd (k x v)) = w_db v" using keeps_snd [OF assms(2)] .
    ultimately show ?thesis using Pair Inr assms(3) by (auto simp: bind_run)
  qed
qed

lemma audited_checked:
  assumes "\<And>x a. audits_as a A (tx x a)" and "\<And>y. keeps w_db (k y)"
  shows "same_rows (w_db w) (w_db (snd (checked p (\<lambda>x. bind (require_management_user E rq) (\<lambda>a. bind (get_db E (tx x a)) k)) w))) \<or>
    (\<exists>a u. require_management_user E rq w = (Inr a, u) \<and> (\<exists>act \<in> A. audited (w_db w)
       (w_db (snd (checked p (\<lambda>x. bind (require_management_user E rq) (\<lambda>a. bind (get_db E (tx x a)) k)) w))) a act))"
proof (cases p)
  case None
  then show ?thesis by (simp add: checked_def)
next
  case (Some x)
  obtain g u where g: "require_management_user E rq w = (g, u)" by (cases "require_management_user E rq w")
  have du: "w_db u = w_db w" using require_management_user_db [of E rq w] g by simp
  show ?thesis
  proof (cases g)
    case (Inl e)
    with g du Some show ?thesis by (simp add: checked_def bind_run)
  next
    case (Inr a)
    with audited_session [OF assms(1) [of a x] assms(2) du, of E] g Some show ?thesis
      by (simp add: checked_def bind_run)
  qed
qed

lemma bind_ret: "bind m ret = m"
  by (rule ext) (auto simp: bind_def split: prod.splits sum.splits)

lemma keeps_pushed: "keeps w_db (pushed E rq status action outcome)"
proof -
  have "keeps w_db (sync_products_to_shop E ps a c)" for ps a c
    using keeps_sync_products_to_shop [of "\<lambda>d. d"] by simp
  then show ?thesis unfolding pushed_def sync_product_to_shop_def by (cases outcome) (auto intro: keeps_rules)
qed

lemma keeps_sync_shop: "keeps w_db (sync_products_to_shop E ps a c)"
  using keeps_sync_products_to_shop [of "\<lambda>d. d"] by simp

lemma catalog_outcome:
  "same_rows (w_db w) (w_db (snd (catalog_handler E op rq w))) \<or>
    (\<exists>a u. require_management_user E rq w = (Inr a, u) \<and>
       (\<exists>act \<in> audit_actions op. audited (w_db w) (w_db (snd (catalog_handler E op rq w))) a act))"
proof (cases op)
  case (CreateProduct m)
  then show ?thesis
    using audited_checked [where tx = "\<lambda>m a. create_product_tx E rq a m" and k = "pushed E rq ''created'' ''upsert''", OF audits_create_product keeps_pushed]
    by (simp add: create_product_def)
next
  case (UpdateProduct i m)
  then show ?thesis
    using audited_checked [where tx = "\<lambda>m a. update_product_tx E rq a i m" and k = "pushed E rq ''updated'' ''upsert''", OF audits_update_product keeps_pushed]
    by (simp add: update_product_def)
next
  case (DeleteProduct i)
  let ?k = "\<lambda>outcome. case outcome of Inl msg \<Rightarrow> ret (JObj [(''error'', JStr msg)])
     | Inr (response, snapshot) \<Rightarrow>
         bind (sync_product_to_shop E (JObj snapshot) ''deactivate'' (correlation_id_of rq)) (\<lambda>shop_sync.
         ret (JObj (response @ [(''shop_sync'', JObj shop_sync)])))"
  have "keeps w_db (?k y)" for y
    unfolding sync_product_to_shop_def by (intro keeps_rules keeps_sync_shop)
  with DeleteProduct show ?thesis
    using audited_checked [where tx = "\<lambda>_ a. delete_product_tx E rq a i" and p = "Some ()" and k = ?k, OF audits_delete_product]
    by (simp add: delete_product_def checked_def)
next
  case SyncCatalog
  let ?tx = "\<lambda>_ a. bind (query (\<lambda>d. map (\<lambda>(i, p). JObj (serialize_product E i p (shop_of d p)))
             (sort_key fst (rows (products d))))) (\<lambda>payload.
         seq (record_audit rq a ''products.sync.shop'' ''products''
                (''Triggered full catalog sync for '' @ int_str (int (length payload)) @ '' products''))
         (ret payload))"
  let ?k = "\<lambda>payload. bind (sync_products_to_shop E payload ''upsert'' (correlation_id_of rq)) (\<lambda>shop_sync.
     ret (JObj [(''status'', JStr (if (case map_of shop_sync ''synced'' of None \<Rightarrow> False | Some v \<Rightarrow> truthy v)
                                   then ''completed'' else ''warning'')),
       (''product_count'', JInt (int (length payload))), (''shop_sync'', JObj shop_sync)]))"
  have ax: "audits_as a {''products.sync.shop''} (?tx x a)" for x :: unit and a
    by (auto simp: audits_as_def tx_simps)
  have kx: "keeps w_db (?k y)" for y by (intro keeps_rules keeps_sync_shop)
  note outcome = audited_checked [where tx = ?tx and p = "Some ()" and k = ?k, OF ax kx]
  show ?thesis
    unfolding SyncCatalog catalog_handler.simps audit_actions.simps sync_catalog_to_shop_def
    by (rule outcome [unfolded checked_def option.case])
next
  case (CreateShop m)
  then show ?thesis
    using audited_checked [where tx = "\<lambda>m a. create_shop_tx E rq a m" and k = ret, OF audits_create_shop]
    by (simp add: create_shop_def bind_ret keeps_rules)
next
  case (UpdateShop i m)
  then show ?thesis
    using audited_checked [where tx = "\<lambda>m a. update_shop_tx E rq a i m" and k = "updated_shop E i", OF audits_update_shop keeps_updated_shop]
    by (simp add: update_shop_def)
next
  case (DeleteShop i)
  then show ?thesis
    using audited_checked [where tx = "\<lambda>_ a. delete_shop_tx rq a i" and p = "Some ()" and k = ret, OF audits_delete_shop]
    by (simp add: delete_shop_def bind_ret checked_def keeps_rules)
qed

text \<open>
  C6. Each of the seven operations that change the catalog either leaves every table with the rows it
  had, or ran for a user of role admin or manager whom the session guard recognised, and its last
  statement added an audit row that names this user and the operation's action. This covers every
  payload and every failure after the commit (the push to the shop).
\<close>

theorem catalog_changes_audited:
  "same_rows (w_db w) (w_db (snd (catalog_handler E op rq w))) \<or>
    (\<exists>a u act. require_management_user E rq w = (Inr a, u) \<and> can_manage_catalog (a_role a) \<and> act \<in> audit_actions op \<and>
       audited (w_db w) (w_db (snd (catalog_handler E op rq w))) a act)"
  using catalog_outcome [of w E op rq] management_role [of E rq w] by blast



subsection \<open>What the operations store\<close>

text \<open>The guard lets a manager through with at most the session cache changed.\<close>

lemma same_cache: "\<exists>c. w = w\<lparr>w_session_cache := c\<rparr>"
  by (rule exI [of _ "w_session_cache w"]) simp

lemma guard_frame:
  assumes "require_management_user E rq w = (Inr a, u)"
  shows "\<exists>c. u = w\<lparr>w_session_cache := c\<rparr>"
proof -
  have "\<exists>c. v = w\<lparr>w_session_cache := c\<rparr>" if "get_current_user E rq w = (Inr x, v)" for x v
    using that
    by (auto simp: get_current_user_def session_row_lookup_def lookup_failed_def query_def emit_def Let_def bind_run seq_run catch_run
        intro: same_cache split: if_splits option.splits)
  then show ?thesis
    using assms
    by (auto simp: require_management_user_def require_authenticated_user_def get_request_user_def bind_run
        intro: same_cache split: if_splits option.splits prod.splits sum.splits)
qed

lemma guarded_run:
  assumes "require_management_user E rq w = (Inr a, u)" and "db_up E w"
  shows "w_db u = w_db w" "w_now u = w_now w" "db_up E u" "w_ok w \<Longrightarrow> w_ok u"
  using guard_frame [OF assms(1)] assms(2) by (auto simp: w_ok_def)

text \<open>
  C26. For a manager, a payload that passes the checks, a SKU no product has and a shop that exists, or
  none: creating the product stores exactly the payload's row under the next id, with an audit row,
  whether or not the push to the shop succeeds afterwards.
\<close>

theorem create_product_stores:
  assumes "db_up E w" and "require_management_user E rq w = (Inr a, u)" and "check_product p = Some m"
    and "tbl_find (\<lambda>q. p_sku q = pm_sku m) (products (w_db w)) = None" and "named_shop m (w_db w) = Some s"
  shows "products (w_db (snd (create_product E p rq w))) = tbl_insert (apply_mutation m (w_now w)) (products (w_db w)) \<and>
     audited (w_db w) (w_db (snd (create_product E p rq w))) a ''products.create''"
proof -
  note u = guarded_run [OF assms(2,1)]
  obtain x v where v: "create_product_tx E rq a m u = (Inr x, v)"
      "products (w_db v) = tbl_insert (apply_mutation m (w_now w)) (products (w_db w))" "audited (w_db w) (w_db v) a ''products.create''"
    using create_product_tx_stored [of m u s E rq a] assms(4,5) u by auto
  have "w_db (snd (create_product E p rq w)) = w_db v"
    by (simp add: create_product_def checked_def bind_run transaction_def assms(2,3) u(3) v(1) keeps_snd [OF keeps_pushed])
  with v show ?thesis by simp
qed

definition sample_mutation :: product_mutation where
  "sample_mutation = \<lparr>pm_name = ''Cam'', pm_sku = ''CM-2'', pm_description = [], pm_price = Fin 15, pm_stock = 3, pm_category = [],
     pm_image_url = None, pm_shop_id = Some 1, pm_is_active = 1\<rparr>"

definition admin_request :: request where
  "admin_request = sample_request\<lparr>rq_current_user := Some \<lparr>a_user_id = 1, a_username = ''admin'', a_role = ''admin''\<rparr>\<rparr>"

lemma sample_mutation_ok: "check_product sample_mutation = Some sample_mutation"
  by (simp add: check_product_def sample_mutation_def string_evals validate_image_url_def fle_def feq_def sku_char_def is_alpha_def is_digit_def)

lemma admin_passes: "require_management_user sample_env admin_request w = (Inr \<lparr>a_user_id = 1, a_username = ''admin'', a_role = ''admin''\<rparr>, w)"
  by (simp add: require_management_user_def require_authenticated_user_def get_request_user_def admin_request_def can_manage_catalog_def
      string_evals bind_run)

theorem create_product_stores_witness:
  "products (w_db (snd (create_product sample_env sample_mutation admin_request sample_world))) =
     tbl_insert (apply_mutation sample_mutation 1000000000) (products sample_db)"
  using create_product_stores [OF sample_up(2) admin_passes sample_mutation_ok, of "Some sample_shop"]
  by (simp add: tbl_find_def sample_mutation_def named_shop_def)

text \<open>
  Updating a product that exists, with a SKU no other product has: its row becomes the payload's,
  with the creation time it had; no other row of the table changes.
\<close>

theorem update_product_stores:
  assumes "db_up E w" and "require_management_user E rq w = (Inr a, u)" and "check_product p = Some m"
    and "tbl_get (products (w_db w)) i = Some old" and "named_shop m (w_db w) = Some s"
    and "find (\<lambda>(j, q). p_sku q = pm_sku m \<and> j \<noteq> i) (rows (products (w_db w))) = None"
  shows "products (w_db (snd (update_product E i p rq w))) = tbl_set i (apply_mutation m (p_created_at old)) (products (w_db w)) \<and>
     audited (w_db w) (w_db (snd (update_product E i p rq w))) a ''products.update''"
proof -
  note u = guarded_run [OF assms(2,1)]
  obtain x v where v: "update_product_tx E rq a i m u = (Inr x, v)"
      "products (w_db v) = tbl_set i (apply_mutation m (p_created_at old)) (products (w_db w))" "audited (w_db w) (w_db v) a ''products.update''"
    using update_product_tx_stored [of u i old m s E rq a] assms(4-6) u by auto
  have "w_db (snd (update_product E i p rq w)) = w_db v"
    by (simp add: update_product_def checked_def bind_run transaction_def assms(2,3) u(3) v(1) keeps_snd [OF keeps_pushed])
  with v show ?thesis by simp
qed

theorem update_product_stores_witness:
  "products (w_db (snd (update_product sample_env 1 sample_mutation admin_request sample_world))) =
     tbl_set 1 (apply_mutation sample_mutation 0) (products sample_db)"
  using update_product_stores [OF sample_up(2) admin_passes sample_mutation_ok, of 1 sample_product "Some sample_shop"]
  by (simp add: sample_mutation_def named_shop_def) (simp add: sample_product_def)

lemma assign_shop_changed: "assign_shop m now old \<noteq> old \<Longrightarrow> s_slug (assign_shop m now old) = sm_slug m \<and> s_updated_at (assign_shop m now old) = now"
  by (auto simp: assign_shop_def Let_def split: if_splits)

text \<open>
  A shop update that changes a value: the new row and its audit row are committed, and the client is
  answered with an error all the same.
\<close>

theorem update_shop_stores_and_fails:
  assumes "db_up E w" and "require_management_user E rq w = (Inr a, u)" and "check_shop p = Some m"
    and "tbl_get (shops (w_db w)) i = Some old" and "assign_shop m (w_now w) old \<noteq> old"
    and "find (\<lambda>(j, s). s_slug s = sm_slug m \<and> j \<noteq> i) (rows (shops (w_db w))) = None"
  shows "fst (update_shop E i p rq w) = Inl DetachedInstanceError \<and>
     shops (w_db (snd (update_shop E i p rq w))) = tbl_set i (assign_shop m (w_now w) old) (shops (w_db w)) \<and>
     audited (w_db w) (w_db (snd (update_shop E i p rq w))) a ''shops.update''"
proof -
  note u = guarded_run [OF assms(2,1)]
  have "\<not> conflict (\<lambda>r. Some (s_slug r)) (shops (w_db w)) i (assign_shop m (w_now w) old)"
    using assms(6) assign_shop_changed [OF assms(5)] by (auto simp: conflict_def find_None_iff list_ex_iff)
  with u assms(4-6) show ?thesis
    by (simp add: update_shop_def checked_def bind_run seq_run assms(2,3) transaction_def update_shop_tx_def query_def on_db_def
        Let_def put_shop_def record_audit_run audited_def tbl_insert_def updated_shop_def)
qed

lemma delete_product_db:
  assumes "require_management_user E rq w = (Inr a, u)" and "db_up E u" and "delete_product_tx E rq a i u = (Inr (Inr x), v)"
  shows "w_db (snd (delete_product E i rq w)) = w_db v"
proof -
  obtain response snapshot where x: "x = (response, snapshot)" by (cases x)
  have "keeps w_db (bind (sync_product_to_shop E (JObj snapshot) ''deactivate'' (correlation_id_of rq)) (\<lambda>shop_sync.
      ret (JObj (response @ [(''shop_sync'', JObj shop_sync)]))))"
    unfolding sync_product_to_shop_def by (intro keeps_rules keeps_sync_shop)
  from keeps_snd [OF this, of v] show ?thesis
    by (simp add: delete_product_def bind_run [of "require_management_user E rq"] bind_run [of "get_db E tx" for tx] transaction_def assms x)
qed

text \<open>
  C21. Deleting a product never loses order history: with items that refer to it the product stays and
  becomes inactive, with none exactly its row goes; the items stay as they are in both cases, and
  the action is audited.
\<close>

theorem delete_product_keeps_history:
  assumes "w_ok w" and "db_up E w" and "require_management_user E rq w = (Inr a, u)" and "tbl_get (products (w_db w)) i = Some p"
    and "d = w_db (snd (delete_product E i rq w))"
  shows "order_items d = order_items (w_db w) \<and>
    (if has_history (w_db w) i
     then tbl_get (products d) i = Some (p\<lparr>p_is_active := 0\<rparr>) \<and> audited (w_db w) d a ''products.archive''
     else (\<forall>k. tbl_get (products d) k = (if k = i then None else tbl_get (products (w_db w)) k)) \<and>
       audited (w_db w) d a ''products.delete'')"
proof -
  note u = guarded_run [OF assms(3,2)]
  have ok: "w_ok u" and p: "tbl_get (products (w_db u)) i = Some p" using u assms(1,4) by simp_all
  show ?thesis
  proof (cases "has_history (w_db w) i")
    case True
    then have "has_history (w_db u) i" using u by simp
    from delete_product_tx_archives [OF ok p this, of E rq a] obtain x v
      where v: "delete_product_tx E rq a i u = (Inr (Inr x), v)" "tbl_get (products (w_db v)) i = Some (p\<lparr>p_is_active := 0\<rparr>)"
        "order_items (w_db v) = order_items (w_db u)" "audited (w_db u) (w_db v) a ''products.archive''" by blast
    with delete_product_db [OF assms(3) u(3) v(1)] True u assms(5) show ?thesis by simp
  next
    case False
    then have "\<not> has_history (w_db u) i" using u by simp
    from delete_product_tx_deletes [OF ok p this, of E rq a] obtain x v
      where v: "delete_product_tx E rq a i u = (Inr (Inr x), v)"
        "\<forall>k. tbl_get (products (w_db v)) k = (if k = i then None else tbl_get (products (w_db u)) k)"
        "order_items (w_db v) = order_items (w_db u)" "audited (w_db u) (w_db v) a ''products.delete''" by blast
    with delete_product_db [OF assms(3) u(3) v(1)] False u assms(5) show ?thesis by simp
  qed
qed

theorem delete_product_keeps_history_witness:
  "tbl_get (products (w_db (snd (delete_product sample_env 1 admin_request sample_world)))) 1 = None"
  using delete_product_keeps_history [OF sample_ok sample_up(2) admin_passes, of 1 sample_product]
  by (simp add: has_history_def referenced_def)

text \<open>
  A shop that products are assigned to is not deleted: the answer is 409 and every table keeps its
  rows. Without assigned products exactly its row goes.
\<close>

theorem delete_shop_guarded:
  assumes "w_ok w" and "db_up E w" and "require_management_user E rq w = (Inr a, u)" and "tbl_get (shops (w_db w)) i = Some s"
    and "delete_shop E i rq w = (r, v)"
  shows "if list_ex (\<lambda>(j, p). p_shop_id p = Some i) (rows (products (w_db w)))
     then r = Inl (HTTPException 409 ''Shop still has assigned products'') \<and> same_rows (w_db w) (w_db v)
     else r = Inr (JObj [(''status'', JStr ''deleted''), (''shop_id'', JInt i)]) \<and>
       (\<forall>k. tbl_get (shops (w_db v)) k = (if k = i then None else tbl_get (shops (w_db w)) k)) \<and>
       products (w_db v) = products (w_db w)"
proof -
  note u = guarded_run [OF assms(3,2)]
  have ok: "w_ok u" and s: "tbl_get (shops (w_db u)) i = Some s" using u assms(1,4) by simp_all
  show ?thesis
  proof (cases "referenced p_shop_id (products (w_db u)) i")
    case True
    from delete_shop_tx_refused [OF s this, of rq a] have "delete_shop E i rq w =
        (Inl (HTTPException 409 ''Shop still has assigned products''), u\<lparr>w_db := db_rollback (w_db u) (w_db u)\<rparr>)"
      by (simp add: delete_shop_def bind_run transaction_def assms(3) u(3))
    with True assms(5) u show ?thesis by (auto simp: referenced_def)
  next
    case False
    from delete_shop_tx_deletes [OF ok s this, of rq a] obtain t where t: "delete_shop_tx rq a i u = (Inr (JObj [(''status'', JStr ''deleted''), (''shop_id'', JInt i)]), t)"
        "\<forall>k. tbl_get (shops (w_db t)) k = (if k = i then None else tbl_get (shops (w_db u)) k)" "products (w_db t) = products (w_db u)" by blast
    then have "delete_shop E i rq w = (Inr (JObj [(''status'', JStr ''deleted''), (''shop_id'', JInt i)]), t)"
      by (simp add: delete_shop_def bind_run transaction_def assms(3) u(3))
    with t False assms(5) u show ?thesis by (auto simp: referenced_def)
  qed
qed

theorem delete_shop_guarded_witness:
  "\<exists>v. delete_shop sample_env 1 admin_request sample_world = (Inr (JObj [(''status'', JStr ''deleted''), (''shop_id'', JInt 1)]), v)"
  using delete_shop_guarded [OF sample_ok sample_up(2) admin_passes, of 1 sample_shop]
  by (cases "delete_shop sample_env 1 admin_request sample_world") simp

end
