(* ===== verification/Chaos.thy ===== *)
theory Chaos
  imports Sessions
begin

text \<open>
  Chaos scenarios: the presets and the reader (\<open>server/chaos/registry.py\<close>), the admin operations
  that persist and clear them (\<open>server/chaos/admin.py\<close>), the workflow of a path
  (\<open>server/observability/workflow_context.py\<close>) and the faults injected into statements
  (\<open>server/chaos/db_faults.py\<close>). Times in stored payloads are microseconds, like all others.
\<close>

subsection \<open>Presets and states\<close>

record chaos_scenario =
  sc_id :: string
  sc_description :: string
  sc_targets :: "string list"
  sc_faults :: "string list"
  sc_default_ttl :: int

definition presets :: "chaos_scenario list" where
  "presets =
     [\<lparr>sc_id = ''db-slow-checkout'', sc_description = ''Inject 2-5s latency on SQL during /checkout flow.'',
       sc_targets = [''shop''], sc_faults = [''db.slow'', ''workflow:checkout''], sc_default_ttl = 300\<rparr>,
      \<lparr>sc_id = ''crm-sync-fail'', sc_description = ''Shop->CRM customer sync returns 502 50% of calls.'',
       sc_targets = [''shop'', ''crm''], sc_faults = [''http.502'', ''path:/api/crm/sync''], sc_default_ttl = 300\<rparr>,
      \<lparr>sc_id = ''payment-timeout'', sc_description = ''Payment gateway hangs for ~8s on 20% of calls.'',
       sc_targets = [''shop''], sc_faults = [''http.timeout'', ''path:/api/payments''], sc_default_ttl = 300\<rparr>,
      \<lparr>sc_id = ''deadlock-cart'', sc_description = ''Raise ORA-00060 deadlock on cart writes.'',
       sc_targets = [''shop''], sc_faults = [''db.deadlock'', ''workflow:add-to-cart''], sc_default_ttl = 300\<rparr>,
      \<lparr>sc_id = ''pool-exhaustion'', sc_description = ''Hold DB connections for 30s to exhaust the pool.'',
       sc_targets = [''shop'', ''crm''], sc_faults = [''db.pool_hold''], sc_default_ttl = 600\<rparr>,
      \<lparr>sc_id = ''crm-admin-abuse'', sc_description = ''Flood CRM admin endpoints to trigger WAF detections.'',
       sc_targets = [''crm''], sc_faults = [''http.burst'', ''path:/api/admin''], sc_default_ttl = 300\<rparr>]"

definition preset_by_id :: "string \<Rightarrow> chaos_scenario option" where
  "preset_by_id i = find (\<lambda>p. sc_id p = i) presets"

record chaos_active =
  ca_scenario_id :: string
  ca_target :: string
  ca_applied_by :: string
  ca_applied_at :: int
  ca_expires_at :: int
  ca_faults :: "json list"
  ca_trace_id :: json
  ca_extra :: "(string \<times> json) list"

definition to_json :: "chaos_active \<Rightarrow> json" where
  "to_json s = JObj
     [(''scenario_id'', JStr (ca_scenario_id s)), (''target'', JStr (ca_target s)), (''applied_by'', JStr (ca_applied_by s)),
      (''applied_at'', JInt (ca_applied_at s)), (''expires_at'', JInt (ca_expires_at s)), (''faults'', JArr (ca_faults s)),
      (''trace_id'', ca_trace_id s), (''extra'', JObj (ca_extra s))]"

text \<open>\<open>payload[k]\<close>.\<close>

fun jindex :: "json \<Rightarrow> string \<Rightarrow> json res" where
  "jindex (JObj kv) k = (case map_of kv k of None \<Rightarrow> Inl KeyError | Some v \<Rightarrow> Inr v)"
| "jindex _ k = Inl TypeError"

text \<open>\<open>dict(v)\<close>, for an object.\<close>

fun jdict :: "json \<Rightarrow> (string \<times> json) list res" where
  "jdict (JObj kv) = Inr kv"
| "jdict _ = Inl TypeError"

definition from_json :: "env \<Rightarrow> int \<Rightarrow> json \<Rightarrow> chaos_active res" where
  "from_json E now p =
     res_bind (jindex p ''scenario_id'') (\<lambda>sid.
     res_bind (jget_or p ''target'' (JStr ''both'')) (\<lambda>target.
     res_bind (jget_or p ''applied_by'' (JStr ''unknown'')) (\<lambda>applied_by.
     res_bind (res_bind (jget_or p ''applied_at'' (JInt now)) jint) (\<lambda>applied_at.
     res_bind (res_bind (jindex p ''expires_at'') jint) (\<lambda>expires_at.
     res_bind (res_bind (jget p ''faults'') (\<lambda>v. jiter (jor v (JArr [])))) (\<lambda>faults.
     res_bind (jget p ''trace_id'') (\<lambda>trace_id.
     res_bind (res_bind (jget p ''extra'') (\<lambda>v. jdict (jor v (JObj [])))) (\<lambda>extra.
     Inr \<lparr>ca_scenario_id = jstr (rep E) sid, ca_target = jstr (rep E) target, ca_applied_by = jstr (rep E) applied_by,
          ca_applied_at = applied_at, ca_expires_at = expires_at, ca_faults = faults, ca_trace_id = trace_id, ca_extra = extra\<rparr>))))))))"

definition is_expired :: "int \<Rightarrow> chaos_active \<Rightarrow> bool" where
  "is_expired now s = (ca_expires_at s \<le> now)"

subsection \<open>The reader\<close>

definition env_flag :: "environ \<Rightarrow> string \<Rightarrow> bool" where
  "env_flag e k = (py_lower (py_strip (env e k ''false'')) \<in> {''1'', ''true'', ''yes''})"

definition backend_name :: "env \<Rightarrow> string" where
  "backend_name E = str_or (py_lower (py_strip (env (environ E) ''CHAOS_STATE_BACKEND'' ''db''))) ''db''"

definition latest_row :: "int \<Rightarrow> chaos_row list \<Rightarrow> chaos_row option" where
  "latest_row now rs = (case order_desc ch_applied_at (filter (\<lambda>r. now < ch_expires_at r) rs) of [] \<Rightarrow> None | r # _ \<Rightarrow> Some r)"

text \<open>The row, or the exception the query raises.\<close>

definition chaos_query :: "env \<Rightarrow> world \<Rightarrow> chaos_row option res" where
  "chaos_query E w =
     (if \<not> engine_ready E then Inl AttributeError else
      case w_db_down w of Some m \<Rightarrow> Inl (DBAPIError m) | None \<Rightarrow>
      (case chaos_state (w_db w) of None \<Rightarrow> Inl (DBAPIError ''table or view does not exist'')
       | Some rs \<Rightarrow> Inr (latest_row (w_now w) rs)))"

definition read_from_db :: "env \<Rightarrow> world \<Rightarrow> chaos_active option" where
  "read_from_db E w = (case chaos_query E w of
     Inl e \<Rightarrow> None
   | Inr None \<Rightarrow> None
   | Inr (Some r) \<Rightarrow> (case from_json E (w_now w) (ch_payload r) of Inl e \<Rightarrow> None | Inr s \<Rightarrow> Some s))"

definition get_active_state :: "env \<Rightarrow> world \<Rightarrow> chaos_active option" where
  "get_active_state E w =
     (if \<not> env_flag (environ E) ''CHAOS_ENABLED'' then None else
      case (if backend_name E = ''db'' then read_from_db E w else None) of
        None \<Rightarrow> None
      | Some s \<Rightarrow> if is_expired (w_now w) s then None else Some s)"

subsection \<open>Administration\<close>

definition chaos_admin_role :: "env \<Rightarrow> string" where
  "chaos_admin_role E = str_or (py_lower (py_strip (env (environ E) ''CHAOS_ADMIN_ROLE'' ''chaos-operator''))) ''chaos-operator''"

text \<open>Read at import: with a value that is no number the server does not start.\<close>

definition max_ttl_seconds :: "env \<Rightarrow> int" where
  "max_ttl_seconds E = env_int (environ E) ''CHAOS_MAX_TTL_SECONDS'' 3600"

definition hash_user :: "env \<Rightarrow> request \<Rightarrow> string" where
  "hash_user E rq =
     (let s = (case rq_session rq of None \<Rightarrow> [] | Some kv \<Rightarrow> kv);
          g = (\<lambda>k. case map_of s k of None \<Rightarrow> JNull | Some v \<Rightarrow> v)
      in take 16 (sha256_hex E (jstr (rep E) (jor (g ''user_id'') (jor (g ''sub'') (JStr ''anon''))))))"

record apply_request =
  ar_scenario_id :: string
  ar_target :: string
  ar_ttl_seconds :: int
  ar_note :: "string option"

definition check_apply :: "env \<Rightarrow> apply_request \<Rightarrow> apply_request option" where
  "check_apply E a =
     (let norm = py_lower (py_strip (ar_target a)) in
      if 1 \<le> length (ar_scenario_id a) \<and> length (ar_scenario_id a) \<le> 64 \<and>
         10 \<le> ar_ttl_seconds a \<and> ar_ttl_seconds a \<le> max_ttl_seconds E \<and>
         (case ar_note a of None \<Rightarrow> True | Some n \<Rightarrow> length n \<le> 512) \<and>
         norm \<in> {''shop'', ''crm'', ''both''}
      then Some (a\<lparr>ar_target := norm\<rparr>) else None)"

text \<open>A transaction on the sync engine.\<close>

definition sync_begin :: "env \<Rightarrow> (db \<Rightarrow> db res) \<Rightarrow> unit handler" where
  "sync_begin E f w =
     (if \<not> engine_ready E then (Inl AttributeError, w) else
      case w_db_down w of Some m \<Rightarrow> (Inl (DBAPIError m), w) | None \<Rightarrow>
      (case f (w_db w) of Inl e \<Rightarrow> (Inl e, w) | Inr d \<Rightarrow> (Inr (), w\<lparr>w_db := d\<rparr>)))"

text \<open>The DDL is Oracle's: \<open>VARCHAR2\<close> is no type of PostgreSQL. Its failure is swallowed.\<close>

definition ensure_table :: "env \<Rightarrow> unit handler" where
  "ensure_table E = catch (sync_begin E (\<lambda>d.
     if use_postgres (cfg E) then Inl (DBAPIError ''type varchar2 does not exist'')
     else Inr (d\<lparr>chaos_state := Some (case chaos_state d of None \<Rightarrow> [] | Some rs \<Rightarrow> rs)\<rparr>))) (\<lambda>e. ret ())"

definition persist :: "env \<Rightarrow> chaos_active \<Rightarrow> unit handler" where
  "persist E s = bind (draw E) (\<lambda>row_id. sync_begin E (\<lambda>d.
     case chaos_state d of None \<Rightarrow> Inl (DBAPIError ''table or view does not exist'')
     | Some rs \<Rightarrow> Inr (d\<lparr>chaos_state := Some
        [\<lparr>ch_id = row_id, ch_scenario_id = ca_scenario_id s, ch_target = ca_target s, ch_applied_by = ca_applied_by s,
          ch_applied_at = ca_applied_at s, ch_expires_at = ca_expires_at s, ch_payload = to_json s\<rparr>]\<rparr>)))"

definition clear_all :: "env \<Rightarrow> unit handler" where
  "clear_all E = catch (sync_begin E (\<lambda>d. case chaos_state d of
       None \<Rightarrow> Inl (DBAPIError ''table or view does not exist'') | Some rs \<Rightarrow> Inr (d\<lparr>chaos_state := Some []\<rparr>)))
     (\<lambda>e. ret ())"

definition list_presets :: "env \<Rightarrow> request \<Rightarrow> json handler" where
  "list_presets E rq = seq (require_role E [chaos_admin_role E] rq)
     (ret (JObj [(''presets'', JArr (map (\<lambda>p. JObj [(''id'', JStr (sc_id p)), (''description'', JStr (sc_description p)),
          (''targets'', JArr (map JStr (sc_targets p))), (''faults'', JArr (map JStr (sc_faults p))),
          (''default_ttl_seconds'', JInt (sc_default_ttl p))]) presets)),
        (''max_ttl_seconds'', JInt (max_ttl_seconds E))]))"

definition read_state :: "env \<Rightarrow> request \<Rightarrow> json handler" where
  "read_state E rq = seq (require_role E [chaos_admin_role E] rq)
     (bind (gets (get_active_state E)) (\<lambda>s.
      ret (JObj [(''active'', JBool (s \<noteq> None)), (''state'', case s of None \<Rightarrow> JNull | Some x \<Rightarrow> to_json x)])))"

definition scenario_state :: "env \<Rightarrow> request \<Rightarrow> int \<Rightarrow> chaos_scenario \<Rightarrow> apply_request \<Rightarrow> chaos_active" where
  "scenario_state E rq now p a =
     \<lparr>ca_scenario_id = sc_id p, ca_target = ar_target a, ca_applied_by = hash_user E rq, ca_applied_at = now,
      ca_expires_at = now + min (ar_ttl_seconds a) (max_ttl_seconds E) * sec, ca_faults = map JStr (sc_faults p),
      ca_trace_id = (case rq_request_id rq of None \<Rightarrow> JNull | Some i \<Rightarrow> JStr i),
      ca_extra = (case ar_note a of Some (c # n) \<Rightarrow> [(''note'', JStr (c # n))] | _ \<Rightarrow> [])\<rparr>"

definition apply_scenario :: "env \<Rightarrow> apply_request \<Rightarrow> request \<Rightarrow> json handler" where
  "apply_scenario E a0 rq = seq (require_role E [chaos_admin_role E] rq)
     (case check_apply E a0 of None \<Rightarrow> raise (HTTPException 422 ''Unprocessable Entity'')
      | Some a \<Rightarrow>
        (case preset_by_id (ar_scenario_id a) of None \<Rightarrow> raise (HTTPException 404 ''scenario_not_found'')
         | Some p \<Rightarrow> seq (ensure_table E)
            (bind (gets w_now) (\<lambda>now. let s = scenario_state E rq now p a in
             seq (persist E s)
             (seq (emit (Audit ''chaos.apply'' [(''scenario_id'', JStr (sc_id p)), (''target'', JStr (ar_target a)),
                     (''ttl_seconds'', JInt (min (ar_ttl_seconds a) (max_ttl_seconds E))), (''applied_by'', JStr (hash_user E rq)),
                     (''request_id'', ca_trace_id s)]))
             (ret (JObj [(''ok'', JBool True), (''state'', to_json s)])))))))"

definition clear_scenario :: "env \<Rightarrow> request \<Rightarrow> json handler" where
  "clear_scenario E rq = seq (require_role E [chaos_admin_role E] rq)
     (seq (clear_all E)
     (seq (emit (Audit ''chaos.clear'' [(''applied_by'', JStr (hash_user E rq)),
             (''request_id'', case rq_request_id rq of None \<Rightarrow> JNull | Some i \<Rightarrow> JStr i)]))
     (ret (JObj [(''ok'', JBool True)]))))"

subsection \<open>Workflows\<close>

definition default_rules :: "((string \<Rightarrow> bool) \<times> string \<times> string) list" where
  "default_rules =
     [(\<lambda>p. p = ''/shop'' \<or> startswith p ''/shop/'', ''browse-catalog'', ''catalog''),
      (\<lambda>p. startswith p ''/api/products'', ''browse-catalog'', ''product-list''),
      (\<lambda>p. startswith p ''/api/cart'', ''add-to-cart'', ''cart''),
      (\<lambda>p. startswith p ''/api/orders'', ''checkout'', ''order''),
      (\<lambda>p. startswith p ''/api/payments'', ''checkout'', ''payment''),
      (\<lambda>p. startswith p ''/api/shipments'', ''checkout'', ''shipment''),
      (\<lambda>p. startswith p ''/api/customers'', ''crm-lead-capture'', ''customer''),
      (\<lambda>p. startswith p ''/api/campaigns'', ''admin-analytics'', ''campaigns''),
      (\<lambda>p. startswith p ''/api/analytics'', ''admin-analytics'', ''analytics''),
      (\<lambda>p. startswith p ''/api/admin/chaos'', ''chaos-control'', ''admin'')]"

definition resolve_workflow :: "string \<Rightarrow> ((string \<Rightarrow> bool) \<times> string \<times> string) list \<Rightarrow> string \<times> string" where
  "resolve_workflow path extra = (case find (\<lambda>(p, r). p path) (extra @ default_rules) of
     None \<Rightarrow> (''other'', ''unmapped'') | Some (p, r) \<Rightarrow> r)"

subsection \<open>Faults in statements\<close>

text \<open>The loop over the faults that looks for the caller's workflow, and the one that looks for any.\<close>

fun names_flow :: "string option \<Rightarrow> json list \<Rightarrow> bool res" where
  "names_flow flow [] = Inr False"
| "names_flow flow (f # fs) = res_bind (as_str f) (\<lambda>s.
     if startswith s ''workflow:'' \<and> flow = Some (drop 9 s) then Inr True else names_flow flow fs)"

fun names_some_flow :: "json list \<Rightarrow> bool res" where
  "names_some_flow [] = Inr False"
| "names_some_flow (f # fs) = res_bind (as_str f) (\<lambda>s. if startswith s ''workflow:'' then Inr True else names_some_flow fs)"

definition scenario_applies :: "string option \<Rightarrow> chaos_active \<Rightarrow> bool res" where
  "scenario_applies flow s = res_bind (names_flow flow (ca_faults s)) (\<lambda>named.
     if named then Inr True else res_bind (names_some_flow (ca_faults s)) (\<lambda>b. Inr (\<not> b)))"

text \<open>\<open>set(faults)\<close>: lists and dicts have no hash.\<close>

definition fault_set :: "json list \<Rightarrow> json set res" where
  "fault_set fs = (if list_ex (\<lambda>f. case f of JArr xs \<Rightarrow> True | JObj kv \<Rightarrow> True | _ \<Rightarrow> False) fs then Inl TypeError else Inr (set fs))"

text \<open>A fault in the log, with what it carries.\<close>

definition emit_log :: "string \<Rightarrow> chaos_active \<Rightarrow> string \<Rightarrow> unit handler" where
  "emit_log kind s extra = emit (LoggerWarning ''chaos_db'' [kind, ca_scenario_id s, ca_target s, extra])"

text \<open>
  The draws of one statement: the delay in microseconds, and whether \<open>random() < 0.5\<close> and
  \<open>random() < 0.1\<close>.
\<close>

record fault_draws =
  fd_delay :: int
  fd_deadlock :: bool
  fd_hold :: bool

definition inject :: "env \<Rightarrow> string option \<Rightarrow> fault_draws \<Rightarrow> string \<Rightarrow> unit handler" where
  "inject E flow d statement = bind (gets (get_active_state E)) (\<lambda>st. case st of
     None \<Rightarrow> ret ()
   | Some s \<Rightarrow> bind (lift (scenario_applies flow s)) (\<lambda>applies.
       if \<not> applies then ret () else
       bind (lift (fault_set (ca_faults s))) (\<lambda>faults.
        seq (if JStr ''db.slow'' \<in> faults
             then seq (emit_log ''db.slow'' s (''delay_seconds='' @ rep E (JFloat (rnd (of_int ((fd_delay d + 500) div 1000) / 1000)))))
                      (sleep (fd_delay d))
             else ret ())
        (seq (if JStr ''db.deadlock'' \<in> faults \<and> fd_deadlock d
              then seq (emit_log ''db.deadlock'' s (''statement_prefix='' @ take 120 statement))
                       (raise (DBAPIError ''ORA-00060: deadlock detected while waiting for resource''))
              else ret ())
        (if JStr ''db.pool_hold'' \<in> faults \<and> fd_hold d
         then seq (emit_log ''db.pool_hold'' s ''hold_seconds=30'') (sleep (30 * sec)) else ret ())))))"

definition install :: "nat \<Rightarrow> nat set \<Rightarrow> bool \<times> nat set" where
  "install engine installed = (engine \<notin> installed, insert engine installed)"

subsection \<open>What holds\<close>

lemma safe_sync_begin:
  assumes "\<And>d e. f d = Inr e \<Longrightarrow> db_ok d \<Longrightarrow> db_ok e \<and> seq_le d e \<and> has_session e = has_session d"
  shows "W.safe E A (sync_begin E f)"
  by (rule safe_runI) (auto simp: sync_begin_def w_inv_def w_ok_def w_le_def sessions_le_def assms split: option.splits sum.splits)

lemma db_ok_chaos [simp]: "db_ok (d\<lparr>chaos_state := c\<rparr>) \<longleftrightarrow> db_ok d" "seq_le d (d\<lparr>chaos_state := c\<rparr>)"
  by (simp_all add: db_invs seq_le_def)

lemma safe_ensure_table [safe_intro]: "W.safe E A (ensure_table E)"
  unfolding ensure_table_def by (intro safe_intro safe_sync_begin) (auto split: if_splits)

lemma safe_persist [safe_intro]: "W.safe E A (persist E s)"
  unfolding persist_def by (intro safe_intro safe_sync_begin) (auto split: option.splits)

lemma safe_clear_all [safe_intro]: "W.safe E A (clear_all E)"
  unfolding clear_all_def by (intro safe_intro safe_sync_begin) (auto split: option.splits)

lemma safe_list_presets [safe_intro]: "W.safe E A (list_presets E rq)"
  unfolding list_presets_def by (intro safe_intro)

lemma safe_read_state [safe_intro]: "W.safe E A (read_state E rq)"
  unfolding read_state_def by (intro safe_intro)

lemma safe_apply_scenario [safe_intro]: "W.safe E A (apply_scenario E a rq)"
  unfolding apply_scenario_def Let_def by (intro safe_intro)

lemma safe_clear_scenario [safe_intro]: "W.safe E A (clear_scenario E rq)"
  unfolding clear_scenario_def by (intro safe_intro)

lemma safe_inject [safe_intro]: "W.safe E A (inject E flow d s)"
  unfolding inject_def emit_log_def by (intro safe_intro)

text \<open>A stored state reads back as it was.\<close>

lemma from_to_json: "from_json E now (to_json s) = Inr s"
  by (cases "ca_faults s"; cases "ca_extra s") (simp_all add: from_json_def to_json_def)

lemma latest_row_single: "now < ch_expires_at r \<Longrightarrow> latest_row now [r] = Some r"
  "ch_expires_at r \<le> now \<Longrightarrow> latest_row now [r] = None"
  by (simp_all add: latest_row_def order_desc_def)

text \<open>Applied, then read at a later time.\<close>

lemma persist_read:
  assumes run: "persist E s w = (Inr (), v)" and on: "env_flag (environ E) ''CHAOS_ENABLED''" "backend_name E = ''db''"
  shows "get_active_state E (v\<lparr>w_now := t\<rparr>) = (if t < ca_expires_at s then Some s else None)"
proof -
  obtain i where c: "chaos_state (w_db v) = Some [\<lparr>ch_id = i, ch_scenario_id = ca_scenario_id s, ch_target = ca_target s,
      ch_applied_by = ca_applied_by s, ch_applied_at = ca_applied_at s, ch_expires_at = ca_expires_at s, ch_payload = to_json s\<rparr>]"
    and up: "engine_ready E" "w_db_down v = None"
    using run by (auto simp: persist_def draw_def bind_run seq_run sync_begin_def split: if_splits option.splits)
  show ?thesis
    using on up by (simp add: get_active_state_def read_from_db_def chaos_query_def c latest_row_single from_to_json is_expired_def)
qed

end
