(* ===== verification/SessionGate.thy ===== *)
theory SessionGate
  imports Sessions
begin

text \<open>
  \<open>server/middleware/session_gate.py\<close>: the gate in front of every protected path. Its difficulty is
  concurrency, so requests interleave: a step relation over the semaphore, the queue and the
  workers of the executor. A lookup that exceeds its time is answered 503 and gives its permit
  back; it leaves the queue if no worker has it, and keeps its worker otherwise.
\<close>

subsection \<open>Paths and answers\<close>

definition public_prefixes :: "string list" where
  "public_prefixes =
     [''/login'', ''/static/'', ''/health'', ''/ready'', ''/metrics'', ''/api/auth/'', ''/favicon'',
      ''/api/customers'', ''/api/invoices'', ''/api/tickets'', ''/api/orders'',
      ''/api/integrations'', ''/api/observability/'', ''/api/analytics/track'']"

definition is_public :: "request \<Rightarrow> bool" where
  "is_public rq = list_ex (startswith (rq_path rq)) public_prefixes"

definition wants_json :: "request \<Rightarrow> bool" where
  "wants_json rq = (contains (header_or rq ''accept'' []) ''application/json'' \<or> startswith (rq_path rq) ''/api/'')"

datatype gate_result =
    Passed "actor option"
  | Unauthorized
  | RedirectLogin
  | Unavailable string

text \<open>The answer to the outcome of a lookup.\<close>

definition answer :: "request \<Rightarrow> actor option res \<Rightarrow> gate_result" where
  "answer rq outcome = (case outcome of
     Inl e \<Rightarrow> Unavailable ''auth_backend_error''
   | Inr (Some u) \<Rightarrow> Passed (Some u)
   | Inr None \<Rightarrow> if wants_json rq then Unauthorized else RedirectLogin)"

subsection \<open>Admission\<close>

record gate =
  permits :: nat
  waiting :: "nat set"
  holding :: "nat set"
  queued :: "nat list"
  running :: "nat set"
  answered :: "(nat \<times> gate_result) list"

definition workers :: "env \<Rightarrow> nat" where
  "workers E = nat (auth_executor_max_workers (cfg E))"

definition gate_start :: "env \<Rightarrow> gate" where
  "gate_start E = \<lparr>permits = workers E * 2, waiting = {}, holding = {}, queued = [], running = {}, answered = []\<rparr>"

definition fresh :: "gate \<Rightarrow> nat \<Rightarrow> bool" where
  "fresh g r \<longleftrightarrow> r \<notin> waiting g \<and> r \<notin> holding g \<and> r \<notin> running g \<and> r \<notin> fst ` set (answered g)"

text \<open>\<open>rqs r\<close> is the request with number \<open>r\<close>; a lookup runs in whatever world it finds.\<close>

inductive gate_step :: "env \<Rightarrow> (nat \<Rightarrow> request) \<Rightarrow> gate \<Rightarrow> gate \<Rightarrow> bool" for E rqs where
  bypass: "fresh g r \<Longrightarrow> is_public (rqs r) \<Longrightarrow>
    gate_step E rqs g (g\<lparr>answered := (r, Passed None) # answered g\<rparr>)"
| arrive: "fresh g r \<Longrightarrow> \<not> is_public (rqs r) \<Longrightarrow>
    gate_step E rqs g (g\<lparr>waiting := insert r (waiting g)\<rparr>)"
| acquire: "r \<in> waiting g \<Longrightarrow> 0 < permits g \<Longrightarrow>
    gate_step E rqs g (g\<lparr>permits := permits g - 1, waiting := waiting g - {r}, holding := insert r (holding g),
      queued := queued g @ [r]\<rparr>)"
| saturated: "r \<in> waiting g \<Longrightarrow>
    gate_step E rqs g (g\<lparr>waiting := waiting g - {r}, answered := (r, Unavailable ''auth_saturated'') # answered g\<rparr>)"
| start: "queued g = r # rs \<Longrightarrow> card (running g) < workers E \<Longrightarrow>
    gate_step E rqs g (g\<lparr>queued := rs, running := insert r (running g)\<rparr>)"
| finish: "r \<in> running g \<Longrightarrow> r \<in> holding g \<Longrightarrow>
    gate_step E rqs g (g\<lparr>permits := permits g + 1, holding := holding g - {r}, running := running g - {r},
      answered := (r, answer (rqs r) (fst (get_current_user E (rqs r) w))) # answered g\<rparr>)"
| late: "r \<in> running g \<Longrightarrow> r \<notin> holding g \<Longrightarrow>
    gate_step E rqs g (g\<lparr>running := running g - {r}\<rparr>)"
| timeout: "r \<in> holding g \<Longrightarrow>
    gate_step E rqs g (g\<lparr>permits := permits g + 1, holding := holding g - {r}, queued := removeAll r (queued g),
      answered := (r, Unavailable ''auth_timeout'') # answered g\<rparr>)"

inductive reachable :: "env \<Rightarrow> (nat \<Rightarrow> request) \<Rightarrow> gate \<Rightarrow> bool" for E rqs where
  init: "reachable E rqs (gate_start E)"
| step: "reachable E rqs g \<Longrightarrow> gate_step E rqs g h \<Longrightarrow> reachable E rqs h"

inductive_cases gate_stepE: "gate_step E rqs g h"

subsection \<open>The invariant\<close>

definition gate_inv :: "env \<Rightarrow> gate \<Rightarrow> bool" where
  "gate_inv E g \<longleftrightarrow> finite (holding g) \<and> finite (running g) \<and>
     permits g + card (holding g) = workers E * 2 \<and> card (running g) \<le> workers E \<and>
     distinct (queued g) \<and> set (queued g) \<subseteq> holding g \<and> set (queued g) \<inter> running g = {} \<and>
     holding g \<subseteq> set (queued g) \<union> running g \<and> waiting g \<inter> (holding g \<union> running g) = {}"

lemma gate_inv_start: "gate_inv E (gate_start E)"
  by (simp add: gate_inv_def gate_start_def)

lemma card_drop: "finite A \<Longrightarrow> r \<in> A \<Longrightarrow> Suc (card (A - {r})) = card A"
  by (metis card_Suc_Diff1)

lemma gate_inv_acquire:
  assumes "gate_inv E g" and "r \<in> waiting g" and "0 < permits g"
  shows "gate_inv E (g\<lparr>permits := permits g - 1, waiting := waiting g - {r}, holding := insert r (holding g), queued := queued g @ [r]\<rparr>)"
proof -
  have "r \<notin> holding g" "finite (holding g)" using assms(1,2) by (auto simp: gate_inv_def)
  then have "card (insert r (holding g)) = Suc (card (holding g))" by simp
  with assms show ?thesis by (auto simp: gate_inv_def)
qed

lemma gate_inv_start_job:
  assumes "gate_inv E g" and "queued g = r # rs" and "card (running g) < workers E"
  shows "gate_inv E (g\<lparr>queued := rs, running := insert r (running g)\<rparr>)"
  using assms by (auto simp: gate_inv_def)

lemma gate_inv_finish:
  assumes "gate_inv E g" and "r \<in> running g" and "r \<in> holding g"
  shows "gate_inv E (g\<lparr>permits := permits g + 1, holding := holding g - {r}, running := running g - {r}, answered := a\<rparr>)"
proof -
  have f: "finite (holding g)" "finite (running g)" using assms(1) by (simp_all add: gate_inv_def)
  show ?thesis
    using assms card_drop [OF f(1) assms(3)] card_drop [OF f(2) assms(2)] by (auto simp: gate_inv_def)
qed

lemma gate_inv_late:
  assumes "gate_inv E g" and "r \<in> running g" and "r \<notin> holding g"
  shows "gate_inv E (g\<lparr>running := running g - {r}\<rparr>)"
proof -
  have "finite (running g)" using assms(1) by (simp add: gate_inv_def)
  from card_drop [OF this assms(2)] assms show ?thesis by (auto simp: gate_inv_def)
qed

lemma gate_inv_timeout:
  assumes "gate_inv E g" and "r \<in> holding g"
  shows "gate_inv E (g\<lparr>permits := permits g + 1, holding := holding g - {r}, queued := removeAll r (queued g), answered := a\<rparr>)"
proof -
  have "finite (holding g)" using assms(1) by (simp add: gate_inv_def)
  from card_drop [OF this assms(2)] assms show ?thesis by (auto simp: gate_inv_def distinct_removeAll)
qed

lemma gate_inv_step: "gate_step E rqs g h \<Longrightarrow> gate_inv E g \<Longrightarrow> gate_inv E h"
proof (induction rule: gate_step.induct)
  case (arrive g r)
  then show ?case by (auto simp: gate_inv_def fresh_def)
next
  case (acquire r g)
  then show ?case by (intro gate_inv_acquire)
next
  case (start g r rs)
  then show ?case by (intro gate_inv_start_job)
next
  case (finish r g w)
  then show ?case by (intro gate_inv_finish)
next
  case (late r g)
  then show ?case by (intro gate_inv_late)
next
  case (timeout r g)
  then show ?case by (intro gate_inv_timeout)
qed (auto simp: gate_inv_def)

lemma reachable_inv: "reachable E rqs g \<Longrightarrow> gate_inv E g"
  by (induction rule: reachable.induct) (auto intro: gate_inv_start gate_inv_step)

lemma queue_bound:
  assumes "gate_inv E g"
  shows "length (queued g) \<le> workers E * 2"
proof -
  have "card (set (queued g)) \<le> card (holding g)"
    using assms by (intro card_mono) (auto simp: gate_inv_def)
  with assms show ?thesis by (simp add: gate_inv_def distinct_card)
qed

subsection \<open>What was answered\<close>

text \<open>Each answer has its reason.\<close>

definition justified :: "env \<Rightarrow> (nat \<Rightarrow> request) \<Rightarrow> nat \<times> gate_result \<Rightarrow> bool" where
  "justified E rqs a = (case a of (r, result) \<Rightarrow>
     (case result of
        Passed None \<Rightarrow> is_public (rqs r)
      | Passed (Some u) \<Rightarrow> \<exists>w. fst (get_current_user E (rqs r) w) = Inr (Some u)
      | Unavailable reason \<Rightarrow> True
      | Unauthorized \<Rightarrow> wants_json (rqs r) \<and> (\<exists>w. fst (get_current_user E (rqs r) w) = Inr None)
      | RedirectLogin \<Rightarrow> \<not> wants_json (rqs r) \<and> (\<exists>w. fst (get_current_user E (rqs r) w) = Inr None)))"

lemma justified_answer: "justified E rqs (r, answer (rqs r) (fst (get_current_user E (rqs r) w)))"
proof (cases "fst (get_current_user E (rqs r) w)")
  case (Inl e)
  then show ?thesis by (simp add: justified_def answer_def)
next
  case (Inr u)
  then show ?thesis
    by (cases u) (auto simp: justified_def answer_def)
qed

lemma justified_step: "gate_step E rqs g h \<Longrightarrow> list_all (justified E rqs) (answered g) \<Longrightarrow> list_all (justified E rqs) (answered h)"
proof (induction rule: gate_step.induct)
  case (finish r g w)
  then show ?case by (simp add: justified_answer)
qed (simp_all add: justified_def)

lemma reachable_justified: "reachable E rqs g \<Longrightarrow> list_all (justified E rqs) (answered g)"
proof (induction rule: reachable.induct)
  case init
  show ?case by (simp add: gate_start_def)
next
  case (step g h)
  then show ?case by (blast intro: justified_step)
qed

subsection \<open>Steps in a row\<close>

inductive steps :: "env \<Rightarrow> (nat \<Rightarrow> request) \<Rightarrow> gate \<Rightarrow> gate \<Rightarrow> bool" for E rqs where
  none: "steps E rqs g g"
| more: "gate_step E rqs g h \<Longrightarrow> steps E rqs h k \<Longrightarrow> steps E rqs g k"

lemma reachable_steps: "steps E rqs g h \<Longrightarrow> reachable E rqs g \<Longrightarrow> reachable E rqs h"
  by (induction rule: steps.induct) (auto intro: reachable.step)

lemma steps_trans: "steps E rqs g h \<Longrightarrow> steps E rqs h k \<Longrightarrow> steps E rqs g k"
  by (induction rule: steps.induct) (auto intro: steps.more)

text \<open>
  One stuck lookup after another: a request comes, gets a permit, a worker, and times out. The
  worker stays busy.
\<close>

definition stuck :: "gate \<Rightarrow> nat \<Rightarrow> gate" where
  "stuck g r = g\<lparr>holding := holding g - {r}, running := insert r (running g),
     answered := (r, Unavailable ''auth_timeout'') # answered g\<rparr>"

lemma stuck_steps:
  assumes "fresh g r" and "\<not> is_public (rqs r)" and "0 < permits g" and "queued g = []" and "card (running g) < workers E"
  shows "steps E rqs g (stuck g r)"
proof -
  have nin: "r \<notin> waiting g" "r \<notin> holding g" using assms(1) by (simp_all add: fresh_def)
  let ?g1 = "g\<lparr>waiting := insert r (waiting g)\<rparr>"
  let ?g2 = "?g1\<lparr>permits := permits ?g1 - 1, waiting := waiting ?g1 - {r}, holding := insert r (holding ?g1), queued := queued ?g1 @ [r]\<rparr>"
  let ?g3 = "?g2\<lparr>queued := [], running := insert r (running ?g2)\<rparr>"
  let ?g4 = "?g3\<lparr>permits := permits ?g3 + 1, holding := holding ?g3 - {r}, queued := removeAll r (queued ?g3),
      answered := (r, Unavailable ''auth_timeout'') # answered ?g3\<rparr>"
  have s1: "gate_step E rqs g ?g1" using assms(1,2) by (rule gate_step.arrive)
  have s2: "gate_step E rqs ?g1 ?g2" by (rule gate_step.acquire) (use assms(3) in simp_all)
  have s3: "gate_step E rqs ?g2 ?g3" by (rule gate_step.start) (use assms(4,5) in simp_all)
  have s4: "gate_step E rqs ?g3 ?g4" by (rule gate_step.timeout) simp
  have "?g4 = stuck g r" using assms(3,4) nin by simp (simp add: stuck_def)
  with steps.more [OF s1 steps.more [OF s2 steps.more [OF s3 steps.more [OF s4 steps.none]]]]
  show ?thesis by simp
qed

text \<open>A request that gets a permit while every worker is busy stays queued.\<close>

definition enqueued :: "gate \<Rightarrow> nat \<Rightarrow> gate" where
  "enqueued g r = g\<lparr>permits := permits g - 1, holding := insert r (holding g), queued := queued g @ [r]\<rparr>"

lemma enqueued_steps:
  assumes "fresh g r" and "\<not> is_public (rqs r)" and "0 < permits g"
  shows "steps E rqs g (enqueued g r)"
proof -
  have nin: "r \<notin> waiting g" using assms(1) by (simp_all add: fresh_def)
  let ?g1 = "g\<lparr>waiting := insert r (waiting g)\<rparr>"
  let ?g2 = "?g1\<lparr>permits := permits ?g1 - 1, waiting := waiting ?g1 - {r}, holding := insert r (holding ?g1), queued := queued ?g1 @ [r]\<rparr>"
  have s1: "gate_step E rqs g ?g1" using assms(1,2) by (rule gate_step.arrive)
  have s2: "gate_step E rqs ?g1 ?g2" by (rule gate_step.acquire) (use assms(3) in simp_all)
  have "?g2 = enqueued g r" using nin by (simp add: enqueued_def)
  with steps.more [OF s1 steps.more [OF s2 steps.none]] show ?thesis by simp
qed

lemma stuck_run:
  assumes "\<And>r. \<not> is_public (rqs r)"
  shows "n \<le> workers E \<Longrightarrow> 0 < workers E \<Longrightarrow> \<exists>g. steps E rqs (gate_start E) g \<and> permits g = workers E * 2 \<and> waiting g = {} \<and>
    holding g = {} \<and> queued g = [] \<and> running g = {..<n} \<and> fst ` set (answered g) = {..<n}"
proof (induction n)
  case 0
  show ?case by (intro exI [of _ "gate_start E"]) (simp add: gate_start_def steps.none)
next
  case (Suc n)
  then obtain g where g: "steps E rqs (gate_start E) g" "permits g = workers E * 2" "waiting g = {}"
      "holding g = {}" "queued g = []" "running g = {..<n}" "fst ` set (answered g) = {..<n}" by auto
  have "steps E rqs g (stuck g n)"
    using g Suc.prems assms by (intro stuck_steps) (simp_all add: fresh_def)
  with g show ?case
    by (intro exI [of _ "stuck g n"]) (auto simp: stuck_def intro: steps_trans)
qed

lemma enqueue_run:
  assumes "\<And>r. \<not> is_public (rqs r)" and "steps E rqs (gate_start E) g" and "permits g = m" and "waiting g = {}" and "holding g = {}"
    and "queued g = []" and "running g = {..<n}" and "fst ` set (answered g) = {..<n}"
  shows "k \<le> m \<Longrightarrow> \<exists>h. steps E rqs (gate_start E) h \<and> permits h = m - k \<and> waiting h = {} \<and> holding h = {n..<n + k} \<and>
    length (queued h) = k \<and> running h = {..<n} \<and> fst ` set (answered h) = {..<n}"
proof (induction k)
  case 0
  with assms show ?case by (intro exI [of _ g]) simp
next
  case (Suc k)
  then obtain h where h: "steps E rqs (gate_start E) h" "permits h = m - k" "waiting h = {}" "holding h = {n..<n + k}"
      "length (queued h) = k" "running h = {..<n}" "fst ` set (answered h) = {..<n}" by auto
  have "steps E rqs h (enqueued h (n + k))"
    using h Suc.prems assms(1) by (intro enqueued_steps) (simp_all add: fresh_def)
  moreover have "insert (n + k) {n..<n + k} = {n..<Suc (n + k)}" by auto
  ultimately show ?case
    using h Suc.prems by (intro exI [of _ "enqueued h (n + k)"]) (auto simp: enqueued_def intro: steps_trans)
qed

end
