(* ===== verification/Middleware.thy ===== *)
theory Middleware
  imports Chaos SessionGate
begin

text \<open>
  The middlewares around every handler: request ids, security headers, the workflow header, tracing,
  HTTP metrics, the geographic latency and the \<open>SIMULATE_*\<close> faults, and the handler of unhandled
  exceptions. A middleware takes the inner application, a handler of an HTTP response with its
  headers. \<open>rp_route\<close> is what the router leaves in \<open>request.scope["route"]\<close>: the template of the route
  it matched, None where no route was reached.
\<close>

record http_reply =
  rp_status :: nat
  rp_headers :: "(string \<times> string) list"
  rp_body :: json
  rp_route :: "string option"

type_synonym app = "request \<Rightarrow> http_reply handler"

text \<open>\<open>response.headers.setdefault(k, v)\<close>, \<open>response.headers[k] = v\<close>.\<close>

definition set_default :: "string \<Rightarrow> string \<Rightarrow> http_reply \<Rightarrow> http_reply" where
  "set_default k v r = r\<lparr>rp_headers := alist_setdefault k v (rp_headers r)\<rparr>"

definition set_header :: "string \<Rightarrow> string \<Rightarrow> http_reply \<Rightarrow> http_reply" where
  "set_header k v r = r\<lparr>rp_headers := alist_set k v (rp_headers r)\<rparr>"

definition reply_header :: "http_reply \<Rightarrow> string \<Rightarrow> string option" where
  "reply_header r k = map_of (rp_headers r) k"

subsection \<open>Request ids\<close>

definition request_id_dispatch :: "env \<Rightarrow> app \<Rightarrow> app" where
  "request_id_dispatch E call_next rq =
     bind (case header rq ''x-request-id'' of Some (c # s) \<Rightarrow> ret (py_strip (c # s)) | _ \<Rightarrow> draw E) (\<lambda>i.
     bind (if 128 < length i then draw E else ret i) (\<lambda>request_id.
     bind (call_next (rq\<lparr>rq_request_id := Some request_id\<rparr>)) (\<lambda>r.
     ret (set_default ''x-request-id'' request_id r))))"

subsection \<open>Security headers\<close>

definition quoted :: "string \<Rightarrow> string" where
  "quoted s = CHR 0x27 # s @ [CHR 0x27]"

definition csp_parts :: "string \<Rightarrow> string list" where
  "csp_parts nonce =
     [''default-src '' @ quoted ''self'',
      ''img-src '' @ quoted ''self'' @ '' data: https:'',
      ''connect-src '' @ quoted ''self'' @ '' https:'',
      ''style-src '' @ quoted ''self'' @ '' '' @ quoted ''unsafe-inline'',
      ''script-src '' @ quoted ''self'' @ '' '' @ quoted (''nonce-'' @ nonce) @ '' https://static.oracle.com'',
      ''script-src-attr '' @ quoted ''unsafe-inline'',
      ''frame-ancestors '' @ quoted ''none'',
      ''base-uri '' @ quoted ''self'',
      ''form-action '' @ quoted ''self'']"

definition build_csp :: "string \<Rightarrow> string option \<Rightarrow> string" where
  "build_csp nonce report_uri = join_with ''; '' (csp_parts nonce @
     (case report_uri of Some (c # u) \<Rightarrow> [''report-uri '' @ c # u] | _ \<Rightarrow> []))"

text \<open>The middleware's two options: where violations are reported, and who may frame the pages.\<close>

definition security_headers_dispatch :: "env \<Rightarrow> string option \<Rightarrow> string option \<Rightarrow> app \<Rightarrow> app" where
  "security_headers_dispatch E report_uri allow_framing_from call_next rq =
     bind (draw E) (\<lambda>nonce. bind (call_next (rq\<lparr>rq_csp_nonce := Some nonce\<rparr>)) (\<lambda>r.
     ret (set_default ''content-security-policy'' (build_csp nonce report_uri)
       ((case allow_framing_from of
           Some (c # f) \<Rightarrow> set_default ''x-frame-options'' ''SAMEORIGIN'' \<circ>
             set_default ''content-security-policy-frame-ancestors'' (''frame-ancestors '' @ quoted ''self'' @ '' '' @ c # f)
         | _ \<Rightarrow> set_default ''x-frame-options'' ''DENY'')
       (set_default ''permissions-policy'' ''camera=(), microphone=(), geolocation=(), payment=()''
       (set_default ''referrer-policy'' ''strict-origin-when-cross-origin''
       (set_default ''x-content-type-options'' ''nosniff''
       (set_default ''strict-transport-security'' ''max-age=63072000; includeSubDomains; preload'' r))))))))"

subsection \<open>Workflow header\<close>

definition workflow_dispatch :: "app \<Rightarrow> app" where
  "workflow_dispatch call_next rq = bind (call_next rq) (\<lambda>r.
     ret (set_default ''x-workflow-id'' (fst (resolve_workflow (rq_path rq) [])) r))"

subsection \<open>Geographic latency\<close>

definition region_latency_ms :: "(string \<times> int) list" where
  "region_latency_ms =
     [(''eu-central-1'', 15), (''eu-west-1'', 35), (''eu-north-1'', 45), (''us-east-1'', 90), (''us-west-2'', 160),
      (''ca-central-1'', 110), (''ap-southeast-1'', 280), (''ap-northeast-1'', 320), (''ap-south-1'', 250),
      (''sa-east-1'', 350), (''af-south-1'', 400), (''me-south-1'', 180), (''ap-southeast-2'', 340)]"

definition query_param :: "request \<Rightarrow> string \<Rightarrow> string" where
  "query_param rq k = (case map_of (rq_params rq) k of None \<Rightarrow> [] | Some v \<Rightarrow> v)"

definition detect_region :: "request \<Rightarrow> string" where
  "detect_region rq = py_lower (py_strip (str_or (header_or rq ''x-client-region'' [])
     (str_or (query_param rq ''region'') (cookie rq ''client_region''))))"

definition geo_latency_dispatch :: "app \<Rightarrow> app" where
  "geo_latency_dispatch call_next rq =
     (let region = detect_region rq in
      seq (case map_of region_latency_ms region of
             Some ms \<Rightarrow> seq (sleep (ms * 1000))
               (if 200 < ms then push_log ''WARNING'' (''High geo-latency for region '' @ region)
                  [(''geo.client_region'', JStr region), (''geo.simulated_latency_ms'', JInt ms), (''http.url.path'', JStr (rq_path rq))]
                else ret ())
           | None \<Rightarrow> ret ())
      (bind (call_next rq) (\<lambda>r.
       ret (if region = [] then r else
         set_header ''x-geo-latency-ms'' (int_str (case map_of region_latency_ms region of None \<Rightarrow> 0 | Some ms \<Rightarrow> ms))
         (set_header ''x-client-region'' region (set_header ''x-served-region'' ''eu-central-1'' r))))))"

subsection \<open>Simulated faults\<close>

text \<open>The draws of one request: \<open>random() < 0.3\<close>, the delay of a slow query, and the roll for the error rate.\<close>

record chaos_draws =
  cd_cpu :: bool
  cd_delay :: int
  cd_roll :: pyfloat

definition sim_error_rate :: "world \<Rightarrow> json" where
  "sim_error_rate w = (case map_of (w_sim w) ''error_rate'' of None \<Rightarrow> JFloat (Fin 0) | Some v \<Rightarrow> v)"

definition chaos_dispatch :: "env \<Rightarrow> chaos_draws \<Rightarrow> app \<Rightarrow> app" where
  "chaos_dispatch E d call_next rq =
     seq (if simulate_cpu_spike (cfg E) \<and> cd_cpu d
          then seq (sleep (sec div 2)) (push_log ''WARNING'' ''Chaos: CPU spike injected''
                 [(''chaos.type'', JStr ''cpu_spike''), (''http.url.path'', JStr (rq_path rq))])
          else ret ())
     (seq (if simulate_memory_leak (cfg E)
           then seq (modify (\<lambda>w. w\<lparr>w_leaked := w_leaked w + 1\<rparr>))
             (bind (gets w_leaked) (\<lambda>n. push_log ''WARNING'' ''Chaos: memory leak injected''
                [(''chaos.type'', JStr ''memory_leak''), (''chaos.total_leaked_mb'', JInt (int n))]))
           else ret ())
     (seq (if simulate_slow_queries (cfg E) \<and> startswith (rq_path rq) ''/api/'' then sleep (cd_delay d) else ret ())
     (bind (gets sim_error_rate) (\<lambda>v. bind (lift (jfloat v)) (\<lambda>error_rate.
      if flt (Fin 0) error_rate \<and> \<not> startswith (rq_path rq) ''/api/simulate'' \<and> flt (cd_roll d) error_rate
      then seq (push_log ''ERROR'' ''Chaos: simulated error (error_rate injection)''
                 [(''chaos.type'', JStr ''error_rate''), (''chaos.error_rate'', v), (''http.url.path'', JStr (rq_path rq))])
           (ret \<lparr>rp_status = 500, rp_headers = [],
                 rp_body = JObj [(''error'', JStr ''Chaos: simulated error burst''), (''chaos'', JBool True)], rp_route = None\<rparr>)
      else call_next rq)))))"

subsection \<open>The session gate, without contention\<close>

definition gate_reply :: "nat \<Rightarrow> (string \<times> string) list \<Rightarrow> json \<Rightarrow> http_reply" where
  "gate_reply status hs body = \<lparr>rp_status = status, rp_headers = hs, rp_body = body, rp_route = None\<rparr>"

definition session_gate_dispatch :: "env \<Rightarrow> app \<Rightarrow> app" where
  "session_gate_dispatch E call_next rq =
     (if is_public rq then call_next rq else
      bind (catch (bind (get_current_user E rq) (\<lambda>u. ret (Inr u))) (\<lambda>e. case e of
          SessionLookupUnavailable m \<Rightarrow> ret (Inl ''auth_backend_error'') | _ \<Rightarrow> raise e)) (\<lambda>outcome.
      case outcome of
        Inl reason \<Rightarrow> ret (gate_reply 503 [(''retry-after'', ''5'')]
          (JObj [(''error'', JStr ''Authentication service temporarily unavailable''), (''reason'', JStr reason)]))
      | Inr (Some u) \<Rightarrow> call_next (rq\<lparr>rq_current_user := Some u\<rparr>)
      | Inr None \<Rightarrow> ret (if wants_json rq
          then gate_reply 401 [] (JObj [(''error'', JStr ''Authentication required'')])
          else gate_reply 302 [(''location'', ''/login'')] JNull)))"

subsection \<open>Tracing\<close>

definition trace_headers :: "env \<Rightarrow> string \<Rightarrow> http_reply \<Rightarrow> http_reply" where
  "trace_headers E cid r =
     (let r1 = set_header ''x-correlation-id'' cid r;
          r2 = (if trace_id E \<noteq> [] then set_header ''x-trace-id'' (trace_id E) r1 else r1)
      in if span_id E \<noteq> [] then set_header ''x-span-id'' (span_id E) r2 else r2)"

definition waf_signal :: "request \<Rightarrow> string \<Rightarrow> unit handler" where
  "waf_signal rq cid =
     (let score = header_or rq ''x-oci-waf-score'' []; action = header_or rq ''x-oci-waf-action'' [] in
      if score \<noteq> [] \<or> action \<noteq> []
      then seq (security_span ''security_misconfig'' ''medium'')
        (log_security_event ''security_misconfig'' ''medium'' ''WAF signal observed on inbound request'' (client_ip rq) []
           (''waf_score='' @ score @ '', waf_action='' @ action) [(''correlation_id'', JStr cid)])
      else ret ())"

text \<open>\<open>round(duration * 1000, 2)\<close> of a duration in microseconds.\<close>

definition millis :: "int \<Rightarrow> json" where
  "millis d = JFloat (fround2 (rnd (of_int d / 1000)))"

definition tracing_dispatch :: "env \<Rightarrow> app \<Rightarrow> app" where
  "tracing_dispatch E call_next rq =
     bind (gets w_now) (\<lambda>start.
     bind (build_correlation_id E (header_or rq ''x-correlation-id'' [])) (\<lambda>cid.
     seq (waf_signal rq cid)
     (bind (catch (call_next (rq\<lparr>rq_correlation_id := Some cid\<rparr>))
        (\<lambda>e. seq (push_log ''ERROR'' ''Unhandled request exception''
             [(''http.url.path'', JStr (rq_path rq)), (''http.method'', JStr (rq_method rq)), (''http.client_ip'', JStr (client_ip rq)),
              (''error.message'', JStr (exc_str e)), (''correlation.id'', JStr cid)])
           (raise e))) (\<lambda>r.
      bind (gets w_now) (\<lambda>now.
      seq (if 2 * sec < now - start
           then push_log ''WARNING'' ''Slow request detected''
             [(''http.url.path'', JStr (rq_path rq)), (''http.response_time_ms'', millis (now - start)),
              (''http.client_ip'', JStr (client_ip rq)), (''performance.slow_request'', JBool True), (''correlation.id'', JStr cid)]
           else push_log ''INFO'' ''Request completed''
             [(''http.url.path'', JStr (rq_path rq)), (''http.method'', JStr (rq_method rq)),
              (''http.status_code'', JInt (int (rp_status r))), (''http.response_time_ms'', millis (now - start)),
              (''correlation.id'', JStr cid)])
        (ret (trace_headers E cid r)))))))"

subsection \<open>HTTP metrics\<close>

definition request_started :: "string \<Rightarrow> string \<Rightarrow> unit handler" where
  "request_started route meth = metric ''http.requests_in_flight'' [JInt 1, JStr route, JStr meth]"

definition request_finished :: "string \<Rightarrow> string \<Rightarrow> unit handler" where
  "request_finished route meth = metric ''http.requests_in_flight'' [JInt (- 1), JStr route, JStr meth]"

definition record_request :: "string \<Rightarrow> string \<Rightarrow> int \<Rightarrow> int \<Rightarrow> unit handler" where
  "record_request route meth status duration =
     seq (metric ''http.requests'' [JInt 1, JStr route, JStr meth, JStr (int_str status), JStr (int_str (status div 100) @ ''xx'')])
     (metric ''http.request_duration'' [JFloat (rnd (of_int duration / 1000)), JStr route, JStr meth, JStr (int_str status),
        JStr (int_str (status div 100) @ ''xx'')])"

text \<open>The \<open>finally\<close> runs with the route and the status the \<open>try\<close> left.\<close>

definition metrics_dispatch :: "app \<Rightarrow> app" where
  "metrics_dispatch call_next rq =
     (let measured = (\<lambda>start route status. bind (gets w_now) (\<lambda>now.
            seq (request_finished route (rq_method rq)) (record_request route (rq_method rq) status (now - start)))) in
      seq (request_started (rq_path rq) (rq_method rq))
     (bind (gets w_now) (\<lambda>start.
      bind (catch (call_next rq) (\<lambda>e. seq (measured start (rq_path rq) 500) (raise e))) (\<lambda>r.
      seq (measured start (case rp_route r of Some (c # t) \<Rightarrow> c # t | _ \<Rightarrow> rq_path rq) (int (rp_status r))) (ret r)))))"

subsection \<open>Unhandled exceptions\<close>

text \<open>The answer to an exception that left the stack; \<open>rq\<close> with the state the middlewares set.\<close>

definition global_exception_handler :: "string \<Rightarrow> request \<Rightarrow> py_exc \<Rightarrow> http_reply handler" where
  "global_exception_handler class rq e =
     seq (push_log ''ERROR'' (''Unhandled exception: '' @ exc_str e)
       [(''error.type'', JStr class), (''error.message'', JStr (exc_str e)), (''http.url.path'', JStr (rq_path rq)),
        (''http.method'', JStr (rq_method rq)), (''correlation.id'', JStr (opt_str (rq_correlation_id rq)))])
     (ret \<lparr>rp_status = 500, rp_headers = [],
        rp_body = JObj [(''error'', JStr (exc_str e)), (''type'', JStr class), (''path'', JStr (rq_path rq)),
          (''correlation_id'', JStr (opt_str (rq_correlation_id rq)))], rp_route = None\<rparr>)"

text \<open>The stack in the order a request meets it: the middleware added last is outermost.\<close>

definition stack :: "env \<Rightarrow> chaos_draws \<Rightarrow> string option \<Rightarrow> app \<Rightarrow> app" where
  "stack E d framing inner = request_id_dispatch E (workflow_dispatch (security_headers_dispatch E
     (case environ E ''CSP_REPORT_URI'' of Some (c # u) \<Rightarrow> Some (c # u) | _ \<Rightarrow> None) framing
     (tracing_dispatch E (metrics_dispatch (session_gate_dispatch E (chaos_dispatch E d (geo_latency_dispatch inner)))))))"

subsection \<open>What holds\<close>

lemma reply_header_set_default [simp]:
  "reply_header (set_default k v r) k' =
     (case reply_header r k' of None \<Rightarrow> if k' = k then Some v else None | Some y \<Rightarrow> Some y)"
  by (simp add: reply_header_def set_default_def)

lemma safe_request_id_dispatch: "(\<And>rq. W.safe E A (a rq)) \<Longrightarrow> W.safe E A (request_id_dispatch E a rq)"
  unfolding request_id_dispatch_def by (intro safe_intro)

lemma safe_security_headers_dispatch: "(\<And>rq. W.safe E A (a rq)) \<Longrightarrow> W.safe E A (security_headers_dispatch E u f a rq)"
  unfolding security_headers_dispatch_def by (intro safe_intro)

lemma safe_workflow_dispatch: "(\<And>rq. W.safe E A (a rq)) \<Longrightarrow> W.safe E A (workflow_dispatch a rq)"
  unfolding workflow_dispatch_def by (intro safe_intro)

lemma safe_geo_latency_dispatch: "(\<And>rq. W.safe E A (a rq)) \<Longrightarrow> W.safe E A (geo_latency_dispatch a rq)"
  unfolding geo_latency_dispatch_def Let_def by (intro safe_intro)

lemma safe_chaos_dispatch: "(\<And>rq. W.safe E A (a rq)) \<Longrightarrow> W.safe E A (chaos_dispatch E d a rq)"
  unfolding chaos_dispatch_def by (intro safe_intro safe_modify_db) simp

lemma safe_session_gate_dispatch:
  assumes "\<And>rq. W.safe E A (a rq)"
  shows "W.safe E A (session_gate_dispatch E a rq)"
proof -
  have "W.safe E A (case e of SessionLookupUnavailable m \<Rightarrow> ret (Inl ''auth_backend_error'') | _ \<Rightarrow> raise e)" for e
    by (cases e) (auto intro: safe_intro)
  then show ?thesis
    unfolding session_gate_dispatch_def by (intro safe_intro assms)
qed

lemma safe_tracing_dispatch: "(\<And>rq. W.safe E A (a rq)) \<Longrightarrow> W.safe E A (tracing_dispatch E a rq)"
  unfolding tracing_dispatch_def waf_signal_def Let_def by (intro safe_intro)

lemma safe_metrics_dispatch: "(\<And>rq. W.safe E A (a rq)) \<Longrightarrow> W.safe E A (metrics_dispatch a rq)"
  unfolding metrics_dispatch_def request_started_def request_finished_def record_request_def Let_def by (intro safe_intro)

lemma safe_stack: "(\<And>rq. W.safe E A (a rq)) \<Longrightarrow> W.safe E A (stack E d f a rq)"
  unfolding stack_def
  by (intro safe_request_id_dispatch safe_workflow_dispatch safe_security_headers_dispatch safe_tracing_dispatch
      safe_metrics_dispatch safe_session_gate_dispatch safe_chaos_dispatch safe_geo_latency_dispatch) assumption

end
