(* ===== verification/Session_Trace.thy ===== *)
theory Session_Trace
  imports Session_Props
begin

text \<open>
  The session cache over time. Lookups run in threads: one reads the session table, and what it read
  goes to the cache later, with the time of then. A trace is the sequence of worlds a process has gone
  through since its start, latest first, with the reads whose store is still to come: stores, and
  anything else that neither touches the cache nor turns the clock back, whether a handler of this
  process, a worker beside it that writes the same tables, or time passing. A logic for the programs
  of the second kind shows that the handlers of \<open>server/modules/auth.py\<close> are such. What a cached
  answer can still promise is then an invariant of traces: the session table did hold it, not longer
  ago than the time to live and the slowest lookup together.
\<close>

subsection \<open>Programs the cache does not notice\<close>

definition unnoticed :: "world \<Rightarrow> world \<Rightarrow> bool" where
  "unnoticed w v \<longleftrightarrow> w_session_cache v = w_session_cache w \<and> w_now w \<le> w_now v"

interpretation U: safety_logic "\<lambda>_. True" unnoticed
  by unfold_locales (auto simp: unnoticed_def)

lemma unnoticed_modify: "(\<And>w. unnoticed w (f w)) \<Longrightarrow> U.safe (modify f)"
  by (rule U.safe_modify) simp

lemma unnoticed_emit: "U.safe (emit e)"
  unfolding emit_def by (rule unnoticed_modify) (simp add: unnoticed_def)

lemma unnoticed_logs:
  "U.safe (push_log l m a)" "U.safe (metric n args)" "U.safe (security_span t s)" "U.safe (log_security_event t s m i u p x)"
  unfolding push_log_def metric_def security_span_def log_security_event_def
  by (intro U.safe_rules unnoticed_emit)+

lemma unnoticed_on_db: "U.safe (on_db m)"
  by (rule U.safeI) (simp add: on_db_def unnoticed_def split: prod.split)

lemma unnoticed_query: "U.safe (query f)"
  by (simp add: query_def U.safe_gets)

lemma unnoticed_draw: "U.safe (draw E)"
  unfolding draw_def by (intro U.safe_rules unnoticed_modify) (simp add: unnoticed_def)

lemma unnoticed_send: "U.safe (send E c)"
  unfolding send_def by (intro U.safe_rules unnoticed_emit unnoticed_modify) (simp add: unnoticed_def)

lemma unnoticed_sleep: "0 \<le> us \<Longrightarrow> U.safe (sleep us)"
  unfolding sleep_def by (rule unnoticed_modify) (simp add: unnoticed_def)

lemma unnoticed_transaction:
  assumes "U.safe m"
  shows "U.safe (transaction m)"
proof (rule U.safeI)
  fix w
  from U.safe_rel [OF assms, of w] show "True \<and> unnoticed w (snd (transaction m w))"
    by (auto simp: transaction_def unnoticed_def split: prod.split sum.split)
qed

lemma unnoticed_get_db: "U.safe m \<Longrightarrow> U.safe (get_db E m)"
  unfolding get_db_def by (intro U.safe_rules unnoticed_transaction unnoticed_sleep) simp

lemmas unnoticed_rules = U.safe_rules unnoticed_emit unnoticed_logs unnoticed_on_db unnoticed_query
  unnoticed_draw unnoticed_send unnoticed_get_db

lemma unnoticed_put_attempts: "U.safe (put_attempts ip ts)"
  unfolding put_attempts_def by (rule unnoticed_modify) (simp add: unnoticed_def)

lemma unnoticed_add_user_session: "U.safe (add_user_session s i u h)"
  unfolding add_user_session_def by (intro unnoticed_rules)

lemma unnoticed_login: "U.safe (login E u p rq)"
  unfolding login_def Let_def rate_limited_def login_failed_def login_success_def
  by (intro unnoticed_rules unnoticed_put_attempts unnoticed_add_user_session unnoticed_modify)
    (simp add: unnoticed_def)

lemma unnoticed_register: "U.safe (register E u e p rq)"
  unfolding register_def Let_def by (intro unnoticed_rules)

lemma unnoticed_get_session: "U.safe (get_session E rq)"
  unfolding get_session_def Let_def by (intro unnoticed_rules)

lemma unnoticed_logout: "U.safe (logout E rq)"
  unfolding logout_def Let_def by (intro unnoticed_rules)

lemma unnoticed_provision_tx: "U.safe (provision_tx E b e h)"
  unfolding provision_tx_def provision_user_def add_sso_user_def warn_def Let_def by (intro unnoticed_rules)

lemma unnoticed_sso_login: "U.safe (sso_login E rq)"
  unfolding sso_login_def by (intro unnoticed_rules)

lemma unnoticed_sso_session: "U.safe (sso_session E rq c)"
  unfolding sso_session_def sso_error_def
  by (intro unnoticed_rules unnoticed_provision_tx unnoticed_add_user_session)

lemma unnoticed_fetch: "U.safe (fetch_oidc_discovery E u)" "U.safe (fetch_jwks E u f)"
  unfolding fetch_oidc_discovery_def fetch_jwks_def get_json_def
  by (intro unnoticed_rules unnoticed_modify, simp add: unnoticed_def)+

lemma unnoticed_json: "(\<And>s. U.safe (f s)) \<Longrightarrow> U.safe k \<Longrightarrow> U.safe (case v of JStr s \<Rightarrow> f s | _ \<Rightarrow> k)"
  by (cases v) auto

lemma unnoticed_verify_id_token: "U.safe (verify_id_token E t n a)"
  unfolding verify_id_token_def find_key_def refuse_def warn_def Let_def
  by (intro unnoticed_rules unnoticed_json unnoticed_fetch)

lemma unnoticed_sso_callback: "U.safe (sso_callback E rq c s e)"
  unfolding sso_callback_def exchange_code_def sso_error_def
  by (intro unnoticed_rules unnoticed_sso_session unnoticed_verify_id_token)

subsection \<open>A lookup in two steps\<close>

definition store_session :: "string \<Rightarrow> session_row option \<Rightarrow> world \<Rightarrow> world" where
  "store_session sid row w = w\<lparr>w_session_cache := (case row of
     Some r \<Rightarrow> timed_put sid (w_now w) (session_actor r) (w_session_cache w)
   | None \<Rightarrow> alist_del sid (w_session_cache w))\<rparr>"

lemma store_session_simps [simp]: "w_now (store_session sid row w) = w_now w" "w_db (store_session sid row w) = w_db w"
  by (simp_all add: store_session_def)

lemma row_lookup_reads:
  "session_row_lookup E sid w = (Inr row, v) \<Longrightarrow> v = w \<and> map_option session_actor row = session_of (w_db w) sid"
  by (auto simp: session_row_lookup_def query_def session_of_def bind_run option.map_comp comp_def split: if_splits option.splits)

text \<open>With nothing between the two steps they are \<open>get_current_user\<close>.\<close>

lemma lookup_alone:
  assumes "session_id_of rq \<noteq> []" and "timed_get session_ttl (w_session_cache w) (w_now w) (session_id_of rq) = None"
    and "session_row_lookup E (session_id_of rq) w = (Inr row, v)"
  shows "get_current_user E rq w = (Inr (map_option session_actor row), store_session (session_id_of rq) row w)"
  using assms row_lookup_reads [OF assms(3)]
  by (cases row) (simp_all add: get_current_user_def store_session_def Let_def bind_run seq_run catch_run)

text \<open>Otherwise it stores nothing.\<close>

lemma lookup_unnoticed:
  assumes "session_id_of rq = [] \<or> timed_get session_ttl (w_session_cache w) (w_now w) (session_id_of rq) \<noteq> None \<or>
     session_row_lookup E (session_id_of rq) w = (Inl e, v)"
  shows "unnoticed w (snd (get_current_user E rq w))"
  using assms
  by (auto simp: get_current_user_def session_row_lookup_def lookup_failed_def emit_def query_def unnoticed_def Let_def
        bind_run seq_run catch_run split: option.splits if_splits)

subsection \<open>Traces\<close>

text \<open>No lookup takes longer than \<open>d\<close> from its read to its store.\<close>

type_synonym pending = "string \<times> session_row option \<times> int"

inductive session_trace :: "env \<Rightarrow> int \<Rightarrow> pending list \<Rightarrow> world list \<Rightarrow> bool" for E d where
  started: "w_session_cache w = [] \<Longrightarrow> session_trace E d [] [w]"
| reads: "session_trace E d ps (w # ws) \<Longrightarrow> session_row_lookup E sid w = (Inr row, v) \<Longrightarrow>
    session_trace E d ((sid, row, w_now w) # ps) (w # ws)"
| stores: "session_trace E d (ps @ (sid, row, t) # qs) (w # ws) \<Longrightarrow> w_now w - t \<le> d \<Longrightarrow>
    session_trace E d (ps @ qs) (store_session sid row w # w # ws)"
| elsewhere: "session_trace E d ps (w # ws) \<Longrightarrow> unnoticed w v \<Longrightarrow> session_trace E d ps (v # w # ws)"

lemma trace_handler: "session_trace E d ps (w # ws) \<Longrightarrow> U.safe m \<Longrightarrow> session_trace E d ps (snd (m w) # w # ws)"
  using U.safe_rel [of m w] by (simp add: session_trace.elsewhere)

lemma trace_lookup:
  assumes "session_trace E d ps (w # ws)" and "0 \<le> d"
  shows "session_trace E d ps (snd (get_current_user E rq w) # w # ws)"
proof (cases "session_id_of rq = [] \<or> timed_get session_ttl (w_session_cache w) (w_now w) (session_id_of rq) \<noteq> None \<or>
    (\<exists>e v. session_row_lookup E (session_id_of rq) w = (Inl e, v))")
  case True
  then have "unnoticed w (snd (get_current_user E rq w))" using lookup_unnoticed by blast
  with assms(1) show ?thesis by (rule session_trace.elsewhere)
next
  case False
  moreover obtain q v where q: "session_row_lookup E (session_id_of rq) w = (q, v)"
    by (cases "session_row_lookup E (session_id_of rq) w")
  moreover from False q obtain row where "q = Inr row" by (cases q) auto
  ultimately have "snd (get_current_user E rq w) = store_session (session_id_of rq) row w"
    and "session_trace E d ([] @ (session_id_of rq, row, w_now w) # ps) (w # ws)"
    using lookup_alone [of rq w E row v] session_trace.reads [OF assms(1)] by auto
  with session_trace.stores [OF this(2)] assms(2) show ?thesis by simp
qed

subsection \<open>What the cache remembers\<close>

definition seen :: "world list \<Rightarrow> string \<Rightarrow> actor \<Rightarrow> int \<Rightarrow> bool" where
  "seen ws sid u t \<longleftrightarrow> (\<exists>p\<in>set ws. session_of (w_db p) sid = Some u \<and> t \<le> w_now p)"

lemma seen_later: "seen ws sid u t \<Longrightarrow> t' \<le> t \<Longrightarrow> seen (w # ws) sid u t'"
  by (force simp: seen_def)

definition remembers :: "int \<Rightarrow> pending list \<Rightarrow> world list \<Rightarrow> bool" where
  "remembers d ps ws \<longleftrightarrow> (\<forall>p\<in>set ws. w_now p \<le> w_now (hd ws)) \<and>
     (\<forall>sid ts u. map_of (w_session_cache (hd ws)) sid = Some (ts, u) \<longrightarrow> seen ws sid u (ts - d)) \<and>
     (\<forall>sid r t. (sid, Some r, t) \<in> set ps \<longrightarrow> seen ws sid (session_actor r) t)"

lemma remembers_reads:
  assumes "remembers d ps (w # ws)" and "session_row_lookup E sid w = (Inr row, v)"
  shows "remembers d ((sid, row, w_now w) # ps) (w # ws)"
  using assms(1) row_lookup_reads [OF assms(2)] by (auto simp: remembers_def seen_def)

lemma remembers_stores:
  assumes "remembers d (ps @ (sid, row, t) # qs) (w # ws)" and "w_now w - t \<le> d"
  shows "remembers d (ps @ qs) (store_session sid row w # w # ws)"
proof -
  let ?v = "store_session sid row w"
  have "seen (?v # w # ws) k u (ts - d)" if e: "map_of (w_session_cache ?v) k = Some (ts, u)" for k ts u
  proof (cases "map_of (w_session_cache w) k = Some (ts, u)")
    case True
    with assms(1) have "seen (w # ws) k u (ts - d)" by (simp add: remembers_def)
    then show ?thesis by (rule seen_later) simp
  next
    case False
    with e obtain r where r: "row = Some r" "k = sid" "ts = w_now w" "u = session_actor r"
      by (auto simp: store_session_def timed_put_def split: option.splits if_splits)
    with assms(1) have "seen (w # ws) k u t" by (simp add: remembers_def)
    then show ?thesis by (rule seen_later) (use assms(2) r(3) in simp)
  qed
  moreover have "seen (?v # w # ws) k (session_actor r) s" if "(k, Some r, s) \<in> set (ps @ qs)" for k r s
  proof -
    from assms(1) that have "seen (w # ws) k (session_actor r) s" by (auto simp: remembers_def)
    then show ?thesis by (rule seen_later) simp
  qed
  ultimately show ?thesis using assms(1) by (simp add: remembers_def)
qed

lemma remembers_elsewhere: "remembers d ps (w # ws) \<Longrightarrow> unnoticed w v \<Longrightarrow> remembers d ps (v # w # ws)"
  unfolding remembers_def unnoticed_def by (auto intro: seen_later [OF _ order_refl])

lemma trace_remembers: "session_trace E d ps ws \<Longrightarrow> remembers d ps ws"
proof (induction rule: session_trace.induct)
  case (started w)
  then show ?case by (simp add: remembers_def)
qed (auto intro: remembers_reads remembers_stores remembers_elsewhere)

text \<open>So an answer was the table's, not longer ago than the time to live and the delay.\<close>

lemma lookup_recent:
  assumes "session_trace E d ps (w # ws)" and "0 \<le> d" and "fst (get_current_user E rq w) = Inr (Some u)"
  shows "\<exists>p\<in>set (w # ws). session_of (w_db p) (session_id_of rq) = Some u \<and> w_now p \<le> w_now w \<and> w_now w - w_now p < 30 * sec + d"
proof (cases "timed_get (30 * sec) (w_session_cache w) (w_now w) (session_id_of rq)")
  case None
  with assms(3) have "session_of (w_db w) (session_id_of rq) = Some u"
    by (simp add: current_user_outcome Let_def split: if_splits option.splits)
  with assms(2) show ?thesis by (intro bexI [of _ w]) (simp_all add: sec_def)
next
  case (Some u')
  with assms(3) have "u' = u" by (simp add: current_user_outcome Let_def split: if_splits)
  with timed_get_recent [OF Some]
  obtain ts where ts: "map_of (w_session_cache w) (session_id_of rq) = Some (ts, u)" "w_now w - ts < 30 * sec"
    by blast
  from trace_remembers [OF assms(1)] ts(1) have "seen (w # ws) (session_id_of rq) u (ts - d)"
    and le: "\<forall>p\<in>set (w # ws). w_now p \<le> w_now w"
    by (simp_all add: remembers_def)
  then obtain p where p: "p \<in> set (w # ws)" "session_of (w_db p) (session_id_of rq) = Some u" "ts - d \<le> w_now p"
    by (auto simp: seen_def)
  with ts(2) le show ?thesis by (intro bexI [OF _ p(1)]) auto
qed

text \<open>Once the table has not held a session for that long, nobody is recognised by it.\<close>

lemma ended_session:
  assumes "session_trace E d ps (w # ws)" and "0 \<le> d"
    and "\<And>p. p \<in> set (w # ws) \<Longrightarrow> w_now w - w_now p < 30 * sec + d \<Longrightarrow> session_of (w_db p) (session_id_of rq) = None"
  shows "fst (get_current_user E rq w) \<noteq> Inr (Some u)"
proof
  assume "fst (get_current_user E rq w) = Inr (Some u)"
  from lookup_recent [OF assms(1,2) this] assms(3) show False by fastforce
qed

end
