(* ===== verification/Gate_Props.thy ===== *)
theory Gate_Props
  imports Middleware Session_Trace
begin

text \<open>
  The properties of \<open>server/middleware/session_gate.py\<close>: the bounds its admission control keeps, under
  every interleaving of requests, workers and time-outs, and the one it does not keep; what each
  answer rests on; and that a protected path is not reached without a session.
\<close>

subsection \<open>Bounds\<close>

text \<open>
  C7. In every reachable state of the gate the permits in use and the free ones are twice the number
  of workers, no more lookups run than there are workers, no more are queued than there are
  permits, and every queued lookup belongs to a request that still waits for it: neither a time-out
  nor an error loses a permit or leaves an abandoned job in the queue.
\<close>

theorem gate_bounds:
  assumes "reachable E rqs g"
  shows "permits g + card (holding g) = 2 * workers E \<and> card (running g) \<le> workers E \<and>
     length (queued g) \<le> 2 * workers E \<and> set (queued g) \<subseteq> holding g"
  using reachable_inv [OF assms] queue_bound [OF reachable_inv [OF assms]] by (simp add: gate_inv_def mult.commute)

definition gated_request :: request where
  "gated_request = sample_request\<lparr>rq_path := ''/api/products''\<rparr>"

lemma gated_not_public: "\<not> is_public gated_request"
  by (simp add: is_public_def public_prefixes_def gated_request_def startswith_def)

lemma sample_workers: "workers sample_env = 2"
  by (simp add: workers_def)

theorem gate_bounds_witness:
  "\<exists>g :: gate. running g = {..<2} \<and> permits g + card (holding g) = 4 \<and> length (queued g) \<le> 4"
proof -
  obtain g where g: "steps sample_env (\<lambda>r. gated_request) (gate_start sample_env) g" "running g = {..<2}"
    using stuck_run [of "\<lambda>r. gated_request" 2 sample_env] gated_not_public sample_workers by auto
  have "reachable sample_env (\<lambda>r. gated_request) g" by (rule reachable_steps [OF g(1) reachable.init])
  from gate_bounds [OF this] g(2) show ?thesis by (intro exI [of _ g]) (simp add: sample_workers)
qed

text \<open>
  C35. The bound the code documents, at most twice the number of workers running or queued at once,
  does not hold: a lookup that times out gives its permit back while its worker is still busy. With
  every worker stuck, three times the number of workers are running or queued, and that is the most.
\<close>

theorem documented_inflight_bound_broken:
  assumes "\<And>r. \<not> is_public (rqs r)" and "0 < workers E"
  shows "\<exists>g. reachable E rqs g \<and> card (running g) + length (queued g) = 3 * workers E"
proof -
  let ?m = "workers E * 2" and ?n = "workers E"
  have "\<exists>g. steps E rqs (gate_start E) g \<and> permits g = ?m \<and> waiting g = {} \<and>
    holding g = {} \<and> queued g = [] \<and> running g = {..<?n} \<and> fst ` set (answered g) = {..<?n}"
    by (rule stuck_run [where rqs = rqs, OF assms(1) le_refl assms(2)])
  then obtain g where g: "steps E rqs (gate_start E) g" "permits g = ?m" "waiting g = {}" "holding g = {}" "queued g = []"
      "running g = {..<?n}" "fst ` set (answered g) = {..<?n}" by (elim exE conjE)
  have "\<exists>h. steps E rqs (gate_start E) h \<and> permits h = ?m - ?m \<and> waiting h = {} \<and> holding h = {?n..<?n + ?m} \<and>
    length (queued h) = ?m \<and> running h = {..<?n} \<and> fst ` set (answered h) = {..<?n}"
    by (rule enqueue_run [where rqs = rqs and g = g, OF assms(1) g le_refl])
  then obtain h where h: "steps E rqs (gate_start E) h" "length (queued h) = ?m" "running h = {..<?n}" by (elim exE conjE)
  have "reachable E rqs h" by (rule reachable_steps [OF h(1) reachable.init])
  with h show ?thesis by (intro exI [of _ h]) simp
qed

theorem documented_inflight_bound_broken_witness:
  "\<exists>g. reachable sample_env (\<lambda>r. gated_request) g \<and> card (running g) + length (queued g) = 6"
  using documented_inflight_bound_broken [of "\<lambda>r. gated_request" sample_env] gated_not_public by (simp add: sample_workers)

subsection \<open>Answers\<close>






subsection \<open>The protected application\<close>

lemma gate_cases:
  assumes "\<not> is_public rq"
  shows "(\<exists>u v. get_current_user E rq w = (Inr (Some u), v) \<and>
       session_gate_dispatch E app rq w = app (rq\<lparr>rq_current_user := Some u\<rparr>) v) \<or>
    (\<exists>reply v. session_gate_dispatch E app rq w = (Inr reply, v) \<and> rp_status reply \<in> {302, 401, 503} \<and> w_db v = w_db w)"
proof -
  obtain q v where q: "get_current_user E rq w = (q, v)" by (cases "get_current_user E rq w")
  have db: "w_db v = w_db w" using get_current_user_db [of E rq w] q by simp
  show ?thesis
  proof (cases q)
    case (Inl e)
    moreover have "\<exists>m. e = SessionLookupUnavailable m"
      using current_user_outcome [of E rq w] q Inl by (auto simp: Let_def split: if_splits option.splits)
    ultimately show ?thesis
      using assms q db by (auto simp: session_gate_dispatch_def bind_run catch_run gate_reply_def)
  next
    case (Inr u)
    then show ?thesis
      using assms q db by (cases u) (auto simp: session_gate_dispatch_def bind_run catch_run gate_reply_def)
  qed
qed

lemma gated_session_id: "session_id_of gated_request = ''S1''"
  by (simp add: gated_request_def session_id_of_def cookie_def str_or_def)

text \<open>
  C24. On a path that is not public, whatever lookups, overlapping or not, handlers, other processes and pauses
  came before, the application behind the gate runs only with a user attached whom the session table
  held under the session id of the request at some moment of the last 30 seconds, or before by no more
  than the longest time \<open>d\<close> that a lookup took to store what it had read. Otherwise the gate answers 302,
  401 or 503 itself. The gate's own work leaves the database as it was.
\<close>

theorem gate_admits_recent_sessions:
  assumes "session_trace E d ps (w # ws)" and "0 \<le> d" and "\<not> is_public rq"
  shows "(\<exists>u v p. p \<in> set (w # ws) \<and> session_of (w_db p) (session_id_of rq) = Some u \<and>
       w_now p \<le> w_now w \<and> w_now w - w_now p < 30 * sec + d \<and> w_db v = w_db w \<and>
       session_gate_dispatch E app rq w = app (rq\<lparr>rq_current_user := Some u\<rparr>) v) \<or>
    (\<exists>reply v. session_gate_dispatch E app rq w = (Inr reply, v) \<and> rp_status reply \<in> {302, 401, 503} \<and> w_db v = w_db w)"
  using gate_cases [OF assms(3), of E w app]
proof (elim disjE exE conjE)
  fix u v assume u: "get_current_user E rq w = (Inr (Some u), v)"
    and run: "session_gate_dispatch E app rq w = app (rq\<lparr>rq_current_user := Some u\<rparr>) v"
  have "w_db v = w_db w" using get_current_user_db [of E rq w] u by simp
  moreover obtain p where "p \<in> set (w # ws)" "session_of (w_db p) (session_id_of rq) = Some u"
      "w_now p \<le> w_now w" "w_now w - w_now p < 30 * sec + d"
    using lookup_recent [OF assms(1,2), of rq u] u unfolding Bex_def by (metis fst_conv)
  ultimately show ?thesis using run by blast
qed blast

text \<open>
  A session read, ended by a logout, and stored by the lookup a minute later: after 29 more seconds the
  gate still admits it.
\<close>

theorem gate_admits_recent_sessions_witness:
  "\<exists>w u v. session_of (w_db w) ''S1'' = None \<and> w_now w = 1089000000 \<and>
     session_gate_dispatch sample_env (\<lambda>rq. ret (gate_reply 200 [] JNull)) gated_request w = (Inr (gate_reply 200 [] JNull), v) \<and>
     (\<exists>p :: world. session_of (w_db p) ''S1'' = Some u \<and> w_now w - w_now p < 90 * sec)"
proof -
  let ?app = "\<lambda>rq. ret (gate_reply 200 [] JNull)" and ?trace = "session_trace sample_env (60 * sec)"
  let ?read = "(''S1'', Some sample_session, 1000000000) :: pending"
  have row: "session_row_lookup sample_env ''S1'' sample_world = (Inr (Some sample_session), sample_world)"
    by (simp add: session_row_lookup_def query_def bind_run tbl_find_def sample_db_def sample_world_def)
  have "?trace [] [sample_world]" by (rule session_trace.started) (simp add: sample_world_def)
  from session_trace.reads [OF this row] have read: "?trace [?read] [sample_world]" by (simp add: sample_world_def)
  obtain r w1 where out: "logout sample_env sample_request sample_world = (Inr r, w1)" "w_db w1 = snd (drop_sessions ''S1'' (w_db sample_world))"
      "w_session_cache w1 = w_session_cache sample_world" "w_now w1 = w_now sample_world" "db_up sample_env w1"
    using sample_up(2) by (rule logout_run [of sample_env sample_world sample_request]) (simp_all add: cookie_def)
  let ?w2 = "w1\<lparr>w_now := 1060000000\<rparr>"
  let ?w3 = "store_session ''S1'' (Some sample_session) ?w2"
  let ?w = "?w3\<lparr>w_now := 1089000000\<rparr>"
  from trace_handler [OF read unnoticed_logout [of sample_env sample_request]]
  have "?trace [?read] [w1, sample_world]" by (simp add: out(1))
  then have "?trace ([] @ ?read # []) [?w2, w1, sample_world]"
    unfolding append_Nil by (rule session_trace.elsewhere) (use out(4) in \<open>simp add: unnoticed_def sample_world_def\<close>)
  from session_trace.stores [OF this] have "?trace [] [?w3, ?w2, w1, sample_world]" by (simp add: sec_def)
  then have trace: "?trace [] [?w, ?w3, ?w2, w1, sample_world]"
    by (rule session_trace.elsewhere) (simp add: unnoticed_def)
  have "get_current_user sample_env gated_request ?w = (Inr (Some (session_actor sample_session)), ?w)"
    by (intro get_current_user_hit) (simp_all add: gated_session_id store_session_def timed_get_def timed_put_def session_ttl_def sec_def)
  then have run: "session_gate_dispatch sample_env ?app gated_request ?w = (Inr (gate_reply 200 [] JNull), ?w)"
    using gated_not_public by (simp add: session_gate_dispatch_def bind_run catch_run)
  have none: "session_of (w_db ?w) ''S1'' = None" "w_now ?w = 1089000000"
    by (simp_all add: out(2) session_of_def drop_sessions_find)
  have status: "rp_status (gate_reply 200 [] JNull) = 200" by (simp add: gate_reply_def)
  have sum: "30 * sec + 60 * sec = 90 * sec" and pos: "0 \<le> 60 * sec" by (simp_all add: sec_def)
  from gate_admits_recent_sessions [OF trace pos gated_not_public, of ?app, unfolded run gated_session_id sum]
  obtain u and p :: world where "session_of (w_db p) ''S1'' = Some u" "w_now ?w - w_now p < 90 * sec"
    by (elim disjE exE conjE) (erule (1) that, auto simp: status)
  with run none show ?thesis by blast
qed

end
