(* ===== verification/Chaos_Props.thy ===== *)
theory Chaos_Props
  imports Middleware Samples
begin

text \<open>
  The properties of chaos scenarios (\<open>server/chaos/\<close>) and of the middlewares: a scenario lasts exactly
  its time, its administration and what keeps it out of reach, and the headers every reply carries.
\<close>

subsection \<open>Scenarios\<close>

lemma catch_unit: "catch m (\<lambda>e. ret ()) w = (Inr (), snd (m w))"
  by (cases "m w"; cases "fst (m w)") (auto simp: catch_run)




definition chaos_request :: request where
  "chaos_request = sample_request\<lparr>rq_session := Some [(''role'', JStr ''chaos-operator'')]\<rparr>"


lemmas chaos_settings = chaos_admin_role_def max_ttl_seconds_def env_flag_def backend_name_def env_def env_int_def sample_environ_def
  str_or_def string_evals parse_int_str




text \<open>
  Clearing while the database cannot be reached answers \<open>ok\<close> and leaves the scenario in force: once the
  database is back, the reader finds it as before.
\<close>

theorem clear_ok_while_down:
  assumes "require_role E [chaos_admin_role E] rq w = (Inr (), w)" and "w_db_down w = Some m"
  shows "\<exists>v. clear_scenario E rq w = (Inr (JObj [(''ok'', JBool True)]), v) \<and>
     get_active_state E (v\<lparr>w_db_down := None\<rparr>) = get_active_state E (w\<lparr>w_db_down := None\<rparr>)"
proof -
  have "clear_all E w = (Inr (), w)" using assms(2) by (simp add: clear_all_def catch_unit sync_begin_def)
  then obtain l where v: "clear_scenario E rq w = (Inr (JObj [(''ok'', JBool True)]), w\<lparr>w_log := l\<rparr>)"
    using assms(1) by (simp add: clear_scenario_def seq_run emit_def)
  have "get_active_state E (w\<lparr>w_log := l, w_db_down := None\<rparr>) = get_active_state E (w\<lparr>w_db_down := None\<rparr>)"
    by (simp add: get_active_state_def read_from_db_def chaos_query_def cong: option.case_cong sum.case_cong)
  with v show ?thesis by simp
qed

theorem clear_ok_while_down_witness:
  "fst (clear_scenario sample_env chaos_request (sample_world\<lparr>w_db_down := Some ''ORA-12541: no listener''\<rparr>)) = Inr (JObj [(''ok'', JBool True)])"
proof -
  have role: "chaos_admin_role sample_env = ''chaos-operator''" by (simp add: chaos_settings)
  have "require_role sample_env [chaos_admin_role sample_env] chaos_request (sample_world\<lparr>w_db_down := Some ''ORA-12541: no listener''\<rparr>) =
      (Inr (), sample_world\<lparr>w_db_down := Some ''ORA-12541: no listener''\<rparr>)"
    by (simp add: role require_role_def extract_roles_def chaos_request_def Let_def bind_run string_evals)
  from clear_ok_while_down [OF this, of "''ORA-12541: no listener''"] show ?thesis by fastforce
qed

subsection \<open>Middlewares\<close>

definition always_sent :: "string set" where
  "always_sent = {''x-request-id'', ''x-workflow-id'', ''content-security-policy'', ''x-frame-options'', ''strict-transport-security'',
     ''x-content-type-options'', ''referrer-policy'', ''permissions-policy''}"

lemma request_id_reply:
  assumes "request_id_dispatch E a rq w = (Inr reply, v)"
  shows "\<exists>rq' u r i. a rq' u = (Inr r, v) \<and> reply = set_default ''x-request-id'' i r"
proof -
  obtain i u where u: "(case header rq ''x-request-id'' of Some (c # s) \<Rightarrow> ret (py_strip (c # s)) | _ \<Rightarrow> draw E) w = (Inr i, u)"
    and 1: "bind (if 128 < length i then draw E else ret i) (\<lambda>request_id.
     bind (a (rq\<lparr>rq_request_id := Some request_id\<rparr>)) (\<lambda>r. ret (set_default ''x-request-id'' request_id r))) u = (Inr reply, v)"
    using assms unfolding request_id_dispatch_def by (rule bind_InrE)
  from 1 obtain k t where "bind (a (rq\<lparr>rq_request_id := Some k\<rparr>)) (\<lambda>r. ret (set_default ''x-request-id'' k r)) t = (Inr reply, v)"
    by (rule bind_InrE)
  then obtain r s where "a (rq\<lparr>rq_request_id := Some k\<rparr>) t = (Inr r, s)" "ret (set_default ''x-request-id'' k r) s = (Inr reply, v)"
    by (rule bind_InrE)
  then show ?thesis by auto
qed

lemma workflow_reply:
  assumes "workflow_dispatch a rq w = (Inr reply, v)"
  shows "\<exists>r i. a rq w = (Inr r, v) \<and> reply = set_default ''x-workflow-id'' i r"
  using assms unfolding workflow_dispatch_def by (rule bind_InrE) auto

lemma reply_header_some:
  "reply_header r h \<noteq> None \<Longrightarrow> reply_header (set_default k v r) h \<noteq> None" "reply_header (set_default h v r) h \<noteq> None"
  by (auto split: option.splits)

lemma framing_reply:
  assumes "reply_header r k \<noteq> None \<or> k = ''x-frame-options''"
  shows "reply_header ((case f of
     Some (c # f) \<Rightarrow> set_default ''x-frame-options'' ''SAMEORIGIN'' \<circ>
       set_default ''content-security-policy-frame-ancestors'' (''frame-ancestors '' @ quoted ''self'' @ '' '' @ c # f)
   | _ \<Rightarrow> set_default ''x-frame-options'' ''DENY'') r) k \<noteq> None"
proof (cases "\<exists>c f'. f = Some (c # f')")
  case True
  then obtain c f' where f: "f = Some (c # f')" by blast
  from assms show ?thesis
    unfolding f option.case list.case o_def by (metis reply_header_some)
next
  case False
  then have f: "f = None \<or> f = Some []" by (cases f; cases "the f") auto
  have "reply_header (set_default ''x-frame-options'' ''DENY'' r) k \<noteq> None"
    using assms by (metis reply_header_some)
  with f show ?thesis by (elim disjE) (simp_all only: option.case list.case not_False_eq_True)
qed

lemma security_reply:
  assumes "security_headers_dispatch E u f a rq w = (Inr reply, v)" and "h \<in> always_sent - {''x-request-id'', ''x-workflow-id''}"
  shows "reply_header reply h \<noteq> None"
proof -
  obtain nonce t where "bind (a (rq\<lparr>rq_csp_nonce := Some nonce\<rparr>)) (\<lambda>r. ret (set_default ''content-security-policy'' (build_csp nonce u)
       ((case f of
           Some (c # f) \<Rightarrow> set_default ''x-frame-options'' ''SAMEORIGIN'' \<circ>
             set_default ''content-security-policy-frame-ancestors'' (''frame-ancestors '' @ quoted ''self'' @ '' '' @ c # f)
         | _ \<Rightarrow> set_default ''x-frame-options'' ''DENY'')
       (set_default ''permissions-policy'' ''camera=(), microphone=(), geolocation=(), payment=()''
       (set_default ''referrer-policy'' ''strict-origin-when-cross-origin''
       (set_default ''x-content-type-options'' ''nosniff''
       (set_default ''strict-transport-security'' ''max-age=63072000; includeSubDomains; preload'' r))))))) t = (Inr reply, v)"
    using assms(1) unfolding security_headers_dispatch_def by (rule bind_InrE)
  then obtain r s where "a (rq\<lparr>rq_csp_nonce := Some nonce\<rparr>) t = (Inr r, s)" and reply: "ret (set_default ''content-security-policy'' (build_csp nonce u)
       ((case f of
           Some (c # f) \<Rightarrow> set_default ''x-frame-options'' ''SAMEORIGIN'' \<circ>
             set_default ''content-security-policy-frame-ancestors'' (''frame-ancestors '' @ quoted ''self'' @ '' '' @ c # f)
         | _ \<Rightarrow> set_default ''x-frame-options'' ''DENY'')
       (set_default ''permissions-policy'' ''camera=(), microphone=(), geolocation=(), payment=()''
       (set_default ''referrer-policy'' ''strict-origin-when-cross-origin''
       (set_default ''x-content-type-options'' ''nosniff''
       (set_default ''strict-transport-security'' ''max-age=63072000; includeSubDomains; preload'' r)))))) s = (Inr reply, v)"
    by (rule bind_InrE)
  define B where "B = set_default ''permissions-policy'' ''camera=(), microphone=(), geolocation=(), payment=()''
       (set_default ''referrer-policy'' ''strict-origin-when-cross-origin''
       (set_default ''x-content-type-options'' ''nosniff''
       (set_default ''strict-transport-security'' ''max-age=63072000; includeSubDomains; preload'' r)))"
  have eq: "reply = set_default ''content-security-policy'' (build_csp nonce u) ((case f of
           Some (c # f) \<Rightarrow> set_default ''x-frame-options'' ''SAMEORIGIN'' \<circ>
             set_default ''content-security-policy-frame-ancestors'' (''frame-ancestors '' @ quoted ''self'' @ '' '' @ c # f)
         | _ \<Rightarrow> set_default ''x-frame-options'' ''DENY'') B)"
    using reply unfolding B_def ret_def prod.inject sum.inject by (elim conjE) (rule sym)
  have base: "reply_header B k \<noteq> None" if "k \<in> {''permissions-policy'', ''referrer-policy'', ''x-content-type-options'', ''strict-transport-security''}" for k
    unfolding B_def using that by (elim insertE emptyE; simp only:) (intro reply_header_some)+
  have "h = ''content-security-policy'' \<or> h = ''x-frame-options'' \<or>
      h \<in> {''permissions-policy'', ''referrer-policy'', ''x-content-type-options'', ''strict-transport-security''}"
    using assms(2) unfolding always_sent_def by (simp only: Diff_iff insert_iff empty_iff) argo
  then have "h = ''content-security-policy'' \<or> reply_header B h \<noteq> None \<or> h = ''x-frame-options''"
    using base by blast
  then consider (csp) "h = ''content-security-policy''" | (other) "reply_header B h \<noteq> None \<or> h = ''x-frame-options''"
    by blast
  then show ?thesis
  proof cases
    case csp
    show ?thesis unfolding eq csp by (rule reply_header_some(2))
  next
    case other
    show ?thesis unfolding eq by (rule reply_header_some(1) [OF framing_reply [OF other]])
  qed
qed

text \<open>
  C29. Every reply that leaves the server through its middlewares, from a handler, the gate or an injected
  fault alike, carries the request id, the workflow and all security headers.
\<close>

theorem replies_carry_headers:
  assumes "stack E d framing inner rq w = (Inr reply, v)" and "h \<in> always_sent"
  shows "reply_header reply h \<noteq> None"
proof -
  obtain rq1 u r1 i where r1: "workflow_dispatch (security_headers_dispatch E
     (case environ E ''CSP_REPORT_URI'' of Some (c # u) \<Rightarrow> Some (c # u) | _ \<Rightarrow> None) framing
     (tracing_dispatch E (metrics_dispatch (session_gate_dispatch E (chaos_dispatch E d (geo_latency_dispatch inner)))))) rq1 u = (Inr r1, v)"
    and reply: "reply = set_default ''x-request-id'' i r1"
    using request_id_reply [OF assms(1) [unfolded stack_def]] by blast
  from workflow_reply [OF r1] obtain r2 k where r2: "security_headers_dispatch E
     (case environ E ''CSP_REPORT_URI'' of Some (c # u) \<Rightarrow> Some (c # u) | _ \<Rightarrow> None) framing
     (tracing_dispatch E (metrics_dispatch (session_gate_dispatch E (chaos_dispatch E d (geo_latency_dispatch inner))))) rq1 u = (Inr r2, v)"
    and w2: "r1 = set_default ''x-workflow-id'' k r2"
    by blast
  show ?thesis
  proof (cases "h \<in> {''x-request-id'', ''x-workflow-id''}")
    case True
    then show ?thesis by (auto simp: reply w2 split: option.splits)
  next
    case False
    with assms(2) security_reply [OF r2, of h] have "reply_header r2 h \<noteq> None" by blast
    then show ?thesis by (auto simp: reply w2 split: option.splits)
  qed
qed

definition ok_app :: app where
  "ok_app rq = ret (gate_reply 200 [] JNull)"

theorem replies_carry_headers_witness:
  "\<exists>reply v. stack sample_env \<lparr>cd_cpu = False, cd_delay = 0, cd_roll = Fin 0\<rparr> None ok_app sample_request sample_world = (Inr reply, v) \<and>
     reply_header reply ''x-frame-options'' \<noteq> None"
proof -
  have "\<exists>reply v. stack sample_env \<lparr>cd_cpu = False, cd_delay = 0, cd_roll = Fin 0\<rparr> None ok_app sample_request sample_world = (Inr reply, v)"
    by (simp add: stack_def request_id_dispatch_def workflow_dispatch_def security_headers_dispatch_def session_gate_dispatch_def
        tracing_dispatch_def waf_signal_def metrics_dispatch_def request_started_def request_finished_def record_request_def
        build_correlation_id_def metric_def push_log_def emit_def catch_run
        chaos_dispatch_def geo_latency_dispatch_def ok_app_def header_def is_public_def public_prefixes_def startswith_def
        draw_def bind_run seq_run sim_error_rate_def detect_region_def header_or_def query_param_def cookie_def str_or_def
        region_latency_ms_def string_evals Let_def)
  then show ?thesis using replies_carry_headers [of sample_env _ None ok_app sample_request sample_world _ _ "''x-frame-options''"]
    by (fastforce simp: always_sent_def)
qed

end
