(* ===== verification/Admin.thy ===== *)
theory Admin
  imports Orders Catalog
begin

text \<open>
  \<open>server/modules/admin.py\<close> and \<open>server/modules/api_keys.py\<close>: the administration of users, the
  sanitised runtime summaries, the audit log, and the in-memory store of API keys. What the host and
  the database report of themselves (platform, process, versions) are arguments.
\<close>

definition allowed_roles :: "string set" where
  "allowed_roles = {''admin'', ''manager'', ''viewer'', ''user'', ''chaos-operator''}"

text \<open>A row as \<open>dict(r._mapping)\<close> of the seven selected columns.\<close>

definition user_json :: "env \<Rightarrow> int \<times> user_row \<Rightarrow> json" where
  "user_json E p = (case p of (i, x) \<Rightarrow> JObj
     [(''id'', JInt i), (''username'', JStr (u_username x)), (''email'', JStr (u_email x)), (''role'', JStr (u_role x)),
      (''is_active'', jint_opt (u_is_active x)), (''created_at'', iso E (u_created_at x)), (''last_login'', iso_opt E (u_last_login x))])"

definition list_users :: "env \<Rightarrow> request \<Rightarrow> json handler" where
  "list_users E rq = bind (require_admin_user E rq) (\<lambda>a.
     bind (get_db E (query (\<lambda>d. map (user_json E) (order_desc (\<lambda>p. u_created_at (snd p)) (rows (users d)))))) (\<lambda>us.
     ret (JObj [(''users'', JArr us)])))"

text \<open>\<open>UPDATE users SET role = :role WHERE id = :id\<close>.\<close>

definition set_user_role :: "int \<Rightarrow> string \<Rightarrow> (db, unit) pm" where
  "set_user_role i role d = (Inr (), d\<lparr>users := tbl_map (\<lambda>j x. if j = i then x\<lparr>u_role := role\<rparr> else x) (users d)\<rparr>)"

definition change_user_role :: "env \<Rightarrow> int \<Rightarrow> request \<Rightarrow> json handler" where
  "change_user_role E user_id rq = bind (require_admin_user E rq) (\<lambda>a.
     bind (lift (rq_body rq)) (\<lambda>body.
     bind (lift (jget_or body ''role'' (JStr ''user''))) (\<lambda>v.
     let new_role = str_or (py_lower (py_strip (jstr (rep E) v))) ''user'' in
     if new_role \<notin> allowed_roles then raise (HTTPException 400 ''Unsupported role'') else
     seq (get_db E (on_db (set_user_role user_id new_role)))
     (ret (JObj [(''status'', JStr ''updated''), (''user_id'', JInt user_id), (''role'', JStr new_role)])))))"

text \<open>\<open>os.path.basename\<close>.\<close>

definition basename :: "string \<Rightarrow> string" where
  "basename path = (case rsplit1 CHR ''/'' path of None \<Rightarrow> path | Some (d, f) \<Rightarrow> f)"

text \<open>What the interpreter and the operating system report.\<close>

record host =
  h_platform :: string
  h_python :: string
  h_executable :: string
  h_pid :: int
  h_nodename :: string

definition get_config :: "env \<Rightarrow> host \<Rightarrow> request \<Rightarrow> json handler" where
  "get_config E h rq = bind (require_admin_user E rq) (\<lambda>a. ret (JObj
     [(''runtime'', safe_runtime_summary (cfg E)),
      (''database_url'', JStr (masked_database_url (cfg E))),
      (''oci_apm_endpoint'', null_if_empty (oci_apm_endpoint (cfg E))),
      (''oci_log_id'', null_if_empty (oci_log_id (cfg E))),
      (''splunk_hec_url'', null_if_empty (splunk_hec_url (cfg E))),
      (''python_version'', JStr (h_python h))]))"

definition debug_info :: "env \<Rightarrow> host \<Rightarrow> request \<Rightarrow> json handler" where
  "debug_info E h rq = bind (require_admin_user E rq) (\<lambda>a. ret (JObj
     [(''actor'', JStr (a_username a)), (''platform'', JStr (h_platform h)), (''python_version'', JStr (h_python h)),
      (''executable'', JStr (basename (h_executable h))), (''pid'', JInt (h_pid h)), (''hostname'', JStr (h_nodename h))]))"

definition audit_json :: "env \<Rightarrow> int \<times> audit_row \<Rightarrow> json" where
  "audit_json E p = (case p of (i, x) \<Rightarrow> JObj
     [(''id'', JInt i), (''user_id'', jint_opt (al_user_id x)), (''action'', JStr (al_action x)), (''resource'', jopt (al_resource x)),
      (''details'', jopt (al_details x)), (''ip_address'', jopt (al_ip_address x)), (''user_agent'', jopt (al_user_agent x)),
      (''trace_id'', jopt (al_trace_id x)), (''created_at'', iso E (al_created_at x))])"

definition get_audit_logs :: "env \<Rightarrow> int \<Rightarrow> int \<Rightarrow> request \<Rightarrow> json handler" where
  "get_audit_logs E limit offset rq =
     (if \<not> page_ok limit offset then raise (HTTPException 422 ''Unprocessable Entity'') else
      bind (require_admin_user E rq) (\<lambda>a.
      bind (get_db E (query (\<lambda>d. map (audit_json E) (page limit offset
        (order_desc (\<lambda>p. al_created_at (snd p)) (rows (audit_logs d))))))) (\<lambda>ls.
      ret (JObj [(''audit_logs'', JArr ls), (''limit'', JInt limit), (''offset'', JInt offset)]))))"

definition db_status :: "env \<Rightarrow> json \<Rightarrow> json \<Rightarrow> request \<Rightarrow> json handler" where
  "db_status E version active rq = bind (require_admin_user E rq) (\<lambda>a.
     bind (get_db E (query (\<lambda>d. (version, active)))) (\<lambda>(v, c).
     ret (JObj [(''database_target'', JStr (database_target_label (cfg E))), (''database_version'', v), (''active_connections'', c),
       (''pool_size'', JInt (db_pool_size (cfg E))), (''max_overflow'', JInt (db_max_overflow (cfg E)))])))"

subsection \<open>API keys\<close>

text \<open>\<open>time.time()\<close> as a float, and \<open>int(time.time())\<close>.\<close>

definition epoch :: "int \<Rightarrow> json" where
  "epoch us = JFloat (rnd (of_int us / of_int sec))"

definition api_key_of :: "env \<Rightarrow> json \<Rightarrow> int \<Rightarrow> string" where
  "api_key_of E username now = md5_hex E (jstr (rep E) username @ int_str (now div sec))"

definition generate_api_key :: "env \<Rightarrow> request \<Rightarrow> json handler" where
  "generate_api_key E rq =
     bind (lift (rq_body rq)) (\<lambda>body.
     bind (lift (jget_or body ''username'' (JStr ''anonymous''))) (\<lambda>username.
     bind (gets w_now) (\<lambda>now.
     let api_key = api_key_of E username now in
     seq (security_span ''sensitive_data'' ''medium'')
     (bind (lift (jget_or body ''permissions'' (JArr [JStr ''read'']))) (\<lambda>permissions.
      seq (modify (\<lambda>w. w\<lparr>w_api_keys := alist_set api_key
             (JObj [(''username'', username), (''created_at'', epoch now), (''permissions'', permissions)]) (w_api_keys w)\<rparr>))
     (seq (push_log ''INFO'' (''API key generated for '' @ jstr (rep E) username) [(''api_keys.username'', username)])
     (ret (JObj [(''api_key'', JStr api_key), (''username'', username)]))))))))"

definition validate_api_key :: "request \<Rightarrow> json handler" where
  "validate_api_key rq = bind (gets w_api_keys) (\<lambda>keys.
     case map_of keys (header_or rq ''x-api-key'' []) of
       Some u \<Rightarrow> ret (JObj [(''valid'', JBool True), (''user'', u)])
     | None \<Rightarrow> ret (JObj [(''valid'', JBool False)]))"

fun with_key :: "string \<Rightarrow> json \<Rightarrow> json" where
  "with_key k (JObj fs) = JObj (obj_update [(''key'', JStr k)] fs)"
| "with_key k v = v"

definition list_api_keys :: "request \<Rightarrow> json handler" where
  "list_api_keys rq =
     seq (security_span ''sensitive_data'' ''high'')
     (seq (log_security_event ''sensitive_data'' ''high'' ''API key listing accessed without authorization'' (client_ip rq) [] [] [])
     (bind (gets w_api_keys) (\<lambda>keys. ret (JObj [(''keys'', JArr (map (\<lambda>(k, v). with_key k v) keys))]))))"

subsection \<open>Safety\<close>

lemma set_user_role_ok [safe_intro]: "stmt_ok A (set_user_role i r)"
  by (simp add: stmt_ok_def set_user_role_def db_invs seq_le_def uniq_map)

lemma safe_list_users [safe_intro]: "W.safe E A (list_users E rq)"
  unfolding list_users_def by (intro safe_intro)

lemma safe_change_user_role [safe_intro]: "W.safe E A (change_user_role E i rq)"
  unfolding change_user_role_def Let_def by (intro safe_intro)

lemma safe_get_config [safe_intro]: "W.safe E A (get_config E h rq)"
  unfolding get_config_def by (intro safe_intro)

lemma safe_debug_info [safe_intro]: "W.safe E A (debug_info E h rq)"
  unfolding debug_info_def by (intro safe_intro)

lemma safe_get_audit_logs [safe_intro]: "W.safe E A (get_audit_logs E l k rq)"
  unfolding get_audit_logs_def by (intro safe_intro)

lemma safe_db_status [safe_intro]: "W.safe E A (db_status E v c rq)"
  unfolding db_status_def by (intro safe_intro)

lemma safe_generate_api_key [safe_intro]: "W.safe E A (generate_api_key E rq)"
  unfolding generate_api_key_def Let_def by (intro safe_intro safe_modify_db) simp

lemma safe_validate_api_key [safe_intro]: "W.safe E A (validate_api_key rq)"
  unfolding validate_api_key_def by (intro safe_intro)

lemma safe_list_api_keys [safe_intro]: "W.safe E A (list_api_keys rq)"
  unfolding list_api_keys_def by (intro safe_intro)

subsection \<open>What the administration promises\<close>

lemma set_user_role_get:
  "tbl_get (users (snd (set_user_role i r d))) k = map_option (\<lambda>x. if k = i then x\<lparr>u_role := r\<rparr> else x) (tbl_get (users d) k)"
  by (simp add: set_user_role_def tbl_get_map)

text \<open>A key that was generated is stored under the name and the time it was generated at.\<close>

lemma generate_api_key_run:
  assumes "rq_body rq = Inr (JObj fs)"
  shows "\<exists>v. generate_api_key E rq w = (Inr (JObj [(''api_key'', JStr (api_key_of E (case map_of fs ''username'' of None \<Rightarrow> JStr ''anonymous'' | Some u \<Rightarrow> u) (w_now w))),
        (''username'', (case map_of fs ''username'' of None \<Rightarrow> JStr ''anonymous'' | Some u \<Rightarrow> u))]), v) \<and>
     w_api_keys v = alist_set (api_key_of E (case map_of fs ''username'' of None \<Rightarrow> JStr ''anonymous'' | Some u \<Rightarrow> u) (w_now w))
       (JObj [(''username'', (case map_of fs ''username'' of None \<Rightarrow> JStr ''anonymous'' | Some u \<Rightarrow> u)), (''created_at'', epoch (w_now w)),
          (''permissions'', (case map_of fs ''permissions'' of None \<Rightarrow> JArr [JStr ''read''] | Some p \<Rightarrow> p))]) (w_api_keys w)"
  using assms
  by (simp add: generate_api_key_def Let_def bind_run seq_run security_span_def push_log_def emit_def split: option.splits)

end
