(* ===== verification/Bootstrap.thy ===== *)
theory Bootstrap
  imports Admin
begin

text \<open>
  \<open>server/bootstrap.py\<close> and the life span of \<open>server/main.py\<close>: at startup the bootstrap administrator
  is created or reconciled, the demo shops are upserted, and an empty database is seeded; then a
  background task imports the orders of the shop again and again. The DDL that creates and migrates
  the tables is in \<open>Migrations\<close>; the model's schema is the one it leaves.
\<close>

subsection \<open>The demo data\<close>

definition seed_customers :: "int \<Rightarrow> customer_row list" where
  "seed_customers now =
    [\<lparr>c_name = ''Acme Corporation'', c_email = ''contact@acme.com'', c_phone = Some ''+1-555-0101'', c_company = Some ''Acme Corp'',
       c_industry = Some ''Manufacturing'', c_revenue = Some (Fin 5200000), c_notes = None, c_created_at = now, c_updated_at = now\<rparr>,
     \<lparr>c_name = ''Globex Industries'', c_email = ''info@globex.com'', c_phone = Some ''+1-555-0102'', c_company = Some ''Globex'',
       c_industry = Some ''Technology'', c_revenue = Some (Fin 12800000), c_notes = None, c_created_at = now, c_updated_at = now\<rparr>,
     \<lparr>c_name = ''Initech Solutions'', c_email = ''sales@initech.com'', c_phone = Some ''+1-555-0103'', c_company = Some ''Initech'',
       c_industry = Some ''Consulting'', c_revenue = Some (Fin 3400000), c_notes = None, c_created_at = now, c_updated_at = now\<rparr>,
     \<lparr>c_name = ''Wayne Enterprises'', c_email = ''bruce@wayne.com'', c_phone = Some ''+1-555-0106'', c_company = Some ''Wayne Ent'',
       c_industry = Some ''Conglomerate'', c_revenue = Some (Fin 120000000), c_notes = None, c_created_at = now, c_updated_at = now\<rparr>]"

definition seed_products :: "int \<Rightarrow> int \<Rightarrow> product_row list" where
  "seed_products shop now =
    [\<lparr>p_shop_id = Some shop, p_name = ''Phantom Racer X1'', p_sku = ''OCTO-001'',
       p_description = Some ''Engineered for blistering speed and unmatched agility. Lightweight carbon fiber frame ensures maximum durability in high-speed maneuvers.'',
       p_price = rnd (49999 / 100), p_stock = 150, p_category = Some ''Racing Drones'',
       p_image_url = Some ''/static/img/products/octo_001.jpg'', p_is_active = 1, p_created_at = now\<rparr>,
     \<lparr>p_shop_id = Some shop, p_name = ''Vortex Pro FPV'', p_sku = ''OCTO-002'',
       p_description = Some ''Immersive first-person view racing with exceptional control and a robust design, perfect for competitive pilots.'',
       p_price = rnd (1259 / 2), p_stock = 120, p_category = Some ''Racing Drones'',
       p_image_url = Some ''/static/img/products/octo_002.jpg'', p_is_active = 1, p_created_at = now\<rparr>,
     \<lparr>p_shop_id = Some shop, p_name = ''Ignite Micro Racer'', p_sku = ''OCTO-003'',
       p_description = Some ''Designed for indoor racing fun and tight obstacle courses. Small size doesn't compromise on speed or responsiveness.'',
       p_price = Fin 179, p_stock = 250, p_category = Some ''Racing Drones'',
       p_image_url = Some ''/static/img/products/octo_003.jpg'', p_is_active = 1, p_created_at = now\<rparr>,
     \<lparr>p_shop_id = Some shop, p_name = ''SkyLens 4K Pro'', p_sku = ''OCTO-004'',
       p_description = Some ''Capture breathtaking aerial footage with a 3-axis gimbal and advanced flight modes. Extended battery for longer creative sessions.'',
       p_price = rnd (129999 / 100), p_stock = 80, p_category = Some ''Camera Drones'',
       p_image_url = Some ''/static/img/products/octo_004.jpg'', p_is_active = 1, p_created_at = now\<rparr>,
     \<lparr>p_shop_id = Some shop, p_name = ''AeroFold Mini'', p_sku = ''OCTO-005'',
       p_description = Some ''Your perfect travel companion, easily folding down to fit in any bag. Crisp 1080p video and stable flight.'',
       p_price = rnd (6999 / 20), p_stock = 180, p_category = Some ''Camera Drones'',
       p_image_url = Some ''/static/img/products/octo_005.jpg'', p_is_active = 1, p_created_at = now\<rparr>,
     \<lparr>p_shop_id = Some shop, p_name = ''CinemaFly Xtreme'', p_sku = ''OCTO-006'',
       p_description = Some ''Designed for professional filmmakers with interchangeable lenses and unparalleled stability for cinematic productions.'',
       p_price = Fin 3500, p_stock = 60, p_category = Some ''Camera Drones'',
       p_image_url = Some ''/static/img/products/octo_006.jpg'', p_is_active = 1, p_created_at = now\<rparr>,
     \<lparr>p_shop_id = Some shop, p_name = ''TerraSurvey RTK'', p_sku = ''OCTO-007'',
       p_description = Some ''Precision mapping and surveying with RTK GPS for centimeter-level accuracy. Streamlines data collection for construction.'',
       p_price = Fin 9500, p_stock = 50, p_category = Some ''Industrial Drones'',
       p_image_url = Some ''/static/img/products/octo_007.jpg'', p_is_active = 1, p_created_at = now\<rparr>,
     \<lparr>p_shop_id = Some shop, p_name = ''InspectMaster Thermal'', p_sku = ''OCTO-008'',
       p_description = Some ''Detailed inspections with high-resolution thermal camera and advanced obstacle avoidance for infrastructure assessments.'',
       p_price = Fin 7200, p_stock = 70, p_category = Some ''Industrial Drones'',
       p_image_url = Some ''/static/img/products/octo_008.jpg'', p_is_active = 1, p_created_at = now\<rparr>,
     \<lparr>p_shop_id = Some shop, p_name = ''AgriSprayer Pro'', p_sku = ''OCTO-009'',
       p_description = Some ''Optimize crop health with efficient and precise payload application. Robust design handles large fields with ease.'',
       p_price = Fin 11000, p_stock = 55, p_category = Some ''Industrial Drones'',
       p_image_url = Some ''/static/img/products/octo_009.jpg'', p_is_active = 1, p_created_at = now\<rparr>,
     \<lparr>p_shop_id = Some shop, p_name = ''Extra Flight Battery Pack'', p_sku = ''OCTO-010'',
       p_description = Some ''Extend your flight time with an additional high-capacity LiPo battery. Compatible with Phantom Racer and SkyLens series.'',
       p_price = rnd (4999 / 100), p_stock = 400, p_category = Some ''Accessories'',
       p_image_url = Some ''/static/img/products/acc_001.jpg'', p_is_active = 1, p_created_at = now\<rparr>,
     \<lparr>p_shop_id = Some shop, p_name = ''Propeller Guard Set'', p_sku = ''OCTO-011'',
       p_description = Some ''Protect your drone and surroundings with this durable propeller guard set. Easy to install, essential for beginners.'',
       p_price = rnd (399 / 20), p_stock = 500, p_category = Some ''Accessories'',
       p_image_url = Some ''/static/img/products/acc_002.jpg'', p_is_active = 1, p_created_at = now\<rparr>,
     \<lparr>p_shop_id = Some shop, p_name = ''Rugged Carrying Case'', p_sku = ''OCTO-012'',
       p_description = Some ''Safely transport your drone with this custom-fitted rugged carrying case. Superior protection against impacts.'',
       p_price = Fin 120, p_stock = 200, p_category = Some ''Accessories'',
       p_image_url = Some ''/static/img/products/acc_003.jpg'', p_is_active = 1, p_created_at = now\<rparr>]"

definition seed_orders :: "(int \<times> customer_row) list \<Rightarrow> int \<Rightarrow> order_row list" where
  "seed_orders cs now =
    [\<lparr>o_customer_id = Some (fst (cs ! 0)), o_total = Fin 129998, o_status = Some ''completed'', o_notes = None,
       o_shipping_address = Some ''123 Industrial Way, Springfield'', o_source_system = Some ''seed'',
       o_source_order_id = Some ''seed-1001'', o_source_customer_email = Some (c_email (snd (cs ! 0))),
       o_sync_status = Some ''seeded'', o_backlog_status = Some ''current'', o_sync_error = None,
       o_source_payload = None, o_correlation_id = Some ''seed-1001'', o_last_synced_at = Some (now - 172800 * sec),
       o_created_at = now\<rparr>,
     \<lparr>o_customer_id = Some (fst (cs ! 1)), o_total = Fin 44998, o_status = Some ''processing'', o_notes = None,
       o_shipping_address = Some ''456 Tech Park, Silicon Valley'', o_source_system = Some ''seed'',
       o_source_order_id = Some ''seed-1002'', o_source_customer_email = Some (c_email (snd (cs ! 1))),
       o_sync_status = Some ''seeded'', o_backlog_status = Some ''backlog'', o_sync_error = None,
       o_source_payload = None, o_correlation_id = Some ''seed-1002'', o_last_synced_at = Some (now - 10800 * sec),
       o_created_at = now\<rparr>,
     \<lparr>o_customer_id = Some (fst (cs ! 3)), o_total = Fin 269997, o_status = Some ''pending'', o_notes = None,
       o_shipping_address = Some ''1007 Mountain Drive, Gotham'', o_source_system = Some ''octo-drone-shop'',
       o_source_order_id = Some ''drone-2001'', o_source_customer_email = Some (c_email (snd (cs ! 3))),
       o_sync_status = Some ''synced'', o_backlog_status = Some ''backlog'', o_sync_error = None,
       o_source_payload = None, o_correlation_id = Some ''seed-2001'', o_last_synced_at = Some (now - 2700 * sec),
       o_created_at = now\<rparr>]"

definition seed_items :: "int list \<Rightarrow> int list \<Rightarrow> order_item_row list" where
  "seed_items os ps =
    [\<lparr>oi_order_id = Some (os ! 0), oi_product_id = Some (ps ! 0), oi_quantity = 1, oi_unit_price = Fin 99999\<rparr>,
     \<lparr>oi_order_id = Some (os ! 0), oi_product_id = Some (ps ! 2), oi_quantity = 2, oi_unit_price = Fin 14999\<rparr>,
     \<lparr>oi_order_id = Some (os ! 1), oi_product_id = Some (ps ! 1), oi_quantity = 1, oi_unit_price = Fin 29999\<rparr>,
     \<lparr>oi_order_id = Some (os ! 1), oi_product_id = Some (ps ! 2), oi_quantity = 1, oi_unit_price = Fin 14999\<rparr>,
     \<lparr>oi_order_id = Some (os ! 2), oi_product_id = Some (ps ! 0), oi_quantity = 2, oi_unit_price = Fin 99999\<rparr>,
     \<lparr>oi_order_id = Some (os ! 2), oi_product_id = Some (ps ! 3), oi_quantity = 1, oi_unit_price = Fin 19999\<rparr>]"

definition seed_invoices :: "int list \<Rightarrow> int \<Rightarrow> invoice_row list" where
  "seed_invoices os now =
    [\<lparr>iv_order_id = Some (os ! 0), iv_invoice_number = ''INV-2026-001'', iv_amount = Fin 129998,
       iv_tax = rnd (259996 / 25), iv_status = ''paid'', iv_due_date = Some (now + 1296000 * sec), iv_created_at = now\<rparr>,
     \<lparr>iv_order_id = Some (os ! 1), iv_invoice_number = ''INV-2026-002'', iv_amount = Fin 44998,
       iv_tax = rnd (89996 / 25), iv_status = ''pending'', iv_due_date = Some (now + 1728000 * sec), iv_created_at = now\<rparr>]"

definition seed_tickets :: "(int \<times> customer_row) list \<Rightarrow> int \<Rightarrow> ticket_row list" where
  "seed_tickets cs now =
    [\<lparr>t_customer_id = Some (fst (cs ! 1)), t_subject = ''Billing discrepancy'', t_description = Some ''Invoice total mismatch'',
       t_priority = ''high'', t_status = ''open'', t_assigned_to = Some ''manager'', t_created_at = now, t_updated_at = now\<rparr>,
     \<lparr>t_customer_id = Some (fst (cs ! 3)), t_subject = ''Backlog escalation'', t_description = Some ''Drone shop order still pending'',
       t_priority = ''medium'', t_status = ''open'', t_assigned_to = Some ''ops'', t_created_at = now, t_updated_at = now\<rparr>]"

definition seed_warehouses :: "int \<Rightarrow> warehouse_row list" where
  "seed_warehouses now =
    [\<lparr>wh_name = ''East Hub'', wh_region = ''us-east'', wh_address = Some ''Ashburn'', wh_capacity = 20000,
       wh_current_stock = 12000, wh_is_active = 1, wh_created_at = now\<rparr>,
     \<lparr>wh_name = ''EU Hub'', wh_region = ''eu-central'', wh_address = Some ''Frankfurt'', wh_capacity = 15000,
       wh_current_stock = 7000, wh_is_active = 1, wh_created_at = now\<rparr>]"

definition seed_shipment :: "int list \<Rightarrow> int \<Rightarrow> shipment_row" where
  "seed_shipment os now =
    \<lparr>sh_order_id = Some (os ! 1), sh_tracking_number = Some ''TRK-2026-0002'', sh_carrier = Some ''fedex'',
     sh_status = Some ''processing'', sh_origin_region = Some ''us-east'', sh_destination_region = Some ''us-west'',
     sh_weight_kg = rnd (12 / 5), sh_shipping_cost = Fin 149, sh_estimated_delivery = Some (now + 172800 * sec),
     sh_actual_delivery = None, sh_created_at = now, sh_updated_at = now\<rparr>"

definition seed_campaign :: "int \<Rightarrow> campaign_row" where
  "seed_campaign now =
    \<lparr>cp_name = ''Security Webinar Series'', cp_campaign_type = ''email'', cp_status = ''active'',
     cp_budget = Fin 15000, cp_spent = Fin 8200, cp_target_audience = Some ''CISOs and security teams'',
     cp_start_date = None, cp_end_date = None, cp_created_by = None, cp_created_at = now, cp_updated_at = now\<rparr>"

definition seed_leads :: "int \<Rightarrow> (int \<times> customer_row) list \<Rightarrow> int \<Rightarrow> lead_row list" where
  "seed_leads campaign cs now =
    [\<lparr>ld_campaign_id = Some campaign, ld_customer_id = Some (fst (cs ! 0)), ld_email = ''alice@acme.com'', ld_name = Some ''Alice'',
       ld_source = Some ''web'', ld_status = Some ''qualified'', ld_score = Some 86, ld_notes = None, ld_converted_at = None, ld_created_at = now\<rparr>,
     \<lparr>ld_campaign_id = Some campaign, ld_customer_id = Some (fst (cs ! 1)), ld_email = ''bob@globex.com'', ld_name = Some ''Bob'',
       ld_source = Some ''referral'', ld_status = Some ''new'', ld_score = Some 55, ld_notes = None, ld_converted_at = None, ld_created_at = now\<rparr>]"

definition seed_audit :: "int \<Rightarrow> audit_row" where
  "seed_audit now =
    \<lparr>al_user_id = None, al_action = ''bootstrap.seed'', al_resource = Some ''database'',
     al_details = Some ''Initial demo dataset loaded'', al_ip_address = Some ''127.0.0.1'', al_user_agent = None,
     al_trace_id = Some ''bootstrap-seed'', al_created_at = now\<rparr>"

definition demo_shops :: "int \<Rightarrow> shop_row list" where
  "demo_shops now =
    [\<lparr>s_name = ''Primary Storefront'', s_address = ''1 Platform Plaza, Example City'', s_coordinates = ''50.1109,8.6821'',
       s_contact_email = ''ops@example.invalid'', s_contact_phone = ''+49-69-555-0101'', s_is_active = 1, s_slug = ''primary-store'',
       s_storefront_url = ''https://shop.example.cloud'', s_crm_base_url = ''https://crm.example.cloud'', s_region = ''eu-central'',
       s_currency = ''USD'', s_status = ''active'', s_notes = Some ''Primary public storefront managed from the CRM portal.'', s_created_at = now, s_updated_at = now\<rparr>,
     \<lparr>s_name = ''Lab Storefront'', s_address = ''77 Flight Lab Avenue, Example East'', s_coordinates = ''39.0438,-77.4874'',
       s_contact_email = ''lab@example.invalid'', s_contact_phone = ''+1-703-555-0102'', s_is_active = 0, s_slug = ''lab-store'',
       s_storefront_url = ''https://shop-lab.example.cloud'', s_crm_base_url = ''https://crm.example.cloud'', s_region = ''us-east'',
       s_currency = ''USD'', s_status = ''maintenance'', s_notes = Some ''Sandbox shop used for launch rehearsals and catalog QA.'', s_created_at = now, s_updated_at = now\<rparr>]"

subsection \<open>Startup\<close>

definition bootstrap_users :: "env \<Rightarrow> (string \<times> string \<times> string \<times> string) list handler" where
  "bootstrap_users E =
     (let configured = py_strip (bootstrap_admin_password (cfg E));
          admin = (\<lambda>p. [(''admin'', p, ''admin'', ''admin@crm-enterprise.local'')]) in
      if configured \<noteq> [] then ret (admin configured)
      else if is_production (cfg E)
      then raise (RuntimeError ''BOOTSTRAP_ADMIN_PASSWORD is required before bootstrapping the CRM database.'')
      else bind (draw E) (\<lambda>p.
        seq (emit (LoggerWarning ''BOOTSTRAP_ADMIN_PASSWORD not set in development'' [p])) (ret (admin p))))"

text \<open>\<open>setattr\<close> of every payload field; the row is written, and stamped, only where one changed.\<close>

definition upsert_demo_shop :: "int \<Rightarrow> shop_row \<Rightarrow> (int \<times> shop_row) list \<Rightarrow> (int \<times> shop_row) list handler" where
  "upsert_demo_shop now payload acc =
     bind (query (\<lambda>d. tbl_find (\<lambda>r. s_slug r = s_slug payload) (shops d))) (\<lambda>found.
     case found of
       None \<Rightarrow> bind (on_db (add_shop payload)) (\<lambda>i. ret (acc @ [(i, payload)]))
     | Some (i, old) \<Rightarrow>
         (let new = payload\<lparr>s_created_at := s_created_at old, s_updated_at := s_updated_at old\<rparr> in
          if new = old then ret (acc @ [(i, old)])
          else seq (on_db (put_shop i (new\<lparr>s_updated_at := now\<rparr>))) (ret (acc @ [(i, new\<lparr>s_updated_at := now\<rparr>)]))))"

text \<open>\<open>UPDATE products SET shop_id = :i WHERE shop_id IS NULL\<close>.\<close>

definition adopt_products :: "int \<Rightarrow> (db, unit) pm" where
  "adopt_products i d =
     (if \<not> ref_ok (Some i) (shops d) then (Inl (fk_violation ''products_shop_id_fkey''), d) else
     (Inr (), d\<lparr>products := tbl_map (\<lambda>_ p. if p_shop_id p = None then p\<lparr>p_shop_id := Some i\<rparr> else p) (products d)\<rparr>))"

definition primary_shop :: "(int \<times> shop_row) list \<Rightarrow> int" where
  "primary_shop ss = (case find (\<lambda>p. s_slug (snd p) = ''primary-store'') ss of Some p \<Rightarrow> fst p | None \<Rightarrow> fst (hd ss))"

definition ensure_demo_shops :: "(int \<times> shop_row) list handler" where
  "ensure_demo_shops = bind (gets w_now) (\<lambda>now.
     bind (foldM (upsert_demo_shop now) (demo_shops now) []) (\<lambda>ss.
     seq (on_db (adopt_products (primary_shop ss))) (ret ss)))"

text \<open>\<open>UPDATE users SET password_hash = :hash, role = :role WHERE email = :email\<close>.\<close>

definition set_credentials :: "string \<Rightarrow> string \<Rightarrow> string \<Rightarrow> (db, unit) pm" where
  "set_credentials email h role d = (Inr (), d\<lparr>users := tbl_map (\<lambda>_ r.
     if u_email r = email then r\<lparr>u_password_hash := h, u_role := role\<rparr> else r) (users d)\<rparr>)"

definition reconcile_user :: "env \<Rightarrow> string \<times> string \<times> string \<times> string \<Rightarrow> unit \<Rightarrow> unit handler" where
  "reconcile_user E entry u = (case entry of (username, password, role, email) \<Rightarrow>
     bind (query (\<lambda>d. tbl_find (\<lambda>r. u_email r = email) (users d))) (\<lambda>found.
     if found \<noteq> None then on_db (set_credentials email (bcrypt_hash E password) role) else
     bind (query (\<lambda>d. tbl_find (\<lambda>r. u_username r = username) (users d))) (\<lambda>taken.
     bind (gets w_now) (\<lambda>now.
     bind (on_db (add_user \<lparr>u_username = (if taken \<noteq> None then ''crm-'' @ username else username), u_email = email,
         u_password_hash = bcrypt_hash E password, u_role = role, u_is_active = None, u_last_login = None,
         u_created_at = now\<rparr>)) (\<lambda>_. ret ())))))"

text \<open>\<open>session.add_all(...)\<close> and \<open>flush()\<close>: the new ids.\<close>

definition add_all :: "('r \<Rightarrow> (db, int) pm) \<Rightarrow> 'r list \<Rightarrow> int list handler" where
  "add_all add rs = foldM (\<lambda>r acc. bind (on_db (add r)) (\<lambda>i. ret (acc @ [i]))) rs []"

definition seed_user :: "env \<Rightarrow> int \<Rightarrow> string \<times> string \<times> string \<times> string \<Rightarrow> user_row" where
  "seed_user E now entry = (case entry of (username, password, role, email) \<Rightarrow>
     \<lparr>u_username = username, u_email = email, u_password_hash = bcrypt_hash E password, u_role = role,
      u_is_active = Some 1, u_last_login = None, u_created_at = now\<rparr>)"

definition seed_database :: "env \<Rightarrow> (string \<times> string \<times> string \<times> string) list \<Rightarrow> unit handler" where
  "seed_database E us = bind (gets w_now) (\<lambda>now.
     bind (add_all add_user (map (seed_user E now) us)) (\<lambda>_.
     bind ensure_demo_shops (\<lambda>ss.
     bind (add_all add_customer (seed_customers now)) (\<lambda>cids.
     let cs = zip cids (seed_customers now) in
     bind (add_all add_product (seed_products (primary_shop ss) now)) (\<lambda>ps.
     bind (add_all add_order (seed_orders cs now)) (\<lambda>os.
     bind (add_all add_order_item (seed_items os ps)) (\<lambda>_.
     bind (add_all add_invoice (seed_invoices os now)) (\<lambda>_.
     bind (add_all add_ticket (seed_tickets cs now)) (\<lambda>_.
     bind (add_all add_warehouse (seed_warehouses now)) (\<lambda>_.
     bind (add_all add_shipment [seed_shipment os now]) (\<lambda>_.
     bind (add_all add_campaign [seed_campaign now]) (\<lambda>_.
     bind (query (\<lambda>d. rows (campaigns d))) (\<lambda>found.
     bind (case found of [] \<Rightarrow> ret [] | (i, _) # _ \<Rightarrow> add_all add_lead (seed_leads i cs now)) (\<lambda>_.
     bind (on_db (add_audit (seed_audit now))) (\<lambda>_. ret ())))))))))))))))"

text \<open>\<open>if existing_user:\<close>, on the id of some user.\<close>

definition has_user :: "db \<Rightarrow> bool" where
  "has_user d = (case rows (users d) of [] \<Rightarrow> False | (i, _) # _ \<Rightarrow> i \<noteq> 0)"

definition bootstrap_database :: "env \<Rightarrow> unit handler" where
  "bootstrap_database E =
     (if \<not> engine_ready E then raise AttributeError else
      bind (gets w_db_down) (\<lambda>down. case down of Some m \<Rightarrow> raise (DBAPIError m) | None \<Rightarrow>
      bind (bootstrap_users E) (\<lambda>us.
      session_factory E (bind (query has_user) (\<lambda>existing.
        if existing then seq (foldM (reconcile_user E) us ()) (bind ensure_demo_shops (\<lambda>_. ret ()))
        else seed_database E us)))))"

subsection \<open>The background import\<close>

text \<open>One round of \<open>_orders_sync_loop\<close>; the loop, which never ends, cut off after \<open>n\<close> rounds.\<close>

definition orders_sync_round :: "env \<Rightarrow> unit handler" where
  "orders_sync_round E =
     seq (catch (bind (sync_external_orders E ''background-sync'' 200) (\<lambda>_. ret ()))
       (\<lambda>e. push_log ''ERROR'' ''Background order sync failed'' [(''error.message'', JStr (exc_str e))]))
     (sleep (max (orders_sync_interval_seconds (cfg E)) 60 * sec))"

fun orders_sync_rounds :: "env \<Rightarrow> nat \<Rightarrow> unit handler" where
  "orders_sync_rounds E 0 = ret ()"
| "orders_sync_rounds E (Suc n) = seq (orders_sync_round E) (orders_sync_rounds E n)"

definition orders_sync_loop :: "env \<Rightarrow> nat \<Rightarrow> unit handler" where
  "orders_sync_loop E n = seq (sleep (10 * sec)) (orders_sync_rounds E n)"

subsection \<open>Safety\<close>

lemma refs_map_or:
  assumes "refs f src tgt" and "\<And>i r. f (g i r) = f r \<or> ref_ok (f (g i r)) tgt"
  shows "refs f (tbl_map g src) tgt"
proof -
  have "ref_ok (f (g i r)) tgt" if "(i, r) \<in> set (rows src)" for i r
    using assms(1) assms(2) [of i r] that by (force simp: refs_def)
  then show ?thesis by (auto simp: refs_def tbl_map_def)
qed

lemma adopt_products_ok [safe_intro]: "stmt_ok A (adopt_products i)"
  by (simp add: stmt_ok_def adopt_products_def db_invs seq_le_def uniq_map refs_map_or)

lemma set_credentials_ok [safe_intro]: "stmt_ok A (set_credentials e h r)"
  by (simp add: stmt_ok_def set_credentials_def db_invs seq_le_def uniq_map)

lemma safe_bootstrap_users [safe_intro]: "W.safe E A (bootstrap_users E)"
  unfolding bootstrap_users_def Let_def by (intro safe_intro)

lemma safe_upsert_demo_shop [safe_intro]: "W.safe E A (upsert_demo_shop n p acc)"
  unfolding upsert_demo_shop_def Let_def by (intro safe_intro)

lemma safe_ensure_demo_shops [safe_intro]: "W.safe E A ensure_demo_shops"
  unfolding ensure_demo_shops_def by (intro safe_intro)

lemma safe_reconcile_user [safe_intro]: "W.safe E A (reconcile_user E e u)"
  unfolding reconcile_user_def by (intro safe_intro)

lemma safe_add_all [safe_intro]: "(\<And>r. stmt_ok A (add r)) \<Longrightarrow> W.safe E A (add_all add rs)"
  unfolding add_all_def by (intro safe_intro)

lemma safe_seed_database [safe_intro]: "W.safe E A (seed_database E us)"
  unfolding seed_database_def Let_def by (intro safe_intro)

lemma safe_bootstrap_database [safe_intro]: "W.safe E A (bootstrap_database E)"
  unfolding bootstrap_database_def by (intro safe_intro)

lemma safe_orders_sync_round [safe_intro]: "W.safe E A (orders_sync_round E)"
  unfolding orders_sync_round_def by (intro safe_intro)

lemma safe_orders_sync_rounds [safe_intro]: "W.safe E A (orders_sync_rounds E n)"
proof (induction n)
  case (Suc n)
  then show ?case by (simp only: orders_sync_rounds.simps) (intro safe_intro)
qed (simp only: orders_sync_rounds.simps safe_intro)

lemma safe_orders_sync_loop [safe_intro]: "W.safe E A (orders_sync_loop E n)"
  unfolding orders_sync_loop_def by (intro safe_intro)

end
