(* ===== verification/Simulation.thy ===== *)
theory Simulation
  imports Bootstrap
begin

text \<open>
  \<open>server/modules/simulation.py\<close>: the simulation state and its toggles, one-shot incidents, generated
  demo data and the proxy to the shop. What the code draws at random (rows, integers, fractions) is
  an argument, indexed like the identifiers by a counter in the world. The statements that generate data use
  \<open>SYSDATE\<close> and \<open>DBMS_RANDOM\<close>, which only Oracle has: on PostgreSQL they fail.
\<close>

subsection \<open>Numbers in request bodies\<close>

fun jnum :: "json \<Rightarrow> pyfloat option" where
  "jnum (JInt n) = Some (Fin (of_int n))"
| "jnum (JBool b) = Some (Fin (if b then 1 else 0))"
| "jnum (JFloat f) = Some f"
| "jnum _ = None"

definition jlt :: "json \<Rightarrow> json \<Rightarrow> bool res" where
  "jlt a b = (case (jnum a, jnum b) of (Some x, Some y) \<Rightarrow> Inr (flt x y) | _ \<Rightarrow> Inl TypeError)"

text \<open>Python's \<open>min(a, b)\<close> and \<open>max(a, b)\<close>: the first argument unless the second is smaller, or greater.\<close>

definition py_min :: "json \<Rightarrow> json \<Rightarrow> json res" where
  "py_min a b = res_bind (jlt b a) (\<lambda>c. Inr (if c then b else a))"

definition py_max :: "json \<Rightarrow> json \<Rightarrow> json res" where
  "py_max a b = res_bind (jlt a b) (\<lambda>c. Inr (if c then b else a))"

text \<open>\<open>range(n)\<close>, as its length; and an argument of \<open>randint\<close> (Python 3.11 takes integral floats).\<close>

fun range_len :: "json \<Rightarrow> nat res" where
  "range_len (JInt n) = Inr (nat n)"
| "range_len (JBool b) = Inr (if b then 1 else 0)"
| "range_len _ = Inl TypeError"

fun randint_bound :: "json \<Rightarrow> int res" where
  "randint_bound (JInt n) = Inr n"
| "randint_bound (JBool b) = Inr (if b then 1 else 0)"
| "randint_bound (JFloat (Fin q)) = (if q = of_int \<lfloor>q\<rfloor> then Inr \<lfloor>q\<rfloor> else Inl (ValueError ''non-integer stop for randrange()''))"
| "randint_bound (JFloat NaN) = Inl (ValueError ''cannot convert float NaN to integer'')"
| "randint_bound (JFloat _) = Inl OverflowError"
| "randint_bound _ = Inl TypeError"

text \<open>\<open>asyncio.sleep\<close> of a number of seconds: no time passes for one that is not positive.\<close>

definition sleep_secs :: "json \<Rightarrow> unit handler" where
  "sleep_secs v = (case jnum v of
     None \<Rightarrow> raise TypeError
   | Some (Fin q) \<Rightarrow> if 0 < q then sleep \<lfloor>q * of_int sec\<rfloor> else ret ()
   | Some _ \<Rightarrow> ret ())"

text \<open>The fields of a JSON body, none where it is absent or malformed.\<close>

definition safe_json :: "request \<Rightarrow> json" where
  "safe_json rq =
     (if \<not> startswith (header_or rq ''content-type'' []) ''application/json'' then JObj []
      else case rq_body rq of Inl e \<Rightarrow> JObj [] | Inr j \<Rightarrow> j)"

subsection \<open>The state\<close>

definition initial_sim :: "(string \<times> json) list" where
  "initial_sim = [(''db_latency'', JBool False), (''db_disconnect'', JBool False), (''memory_leak'', JBool False),
     (''cpu_spike'', JBool False), (''slow_queries'', JBool False), (''error_rate'', JFloat (Fin 0))]"

record sim_config =
  sc_db_latency :: "bool option"
  sc_db_disconnect :: "bool option"
  sc_memory_leak :: "bool option"
  sc_cpu_spike :: "bool option"
  sc_slow_queries :: "bool option"
  sc_error_rate :: "pyfloat option"

text \<open>\<open>config.model_dump(exclude_none=True)\<close>.\<close>

definition dump_config :: "sim_config \<Rightarrow> (string \<times> json) list" where
  "dump_config c =
     (let flag = (\<lambda>k v. case v of None \<Rightarrow> [] | Some b \<Rightarrow> [(k, JBool b)]) in
      flag ''db_latency'' (sc_db_latency c) @ flag ''db_disconnect'' (sc_db_disconnect c) @
      flag ''memory_leak'' (sc_memory_leak c) @ flag ''cpu_spike'' (sc_cpu_spike c) @
      flag ''slow_queries'' (sc_slow_queries c) @
      (case sc_error_rate c of None \<Rightarrow> [] | Some f \<Rightarrow> [(''error_rate'', JFloat f)]))"

definition sim_set :: "string \<Rightarrow> json \<Rightarrow> unit handler" where
  "sim_set k v = modify (\<lambda>w. w\<lparr>w_sim := alist_set k v (w_sim w)\<rparr>)"

definition simulation_status :: "json handler" where
  "simulation_status = bind (gets w_sim) (\<lambda>s. ret (JObj [(''simulation'', JObj s)]))"

definition configure_one :: "string \<times> json \<Rightarrow> (string \<times> json) list \<Rightarrow> (string \<times> json) list handler" where
  "configure_one p changes = (case p of (k, v) \<Rightarrow>
     bind (gets w_sim) (\<lambda>s. seq (sim_set k v)
       (ret (alist_set k (JObj [(''old'', case map_of s k of None \<Rightarrow> JNull | Some o' \<Rightarrow> o'), (''new'', v)]) changes))))"

definition configure_simulation :: "env \<Rightarrow> sim_config \<Rightarrow> json handler" where
  "configure_simulation E c = bind (foldM configure_one (dump_config c) []) (\<lambda>changes.
     seq (push_log ''WARNING'' ''Simulation configuration changed'' [(''simulation.changes'', JStr (jstr (rep E) (JObj changes)))])
     (bind (gets w_sim) (\<lambda>s. ret (JObj [(''status'', JStr ''updated''), (''changes'', JObj changes), (''current'', JObj s)]))))"

definition reset_value :: "json \<Rightarrow> json" where
  "reset_value v = (case v of JBool b \<Rightarrow> JBool False | _ \<Rightarrow> JFloat (Fin 0))"

definition reset_simulation :: "json handler" where
  "reset_simulation =
     seq (modify (\<lambda>w. w\<lparr>w_sim := map (\<lambda>(k, v). (k, reset_value v)) (w_sim w)\<rparr>))
     (seq (push_log ''INFO'' ''Simulation state reset to defaults'' [])
     (bind (gets w_sim) (\<lambda>s. ret (JObj [(''status'', JStr ''reset''), (''current'', JObj s)]))))"

subsection \<open>Incidents\<close>

definition trigger_db_latency :: "env \<Rightarrow> request \<Rightarrow> json handler" where
  "trigger_db_latency E rq =
     bind (lift (jget_or (safe_json rq) ''delay_seconds'' (JFloat (Fin 3)))) (\<lambda>v.
     bind (lift (py_min v (JFloat (Fin 30)))) (\<lambda>delay.
     seq (sleep_secs delay)
     (seq (push_log ''WARNING'' (''Simulated DB latency: '' @ jstr (rep E) delay @ ''s'')
        [(''simulation.type'', JStr ''db_latency''), (''simulation.delay'', delay)])
     (ret (JObj [(''status'', JStr ''completed''), (''type'', JStr ''db_latency''), (''delay'', delay)])))))"

definition trigger_db_disconnect :: "json handler" where
  "trigger_db_disconnect =
     seq (sim_set ''db_disconnect'' (JBool True))
     (seq (push_log ''ERROR'' ''Simulated DB disconnect activated'' [(''simulation.type'', JStr ''db_disconnect'')])
     (seq (sleep (10 * sec))
     (seq (sim_set ''db_disconnect'' (JBool False))
     (ret (JObj [(''status'', JStr ''completed''), (''type'', JStr ''db_disconnect''), (''duration'', JStr ''10s'')])))))"

definition burst_log :: "env \<Rightarrow> json \<Rightarrow> nat \<Rightarrow> unit \<Rightarrow> unit handler" where
  "burst_log E count i u = push_log ''ERROR'' (''Simulated error '' @ int_str (int i + 1) @ ''/'' @ jstr (rep E) count)
     [(''simulation.type'', JStr ''error_burst''), (''simulation.index'', JInt (int i))]"

definition trigger_error_burst :: "env \<Rightarrow> request \<Rightarrow> json handler" where
  "trigger_error_burst E rq =
     bind (lift (jget_or (safe_json rq) ''count'' (JInt 10))) (\<lambda>v.
     bind (lift (py_min v (JInt 100))) (\<lambda>count.
     bind (lift (range_len count)) (\<lambda>n.
     seq (foldM (burst_log E count) [0..<n] ())
     (ret (JObj [(''status'', JStr ''completed''), (''type'', JStr ''error_burst''), (''errors_generated'', count)])))))"

definition trigger_slow_query :: "env \<Rightarrow> request \<Rightarrow> json handler" where
  "trigger_slow_query E rq =
     bind (lift (jget_or (safe_json rq) ''delay_seconds'' (JFloat (Fin 2)))) (\<lambda>v.
     bind (lift (py_min v (JFloat (Fin 10)))) (\<lambda>delay.
     seq (sleep_secs delay)
     (bind (session_factory E (query (\<lambda>d. length (rows (orders d))))) (\<lambda>_.
      seq (push_log ''WARNING'' (''Simulated slow query: '' @ jstr (rep E) delay @ ''s'') [])
     (ret (JObj [(''status'', JStr ''completed''), (''type'', JStr ''slow_query''), (''delay'', delay)])))))) "

definition trigger_n_plus_one :: "env \<Rightarrow> request \<Rightarrow> json handler" where
  "trigger_n_plus_one E rq =
     bind (lift (jget_or (safe_json rq) ''count'' (JInt 50))) (\<lambda>v.
     bind (lift (py_min v (JInt 200))) (\<lambda>n.
     bind (session_factory E (bind (lift (range_len n)) (\<lambda>k. query (\<lambda>d. map (\<lambda>i. tbl_get (orders d) (int i + 1)) [0..<k])))) (\<lambda>_.
     seq (push_log ''WARNING'' (''Simulated N+1: '' @ jstr (rep E) n @ '' individual queries'') [])
     (ret (JObj [(''status'', JStr ''completed''), (''type'', JStr ''n_plus_one''), (''queries_executed'', n)])))))"

definition trigger_app_exception :: "json handler" where
  "trigger_app_exception =
     seq (push_log ''ERROR'' ''Simulated app exception: Simulated application exception for APM testing''
       [(''simulation.type'', JStr ''app_exception''), (''error.type'', JStr ''ValueError'')])
     (ret (JObj [(''status'', JStr ''completed''), (''type'', JStr ''app_exception''),
        (''error'', JStr ''Simulated application exception for APM testing'')]))"

definition trigger_db_error :: "json handler" where
  "trigger_db_error =
     seq (sim_set ''db_disconnect'' (JBool True))
     (seq (push_log ''ERROR'' ''Simulated DB error (5s disconnect)'' [(''simulation.type'', JStr ''db_error'')])
     (seq (sleep (5 * sec))
     (seq (sim_set ''db_disconnect'' (JBool False))
     (ret (JObj [(''status'', JStr ''completed''), (''type'', JStr ''db_error''), (''duration'', JStr ''5s'')])))))"

subsection \<open>Random choices\<close>

text \<open>
  The n-th draw: a row number, an integer, a fraction of \<open>random()\<close>. \<open>sr_money\<close> prints an amount with
  thousands separators; \<open>sr_class\<close> tells the failures to connect or in time by their class.
\<close>

record sim_random =
  sr_nat :: "nat \<Rightarrow> nat"
  sr_unit :: "nat \<Rightarrow> pyfloat"
  sr_money :: "pyfloat \<Rightarrow> string"
  sr_class :: "string \<Rightarrow> string option"

definition next_draw :: "nat handler" where
  "next_draw = bind (gets w_drawn) (\<lambda>n. seq (modify (\<lambda>w. w\<lparr>w_drawn := n + 1\<rparr>)) (ret n))"

definition randint :: "sim_random \<Rightarrow> int \<Rightarrow> int \<Rightarrow> int handler" where
  "randint R a b = (if b < a then raise (ValueError ''empty range for randrange()'') else
     bind next_draw (\<lambda>n. ret (a + int (sr_nat R n) mod (b - a + 1))))"

definition uniform :: "sim_random \<Rightarrow> pyfloat \<Rightarrow> pyfloat \<Rightarrow> pyfloat handler" where
  "uniform R a b = bind next_draw (\<lambda>n. ret (fadd a (fmul (fsub b a) (sr_unit R n))))"

definition choice :: "sim_random \<Rightarrow> 'x list \<Rightarrow> 'x handler" where
  "choice R xs = bind next_draw (\<lambda>n. ret (xs ! (sr_nat R n mod length xs)))"

definition pick :: "sim_random \<Rightarrow> 'x list \<Rightarrow> 'x option handler" where
  "pick R xs = (if xs = [] then ret None else bind (choice R xs) (\<lambda>x. ret (Some x)))"

text \<open>A statement with \<open>SYSDATE\<close> or \<open>DBMS_RANDOM\<close>.\<close>

definition oracle_only :: "env \<Rightarrow> unit handler" where
  "oracle_only E = (if use_postgres (cfg E) then raise (DBAPIError ''syntax error or undefined column'') else ret ())"

definition random_customer_id :: "env \<Rightarrow> sim_random \<Rightarrow> int option handler" where
  "random_customer_id E R = session_factory E (seq (oracle_only E)
     (bind (query (\<lambda>d. map fst (rows (customers d)))) (pick R)))"

definition random_product :: "env \<Rightarrow> sim_random \<Rightarrow> (int \<times> pyfloat) option handler" where
  "random_product E R = session_factory E (seq (oracle_only E)
     (bind (query (\<lambda>d. map (\<lambda>(i, p). (i, p_price p)) (rows (products d)))) (pick R)))"

subsection \<open>Generated orders\<close>

text \<open>The row of a generated order, and its single item.\<close>

definition sim_order :: "int option \<Rightarrow> pyfloat \<Rightarrow> string option \<Rightarrow> string \<Rightarrow> string \<Rightarrow> string option \<Rightarrow> string \<Rightarrow> string option \<Rightarrow> int option \<Rightarrow> int \<Rightarrow> order_row" where
  "sim_order cid t status sid sync backlog corr notes synced created =
     \<lparr>o_customer_id = cid, o_total = t, o_status = status, o_notes = notes, o_shipping_address = None,
      o_source_system = Some ''crm-simulation'', o_source_order_id = Some sid, o_source_customer_email = None,
      o_sync_status = Some sync, o_backlog_status = backlog, o_sync_error = None, o_source_payload = None,
      o_correlation_id = Some corr, o_last_synced_at = synced, o_created_at = created\<rparr>"

text \<open>\<open>SELECT id FROM orders WHERE source_order_id = :sid\<close>.\<close>

definition order_of_source :: "string \<Rightarrow> db \<Rightarrow> int option" where
  "order_of_source sid d = map_option fst (tbl_find (\<lambda>r. o_source_order_id r = Some sid) (orders d))"

definition add_sim_item :: "int \<Rightarrow> int option \<Rightarrow> int \<Rightarrow> pyfloat \<Rightarrow> unit handler" where
  "add_sim_item oid pid qty price = bind (on_db (add_order_item
     \<lparr>oi_order_id = Some oid, oi_product_id = pid, oi_quantity = qty, oi_unit_price = price\<rparr>)) (\<lambda>_. ret ())"

record sim_request =
  sq_customer :: json
  sq_product :: json
  sq_status :: json
  sq_high_value :: bool
  sq_max_quantity :: json

definition sim_request_of :: "json \<Rightarrow> sim_request res" where
  "sim_request_of body =
     res_bind (jget body ''customer_id'') (\<lambda>c. res_bind (jget body ''product_id'') (\<lambda>p.
     res_bind (jget_or body ''status'' (JStr ''processing'')) (\<lambda>s. res_bind (jget_or body ''high_value'' (JBool False)) (\<lambda>h.
     res_bind (jget_or body ''max_quantity'' (JInt 5)) (\<lambda>q.
     Inr \<lparr>sq_customer = c, sq_product = p, sq_status = s, sq_high_value = truthy h, sq_max_quantity = q\<rparr>)))))"

text \<open>\<open>customer_id or await _random_customer_id()\<close>, as the value bound to the column.\<close>

definition customer_or_random :: "env \<Rightarrow> sim_random \<Rightarrow> json \<Rightarrow> json handler" where
  "customer_or_random E R c = (if truthy c then ret c else
     bind (random_customer_id E R) (\<lambda>found. ret (case found of None \<Rightarrow> JNull | Some i \<Rightarrow> JInt i)))"

text \<open>One order of the loop, or the reason it ends with.\<close>

definition generate_order :: "env \<Rightarrow> sim_random \<Rightarrow> sim_request \<Rightarrow> (string + int option \<times> pyfloat) handler" where
  "generate_order E R q =
     bind (customer_or_random E R (sq_customer q)) (\<lambda>cid.
     if \<not> truthy cid then ret (Inl ''no customers in database'') else
     bind (random_product E R) (\<lambda>prod.
     case prod of None \<Rightarrow> ret (Inl ''no products in database'')
     | Some (i, listed) \<Rightarrow>
       let pid = (if truthy (sq_product q) then sq_product q else JInt i) in
       bind (lift (randint_bound (sq_max_quantity q))) (\<lambda>bound.
       bind (randint R 1 bound) (\<lambda>few.
       bind (if sq_high_value q then uniform R (Fin 10000) (Fin 30000) else ret listed) (\<lambda>price.
       bind (if sq_high_value q then randint R 2 5 else ret few) (\<lambda>qty.
       bind (lift (int_mul qty price)) (\<lambda>line.
       let order_total = fround2 line in
       bind (draw E) (\<lambda>u. let sid = ''sim-'' @ take 12 u in
       bind (build_correlation_id E ''sim'') (\<lambda>corr.
       seq (oracle_only E)
       (bind (lift (int_col cid)) (\<lambda>c. bind (lift (text_col (sq_status q))) (\<lambda>status.
       bind (gets w_now) (\<lambda>now.
       bind (on_db (add_order (sim_order c order_total status sid ''local'' (Some ''current'') corr None None now))) (\<lambda>_.
       bind (query (order_of_source sid)) (\<lambda>oid.
       case oid of None \<Rightarrow> ret (Inr (None, order_total))
       | Some o' \<Rightarrow> if o' = 0 then ret (Inr (None, order_total)) else
           bind (lift (int_col pid)) (\<lambda>p. seq (add_sim_item o' p qty price) (ret (Inr (Some o', order_total)))))))))))))))))))"

fun generate_loop :: "env \<Rightarrow> sim_random \<Rightarrow> sim_request \<Rightarrow> nat \<Rightarrow> int list \<Rightarrow> pyfloat \<Rightarrow> (string + int list \<times> pyfloat) handler" where
  "generate_loop E R q 0 ids t = ret (Inr (ids, t))"
| "generate_loop E R q (Suc n) ids t = bind (generate_order E R q) (\<lambda>outcome.
     case outcome of Inl reason \<Rightarrow> ret (Inl reason)
     | Inr (oid, order_total) \<Rightarrow>
         generate_loop E R q n (case oid of None \<Rightarrow> ids | Some o' \<Rightarrow> ids @ [o']) (fadd t order_total))"

text \<open>A return before the commit closes the session, which rolls back.\<close>

definition uncommitted :: "('e + 'a) handler \<Rightarrow> ('e + 'a) handler" where
  "uncommitted m w = (case m w of
     (Inr (Inl e), v) \<Rightarrow> (Inr (Inl e), v\<lparr>w_db := db_rollback (w_db w) (w_db v)\<rparr>)
   | (r, v) \<Rightarrow> (r, v))"

definition sim_error :: "string \<Rightarrow> json" where
  "sim_error reason = JObj [(''status'', JStr ''error''), (''reason'', JStr reason)]"

definition bounded_count :: "json \<Rightarrow> int \<Rightarrow> int \<Rightarrow> json res" where
  "bounded_count body dflt most = res_bind (jget_or body ''count'' (JInt dflt)) (\<lambda>v.
     res_bind (py_min v (JInt most)) (\<lambda>c. py_max (JInt 1) c))"

definition generate_orders :: "env \<Rightarrow> sim_random \<Rightarrow> request \<Rightarrow> json handler" where
  "generate_orders E R rq =
     bind (lift (bounded_count (safe_json rq) 5 50)) (\<lambda>count.
     bind (lift (sim_request_of (safe_json rq))) (\<lambda>q.
     bind (session_factory E (uncommitted (bind (lift (range_len count)) (\<lambda>n. generate_loop E R q n [] (Fin 0))))) (\<lambda>outcome.
     case outcome of Inl reason \<Rightarrow> ret (sim_error reason)
     | Inr (ids, t) \<Rightarrow>
         seq (push_log ''INFO'' (''Simulation: generated '' @ jstr (rep E) count @ '' orders'')
           [(''simulation.type'', JStr ''generate_orders''), (''simulation.count'', count), (''simulation.total_value'', JFloat t)])
         (ret (JObj [(''status'', JStr ''completed''), (''type'', JStr ''generate_orders''),
            (''orders_created'', JInt (int (length ids))), (''total_value'', JFloat (fround2 t)), (''order_ids'', JArr (map JInt ids))])))))"

definition generate_backlog_order :: "env \<Rightarrow> sim_random \<Rightarrow> nat \<Rightarrow> int list \<Rightarrow> int list handler" where
  "generate_backlog_order E R k ids =
     bind (random_customer_id E R) (\<lambda>cid.
     bind (random_product E R) (\<lambda>prod.
     case (cid, prod) of
       (Some c, Some (pid, price)) \<Rightarrow>
         if c = 0 then ret ids else
         bind (randint R 1 3) (\<lambda>qty.
         bind (lift (int_mul qty price)) (\<lambda>line.
         bind (draw E) (\<lambda>u. let sid = ''sim-backlog-'' @ take 8 u in
         bind (gets w_now) (\<lambda>now.
         bind (randint R 2 48) (\<lambda>hours. let stale = now - hours * 3600 * sec in
         bind (build_correlation_id E ''sim-backlog'') (\<lambda>corr.
         bind (on_db (add_order (sim_order (Some c) (fround2 line) (Some ''pending'') sid ''pending'' (Some ''backlog'')
           corr None (Some stale) stale))) (\<lambda>_.
         bind (query (order_of_source sid)) (\<lambda>oid.
         case oid of None \<Rightarrow> ret ids
         | Some o' \<Rightarrow> seq (add_sim_item o' (Some pid) qty price) (ret (ids @ [o'])))))))))) 
     | _ \<Rightarrow> ret ids))"

definition generate_backlog :: "env \<Rightarrow> sim_random \<Rightarrow> request \<Rightarrow> json handler" where
  "generate_backlog E R rq =
     bind (lift (bounded_count (safe_json rq) 5 20)) (\<lambda>count.
     bind (session_factory E (bind (lift (range_len count)) (\<lambda>n. foldM (generate_backlog_order E R) [0..<n] []))) (\<lambda>ids.
     seq (push_log ''WARNING'' (''Simulation: generated '' @ int_str (int (length ids)) @ '' backlog orders'') [])
     (ret (JObj [(''status'', JStr ''completed''), (''type'', JStr ''generate_backlog''),
        (''orders_created'', JInt (int (length ids))), (''order_ids'', JArr (map JInt ids))]))))"

definition high_value_order :: "env \<Rightarrow> sim_random \<Rightarrow> request \<Rightarrow> json handler" where
  "high_value_order E R rq =
     bind (lift (jget (safe_json rq) ''customer_id'')) (\<lambda>c.
     bind (customer_or_random E R c) (\<lambda>cid.
     if \<not> truthy cid then ret (sim_error ''no customers in database'') else
     bind (random_product E R) (\<lambda>prod.
     case prod of None \<Rightarrow> ret (sim_error ''no products in database'')
     | Some (pid, _) \<Rightarrow>
       bind (uniform R (Fin 55000) (Fin 150000)) (\<lambda>u.
       let t = fround2 u; triggered = flt (Fin (of_int (suspicious_order_total_threshold (cfg E)))) t in
       bind (draw E) (\<lambda>d. let sid = ''sim-hv-'' @ take 8 d in
       bind (session_factory E (bind (build_correlation_id E ''sim-hv'') (\<lambda>corr.
         seq (oracle_only E)
         (bind (lift (int_col cid)) (\<lambda>k.
         bind (gets w_now) (\<lambda>now.
         bind (on_db (add_order (sim_order k t (Some ''processing'') sid ''local'' None corr
            (Some ''HIGH VALUE - Simulation generated'') None now))) (\<lambda>_.
         bind (query (order_of_source sid)) (\<lambda>oid.
         seq (case oid of None \<Rightarrow> ret () | Some o' \<Rightarrow> if o' = 0 then ret () else add_sim_item o' (Some pid) 1 t)
         (ret oid))))))))) (\<lambda>oid.
       seq (push_log ''WARNING'' (''Simulation: high-value order $'' @ sr_money R t)
         [(''simulation.type'', JStr ''high_value_order''), (''simulation.total'', JFloat t),
          (''simulation.threshold'', JInt (suspicious_order_total_threshold (cfg E))), (''simulation.alert_triggered'', JBool triggered)])
       (ret (JObj [(''status'', JStr ''completed''), (''type'', JStr ''high_value_order''), (''order_id'', jint_opt oid),
          (''total'', JFloat t), (''alert_triggered'', JBool triggered)])))))))) "

subsection \<open>Generated customers\<close>

definition fake_companies :: "(string \<times> string \<times> int) list" where
  "fake_companies =
     [(''Quantum Dynamics'', ''Technology'', 12000000), (''Vector Air Mobility'', ''Aerospace'', 5800000),
      (''NovaTech Solutions'', ''Software'', 3200000), (''Pacific Rim Trading'', ''Logistics'', 8500000),
      (''Aurora BioSciences'', ''Healthcare'', 15000000), (''Pinnacle Manufacturing'', ''Industrial'', 9200000),
      (''Stellar Communications'', ''Telecom'', 7100000), (''Atlas Infrastructure'', ''Construction'', 6400000)]"

definition fake_contacts :: "string list" where
  "fake_contacts = [''Morgan Lee'', ''Jordan Chen'', ''Taylor Kim'', ''Alex Rivera'',
     ''Casey Wright'', ''Quinn Torres'', ''Riley Patel'', ''Drew Nguyen'']"

definition sim_customer :: "string \<Rightarrow> string \<Rightarrow> string \<Rightarrow> string \<Rightarrow> pyfloat \<Rightarrow> int \<Rightarrow> customer_row" where
  "sim_customer name email company industry revenue now =
     \<lparr>c_name = name, c_email = email, c_phone = None, c_company = Some company, c_industry = Some industry,
      c_revenue = Some revenue, c_notes = None, c_created_at = now, c_updated_at = now\<rparr>"

definition customer_of_email :: "string \<Rightarrow> db \<Rightarrow> int option" where
  "customer_of_email email d = map_option fst (tbl_find (\<lambda>r. c_email r = email) (customers d))"

definition add_random_customer :: "env \<Rightarrow> sim_random \<Rightarrow> json handler" where
  "add_random_customer E R =
     bind (choice R fake_companies) (\<lambda>(company, industry, revenue).
     bind (choice R fake_contacts) (\<lambda>contact.
     bind (draw E) (\<lambda>u.
     let email = ''sim.'' @ take 6 u @ ''@'' @ filter (\<lambda>c. c \<noteq> CHR '' '') (py_lower company) @ ''.demo'' in
     bind (session_factory E (seq (oracle_only E) (bind (gets w_now) (\<lambda>now.
       bind (on_db (add_customer (sim_customer contact email company industry (Fin (of_int revenue)) now))) (\<lambda>_.
       query (customer_of_email email)))))) (\<lambda>i.
     seq (push_log ''INFO'' (''Simulation: added customer '' @ contact @ '' at '' @ company) [])
     (ret (JObj [(''status'', JStr ''completed''), (''type'', JStr ''add_customer''), (''customer_id'', jint_opt i),
        (''name'', JStr contact), (''email'', JStr email), (''company'', JStr company)]))))))"

record create_customer_request =
  ccr_company_name :: string
  ccr_contact_name :: string
  ccr_email :: string
  ccr_industry :: string
  ccr_revenue :: pyfloat

definition create_customer_sim :: "env \<Rightarrow> create_customer_request \<Rightarrow> json handler" where
  "create_customer_sim E req =
     bind (session_factory E (
       bind (query (\<lambda>d. tbl_find (\<lambda>r. py_lower (c_email r) = py_lower (ccr_email req)) (customers d))) (\<lambda>existing.
       if existing \<noteq> None then ret None else
       seq (oracle_only E) (bind (gets w_now) (\<lambda>now.
       bind (on_db (add_customer (sim_customer (ccr_contact_name req) (ccr_email req) (ccr_company_name req)
         (ccr_industry req) (ccr_revenue req) now))) (\<lambda>_.
       bind (query (customer_of_email (ccr_email req))) (\<lambda>i. ret (Some i)))))))) (\<lambda>outcome.
     case outcome of None \<Rightarrow> ret (sim_error ''customer with this email already exists'')
     | Some i \<Rightarrow>
         seq (push_log ''INFO'' (''Simulation: created customer '' @ ccr_contact_name req) [])
         (ret (JObj [(''status'', JStr ''completed''), (''type'', JStr ''create_customer''), (''customer_id'', jint_opt i),
            (''name'', JStr (ccr_contact_name req)), (''email'', JStr (ccr_email req))])))"

subsection \<open>The shop\<close>

text \<open>\<open>{"status": ..., "type": ..., **result}\<close>: the import's own status replaces \<open>completed\<close>.\<close>

definition sync_customers :: "env \<Rightarrow> json handler" where
  "sync_customers E = bind (build_correlation_id E ''manual-sync'') (\<lambda>cid.
     catch
       (bind (sync_external_orders E cid 200) (\<lambda>result.
        bind (lift (jget_or result ''created'' (JInt 0))) (\<lambda>c. bind (lift (jint c)) (\<lambda>created.
        bind (lift (jget_or result ''updated'' (JInt 0))) (\<lambda>u. bind (lift (jint u)) (\<lambda>updated.
        seq (push_log ''INFO'' ''Simulation: manual sync completed''
          [(''simulation.type'', JStr ''sync_customers''), (''simulation.synced'', JInt (created + updated))])
        (ret (case result of
           JObj fs \<Rightarrow> JObj (obj_update [(''status'', JStr ''completed''), (''type'', JStr ''sync_customers'')] fs)
         | _ \<Rightarrow> result))))))))
       (\<lambda>e. seq (emit (LoggerWarning ''Sync failed'' [])) (ret (sim_error (take 200 (exc_str e))))))"

definition allowed_proxy_actions :: "string set" where
  "allowed_proxy_actions = {''configure'', ''reset'', ''db-latency'', ''error-burst'', ''status''}"

text \<open>The body is forwarded as it is; a GET sends none.\<close>

definition drone_shop_proxy :: "env \<Rightarrow> sim_random \<Rightarrow> string \<Rightarrow> request \<Rightarrow> json handler" where
  "drone_shop_proxy E R action rq =
     (if action \<notin> allowed_proxy_actions then ret (sim_error (''action '' @ [CHR 0x27] @ action @ [CHR 0x27] @ '' not allowed''))
      else let base_url = external_orders_base_url E in
      if base_url = [] then ret (JObj [(''status'', JStr ''skipped''), (''reason'', JStr ''drone shop URL not configured'')])
      else
        bind (build_correlation_id E ''drone-proxy'') (\<lambda>cid.
        bind (outbound_headers E cid) (\<lambda>hs.
        let headers = (if drone_shop_internal_key (cfg E) \<noteq> []
              then alist_set ''X-Internal-Service-Key'' (drone_shop_internal_key (cfg E)) hs else hs);
            target = base_url @ ''/api/simulate/'' @ action;
            post = (py_upper (rq_method rq) = ''POST'') in
        catch
          (bind (send E \<lparr>hc_method = (if post then ''POST'' else ''GET''), hc_url = target,
               hc_headers = (if post then alist_set ''Content-Type'' ''application/json'' headers else headers),
               hc_body = (if post then (case rq_body rq of Inr j \<Rightarrow> j | Inl _ \<Rightarrow> JNull) else JNull)\<rparr>) (\<lambda>resp.
           seq (push_log ''INFO'' (''Drone shop proxy: '' @ action @ '' -> '' @ int_str (hr_status resp)) [])
           (ret (JObj [(''status'', JStr ''proxied''), (''upstream_status'', JInt (hr_status resp)),
              (''data'', case hr_json resp of Inr j \<Rightarrow> j | Inl _ \<Rightarrow> JObj [(''raw'', JStr (take 500 (hr_text resp)))])]))))
          (\<lambda>e. case e of
             TransportError m \<Rightarrow> (case sr_class R m of
               Some class \<Rightarrow> seq (push_log ''WARNING'' (''Drone shop unreachable: '' @ class) [])
                 (ret (JObj [(''status'', JStr ''unreachable''), (''reason'', JStr (class @ '': drone shop not responding''))]))
             | None \<Rightarrow> ret (sim_error (take 200 m)))
           | _ \<Rightarrow> ret (sim_error (take 200 (exc_str e)))))))"

subsection \<open>Safety\<close>

lemma safe_sim_set [safe_intro]: "W.safe E A (sim_set k v)"
  unfolding sim_set_def by (intro safe_modify_db) simp

lemma safe_next_draw [safe_intro]: "W.safe E A next_draw"
  by (rule safe_runI) (simp add: next_draw_def bind_run seq_run w_inv_def w_ok_def w_le_same)

lemma safe_randint [safe_intro]: "W.safe E A (randint R a b)"
  unfolding randint_def by (intro safe_intro)

lemma safe_uniform [safe_intro]: "W.safe E A (uniform R a b)"
  unfolding uniform_def by (intro safe_intro)

lemma safe_choice [safe_intro]: "W.safe E A (choice R xs)"
  unfolding choice_def by (intro safe_intro)

lemma safe_pick [safe_intro]: "W.safe E A (pick R xs)"
  unfolding pick_def by (intro safe_intro)

lemma safe_oracle_only [safe_intro]: "W.safe E A (oracle_only E)"
  unfolding oracle_only_def by (intro safe_intro)

lemma safe_random_customer_id [safe_intro]: "W.safe E A (random_customer_id E R)"
  unfolding random_customer_id_def by (intro safe_intro)

lemma safe_random_product [safe_intro]: "W.safe E A (random_product E R)"
  unfolding random_product_def by (intro safe_intro)

lemma safe_customer_or_random [safe_intro]: "W.safe E A (customer_or_random E R c)"
  unfolding customer_or_random_def by (intro safe_intro)

lemma safe_add_sim_item [safe_intro]: "W.safe E A (add_sim_item o' p q u)"
  unfolding add_sim_item_def by (intro safe_intro)

lemma safe_sleep_secs [safe_intro]: "W.safe E A (sleep_secs v)"
  unfolding sleep_secs_def by (auto split: option.splits pyfloat.splits intro: safe_intro)

lemma safe_uncommitted [safe_intro]:
  assumes "W.safe E A m"
  shows "W.safe E A (uncommitted m)"
proof (rule safe_runI)
  fix w assume inv: "w_inv E A w"
  obtain r v where m: "m w = (r, v)" by (cases "m w")
  from safe_rollback [OF assms inv m] show "w_ok (snd (uncommitted m w)) \<and> w_le A w (snd (uncommitted m w))"
    by (auto simp: uncommitted_def m split: sum.splits)
qed

lemma safe_generate_order [safe_intro]: "W.safe E A (generate_order E R q)"
  unfolding generate_order_def Let_def by (intro safe_intro)

lemma safe_generate_loop [safe_intro]: "W.safe E A (generate_loop E R q n ids t)"
proof (induction n arbitrary: ids t)
  case (Suc n)
  then show ?case by (simp only: generate_loop.simps) (intro safe_intro)
qed (simp only: generate_loop.simps safe_intro)

lemma safe_generate_orders [safe_intro]: "W.safe E A (generate_orders E R rq)"
  unfolding generate_orders_def by (intro safe_intro)

lemma safe_generate_backlog_order [safe_intro]: "W.safe E A (generate_backlog_order E R k ids)"
  unfolding generate_backlog_order_def Let_def by (intro safe_intro)

lemma safe_generate_backlog [safe_intro]: "W.safe E A (generate_backlog E R rq)"
  unfolding generate_backlog_def by (intro safe_intro)

lemma safe_high_value_order [safe_intro]: "W.safe E A (high_value_order E R rq)"
  unfolding high_value_order_def Let_def by (intro safe_intro)

lemma safe_add_random_customer [safe_intro]: "W.safe E A (add_random_customer E R)"
  unfolding add_random_customer_def Let_def by (intro safe_intro)

lemma safe_create_customer_sim [safe_intro]: "W.safe E A (create_customer_sim E req)"
  unfolding create_customer_sim_def by (intro safe_intro)

lemma safe_sync_customers [safe_intro]: "W.safe E A (sync_customers E)"
  unfolding sync_customers_def by (intro safe_intro)

lemma safe_proxy_failure: "W.safe E A (case e of
     TransportError m \<Rightarrow> (case sr_class R m of
       Some class \<Rightarrow> seq (push_log ''WARNING'' (''Drone shop unreachable: '' @ class) [])
         (ret (JObj [(''status'', JStr ''unreachable''), (''reason'', JStr (class @ '': drone shop not responding''))]))
     | None \<Rightarrow> ret (sim_error (take 200 m)))
   | _ \<Rightarrow> ret (sim_error (take 200 (exc_str e))))"
  by (cases e; simp only: py_exc.case; intro safe_intro)

lemma safe_drone_shop_proxy [safe_intro]: "W.safe E A (drone_shop_proxy E R a rq)"
  unfolding drone_shop_proxy_def Let_def by (intro safe_intro safe_proxy_failure)

lemma safe_configure_one [safe_intro]: "W.safe E A (configure_one p c)"
  unfolding configure_one_def by (intro safe_intro)

lemma safe_configure_simulation [safe_intro]: "W.safe E A (configure_simulation E c)"
  unfolding configure_simulation_def by (intro safe_intro)

lemma safe_reset_simulation [safe_intro]: "W.safe E A reset_simulation"
  unfolding reset_simulation_def by (intro safe_intro safe_modify_db) simp

lemma safe_incidents [safe_intro]:
  "W.safe E A simulation_status" "W.safe E A (trigger_db_latency E rq)" "W.safe E A trigger_db_disconnect" "W.safe E A (trigger_error_burst E rq)"
  "W.safe E A (trigger_slow_query E rq)" "W.safe E A (trigger_n_plus_one E rq)" "W.safe E A trigger_app_exception" "W.safe E A trigger_db_error"
  unfolding simulation_status_def trigger_db_latency_def trigger_db_disconnect_def trigger_error_burst_def burst_log_def
    trigger_slow_query_def trigger_n_plus_one_def trigger_app_exception_def trigger_db_error_def
  by (intro safe_intro)+

end
