(* ===== verification/Desk.thy ===== *)
theory Desk
  imports Simulation
begin

text \<open>
  The front office: \<open>server/modules/customers.py\<close>, \<open>tickets.py\<close> and \<open>invoices.py\<close>. Where a module pastes
  a request's text into a statement (as these demonstration endpoints do on purpose), the statement's text
  is built as the code builds it, and what the database does with arbitrary SQL is an argument,
  \<open>sql\<close>; a statement whose values are bound is modelled as what it does.
\<close>

type_synonym sql_engine = "string \<Rightarrow> (string \<times> json) list \<Rightarrow> (db, json list) pm"

definition sq :: "string \<Rightarrow> string" where
  "sq s = CHR 0x27 # s @ [CHR 0x27]"

definition paging :: "int \<Rightarrow> int \<Rightarrow> string" where
  "paging limit offset = '' OFFSET '' @ int_str offset @ '' ROWS FETCH NEXT '' @ int_str limit @ '' ROWS ONLY''"

text \<open>A reply with the rows, their number and the paging.\<close>

definition listing :: "string \<Rightarrow> json list \<Rightarrow> int \<Rightarrow> int \<Rightarrow> (string \<times> json) list" where
  "listing k xs limit offset = [(k, JArr xs), (''total'', JInt (int (length xs))), (''limit'', JInt limit), (''offset'', JInt offset)]"

definition unprocessable :: "'a handler" where
  "unprocessable = raise (HTTPException 422 ''Unprocessable Entity'')"

subsection \<open>Customers\<close>

definition sqli_patterns :: "string list" where
  "sqli_patterns = [[CHR 0x27], [CHR 0x22], ''--'', '';'', ''union'', ''select'', ''drop'', ''or 1=1'']"

definition customers_query :: "string \<Rightarrow> string \<Rightarrow> int \<Rightarrow> int \<Rightarrow> string" where
  "customers_query search sort_by limit offset =
     (if search \<noteq> [] then ''SELECT * FROM customers WHERE name LIKE '' @ sq (''%'' @ search @ ''%'') @
         '' OR email LIKE '' @ sq (''%'' @ search @ ''%'') @ '' ORDER BY '' @ sort_by
      else ''SELECT * FROM customers ORDER BY '' @ sort_by) @ paging limit offset"

definition list_customers :: "sql_engine \<Rightarrow> env \<Rightarrow> string \<Rightarrow> string \<Rightarrow> int \<Rightarrow> int \<Rightarrow> request \<Rightarrow> json handler" where
  "list_customers sql E search sort_by limit offset rq =
     (if \<not> page_ok limit offset then unprocessable else
      bind (get_db E (seq
        (if search \<noteq> [] \<and> list_ex (contains (py_lower search)) sqli_patterns
         then seq (security_span ''sqli'' ''critical'')
           (log_security_event ''sqli'' ''critical'' ''SQL injection attempt in customer search'' (client_ip rq) [] search [])
         else ret ())
        (on_db (sql (customers_query search sort_by limit offset) [])))) (\<lambda>cs.
      seq (push_log ''INFO'' (''Listed '' @ int_str (int (length cs)) @ '' customers'')
        [(''customers.count'', JInt (int (length cs))), (''customers.search'', JStr search)])
      (ret (JObj (listing ''customers'' cs limit offset)))))"

definition customer_json :: "env \<Rightarrow> int \<times> customer_row \<Rightarrow> json" where
  "customer_json E p = (case p of (i, c) \<Rightarrow> JObj
     [(''id'', JInt i), (''name'', JStr (c_name c)), (''email'', JStr (c_email c)), (''phone'', jopt (c_phone c)),
      (''company'', jopt (c_company c)), (''industry'', jopt (c_industry c)),
      (''revenue'', case c_revenue c of None \<Rightarrow> JNull | Some f \<Rightarrow> JFloat f), (''notes'', jopt (c_notes c)),
      (''created_at'', iso E (c_created_at c)), (''updated_at'', iso E (c_updated_at c))])"

definition get_customer :: "env \<Rightarrow> int \<Rightarrow> request \<Rightarrow> json handler" where
  "get_customer E customer_id rq =
     seq (security_span ''idor'' ''medium'')
     (bind (get_db E (query (\<lambda>d. tbl_get (customers d) customer_id))) (\<lambda>found.
      case found of None \<Rightarrow> ret (JObj [(''error'', JStr ''Customer not found'')])
      | Some c \<Rightarrow> ret (JObj [(''customer'', customer_json E (customer_id, c))])))"

text \<open>\<open>body.get(k, d)\<close> as the value of a text column, a number column, an integer column.\<close>

definition body_text_col :: "json \<Rightarrow> string \<Rightarrow> json \<Rightarrow> string option res" where
  "body_text_col body k d = res_bind (jget_or body k d) text_col"

definition body_float_col :: "json \<Rightarrow> string \<Rightarrow> json \<Rightarrow> pyfloat option res" where
  "body_float_col body k d = res_bind (jget_or body k d) float_col"

definition body_int_col :: "json \<Rightarrow> string \<Rightarrow> json \<Rightarrow> int option res" where
  "body_int_col body k d = res_bind (jget_or body k d) int_col"

text \<open>A nullable time column: the ORM refuses the strings of a JSON body, which are no datetimes.\<close>

fun time_col :: "json \<Rightarrow> int option res" where
  "time_col JNull = Inr None"
| "time_col _ = Inl DataError"

definition customer_of_body :: "json \<Rightarrow> int \<Rightarrow> customer_row res" where
  "customer_of_body body now =
     res_bind (res_bind (body_text_col body ''name'' (JStr [])) (not_null ''name'')) (\<lambda>name.
     res_bind (res_bind (body_text_col body ''email'' (JStr [])) (not_null ''email'')) (\<lambda>email.
     res_bind (body_text_col body ''phone'' (JStr [])) (\<lambda>phone.
     res_bind (body_text_col body ''company'' (JStr [])) (\<lambda>company.
     res_bind (body_text_col body ''industry'' (JStr [])) (\<lambda>industry.
     res_bind (body_float_col body ''revenue'' (JInt 0)) (\<lambda>revenue.
     res_bind (body_text_col body ''notes'' (JStr [])) (\<lambda>notes.
     Inr \<lparr>c_name = name, c_email = email, c_phone = phone, c_company = company, c_industry = industry,
       c_revenue = revenue, c_notes = notes, c_created_at = now, c_updated_at = now\<rparr>)))))))"

definition create_customer :: "env \<Rightarrow> request \<Rightarrow> json handler" where
  "create_customer E rq =
     bind (lift (rq_body rq)) (\<lambda>body.
     bind (lift (jget_or body ''name'' (JStr []))) (\<lambda>name.
     bind (lift (res_bind (jget_or body ''notes'' (JStr [])) as_str)) (\<lambda>notes.
     seq (if contains (py_lower notes) ''<script'' \<or> contains (py_lower notes) ''javascript:'' \<or> contains (py_lower notes) ''onerror''
          then seq (security_span ''xss_stored'' ''high'')
            (log_security_event ''xss_stored'' ''high'' ''Stored XSS attempt in customer notes'' (client_ip rq) [] notes [])
          else ret ())
     (seq (get_db E (bind (gets w_now) (\<lambda>now. bind (lift (customer_of_body body now)) (\<lambda>r.
            bind (on_db (add_customer r)) (\<lambda>_. ret ())))))
     (ret (JObj [(''status'', JStr ''created''), (''name'', name)]))))))"

definition customer_fields :: "string list" where
  "customer_fields = [''name'', ''email'', ''phone'', ''company'', ''industry'', ''revenue'', ''notes'']"

text \<open>The \<open>SET\<close> clause: every field of the body, its value pasted between quotes.\<close>

fun set_parts :: "env \<Rightarrow> json \<Rightarrow> string list \<Rightarrow> string list res" where
  "set_parts E body [] = Inr []"
| "set_parts E body (f # fs) = res_bind (jhas body f) (\<lambda>present.
     if present then res_bind (case body of JObj kv \<Rightarrow> (case map_of kv f of Some v \<Rightarrow> Inr v | None \<Rightarrow> Inl KeyError) | _ \<Rightarrow> Inl TypeError)
       (\<lambda>v. res_bind (set_parts E body fs) (\<lambda>ps. Inr ((f @ '' = '' @ sq (jstr (rep E) v)) # ps)))
     else set_parts E body fs)"

definition update_customer_query :: "string list \<Rightarrow> int \<Rightarrow> string" where
  "update_customer_query parts customer_id =
     ''UPDATE customers SET '' @ join_with '', '' parts @ '' WHERE id = '' @ int_str customer_id"

definition update_customer :: "sql_engine \<Rightarrow> env \<Rightarrow> int \<Rightarrow> request \<Rightarrow> json handler" where
  "update_customer sql E customer_id rq =
     bind (lift (rq_body rq)) (\<lambda>body.
     seq (get_db E (bind (lift (set_parts E body customer_fields)) (\<lambda>parts.
        if parts = [] then ret () else bind (on_db (sql (update_customer_query parts customer_id) [])) (\<lambda>_. ret ()))))
     (ret (JObj [(''status'', JStr ''updated''), (''customer_id'', JInt customer_id)])))"

subsection \<open>Tickets\<close>

definition ticket_json :: "env \<Rightarrow> db \<Rightarrow> int \<times> ticket_row \<Rightarrow> json" where
  "ticket_json E d p = (case p of (i, t) \<Rightarrow> JObj
     [(''id'', JInt i), (''customer_id'', jint_opt (t_customer_id t)), (''subject'', JStr (t_subject t)),
      (''description'', jopt (t_description t)), (''priority'', JStr (t_priority t)), (''status'', JStr (t_status t)),
      (''assigned_to'', jopt (t_assigned_to t)), (''created_at'', iso E (t_created_at t)), (''updated_at'', iso E (t_updated_at t)),
      (''customer_name'', case t_customer_id t of None \<Rightarrow> JNull
         | Some c \<Rightarrow> (case tbl_get (customers d) c of None \<Rightarrow> JNull | Some r \<Rightarrow> JStr (c_name r)))])"

definition tickets_query :: "string \<Rightarrow> string \<Rightarrow> string \<Rightarrow> int \<Rightarrow> int \<Rightarrow> string" where
  "tickets_query search priority status limit offset =
     ''SELECT t.*, c.name as customer_name FROM support_tickets t LEFT JOIN customers c ON t.customer_id = c.id WHERE 1=1'' @
     '' AND (t.subject LIKE '' @ sq (''%'' @ search @ ''%'') @ '' OR t.description LIKE '' @ sq (''%'' @ search @ ''%'') @ '')'' @
     (if priority \<noteq> [] then '' AND t.priority = :priority'' else []) @
     (if status \<noteq> [] then '' AND t.status = :status'' else []) @
     '' ORDER BY t.created_at DESC'' @ paging limit offset"

definition list_tickets :: "sql_engine \<Rightarrow> env \<Rightarrow> string \<Rightarrow> string \<Rightarrow> string \<Rightarrow> int \<Rightarrow> int \<Rightarrow> request \<Rightarrow> json handler" where
  "list_tickets sql E search priority status limit offset rq =
     (if \<not> page_ok limit offset then unprocessable else
      seq (if contains (py_lower search) ''<script'' \<or> contains (py_lower search) ''onerror''
           then seq (security_span ''xss_reflected'' ''high'')
             (log_security_event ''xss_reflected'' ''high'' ''Reflected XSS attempt in ticket search'' (client_ip rq) [] search [])
           else ret ())
      (bind (get_db E (if search \<noteq> []
         then on_db (sql (tickets_query search priority status limit offset)
           ((if priority \<noteq> [] then [(''priority'', JStr priority)] else []) @ (if status \<noteq> [] then [(''status'', JStr status)] else [])))
         else query (\<lambda>d. map (ticket_json E d) (page limit offset (order_desc (\<lambda>p. t_created_at (snd p))
           (tbl_select (\<lambda>t. (priority = [] \<or> t_priority t = priority) \<and> (status = [] \<or> t_status t = status)) (support_tickets d))))))) (\<lambda>ts.
       ret (JObj (listing ''tickets'' ts limit offset @ [(''search_term'', JStr search)])))))"

text \<open>The first 200 characters, or elements, of a value.\<close>

definition preview :: "env \<Rightarrow> json \<Rightarrow> string" where
  "preview E v = (case v of JStr s \<Rightarrow> take 200 s | JArr xs \<Rightarrow> rep E (JArr (take 200 xs)) | _ \<Rightarrow> rep E v)"

text \<open>Explicit nulls of defaulted columns take the column's default, as in the ORM.\<close>

definition ticket_of_body :: "json \<Rightarrow> json \<Rightarrow> int \<Rightarrow> ticket_row res" where
  "ticket_of_body body description now =
     res_bind (body_int_col body ''customer_id'' JNull) (\<lambda>customer.
     res_bind (res_bind (body_text_col body ''subject'' (JStr [])) (not_null ''subject'')) (\<lambda>subject.
     res_bind (text_col description) (\<lambda>desc.
     res_bind (body_text_col body ''priority'' (JStr ''medium'')) (\<lambda>priority.
     res_bind (body_text_col body ''assigned_to'' (JStr [])) (\<lambda>assigned.
     Inr \<lparr>t_customer_id = customer, t_subject = subject, t_description = desc,
       t_priority = (case priority of None \<Rightarrow> ''medium'' | Some p \<Rightarrow> p), t_status = ''open'', t_assigned_to = assigned,
       t_created_at = now, t_updated_at = now\<rparr>)))))"

definition create_ticket :: "env \<Rightarrow> request \<Rightarrow> json handler" where
  "create_ticket E rq =
     bind (lift (rq_body rq)) (\<lambda>body.
     bind (lift (jget_or body ''description'' (JStr []))) (\<lambda>description.
     bind (lift (res_bind (jhas description [CHR 10]) (\<lambda>n. if n then Inr True else jhas description [CHR 13]))) (\<lambda>newline.
     seq (if newline then seq (security_span ''log_injection'' ''medium'')
            (log_security_event ''log_injection'' ''medium'' ''Log injection attempt in ticket description'' (client_ip rq) []
               (preview E description) [])
          else ret ())
     (bind (get_db E (bind (gets w_now) (\<lambda>now. bind (lift (ticket_of_body body description now)) (\<lambda>r. on_db (add_ticket r))))) (\<lambda>i.
      bind (lift (jget_or body ''priority'' (JStr ''medium''))) (\<lambda>priority.
      bind (lift (jget_or body ''subject'' (JStr []))) (\<lambda>subject.
      seq (metric ''tickets_created'' [priority])
      (seq (push_log ''INFO'' (''Ticket #'' @ int_str i @ '' created: '' @ jstr (rep E) subject)
         [(''tickets.id'', JInt i), (''tickets.priority'', priority)])
      (ret (JObj [(''status'', JStr ''created''), (''ticket_id'', JInt i)]))))))))))"

subsection \<open>Invoices\<close>

text \<open>The order and the customer an invoice joins.\<close>

definition invoice_order :: "db \<Rightarrow> invoice_row \<Rightarrow> order_row option" where
  "invoice_order d v = (case iv_order_id v of None \<Rightarrow> None | Some o' \<Rightarrow> tbl_get (orders d) o')"

definition invoice_customer :: "db \<Rightarrow> invoice_row \<Rightarrow> customer_row option" where
  "invoice_customer d v = (case invoice_order d v of None \<Rightarrow> None | Some o' \<Rightarrow> customer_of d o')"

definition invoice_fields :: "env \<Rightarrow> int \<times> invoice_row \<Rightarrow> (string \<times> json) list" where
  "invoice_fields E p = (case p of (i, v) \<Rightarrow>
     [(''id'', JInt i), (''order_id'', jint_opt (iv_order_id v)), (''invoice_number'', JStr (iv_invoice_number v)),
      (''amount'', JFloat (iv_amount v)), (''tax'', JFloat (iv_tax v)), (''status'', JStr (iv_status v)),
      (''due_date'', iso_opt E (iv_due_date v)), (''created_at'', iso E (iv_created_at v))])"

definition list_invoices :: "env \<Rightarrow> string \<Rightarrow> int \<Rightarrow> int \<Rightarrow> json handler" where
  "list_invoices E status limit offset =
     (if \<not> page_ok limit offset then unprocessable else
      bind (get_db E (query (\<lambda>d. map (\<lambda>(i, v). JObj (invoice_fields E (i, v) @
          [(''customer_id'', case invoice_order d v of None \<Rightarrow> JNull | Some o' \<Rightarrow> jint_opt (o_customer_id o')),
           (''customer_name'', case invoice_customer d v of None \<Rightarrow> JNull | Some c \<Rightarrow> JStr (c_name c))]))
        (page limit offset (order_desc (\<lambda>p. iv_created_at (snd p))
          (tbl_select (\<lambda>v. status = [] \<or> iv_status v = status) (invoices d))))))) (\<lambda>vs.
      ret (JObj (listing ''invoices'' vs limit offset))))"

definition get_invoice :: "env \<Rightarrow> int \<Rightarrow> request \<Rightarrow> json handler" where
  "get_invoice E invoice_id rq =
     seq (security_span ''sensitive_data'' ''medium'')
     (bind (get_db E (query (\<lambda>d. (d, tbl_get (invoices d) invoice_id)))) (\<lambda>(d, found).
      case found of None \<Rightarrow> ret (JObj [(''error'', JStr ''Invoice not found'')])
      | Some v \<Rightarrow> ret (JObj [(''invoice'', JObj (invoice_fields E (invoice_id, v) @
          [(''customer_id'', case invoice_order d v of None \<Rightarrow> JNull | Some o' \<Rightarrow> jint_opt (o_customer_id o')),
           (''shipping_address'', case invoice_order d v of None \<Rightarrow> JNull | Some o' \<Rightarrow> jopt (o_shipping_address o')),
           (''customer_name'', case invoice_customer d v of None \<Rightarrow> JNull | Some c \<Rightarrow> JStr (c_name c)),
           (''email'', case invoice_customer d v of None \<Rightarrow> JNull | Some c \<Rightarrow> JStr (c_email c))]))])))"

text \<open>\<open>UPDATE invoices SET status = 'paid' WHERE id = :id\<close>.\<close>

definition mark_paid :: "int \<Rightarrow> (db, unit) pm" where
  "mark_paid i d = (Inr (), d\<lparr>invoices := tbl_map (\<lambda>j v. if j = i then v\<lparr>iv_status := ''paid''\<rparr> else v) (invoices d)\<rparr>)"

definition pay_invoice :: "env \<Rightarrow> int \<Rightarrow> request \<Rightarrow> json handler" where
  "pay_invoice E invoice_id rq =
     seq (security_span ''csrf'' ''medium'')
     (seq (log_security_event ''csrf'' ''medium'' ''Invoice payment without CSRF protection'' (client_ip rq) []
        (''invoice_id='' @ int_str invoice_id) [])
     (seq (get_db E (on_db (mark_paid invoice_id)))
     (seq (metric ''invoice_paid'' [])
     (seq (push_log ''INFO'' (''Invoice #'' @ int_str invoice_id @ '' marked as paid'')
        [(''invoices.id'', JInt invoice_id), (''invoices.action'', JStr ''payment'')])
     (ret (JObj [(''status'', JStr ''paid''), (''invoice_id'', JInt invoice_id)]))))))"

text \<open>Rendering the text of a Jinja template, which may fail, is an argument.\<close>

definition generate_invoice_pdf :: "(string \<Rightarrow> string + string) \<Rightarrow> int \<Rightarrow> request \<Rightarrow> json handler" where
  "generate_invoice_pdf render invoice_id rq =
     (let template = (case map_of (rq_params rq) ''template'' of None \<Rightarrow> ''default'' | Some t \<Rightarrow> t) in
      seq (if contains template ''{{'' \<or> contains template ''{%''
           then seq (security_span ''ssti'' ''critical'')
             (log_security_event ''ssti'' ''critical'' ''SSTI attempt in invoice PDF template'' (client_ip rq) [] template [])
           else ret ())
      (ret (JObj [(''invoice_id'', JInt invoice_id), (''template'', JStr template),
        (''preview'', JStr (case render (''Invoice #'' @ int_str invoice_id @ '' - Template: '' @ template) of
           Inr s \<Rightarrow> s | Inl e \<Rightarrow> ''Error: '' @ e))])))"

subsection \<open>Safety\<close>

lemma safe_unprocessable [safe_intro]: "W.safe E A unprocessable"
  unfolding unprocessable_def by (intro safe_intro)

lemma safe_list_customers: "(\<And>q ps. stmt_ok A (sql q ps)) \<Longrightarrow> W.safe E A (list_customers sql E s b l k rq)"
  unfolding list_customers_def by (intro safe_intro)

lemma safe_get_customer [safe_intro]: "W.safe E A (get_customer E i rq)"
  unfolding get_customer_def by (intro safe_intro)

lemma safe_create_customer [safe_intro]: "W.safe E A (create_customer E rq)"
  unfolding create_customer_def by (intro safe_intro)

lemma safe_update_customer: "(\<And>q ps. stmt_ok A (sql q ps)) \<Longrightarrow> W.safe E A (update_customer sql E i rq)"
  unfolding update_customer_def by (intro safe_intro)

lemma safe_list_tickets: "(\<And>q ps. stmt_ok A (sql q ps)) \<Longrightarrow> W.safe E A (list_tickets sql E s p t l k rq)"
  unfolding list_tickets_def by (intro safe_intro)

lemma safe_create_ticket [safe_intro]: "W.safe E A (create_ticket E rq)"
  unfolding create_ticket_def by (intro safe_intro)

lemma safe_list_invoices [safe_intro]: "W.safe E A (list_invoices E s l k)"
  unfolding list_invoices_def by (intro safe_intro)

lemma safe_get_invoice [safe_intro]: "W.safe E A (get_invoice E i rq)"
  unfolding get_invoice_def by (intro safe_intro)

lemma mark_paid_ok [safe_intro]: "stmt_ok A (mark_paid i)"
  by (simp add: stmt_ok_def mark_paid_def db_invs seq_le_def uniq_map refs_map_src)

lemma safe_pay_invoice [safe_intro]: "W.safe E A (pay_invoice E i rq)"
  unfolding pay_invoice_def by (intro safe_intro)

lemma safe_generate_invoice_pdf [safe_intro]: "W.safe E A (generate_invoice_pdf f i rq)"
  unfolding generate_invoice_pdf_def Let_def by (intro safe_intro)

end
