(* ===== verification/Shipping.thy ===== *)
theory Shipping
  imports Desk
begin

text \<open>
  \<open>server/modules/shipping.py\<close>: shipments with their orders, the region delays, warehouses, and the
  tracking history that is derived from a shipment's status.
\<close>

text \<open>Sums and averages of SQL, added up in the order of the rows.\<close>

definition sql_sum :: "pyfloat list \<Rightarrow> pyfloat" where
  "sql_sum xs = foldl fadd (Fin 0) xs"

fun fdiv_nat :: "pyfloat \<Rightarrow> nat \<Rightarrow> pyfloat" where
  "fdiv_nat (Fin q) n = rnd (q / of_nat n)"
| "fdiv_nat f n = f"

definition sql_avg :: "pyfloat list \<Rightarrow> json" where
  "sql_avg xs = (if xs = [] then JNull else JFloat (fdiv_nat (sql_sum xs) (length xs)))"

text \<open>The delays, in microseconds.\<close>

definition region_delay :: "(string \<times> int) list" where
  "region_delay = [(''ap-southeast'', 800000), (''sa-east'', 1200000), (''af-south'', 1500000)]"

definition apply_region_delay :: "string \<Rightarrow> unit handler" where
  "apply_region_delay region = (case map_of region_delay region of
     None \<Rightarrow> ret ()
   | Some us \<Rightarrow> seq (sleep us) (push_log ''WARN'' (''Slow region query: '' @ region @ '' (+'' @ int_str (us div 1000) @ ''ms)'')
       [(''shipping.region'', JStr region), (''shipping.delay_ms'', JInt (us div 1000))]))"

definition shipment_order :: "db \<Rightarrow> shipment_row \<Rightarrow> order_row option" where
  "shipment_order d s = (case sh_order_id s of None \<Rightarrow> None | Some o' \<Rightarrow> tbl_get (orders d) o')"

definition shipment_fields :: "env \<Rightarrow> db \<Rightarrow> int \<times> shipment_row \<Rightarrow> (string \<times> json) list" where
  "shipment_fields E d p = (case p of (i, s) \<Rightarrow>
     [(''id'', JInt i), (''order_id'', jint_opt (sh_order_id s)), (''tracking_number'', jopt (sh_tracking_number s)),
      (''carrier'', jopt (sh_carrier s)), (''status'', jopt (sh_status s)), (''origin_region'', jopt (sh_origin_region s)),
      (''destination_region'', jopt (sh_destination_region s)), (''weight_kg'', JFloat (sh_weight_kg s)),
      (''shipping_cost'', JFloat (sh_shipping_cost s)), (''estimated_delivery'', iso_opt E (sh_estimated_delivery s)),
      (''actual_delivery'', iso_opt E (sh_actual_delivery s)), (''created_at'', iso E (sh_created_at s)),
      (''updated_at'', iso E (sh_updated_at s)),
      (''order_total'', case shipment_order d s of None \<Rightarrow> JNull | Some o' \<Rightarrow> JFloat (o_total o')),
      (''customer_id'', case shipment_order d s of None \<Rightarrow> JNull | Some o' \<Rightarrow> jint_opt (o_customer_id o')),
      (''customer_name'', case shipment_order d s of None \<Rightarrow> JNull
         | Some o' \<Rightarrow> (case customer_of d o' of None \<Rightarrow> JNull | Some c \<Rightarrow> JStr (c_name c)))])"

definition list_shipments :: "env \<Rightarrow> string \<Rightarrow> string \<Rightarrow> int \<Rightarrow> int \<Rightarrow> json handler" where
  "list_shipments E status carrier limit offset =
     (if \<not> page_ok limit offset then unprocessable else
      bind (get_db E (query (\<lambda>d. map (\<lambda>p. JObj (shipment_fields E d p)) (page limit offset (order_desc (\<lambda>p. sh_created_at (snd p))
        (tbl_select (\<lambda>s. (status = [] \<or> sh_status s = Some status) \<and> (carrier = [] \<or> sh_carrier s = Some carrier)) (shipments d))))))) (\<lambda>ss.
      ret (JObj (listing ''shipments'' ss limit offset))))"

definition region_group :: "shipment_row list \<Rightarrow> string option \<times> string option \<Rightarrow> int \<times> json" where
  "region_group ss k =
     (let g = filter (\<lambda>s. (sh_origin_region s, sh_destination_region s) = k) ss in
      (int (length g), JObj [(''origin_region'', jopt (fst k)), (''destination_region'', jopt (snd k)),
        (''shipment_count'', JInt (int (length g))), (''total_cost'', JFloat (sql_sum (map sh_shipping_cost g))),
        (''avg_weight'', sql_avg (map sh_weight_kg g))]))"

definition shipments_by_region :: "env \<Rightarrow> string \<Rightarrow> json handler" where
  "shipments_by_region E region =
     seq (if region \<noteq> [] then apply_region_delay region else ret ())
     (bind (get_db E (query (\<lambda>d.
        let ss = map snd (tbl_select (\<lambda>s. region = [] \<or> sh_origin_region s = Some region \<or> sh_destination_region s = Some region) (shipments d)) in
        map snd (order_desc fst (map (region_group ss) (dedup (map (\<lambda>s. (sh_origin_region s, sh_destination_region s)) ss))))))) (\<lambda>gs.
      ret (JObj [(''regions'', JArr gs), (''total'', JInt (int (length gs)))])))"

definition warehouse_json :: "env \<Rightarrow> int \<times> warehouse_row \<Rightarrow> json" where
  "warehouse_json E p = (case p of (i, h) \<Rightarrow> JObj
     [(''id'', JInt i), (''name'', JStr (wh_name h)), (''region'', JStr (wh_region h)), (''address'', jopt (wh_address h)),
      (''capacity'', JInt (wh_capacity h)), (''current_stock'', JInt (wh_current_stock h)), (''is_active'', JInt (wh_is_active h)),
      (''created_at'', iso E (wh_created_at h))])"

text \<open>\<open>ORDER BY region, name\<close>, on the characters' codes.\<close>

definition text_key :: "string \<Rightarrow> nat list" where
  "text_key s = map of_char s"

definition list_warehouses :: "env \<Rightarrow> json handler" where
  "list_warehouses E = bind (get_db E (query (\<lambda>d. map (warehouse_json E)
       (sort_key (\<lambda>p. text_key (wh_region (snd p))) (sort_key (\<lambda>p. text_key (wh_name (snd p))) (rows (warehouses d))))))) (\<lambda>hs.
     ret (JObj [(''warehouses'', JArr hs), (''total'', JInt (int (length hs)))]))"

definition statuses_order :: "string list" where
  "statuses_order = [''processing'', ''shipped'', ''in_transit'', ''delivered'']"

text \<open>\<open>xs.index(x)\<close>, for a member.\<close>

fun index_of :: "string list \<Rightarrow> string \<Rightarrow> nat" where
  "index_of [] x = 0"
| "index_of (y # ys) x = (if x = y then 0 else Suc (index_of ys x))"

definition status_reached :: "string option \<Rightarrow> string \<Rightarrow> bool" where
  "status_reached current s = (case current of
     Some c \<Rightarrow> if c \<in> set statuses_order then index_of statuses_order s \<le> index_of statuses_order c else s = c
   | None \<Rightarrow> False)"

definition tracking_history :: "string option \<Rightarrow> json list" where
  "tracking_history current = map (\<lambda>s. JObj [(''status'', JStr s), (''reached'', JBool (status_reached current s))]) statuses_order"

definition get_shipment :: "env \<Rightarrow> int \<Rightarrow> json handler" where
  "get_shipment E shipment_id = bind (get_db E (query (\<lambda>d. (d, tbl_get (shipments d) shipment_id)))) (\<lambda>(d, found).
     case found of None \<Rightarrow> ret (JObj [(''error'', JStr ''Shipment not found'')])
     | Some s \<Rightarrow> ret (JObj [(''shipment'', JObj (shipment_fields E d (shipment_id, s))),
         (''tracking_history'', JArr (tracking_history (sh_status s)))]))"

subsection \<open>Changes\<close>

definition shipment_of_body :: "json \<Rightarrow> int \<Rightarrow> shipment_row res" where
  "shipment_of_body body now =
     res_bind (body_int_col body ''order_id'' JNull) (\<lambda>order.
     res_bind (body_text_col body ''tracking_number'' (JStr [])) (\<lambda>tracking.
     res_bind (body_text_col body ''carrier'' (JStr [])) (\<lambda>carrier.
     res_bind (body_text_col body ''origin_region'' (JStr [])) (\<lambda>origin.
     res_bind (body_text_col body ''destination_region'' (JStr [])) (\<lambda>destination.
     res_bind (body_float_col body ''weight_kg'' (JFloat (Fin 0))) (\<lambda>weight.
     res_bind (body_float_col body ''shipping_cost'' (JFloat (Fin 0))) (\<lambda>cost.
     res_bind (res_bind (jget body ''estimated_delivery'') time_col) (\<lambda>estimated.
     Inr \<lparr>sh_order_id = order, sh_tracking_number = tracking, sh_carrier = carrier, sh_status = Some ''processing'',
       sh_origin_region = origin, sh_destination_region = destination,
       sh_weight_kg = (case weight of None \<Rightarrow> Fin 0 | Some f \<Rightarrow> f), sh_shipping_cost = (case cost of None \<Rightarrow> Fin 0 | Some f \<Rightarrow> f),
       sh_estimated_delivery = estimated, sh_actual_delivery = None, sh_created_at = now, sh_updated_at = now\<rparr>))))))))"

definition create_shipment :: "env \<Rightarrow> request \<Rightarrow> json handler" where
  "create_shipment E rq =
     bind (lift (rq_body rq)) (\<lambda>body.
     bind (get_db E (bind (gets w_now) (\<lambda>now. bind (lift (shipment_of_body body now)) (\<lambda>r. on_db (add_shipment r))))) (\<lambda>i.
     bind (lift (jget_or body ''carrier'' (JStr []))) (\<lambda>carrier.
     bind (lift (jget_or body ''origin_region'' (JStr []))) (\<lambda>origin.
     bind (lift (jget_or body ''destination_region'' (JStr []))) (\<lambda>destination.
     seq (metric ''shipments_created'' [carrier, origin, destination])
     (bind (lift (res_bind (jget_or body ''shipping_cost'' (JInt 0)) jfloat)) (\<lambda>cost.
      seq (if flt (Fin 0) cost then metric ''shipping_cost'' [JFloat cost, carrier] else ret ())
     (seq (push_log ''INFO'' (''Shipment #'' @ int_str i @ '' created'')
        [(''shipping.id'', JInt i), (''shipping.carrier'', carrier), (''shipping.origin'', origin), (''shipping.destination'', destination)])
     (ret (JObj [(''status'', JStr ''created''), (''shipment_id'', JInt i)]))))))))))"

definition set_shipment_status :: "int \<Rightarrow> string option \<Rightarrow> bool \<Rightarrow> int \<Rightarrow> (db, unit) pm" where
  "set_shipment_status i status delivered now d = (Inr (), d\<lparr>shipments := tbl_map (\<lambda>j s. if j = i then
     s\<lparr>sh_status := status, sh_actual_delivery := (if delivered then Some now else sh_actual_delivery s)\<rparr> else s) (shipments d)\<rparr>)"

definition update_shipment_status :: "env \<Rightarrow> int \<Rightarrow> request \<Rightarrow> json handler" where
  "update_shipment_status E shipment_id rq =
     bind (lift (rq_body rq)) (\<lambda>body.
     bind (lift (jget_or body ''status'' (JStr []))) (\<lambda>new_status.
     seq (security_span ''broken_access_control'' ''medium'')
     (seq (get_db E (bind (gets w_now) (\<lambda>now. bind (lift (text_col new_status)) (\<lambda>status.
        on_db (set_shipment_status shipment_id status (new_status = JStr ''delivered'') now)))))
     (seq (if new_status = JStr ''delivered'' then metric ''shipments_delivered'' [] else ret ())
     (seq (push_log ''INFO'' (''Shipment #'' @ int_str shipment_id @ '' status updated to '' @ sq (jstr (rep E) new_status))
        [(''shipping.id'', JInt shipment_id), (''shipping.new_status'', new_status)])
     (ret (JObj [(''status'', JStr ''updated''), (''shipment_id'', JInt shipment_id), (''new_status'', new_status)])))))))"

subsection \<open>Safety\<close>

lemma safe_apply_region_delay [safe_intro]: "W.safe E A (apply_region_delay r)"
  unfolding apply_region_delay_def by (intro safe_intro)

lemma safe_shipping_reads [safe_intro]:
  "W.safe E A (list_shipments E s c l k)" "W.safe E A (shipments_by_region E r)" "W.safe E A (list_warehouses E)" "W.safe E A (get_shipment E i)"
  unfolding list_shipments_def shipments_by_region_def list_warehouses_def get_shipment_def Let_def by (intro safe_intro)+

lemma safe_create_shipment [safe_intro]: "W.safe E A (create_shipment E rq)"
  unfolding create_shipment_def by (intro safe_intro)

lemma set_shipment_status_ok [safe_intro]: "stmt_ok A (set_shipment_status i s c t)"
  by (simp add: stmt_ok_def set_shipment_status_def db_invs seq_le_def refs_map_src)

lemma safe_update_shipment_status [safe_intro]: "W.safe E A (update_shipment_status E i rq)"
  unfolding update_shipment_status_def by (intro safe_intro)

subsection \<open>Tracking\<close>

text \<open>A known status is reached together with every one before it, and none after it.\<close>

lemma status_reached_known:
  "i < length statuses_order \<Longrightarrow> j < length statuses_order \<Longrightarrow>
     status_reached (Some (statuses_order ! j)) (statuses_order ! i) \<longleftrightarrow> i \<le> j"
proof -
  have "\<forall>i < 4. \<forall>j < 4. status_reached (Some (statuses_order ! j)) (statuses_order ! i) \<longleftrightarrow> i \<le> (j::nat)"
    by code_simp
  moreover assume "i < length statuses_order" "j < length statuses_order"
  ultimately show ?thesis by (simp add: statuses_order_def)
qed

end
