(* ===== verification/Analytics.thy ===== *)
theory Analytics
  imports Shipping
begin

text \<open>
  \<open>server/modules/analytics.py\<close> and \<open>dashboard.py\<close>: page views, the figures of the dashboard and of the
  reports by region, and the endpoints that demonstrate slowness and errors.
\<close>

subsection \<open>Grouping\<close>

text \<open>\<open>ORDER BY\<close> with a comparison of its own: a stable insertion sort, where \<open>lt\<close> puts a row before another.\<close>

fun insert_by :: "('x \<Rightarrow> 'x \<Rightarrow> bool) \<Rightarrow> 'x \<Rightarrow> 'x list \<Rightarrow> 'x list" where
  "insert_by lt x [] = [x]"
| "insert_by lt x (y # ys) = (if lt y x then y # insert_by lt x ys else x # y # ys)"

definition sort_by :: "('x \<Rightarrow> 'x \<Rightarrow> bool) \<Rightarrow> 'x list \<Rightarrow> 'x list" where
  "sort_by lt xs = foldr (insert_by lt) xs []"

text \<open>Descending numbers of SQL: NULL first, then NaN, then the numbers.\<close>

definition before_desc :: "pyfloat option \<Rightarrow> pyfloat option \<Rightarrow> bool" where
  "before_desc a b = (case (a, b) of
     (None, Some _) \<Rightarrow> True
   | (Some x, Some y) \<Rightarrow> sql_fge x y \<and> \<not> sql_fge y x
   | _ \<Rightarrow> False)"

definition groups :: "('r \<Rightarrow> 'k) \<Rightarrow> 'r list \<Rightarrow> ('k \<times> 'r list) list" where
  "groups key rs = map (\<lambda>k. (k, filter (\<lambda>r. key r = k) rs)) (dedup (map key rs))"

lemma insert_by_set [simp]: "set (insert_by lt x ys) = insert x (set ys)"
  by (induction ys) auto

lemma sort_by_set [simp]: "set (sort_by lt xs) = set xs"
  unfolding sort_by_def by (induction xs) auto

lemma sort_by_length [simp]: "length (sort_by lt xs) = length xs"
proof -
  have "length (insert_by lt x ys) = Suc (length ys)" for x ys
    by (induction ys) auto
  then show ?thesis unfolding sort_by_def by (induction xs) auto
qed

text \<open>The groups partition the rows.\<close>

lemma groups_partition: "(\<Sum>g \<leftarrow> map snd (groups key rs). length g) = length rs"
proof -
  have "distinct (dedup (map key rs))" by simp
  have split: "length (filter (\<lambda>r. key r \<in> set ks) rs) = (\<Sum>k \<leftarrow> ks. length (filter (\<lambda>r. key r = k) rs))"
    if "distinct ks" for ks
    using that
  proof (induction ks)
    case (Cons k ks)
    have "length (filter (\<lambda>r. key r \<in> set (k # ks)) rs) =
        length (filter (\<lambda>r. key r = k) rs) + length (filter (\<lambda>r. key r \<in> set ks) rs)"
      using Cons.prems by (induction rs) auto
    with Cons show ?case by simp
  qed simp
  have "filter (\<lambda>r. key r \<in> set (dedup (map key rs))) rs = rs"
    by (rule filter_True) simp
  with split [OF \<open>distinct (dedup (map key rs))\<close>] show ?thesis
    by (simp add: groups_def comp_def)
qed

subsection \<open>Page views\<close>

text \<open>The latencies, in microseconds.\<close>

definition region_latency :: "(string \<times> int) list" where
  "region_latency = [(''us-east-1'', 50000), (''us-west-2'', 120000), (''eu-west-1'', 180000), (''eu-central-1'', 220000),
     (''ap-southeast-1'', 350000), (''ap-northeast-1'', 400000), (''sa-east-1'', 550000), (''af-south-1'', 700000), (''me-south-1'', 450000)]"

definition apply_region_latency :: "string \<Rightarrow> unit handler" where
  "apply_region_latency region = (case map_of region_latency region of
     None \<Rightarrow> ret ()
   | Some us \<Rightarrow> seq (sleep us) (push_log ''WARN'' (''Region latency applied: '' @ region @ '' (+'' @ int_str (us div 1000) @ ''ms)'')
       [(''analytics.region'', JStr region), (''analytics.delay_ms'', JInt (us div 1000))]))"

definition effective_region :: "string \<Rightarrow> request \<Rightarrow> string" where
  "effective_region region rq = str_or region (header_or rq ''x-client-region'' [])"

text \<open>The load times that are not NULL; \<open>MIN\<close> and \<open>MAX\<close> are NULL of none.\<close>

definition load_times :: "page_view_row list \<Rightarrow> int list" where
  "load_times vs = concat (map (\<lambda>v. case pv_load_time_ms v of None \<Rightarrow> [] | Some t \<Rightarrow> [t]) vs)"

definition extreme :: "(int \<Rightarrow> int \<Rightarrow> int) \<Rightarrow> int list \<Rightarrow> json" where
  "extreme f ts = (case ts of [] \<Rightarrow> JNull | t # ts' \<Rightarrow> JInt (foldl f t ts'))"

definition avg_load :: "page_view_row list \<Rightarrow> json" where
  "avg_load vs = sql_avg (map (\<lambda>t. Fin (of_int t)) (load_times vs))"

definition view_group :: "string \<Rightarrow> string \<Rightarrow> string \<Rightarrow> string option \<times> page_view_row list \<Rightarrow> (string \<times> json) list" where
  "view_group count low high g = (case g of (region, vs) \<Rightarrow>
     [(''visitor_region'', jopt region), (count, JInt (int (length vs))), (''avg_load_time'', avg_load vs),
      (low, extreme min (load_times vs)), (high, extreme max (load_times vs))])"

definition geo_query :: "string \<Rightarrow> string" where
  "geo_query region =
     ''SELECT visitor_region, COUNT(*) as view_count, AVG(load_time_ms) as avg_load_time, MIN(load_time_ms) as min_load_time, '' @
     ''MAX(load_time_ms) as max_load_time FROM page_views WHERE visitor_region = '' @ sq region @
     '' GROUP BY visitor_region ORDER BY view_count DESC''"

definition geo_analytics :: "sql_engine \<Rightarrow> env \<Rightarrow> string \<Rightarrow> request \<Rightarrow> json handler" where
  "geo_analytics sql E region rq =
     (let r = effective_region region rq in
      seq (if r \<noteq> [] then apply_region_latency r else ret ())
      (bind (get_db E (if r \<noteq> [] then
           seq (security_span ''sql_injection'' ''critical'')
           (seq (log_security_event ''sql_injection'' ''critical'' (''Unparameterized region filter in geo query: '' @ r) (client_ip rq) [] r [])
           (on_db (sql (geo_query r) [])))
         else query (\<lambda>d. map (\<lambda>g. JObj (view_group ''view_count'' ''min_load_time'' ''max_load_time'' g))
           (order_desc (\<lambda>g. int (length (snd g))) (groups pv_visitor_region (map snd (rows (page_views d)))))))) (\<lambda>gs.
       ret (JObj [(''regions'', JArr gs), (''total'', JInt (int (length gs)))]))))"

definition performance_by_region :: "env \<Rightarrow> string \<Rightarrow> request \<Rightarrow> json handler" where
  "performance_by_region E region rq =
     (let r = effective_region region rq in
      seq (if r \<noteq> [] then apply_region_latency r else ret ())
      (bind (get_db E (query (\<lambda>d. map (\<lambda>g. JObj (view_group ''total_views'' ''p0_load_time'' ''p100_load_time'' g))
         (sort_by (\<lambda>a b. before_desc (case avg_load (snd a) of JFloat f \<Rightarrow> Some f | _ \<Rightarrow> None) (case avg_load (snd b) of JFloat f \<Rightarrow> Some f | _ \<Rightarrow> None))
           (groups pv_visitor_region (map snd (tbl_select (\<lambda>v. r = [] \<or> pv_visitor_region v = Some r) (page_views d)))))))) (\<lambda>gs.
       ret (JObj [(''regions'', JArr gs), (''total'', JInt (int (length gs)))]))))"

definition page_view_of_body :: "json \<Rightarrow> request \<Rightarrow> int \<Rightarrow> page_view_row res" where
  "page_view_of_body body rq now =
     res_bind (res_bind (body_text_col body ''page'' (JStr ''/'')) (not_null ''page'')) (\<lambda>page.
     res_bind (body_text_col body ''visitor_region'' (JStr [])) (\<lambda>region.
     res_bind (body_text_col body ''user_agent'' (JStr (header_or rq ''user-agent'' []))) (\<lambda>agent.
     res_bind (body_int_col body ''load_time_ms'' (JInt 0)) (\<lambda>load.
     res_bind (body_text_col body ''referrer'' (JStr [])) (\<lambda>referrer.
     res_bind (body_text_col body ''session_id'' (JStr [])) (\<lambda>session.
     Inr \<lparr>pv_page = page, pv_visitor_ip = Some (client_ip rq), pv_visitor_region = region, pv_user_agent = agent,
       pv_load_time_ms = load, pv_referrer = referrer, pv_session_id = session, pv_created_at = now\<rparr>))))))"

text \<open>The metric of a page view compares the load time with 0, which a null of the body is not fit for.\<close>

definition record_page_view :: "json \<Rightarrow> json \<Rightarrow> json \<Rightarrow> unit handler" where
  "record_page_view pg region load_time =
     seq (metric ''page_views'' [pg, region])
     (bind (lift (jlt (JInt 0) load_time)) (\<lambda>loaded.
      if loaded then bind (lift (jfloat load_time)) (\<lambda>f. metric ''page_load_time'' [JFloat f, pg, region]) else ret ()))"

definition track_page_view :: "env \<Rightarrow> request \<Rightarrow> json handler" where
  "track_page_view E rq =
     bind (lift (rq_body rq)) (\<lambda>body.
     bind (lift (jget_or body ''page'' (JStr ''/''))) (\<lambda>page.
     bind (lift (jget_or body ''visitor_region'' (JStr []))) (\<lambda>region.
     bind (lift (jget_or body ''load_time_ms'' (JInt 0))) (\<lambda>load_time.
     bind (get_db E (bind (gets w_now) (\<lambda>now. bind (lift (page_view_of_body body rq now)) (\<lambda>r. on_db (add_page_view r))))) (\<lambda>i.
     seq (record_page_view page region load_time)
     (seq (push_log ''INFO'' (''Page view tracked: '' @ jstr (rep E) page)
        [(''analytics.page_view_id'', JInt i), (''analytics.page'', page), (''analytics.region'', region), (''analytics.load_time_ms'', load_time)])
     (ret (JObj [(''status'', JStr ''tracked''), (''page_view_id'', JInt i)]))))))))"

subsection \<open>Figures\<close>

definition overview :: "env \<Rightarrow> json handler" where
  "overview E = get_db E (query (\<lambda>d. JObj
     [(''total_customers'', JInt (int (length (rows (customers d))))),
      (''total_orders'', JInt (int (length (rows (orders d))))),
      (''total_revenue'', JFloat (sql_sum (map (o_total \<circ> snd) (rows (orders d))))),
      (''total_campaigns'', JInt (int (length (rows (campaigns d))))),
      (''active_campaigns'', JInt (int (length (tbl_select (\<lambda>c. cp_status c = ''active'') (campaigns d))))),
      (''total_shipments'', JInt (int (length (rows (shipments d))))),
      (''total_leads'', JInt (int (length (rows (leads d)))))]))"

definition converted_customer_ids :: "db \<Rightarrow> int list" where
  "converted_customer_ids d = dedup (concat (map (\<lambda>(i, l). case ld_customer_id l of Some c \<Rightarrow> [c] | None \<Rightarrow> [])
     (tbl_select (\<lambda>l. ld_status l = Some ''converted'') (leads d))))"

definition funnel_counts :: "db \<Rightarrow> (string \<times> nat) list" where
  "funnel_counts d =
     [(''leads'', length (rows (leads d))),
      (''qualified'', length (tbl_select (\<lambda>l. ld_status l \<in> {Some ''qualified'', Some ''converted''}) (leads d))),
      (''converted_to_customer'', length (converted_customer_ids d)),
      (''placed_order'', length (tbl_select (\<lambda>o'. case o_customer_id o' of None \<Rightarrow> False
         | Some c \<Rightarrow> c \<in> set (converted_customer_ids d)) (orders d)))]"

definition conversion_funnel :: "env \<Rightarrow> json handler" where
  "conversion_funnel E = bind (get_db E (query funnel_counts)) (\<lambda>fs.
     ret (JObj [(''funnel'', JArr (map (\<lambda>(s, n). JObj [(''stage'', JStr s), (''count'', JInt (int n))]) fs))]))"

text \<open>The revenue of a group: the total of the order of each of its shipments, NULL where there is none.\<close>

definition group_revenue :: "db \<Rightarrow> shipment_row list \<Rightarrow> pyfloat" where
  "group_revenue d ss = sql_sum (concat (map (\<lambda>s. case shipment_order d s of None \<Rightarrow> [] | Some o' \<Rightarrow> [o_total o']) ss))"

definition order_ids :: "shipment_row list \<Rightarrow> int list" where
  "order_ids ss = dedup (concat (map (\<lambda>s. case sh_order_id s of None \<Rightarrow> [] | Some o' \<Rightarrow> [o']) ss))"

definition revenue_group :: "db \<Rightarrow> string option \<times> shipment_row list \<Rightarrow> json" where
  "revenue_group d g = JObj
     [(''destination_region'', jopt (fst g)), (''order_count'', JInt (int (length (order_ids (snd g))))),
      (''total_revenue'', JFloat (group_revenue d (snd g))),
      (''total_shipping_cost'', JFloat (sql_sum (map sh_shipping_cost (snd g))))]"

definition revenue_by_region :: "env \<Rightarrow> json handler" where
  "revenue_by_region E = bind (get_db E (query (\<lambda>d. map (revenue_group d)
       (sort_by (\<lambda>a b. before_desc (Some (group_revenue d (snd a))) (Some (group_revenue d (snd b))))
         (groups sh_destination_region (map snd (rows (shipments d)))))))) (\<lambda>gs.
     ret (JObj [(''regions'', JArr gs), (''total'', JInt (int (length gs)))]))"

definition top_customers :: "db \<Rightarrow> json list" where
  "top_customers d = map (\<lambda>(i, c). JObj
       [(''id'', JInt i), (''name'', JStr (c_name c)), (''revenue'', JFloat (case c_revenue c of None \<Rightarrow> Fin 0 | Some f \<Rightarrow> f)),
        (''order_count'', JInt (int (length (tbl_select (\<lambda>o'. o_customer_id o' = Some i) (orders d)))))])
     (take 5 (sort_by (\<lambda>a b. before_desc (c_revenue (snd a)) (c_revenue (snd b))) (rows (customers d))))"

definition recent_orders :: "env \<Rightarrow> db \<Rightarrow> json list" where
  "recent_orders E d = map (\<lambda>(i, o'). JObj
       [(''id'', JInt i), (''total'', JFloat (o_total o')), (''status'', jopt (o_status o')), (''created_at'', iso E (o_created_at o')),
        (''customer_name'', JStr (case customer_of d o' of None \<Rightarrow> ''Unknown'' | Some c \<Rightarrow> c_name c)),
        (''source_system'', JStr (text_or (o_source_system o') ''enterprise-crm'')),
        (''backlog_status'', JStr (text_or (o_backlog_status o') ''current''))])
     (take 10 (order_desc (\<lambda>p. o_created_at (snd p)) (rows (orders d))))"

definition summary_of :: "env \<Rightarrow> db \<Rightarrow> (string \<times> json) list" where
  "summary_of E d =
     (let totals = map (o_total \<circ> snd) (rows (orders d)) in
      [(''customers'', JObj [(''total'', JInt (int (length (rows (customers d)))))]),
       (''orders'', JObj [(''total'', JInt (int (length totals))), (''revenue'', JFloat (sql_sum totals)),
          (''average'', JFloat (fround2 (if totals = [] then Fin 0 else fdiv_nat (sql_sum totals) (length totals))))]),
       (''tickets'', JObj (map (\<lambda>(s, ts). (s, JInt (int (length ts)))) (groups t_status (map snd (rows (support_tickets d)))))),
       (''invoices'', JArr (map (\<lambda>(s, vs). JObj [(''status'', JStr s), (''count'', JInt (int (length vs))),
          (''total'', JFloat (sql_sum (map iv_amount vs)))]) (groups iv_status (map snd (rows (invoices d)))))),
       (''top_customers'', JArr (top_customers d)), (''recent_orders'', JArr (recent_orders E d))])"

definition dashboard_summary :: "env \<Rightarrow> json handler" where
  "dashboard_summary E =
     seq (metric ''dashboard_loads'' [])
     (bind (get_db E (query (summary_of E))) (\<lambda>fs.
      bind (order_security_summary E) (\<lambda>security. ret (JObj (fs @ [(''security'', security)])))))"

subsection \<open>Demonstrations\<close>

definition slow_query :: "pyfloat \<Rightarrow> json handler" where
  "slow_query delay =
     seq (sleep_secs (JFloat (if flt (Fin 30) delay then Fin 30 else delay)))
     (seq (push_log ''WARNING'' ''Slow query endpoint invoked''
        [(''performance.delay_seconds'', JFloat delay), (''performance.endpoint'', JStr ''/api/dashboard/slow-query'')])
     (ret (JObj [(''status'', JStr ''ok''), (''delay'', JFloat delay)])))"

definition customer_totals :: "db \<Rightarrow> json list" where
  "customer_totals d = map (\<lambda>(i, c). let os = map snd (tbl_select (\<lambda>o'. o_customer_id o' = Some i) (orders d)) in JObj
       [(''customer'', JStr (c_name c)), (''order_count'', JInt (int (length os))), (''total'', JFloat (sql_sum (map o_total os)))])
     (rows (customers d))"

definition n_plus_one_demo :: "env \<Rightarrow> json handler" where
  "n_plus_one_demo E = bind (get_db E (query customer_totals)) (\<lambda>rs.
     let n = int (length rs) + 1 in
     seq (push_log ''WARNING'' (''N+1 query demo: '' @ int_str n @ '' queries executed'')
       [(''performance.query_count'', JInt n), (''performance.pattern'', JStr ''n_plus_one'')])
     (ret (JObj [(''results'', JArr rs), (''query_count'', JInt n)])))"

definition error_demo :: "env \<Rightarrow> string \<Rightarrow> json handler" where
  "error_demo E error_type =
     (if error_type = ''exception'' then raise (ValueError ''Simulated application exception for APM testing'')
      else if error_type = ''timeout'' then seq (sleep (35 * sec)) (ret (JObj [(''status'', JStr ''timeout completed'')]))
      else if error_type = ''memory'' then ret (JObj [(''status'', JStr ''allocated 100MB'')])
      else seq (if error_type = ''db_error'' then get_db E (raise (DBAPIError ''table or view does not exist'')) else ret ())
        (ret (JObj [(''status'', JStr ''unknown error type''),
          (''available'', JArr (map JStr [''exception'', ''timeout'', ''memory'', ''db_error'']))])))"

subsection \<open>Safety\<close>

lemma safe_apply_region_latency [safe_intro]: "W.safe E A (apply_region_latency r)"
  unfolding apply_region_latency_def by (intro safe_intro)

lemma safe_geo_analytics: "(\<And>q ps. stmt_ok A (sql q ps)) \<Longrightarrow> W.safe E A (geo_analytics sql E r rq)"
  unfolding geo_analytics_def Let_def by (intro safe_intro)

lemma safe_record_page_view [safe_intro]: "W.safe E A (record_page_view p r l)"
  unfolding record_page_view_def by (intro safe_intro)

lemma safe_track_page_view [safe_intro]: "W.safe E A (track_page_view E rq)"
  unfolding track_page_view_def by (intro safe_intro)

lemma safe_figures [safe_intro]:
  "W.safe E A (performance_by_region E r rq)" "W.safe E A (overview E)" "W.safe E A (conversion_funnel E)" "W.safe E A (revenue_by_region E)"
  "W.safe E A (dashboard_summary E)" "W.safe E A (slow_query t)" "W.safe E A (n_plus_one_demo E)" "W.safe E A (error_demo E k)"
  unfolding performance_by_region_def overview_def conversion_funnel_def revenue_by_region_def dashboard_summary_def
    slow_query_def n_plus_one_demo_def error_demo_def Let_def
  by (intro safe_intro)+

end
