(* ===== verification/Integrations.thy ===== *)
theory Integrations
  imports Desk Base64
begin

text \<open>
  \<open>server/modules/integrations.py\<close>: the other services of the platform, whether they answer, what the shop
  offers and sold, and the remote consoles of the control plane. Every request to another service goes
  through \<open>send\<close>. The published schema is in Contracts.
\<close>

subsection \<open>Dependencies\<close>

record dependency =
  dp_name :: string
  dp_display_name :: string
  dp_type :: string
  dp_url :: string
  dp_probe_url :: "string option"
  dp_health_paths :: "string list"
  dp_configured :: "bool option"
  dp_drilldown :: string

definition dependency_fields :: "dependency \<Rightarrow> (string \<times> json) list" where
  "dependency_fields p =
     [(''name'', JStr (dp_name p)), (''display_name'', JStr (dp_display_name p)), (''type'', JStr (dp_type p)), (''url'', JStr (dp_url p))] @
     (case dp_probe_url p of None \<Rightarrow> [] | Some u \<Rightarrow> [(''probe_url'', JStr u)]) @
     [(''health_paths'', JArr (map JStr (dp_health_paths p)))] @
     (case dp_configured p of None \<Rightarrow> [] | Some b \<Rightarrow> [(''configured'', JBool b)]) @
     [(''drilldown_product'', JStr (dp_drilldown p))]"

definition dns_url :: "config \<Rightarrow> string \<Rightarrow> string \<Rightarrow> string" where
  "dns_url c subdomain scheme = (if dns_domain c \<noteq> [] then scheme @ ''://'' @ subdomain @ ''.'' @ dns_domain c else [])"

definition atp_connection_name :: "config \<Rightarrow> string" where
  "atp_connection_name c = oracle_dsn c"

fun first_of :: "string list \<Rightarrow> string" where
  "first_of [] = []"
| "first_of (s # ss) = (if s \<noteq> [] then s else first_of ss)"

definition configured_dependencies :: "config \<Rightarrow> dependency list" where
  "configured_dependencies c =
     (let cp = dns_url c ''cp'' ''https''; backend = first_of [platform_backend_url c, control_plane_url c, cp];
          probes = [''/health'', ''/api/health'', ''/ready''] in
     [\<lparr>dp_name = ''drone-shop-portal'', dp_display_name = ''Drone Shop Portal'', dp_type = ''application'',
       dp_url = first_of [octo_drone_shop_url c, mushop_cloudnative_url c, octo_apm_cloudnative_url c, dns_url c ''shop'' ''https''],
       dp_probe_url = None, dp_health_paths = [''/health'', ''/ready''], dp_configured = None, dp_drilldown = ''APM''\<rparr>,
      \<lparr>dp_name = ''seven-kingdoms-portal'', dp_display_name = ''Seven Kingdoms Portal'', dp_type = ''application'',
       dp_url = first_of [c22_skp_url c, dns_url c ''portal'' ''http''],
       dp_probe_url = None, dp_health_paths = [''/health'', ''/ready''], dp_configured = None, dp_drilldown = ''APM / Log Analytics''\<rparr>,
      \<lparr>dp_name = ''platform-control-plane'', dp_display_name = ''Platform Control Plane'', dp_type = ''backend'',
       dp_url = first_of [cp, control_plane_url c],
       dp_probe_url = Some backend, dp_health_paths = probes, dp_configured = None, dp_drilldown = ''APM''\<rparr>,
      \<lparr>dp_name = ''platform-backend'', dp_display_name = ''Platform Backends'', dp_type = ''backend'',
       dp_url = first_of [platform_backend_url c, cp],
       dp_probe_url = Some backend, dp_health_paths = probes, dp_configured = None, dp_drilldown = ''Log Analytics''\<rparr>,
      \<lparr>dp_name = ''octo-apm-atp'', dp_display_name = ''OCTO ATP Backend'', dp_type = ''database'', dp_url = [],
       dp_probe_url = None, dp_health_paths = [], dp_configured = Some (atp_ocid c \<noteq> [] \<or> atp_connection_name c \<noteq> []),
       dp_drilldown = ''DB Management / OPSI''\<rparr>])"

definition drilldown_targets :: "config \<Rightarrow> json" where
  "drilldown_targets c = JArr (map (\<lambda>(name, url). JObj [(''name'', JStr name), (''url'', JStr url), (''configured'', JBool (url \<noteq> []))])
     [(''OCI APM'', apm_console_url c), (''OCI Operations Insights'', opsi_console_url c),
      (''OCI DB Management'', db_management_console_url c), (''OCI Log Analytics'', log_analytics_console_url c)])"

text \<open>A GET with the correlation headers.\<close>

definition http_get :: "env \<Rightarrow> string \<Rightarrow> string \<Rightarrow> http_response handler" where
  "http_get E cid url = bind (outbound_headers E cid) (\<lambda>hs.
     send E \<lparr>hc_method = ''GET'', hc_url = url, hc_headers = hs, hc_body = JNull\<rparr>)"

text \<open>The first path answered below 500, with its URL and status.\<close>

fun probe :: "env \<Rightarrow> (string \<times> string) list \<Rightarrow> string \<Rightarrow> string list \<Rightarrow> (string \<times> int) option handler" where
  "probe E hs base [] = ret None"
| "probe E hs base (p # ps) =
     bind (send E \<lparr>hc_method = ''GET'', hc_url = rstrip_slash base @ p, hc_headers = hs, hc_body = JNull\<rparr>) (\<lambda>r.
     if hr_status r < 500 then ret (Some (rstrip_slash base @ p, hr_status r)) else probe E hs base ps)"

definition probed :: "env \<Rightarrow> string \<Rightarrow> string \<Rightarrow> string list \<Rightarrow> (string \<times> json) list handler" where
  "probed E cid base paths = catch
     (bind (outbound_headers E cid) (\<lambda>hs. bind (probe E hs base paths) (\<lambda>answer. ret (case answer of
        Some (url, status) \<Rightarrow> [(''status'', JStr (if status < 400 then ''healthy'' else ''degraded'')),
           (''health_url'', JStr url), (''status_code'', JInt status)]
      | None \<Rightarrow> [(''status'', JStr ''unhealthy'')]))))
     (\<lambda>e. ret [(''status'', JStr ''unreachable''), (''error'', JStr (exc_str e))])"

definition dependency_health :: "env \<Rightarrow> dependency \<Rightarrow> string \<Rightarrow> (string \<times> json) list handler" where
  "dependency_health E dep cid =
     (if dp_name dep = ''octo-apm-atp'' then
        (let configured = (case dp_configured dep of None \<Rightarrow> False | Some b \<Rightarrow> b) in
         ret (obj_update (dependency_fields dep)
           [(''configured'', JBool configured), (''status'', JStr (if configured then ''configured'' else ''not_configured'')),
            (''database_target'', JStr (database_target_label (cfg E))), (''atp_ocid'', null_if_empty (atp_ocid (cfg E))),
            (''connection_name'', null_if_empty (atp_connection_name (cfg E)))]))
      else
        (let base = str_or (opt_str (dp_probe_url dep)) (dp_url dep);
             fields = obj_update (dependency_fields dep) [(''configured'', JBool (dp_url dep \<noteq> [] \<or> base \<noteq> []))] in
         if dp_url dep = [] \<and> base = [] then ret (obj_update fields [(''status'', JStr ''not_configured'')])
         else bind (probed E cid base (dp_health_paths dep)) (\<lambda>found. ret (obj_update fields found))))"

definition collect_dependency_status :: "env \<Rightarrow> string \<Rightarrow> json list handler" where
  "collect_dependency_status E cid = foldM (\<lambda>dep acc. bind (dependency_health E dep cid) (\<lambda>fs. ret (acc @ [JObj fs])))
     (configured_dependencies (cfg E)) []"

definition request_correlation :: "env \<Rightarrow> request \<Rightarrow> string handler" where
  "request_correlation E rq = build_correlation_id E (opt_str (rq_correlation_id rq))"

definition service_metadata :: "config \<Rightarrow> (string \<times> json) list" where
  "service_metadata c =
     [(''service.name'', JStr (otel_service_name c)), (''service.namespace'', JStr (service_namespace c)),
      (''service.version'', JStr (app_version c)), (''service.instance.id'', JStr (service_instance_id c)),
      (''deployment.environment'', JStr (app_env c)), (''app.name'', JStr (app_name c)), (''app.brand'', JStr (brand_name c)),
      (''app.runtime'', JStr (app_runtime c)), (''oci.demo.stack'', JStr (demo_stack_name c))]"

definition service_name_from_url :: "string \<Rightarrow> string res" where
  "service_name_from_url url =
     (if url = [] then Inr [] else
      case url_parts url of None \<Rightarrow> Inl (ValueError ''Invalid IPv6 URL'')
      | Some (scheme, netloc, path) \<Rightarrow> Inr (hd (split_on CHR '':'' (str_or netloc path))))"

text \<open>\<open>base_url\<close> is the request's.\<close>

definition status_payload :: "env \<Rightarrow> string \<Rightarrow> request \<Rightarrow> json list \<Rightarrow> (string \<times> json) list handler" where
  "status_payload E base_url rq dependencies = bind (request_correlation E rq) (\<lambda>cid.
     bind (lift (service_name_from_url base_url)) (\<lambda>service_host. let c = cfg E in ret
     [(''service'', JObj ([(''display_name'', JStr (brand_name c)), (''app_name'', JStr (app_name c)),
         (''service_name'', JStr (otel_service_name c)), (''service_host'', JStr service_host)] @ service_metadata c)),
      (''correlation'', JObj [(''correlation_id'', JStr cid), (''trace_id'', JStr (trace_id E)), (''span_id'', JStr (span_id E)),
         (''traceparent'', JStr (traceparent E)), (''oracleApmTraceId'', JStr (trace_id E))]),
      (''telemetry'', JObj [(''apm_configured'', JBool (apm_configured c)), (''rum_configured'', JBool (rum_configured c)),
         (''logging_configured'', JBool (logging_configured c)), (''otlp_log_export_enabled'', JBool (otlp_log_export_enabled c)),
         (''database_target'', JStr (database_target_label c)),
         (''database_observability_enabled'', JBool (database_observability_enabled c)),
         (''orders_sync_enabled'', JBool (orders_sync_enabled c)), (''orders_sync_interval_seconds'', JInt (orders_sync_interval_seconds c)),
         (''orders_sync_source_name'', JStr (orders_sync_source_name c))]),
      (''dependencies'', JArr dependencies), (''drilldowns'', drilldown_targets c)]))"

definition status_of_platform :: "string \<Rightarrow> string \<Rightarrow> env \<Rightarrow> string \<Rightarrow> request \<Rightarrow> json handler" where
  "status_of_platform kind message E base_url rq =
     bind (request_correlation E rq) (\<lambda>cid.
     bind (collect_dependency_status E cid) (\<lambda>deps.
     bind (status_payload E base_url rq deps) (\<lambda>fs.
     bind (order_security_summary E) (\<lambda>summary.
     seq (push_log ''INFO'' message [(''integration.type'', JStr kind), (''integration.dependency_count'', JInt (int (length deps))),
        (''correlation.id'', JStr cid)])
     (ret (JObj (fs @ [(''orders'', summary)])))))))"

definition topology :: "env \<Rightarrow> string \<Rightarrow> request \<Rightarrow> json handler" where
  "topology = status_of_platform ''topology'' ''Topology requested''"

definition integration_status :: "env \<Rightarrow> string \<Rightarrow> request \<Rightarrow> json handler" where
  "integration_status = status_of_platform ''status'' ''Integration status requested''"

definition mushop_health :: "env \<Rightarrow> request \<Rightarrow> json handler" where
  "mushop_health E rq = bind (request_correlation E rq) (\<lambda>cid.
     bind (dependency_health E (hd (configured_dependencies (cfg E))) cid) (\<lambda>fs.
     ret (JObj (alist_set ''correlation_id'' (JStr cid) fs))))"

subsection \<open>The shop\<close>

definition mushop_url :: "config \<Rightarrow> string" where
  "mushop_url c = first_of [octo_drone_shop_url c, mushop_cloudnative_url c, octo_apm_cloudnative_url c]"

text \<open>\<open>len(v)\<close>.\<close>

fun jlen :: "json \<Rightarrow> int res" where
  "jlen (JArr xs) = Inr (int (length xs))"
| "jlen (JObj fs) = Inr (int (length fs))"
| "jlen (JStr s) = Inr (int (length s))"
| "jlen _ = Inl TypeError"

text \<open>What is returned where the shop answers with another status, or not at all.\<close>

definition shop_failure :: "string \<Rightarrow> string \<Rightarrow> string \<Rightarrow> json" where
  "shop_failure k reason cid = JObj [(k, JArr []), (''reason'', JStr reason), (''correlation_id'', JStr cid)]"

definition asked_shop :: "string \<Rightarrow> string \<Rightarrow> http_response handler \<Rightarrow> (json \<Rightarrow> json handler) \<Rightarrow> json handler" where
  "asked_shop k cid ask use = catch
     (bind ask (\<lambda>r. if hr_status r = 200 then bind (lift (hr_json r)) use
        else ret (shop_failure k (''Drone Shop returned '' @ int_str (hr_status r)) cid)))
     (\<lambda>e. ret (shop_failure k (exc_str e) cid))"

definition mushop_product_catalog :: "env \<Rightarrow> string \<Rightarrow> request \<Rightarrow> json handler" where
  "mushop_product_catalog E category rq = bind (request_correlation E rq) (\<lambda>cid.
     let mushop = mushop_url (cfg E) in
     if mushop = [] then ret (JObj [(''error'', JStr ''Drone Shop not configured''), (''products'', JArr [])]) else
     asked_shop ''products'' cid
       (http_get E cid (rstrip_slash mushop @ ''/api/products'' @
          (if category \<noteq> [] then ''?'' @ urlencode E [(''category'', category)] else [])))
       (\<lambda>data. bind (lift (jget_or data ''products'' (JArr []))) (\<lambda>ps. bind (lift (jlen ps)) (\<lambda>n.
          seq (push_log ''INFO'' ''Drone Shop product catalog fetched''
            [(''integration.type'', JStr ''product_catalog''), (''integration.target_service'', JStr ''drone-shop-portal''),
             (''integration.product_count'', JInt n), (''correlation.id'', JStr cid)])
          (ret (JObj [(''products'', ps), (''source'', JStr ''drone-shop-portal''), (''category'', JStr category), (''correlation_id'', JStr cid)]))))))"

text \<open>\<open>[o for o in orders if o.get("customer_email") == email]\<close>.\<close>

fun orders_of_email :: "string \<Rightarrow> json list \<Rightarrow> json list res" where
  "orders_of_email email [] = Inr []"
| "orders_of_email email (x # xs) = res_bind (jget x ''customer_email'') (\<lambda>v.
     res_bind (orders_of_email email xs) (\<lambda>ys. Inr (if v = JStr email then x # ys else ys)))"

definition mushop_order_history :: "env \<Rightarrow> string \<Rightarrow> request \<Rightarrow> json handler" where
  "mushop_order_history E customer_email rq = bind (request_correlation E rq) (\<lambda>cid.
     let mushop = external_orders_base_url E in
     if mushop = [] then ret (JObj [(''error'', JStr ''Drone Shop not configured'')]) else
     asked_shop ''orders'' cid (http_get E cid (rstrip_slash mushop @ ''/api/orders''))
       (\<lambda>data. bind (lift (jget_or data ''orders'' (JArr []))) (\<lambda>os.
          bind (if customer_email \<noteq> [] then lift (res_bind (jiter os) (\<lambda>xs. res_bind (orders_of_email customer_email xs) (\<lambda>ys. Inr (JArr ys))))
                else ret os) (\<lambda>found.
          ret (JObj [(''orders'', found), (''source'', JStr ''drone-shop-portal''), (''customer_email'', JStr customer_email), (''correlation_id'', JStr cid)])))))"

definition mushop_recommend_products :: "env \<Rightarrow> (string \<times> json) list \<Rightarrow> request \<Rightarrow> json handler" where
  "mushop_recommend_products E payload rq = bind (request_correlation E rq) (\<lambda>cid.
     let mushop = mushop_url (cfg E); field = (\<lambda>k. case map_of payload k of None \<Rightarrow> JNull | Some v \<Rightarrow> v);
         context = [(''ticket_id'', field ''ticket_id''), (''customer_id'', field ''customer_id'')] in
     if mushop = [] then ret (JObj [(''error'', JStr ''Drone Shop not configured'')]) else
     asked_shop ''recommendations'' cid (http_get E cid (rstrip_slash mushop @ ''/api/shop/featured''))
       (\<lambda>data. bind (lift (jget_or data ''products'' (JArr []))) (\<lambda>ps. bind (lift (jlen ps)) (\<lambda>n.
          seq (push_log ''INFO'' ''Drone Shop product recommendations fetched''
            [(''integration.type'', JStr ''recommend_products''), (''integration.target_service'', JStr ''drone-shop-portal''),
             (''integration.product_count'', JInt n), (''integration.ticket_id'', field ''ticket_id''),
             (''integration.customer_id'', field ''customer_id''), (''correlation.id'', JStr cid)])
          (ret (JObj [(''recommendations'', ps), (''source'', JStr ''drone-shop-portal''), (''context'', JObj context), (''correlation_id'', JStr cid)]))))))"

subsection \<open>Remote consoles\<close>

text \<open>One connection of the control plane, with its login URL.\<close>

definition console_connection :: "env \<Rightarrow> json \<Rightarrow> json \<Rightarrow> json res" where
  "console_connection E guac_url conn =
     res_bind (jget_or conn ''identifier'' (JStr [])) (\<lambda>identifier.
     res_bind (jget_or conn ''id'' identifier) (\<lambda>conn_id.
     res_bind (jget_or conn ''name'' (JStr [])) (\<lambda>name.
     res_bind (jget_or conn ''protocol'' (JStr ''ssh'')) (\<lambda>protocol.
     res_bind (jget conn ''parameters'') (\<lambda>parameters.
     res_bind (case parameters of JObj fs \<Rightarrow> jget_or parameters ''hostname'' (JStr []) | _ \<Rightarrow> Inr (JStr [])) (\<lambda>hostname.
     let encoded = b64encode (jstr (rep E) conn_id @ [CHR 0x00] @ ''c'' @ [CHR 0x00] @ ''postgresql'') in
     Inr (JObj [(''identifier'', conn_id), (''name'', name), (''protocol'', protocol), (''hostname'', hostname),
       (''client_url'', JStr (if truthy guac_url then jstr (rep E) guac_url @ ''/#/client/'' @ encoded else []))])))))))"

definition console_connections :: "env \<Rightarrow> request \<Rightarrow> json handler" where
  "console_connections E rq =
     (let cp_url = control_plane_url (cfg E); failure = (\<lambda>e. JObj [(''connections'', JArr []), (''error'', JStr e)]) in
      if cp_url = [] then ret (failure ''Control Plane not configured'') else
      bind (request_correlation E rq) (\<lambda>cid.
      bind (catch (bind (http_get E cid (rstrip_slash cp_url @ ''/api/guacamole/connections'')) (\<lambda>r.
           if hr_status r \<noteq> 200 then ret (Inl (failure (''Control Plane returned '' @ int_str (hr_status r))))
           else bind (lift (hr_json r)) (\<lambda>data. ret (Inr data))))
         (\<lambda>e. ret (Inl (failure (exc_str e))))) (\<lambda>outcome.
      case outcome of Inl answer \<Rightarrow> ret answer
      | Inr data \<Rightarrow>
          bind (lift (jget_or data ''guacamole_url'' (JStr []))) (\<lambda>guac_url.
          bind (lift (res_bind (jget_or data ''connections'' (JArr [])) jiter)) (\<lambda>conns.
          bind (lift (res_map (console_connection E guac_url) conns)) (\<lambda>found.
          ret (JObj [(''connections'', JArr found), (''guacamole_url'', guac_url), (''total'', JInt (int (length found)))])))))))"

definition console_config :: "env \<Rightarrow> json handler" where
  "console_config E = ret (JObj [(''available'', JBool (control_plane_url (cfg E) \<noteq> [])),
     (''control_plane_url'', null_if_empty (control_plane_url (cfg E)))])"

subsection \<open>Safety\<close>

lemma safe_http_get [safe_intro]: "W.safe E A (http_get E c u)"
  unfolding http_get_def by (intro safe_intro)

lemma safe_probe [safe_intro]: "W.safe E A (probe E hs b ps)"
proof (induction ps)
  case (Cons p ps)
  then show ?case by (simp only: probe.simps) (intro safe_intro)
qed (simp only: probe.simps safe_intro)

lemma safe_probed [safe_intro]: "W.safe E A (probed E c b ps)"
  unfolding probed_def by (intro safe_intro)

lemma safe_dependency_health [safe_intro]: "W.safe E A (dependency_health E d c)"
  unfolding dependency_health_def Let_def by (intro safe_intro)

lemma safe_request_correlation [safe_intro]: "W.safe E A (request_correlation E rq)"
  unfolding request_correlation_def by (intro safe_intro)

lemma safe_asked_shop [safe_intro]: "W.safe E A a \<Longrightarrow> (\<And>j. W.safe E A (u j)) \<Longrightarrow> W.safe E A (asked_shop k c a u)"
  unfolding asked_shop_def by (intro safe_intro)

lemma safe_integrations [safe_intro]:
  "W.safe E A (topology E n rq)" "W.safe E A (integration_status E n rq)" "W.safe E A (mushop_health E rq)"
  "W.safe E A (mushop_product_catalog E g rq)" "W.safe E A (mushop_order_history E m rq)" "W.safe E A (mushop_recommend_products E p rq)"
  "W.safe E A (console_connections E rq)" "W.safe E A (console_config E)"
  unfolding topology_def integration_status_def status_of_platform_def collect_dependency_status_def status_payload_def
    mushop_health_def mushop_product_catalog_def mushop_order_history_def mushop_recommend_products_def
    console_connections_def console_config_def Let_def
  by (intro safe_intro)+

end
