(* ===== verification/Observability.thy ===== *)
theory Observability
  imports Analytics Integrations Middleware
begin

text \<open>
  \<open>server/modules/observability_dashboard.py\<close>: the summaries of the dashboard of the whole system. A summary
  that reads the database answers with the message of any exception instead of raising it.
\<close>

definition day :: int where
  "day = 24 * 3600 * sec"

definition num :: "nat \<Rightarrow> json" where
  "num n = JInt (int n)"

text \<open>\<open>try: ... except Exception as e: return {..., "status": "error", "error": str(e)}\<close>.\<close>

definition reported :: "(string \<times> json) list \<Rightarrow> json handler \<Rightarrow> json handler" where
  "reported before m = catch m (\<lambda>e. ret (JObj (before @ [(''status'', JStr ''error''), (''error'', JStr (exc_str e))])))"

definition z_iso :: "env \<Rightarrow> int \<Rightarrow> json" where
  "z_iso E t = JStr (isoformat E t @ ''Z'')"

text \<open>\<open>u or None\<close> with whether there is one.\<close>

definition console :: "string \<Rightarrow> (string \<times> json) list" where
  "console url = [(''console_url'', null_if_empty url), (''configured'', JBool (url \<noteq> []))]"

subsection \<open>Application\<close>

definition app_health_of :: "db \<Rightarrow> int \<Rightarrow> json" where
  "app_health_of d now = JObj
     [(''status'', JStr ''healthy''),
      (''entities'', JObj
        [(''customers'', num (length (rows (customers d)))), (''orders'', num (length (rows (orders d)))),
         (''products'', num (length (rows (products d)))), (''invoices'', num (length (rows (invoices d)))),
         (''tickets'', num (length (rows (support_tickets d)))), (''users'', num (length (rows (users d)))),
         (''active_sessions'', num (length (rows (user_sessions d))))]),
      (''activity'', JObj
        [(''orders_24h'', num (length (tbl_select (\<lambda>r. now - day \<le> o_created_at r) (orders d)))),
         (''open_tickets'', num (length (tbl_select (\<lambda>r. t_status r = ''open'') (support_tickets d)))),
         (''total_revenue'', JFloat (sql_sum (map (o_total \<circ> snd) (rows (orders d)))))])]"

definition app_health_summary :: "env \<Rightarrow> json handler" where
  "app_health_summary E = reported [] (session_factory E (bind (gets w_now) (\<lambda>now. query (\<lambda>d. app_health_of d now))))"

subsection \<open>Database\<close>

definition db_health_summary :: "env \<Rightarrow> json handler" where
  "db_health_summary E = (let c = cfg E; target = (''database_target'', JStr (database_target_label c)) in
     bind (gets w_now) (\<lambda>start.
     catch
       (seq (session_factory E (ret ()))
        (bind (gets w_now) (\<lambda>now. ret (JObj
          [(''status'', JStr ''connected''), (''latency_ms'', millis (now - start)), target,
           (''atp_ocid'', null_if_empty (atp_ocid c)), (''connection_name'', null_if_empty (atp_connection_name c)),
           (''session_tagging'', JBool True),
           (''pool'', JObj [(''size'', JInt (db_pool_size c)), (''max_overflow'', JInt (db_max_overflow c)),
              (''timeout'', JInt (db_pool_timeout c))]),
           (''observability'', JObj [(''sql_id_enrichment'', JBool (database_observability_enabled c)),
              (''session_tagging_enabled'', JBool True), (''opsi_console'', null_if_empty (opsi_console_url c)),
              (''db_management_console'', null_if_empty (db_management_console_url c))])]))))
       (\<lambda>e. ret (JObj [(''status'', JStr ''disconnected''), (''error'', JStr (exc_str e)), target]))))"

subsection \<open>Integrations\<close>

definition integration_health_summary :: "env \<Rightarrow> json" where
  "integration_health_summary E = (let c = cfg E in JObj
     [(''drone_shop'', JObj
        [(''configured'', JBool (octo_drone_shop_url c \<noteq> [] \<or> mushop_cloudnative_url c \<noteq> [])),
         (''sync_enabled'', JBool (orders_sync_enabled c)),
         (''sync_interval_seconds'', JInt (orders_sync_interval_seconds c)),
         (''source_name'', JStr (orders_sync_source_name c))]),
      (''seven_kingdoms'', JObj [(''configured'', JBool (c22_skp_url c \<noteq> []))]),
      (''control_plane'', JObj [(''configured'', JBool (control_plane_url c \<noteq> []))]),
      (''atp'', JObj [(''configured'', JBool (atp_ocid c \<noteq> [] \<or> atp_connection_name c \<noteq> [])),
         (''atp_ocid'', null_if_empty (atp_ocid c))])])"

subsection \<open>Security\<close>

definition owasp_coverage :: "string list" where
  "owasp_coverage =
     [''A01-Broken Access Control'', ''A02-Cryptographic Failures'', ''A03-Injection'', ''A04-Insecure Design'',
      ''A07-Auth Failures'', ''A08-Deserialization'', ''A10-SSRF'']"

definition audits_with :: "string \<Rightarrow> db \<Rightarrow> (int \<times> sync_audit_row) list" where
  "audits_with status d = tbl_select (\<lambda>r. osa_sync_status r = status) (order_sync_audit d)"

definition security_of :: "db \<Rightarrow> int \<Rightarrow> json" where
  "security_of d now = JObj
     [(''audit'', JObj [(''total_entries'', num (length (rows (audit_logs d)))),
         (''entries_24h'', num (length (tbl_select (\<lambda>r. now - day \<le> al_created_at r) (audit_logs d))))]),
      (''waf'', JObj [(''detection_enabled'', JBool True),
         (''header_monitoring'', JArr (map JStr [''x-oci-waf-score'', ''x-oci-waf-action'']))]),
      (''order_sync_failures'', num (length (audits_with ''failed'' d))),
      (''owasp_coverage'', JArr (map JStr owasp_coverage))]"

definition security_health :: "env \<Rightarrow> json handler" where
  "security_health E = reported [] (session_factory E (bind (gets w_now) (\<lambda>now. query (\<lambda>d. security_of d now))))"

subsection \<open>Order synchronization\<close>

text \<open>\<open>round(x, 1)\<close>, and \<open>round((successful / total * 100), 1) if total > 0 else 100.0\<close>.\<close>

fun fround1 :: "pyfloat \<Rightarrow> pyfloat" where
  "fround1 (Fin a) = rnd (of_int (round_even (a * 10)) / 10)"
| "fround1 f = f"

definition success_rate :: "nat \<Rightarrow> nat \<Rightarrow> pyfloat" where
  "success_rate successful all =
     (if 0 < all then fround1 (fmul (rnd (of_nat successful / of_nat all)) (Fin 100)) else Fin 100)"

definition latest :: "int list \<Rightarrow> int option" where
  "latest ts = (case ts of [] \<Rightarrow> None | t # ts' \<Rightarrow> Some (foldl max t ts'))"

definition sync_health_of :: "env \<Rightarrow> db \<Rightarrow> json res" where
  "sync_health_of E d =
     res_bind (int_to_float (suspicious_order_total_threshold (cfg E))) (\<lambda>threshold.
     let successful = audits_with ''success'' d; failed = audits_with ''failed'' d; audits = rows (order_sync_audit d) in
     Inr (JObj
       [(''enabled'', JBool (orders_sync_enabled (cfg E))), (''source'', JStr (orders_sync_source_name (cfg E))),
        (''interval_seconds'', JInt (orders_sync_interval_seconds (cfg E))),
        (''stats'', JObj
          [(''total_sync_operations'', num (length audits)), (''successful'', num (length successful)), (''failed'', num (length failed)),
           (''success_rate_pct'', JFloat (success_rate (length successful) (length audits))),
           (''last_successful_sync'', (case latest (map (osa_created_at \<circ> snd) successful) of None \<Rightarrow> JNull | Some t \<Rightarrow> z_iso E t))]),
        (''orders'', JObj
          [(''external_total'', num (length (tbl_select (\<lambda>r. case o_source_system r of None \<Rightarrow> False | Some s \<Rightarrow> s \<noteq> ''enterprise-crm'') (orders d)))),
           (''backlog'', num (length (tbl_select (\<lambda>r. o_backlog_status r = Some ''backlog'') (orders d)))),
           (''suspicious'', num (length (tbl_select (\<lambda>r. sql_fge (o_total r) threshold) (orders d))))]),
        (''thresholds'', JObj
          [(''suspicious_total'', JInt (suspicious_order_total_threshold (cfg E))),
           (''backlog_age_minutes'', JInt (backlog_order_age_minutes (cfg E)))])]))"

definition order_sync_health :: "env \<Rightarrow> json handler" where
  "order_sync_health E = reported [(''enabled'', JBool (orders_sync_enabled (cfg E)))]
     (session_factory E (bind (query (\<lambda>d. d)) (\<lambda>d. lift (sync_health_of E d))))"

subsection \<open>The dashboard\<close>

definition pillars :: "config \<Rightarrow> json" where
  "pillars c = JObj
     [(''apm'', JObj [(''configured'', JBool (apm_configured c)), (''console_url'', null_if_empty (apm_console_url c)),
         (''service_name'', JStr (otel_service_name c)), (''rum_configured'', JBool (rum_configured c))]),
      (''logging'', JObj [(''configured'', JBool (logging_configured c)), (''log_id'', null_if_empty (oci_log_id c)),
         (''console_url'', null_if_empty (log_analytics_console_url c))]),
      (''metrics'', JObj [(''prometheus'', JBool True), (''otlp_export'', JBool (apm_configured c))]),
      (''opsi'', JObj (console (opsi_console_url c))),
      (''db_management'', JObj (console (db_management_console_url c) @ [(''atp_ocid'', null_if_empty (atp_ocid c))]))]"

definition observability_360 :: "env \<Rightarrow> request \<Rightarrow> json handler" where
  "observability_360 E rq =
     bind (request_correlation E rq) (\<lambda>cid.
     bind (gets w_now) (\<lambda>start.
     bind (app_health_summary E) (\<lambda>app.
     bind (db_health_summary E) (\<lambda>db.
     bind (security_health E) (\<lambda>security.
     bind (order_sync_health E) (\<lambda>sync.
     bind (gets w_now) (\<lambda>now.
     seq (push_log ''INFO'' ''360 observability dashboard loaded''
       [(''dashboard.type'', JStr ''360-monitoring''), (''dashboard.query_time_ms'', millis (now - start)), (''correlation.id'', JStr cid)])
     (ret (JObj
       [(''timestamp'', z_iso E now),
        (''correlation'', JObj [(''correlation_id'', JStr cid), (''trace_id'', JStr (trace_id E)), (''span_id'', JStr (span_id E)),
           (''traceparent'', JStr (traceparent E))]),
        (''service'', JObj (service_metadata (cfg E))), (''pillars'', pillars (cfg E)),
        (''app_health'', app), (''db_health'', db), (''integration_health'', integration_health_summary E),
        (''security'', security), (''order_sync'', sync),
        (''dashboard_meta'', JObj [(''query_time_ms'', millis (now - start))])])))))))))"

subsection \<open>Safety\<close>

lemma safe_reported [safe_intro]: "W.safe E A m \<Longrightarrow> W.safe E A (reported b m)"
  unfolding reported_def by (intro safe_intro) assumption

lemma safe_summaries [safe_intro]:
  "W.safe E A (app_health_summary E)" "W.safe E A (db_health_summary E)" "W.safe E A (security_health E)" "W.safe E A (order_sync_health E)"
  unfolding app_health_summary_def db_health_summary_def security_health_def order_sync_health_def Let_def
  by (intro safe_intro)+

lemma safe_observability_360 [safe_intro]: "W.safe E A (observability_360 E rq)"
  unfolding observability_360_def by (intro safe_intro)

text \<open>No summary raises.\<close>

lemma reported_Inr: "\<exists>x. fst (reported b m w) = Inr x"
  by (auto simp: reported_def catch_run split: prod.splits sum.splits)

lemma db_health_Inr: "\<exists>x. fst (db_health_summary E w) = Inr x"
  by (auto simp: db_health_summary_def Let_def bind_run seq_run catch_run split: prod.splits sum.splits)

end
