(* ===== verification/Services.thy ===== *)
theory Services
  imports Observability Auth Base64
begin

text \<open>
  The smaller services: saved reports (\<open>modules/reports.py\<close>), the browser's telemetry
  (\<open>observability_frontend.py\<close>), the cache in front of the customers (\<open>customer_enrichment.py\<close>), notices to
  Slack (\<open>slack_notify.py\<close>), the redirect of \<open>tickets.py\<close>, and \<open>main.py\<close>'s start and probes.
\<close>

subsection \<open>Slices of JSON values\<close>

text \<open>\<open>v[:n]\<close>.\<close>

fun jslice :: "nat \<Rightarrow> json \<Rightarrow> json res" where
  "jslice n (JStr s) = Inr (JStr (take n s))"
| "jslice n (JArr xs) = Inr (JArr (take n xs))"
| "jslice n v = Inl TypeError"

subsection \<open>Reports\<close>

definition report_json :: "env \<Rightarrow> int \<times> report_row \<Rightarrow> json" where
  "report_json E p = (case p of (i, r) \<Rightarrow> JObj
     [(''id'', JInt i), (''name'', JStr (r_name r)), (''report_type'', jopt (r_report_type r)), (''query'', jopt (r_query r)),
      (''parameters'', jopt (r_parameters r)), (''created_by'', jint_opt (r_created_by r)), (''created_at'', iso E (r_created_at r))])"

definition list_reports :: "env \<Rightarrow> json handler" where
  "list_reports E = bind (get_db E (query (\<lambda>d. map (report_json E) (order_desc (\<lambda>p. r_created_at (snd p)) (rows (reports d)))))) (\<lambda>rs.
     ret (JObj [(''reports'', JArr rs)]))"

definition report_of_body :: "json \<Rightarrow> int \<Rightarrow> report_row res" where
  "report_of_body body now =
     res_bind (res_bind (body_text_col body ''name'' (JStr [])) (not_null ''name'')) (\<lambda>name.
     res_bind (body_text_col body ''report_type'' (JStr ''custom'')) (\<lambda>kind.
     res_bind (body_text_col body ''query'' (JStr [])) (\<lambda>sql.
     res_bind (body_text_col body ''parameters'' (JStr [])) (\<lambda>parameters.
     res_bind (body_int_col body ''created_by'' (JInt 1)) (\<lambda>by_user.
     Inr \<lparr>r_name = name, r_report_type = kind, r_query = sql, r_parameters = parameters, r_created_by = by_user, r_created_at = now\<rparr>)))))"

text \<open>The metric slices the type, which a null of the body is not fit for: the report is stored by then.\<close>

definition create_report :: "env \<Rightarrow> request \<Rightarrow> json handler" where
  "create_report E rq =
     bind (lift (rq_body rq)) (\<lambda>body.
     seq (get_db E (bind (gets w_now) (\<lambda>now. bind (lift (report_of_body body now)) (\<lambda>r. bind (on_db (add_report r)) (\<lambda>_. ret ())))))
     (bind (lift (jget_or body ''report_type'' (JStr ''custom''))) (\<lambda>kind.
      bind (lift (jslice 20 kind)) (\<lambda>_.
      seq (metric ''report_created'' [kind]) (ret (JObj [(''status'', JStr ''created'')]))))))"

definition dangerous_sql :: "string list" where
  "dangerous_sql = [''DROP'', ''DELETE'', ''TRUNCATE'', ''ALTER'', ''INSERT'', ''UPDATE'']"

definition execute_report :: "sql_engine \<Rightarrow> env \<Rightarrow> request \<Rightarrow> json handler" where
  "execute_report sql E rq =
     bind (lift (rq_body rq)) (\<lambda>body.
     bind (lift (res_bind (jget_or body ''query'' (JStr [])) (\<lambda>q. res_bind (jslice 200 q) (\<lambda>_. as_str q)))) (\<lambda>q.
     seq (if list_ex (contains (py_upper q)) dangerous_sql
          then seq (security_span ''sqli'' ''critical'')
            (log_security_event ''sqli'' ''critical'' ''Dangerous SQL in custom report execution'' (client_ip rq) [] q [])
          else ret ())
     (bind (get_db E (catch (bind (transaction (on_db (sql q []))) (\<lambda>rs. ret (Inr rs))) (\<lambda>e. ret (Inl (exc_str e))))) (\<lambda>outcome.
      case outcome of
        Inl m \<Rightarrow> ret (JObj [(''error'', JStr (''Query failed: '' @ m)), (''query'', JStr q)])
      | Inr rs \<Rightarrow>
          seq (metric ''report_executed'' [])
          (seq (push_log ''WARNING'' (''Custom report executed: '' @ take 100 q)
             [(''reports.query'', JStr (take 200 q)), (''http.client_ip'', JStr (client_ip rq))])
          (ret (JObj [(''data'', JArr rs), (''row_count'', JInt (int (length rs)))])))))))"

text \<open>
  Import and export. Unpickling bytes and the shell are arguments: the text of the object or of the
  output, or of the exception. The data has to be sliced before the \<open>try\<close>.
\<close>

definition decode_data :: "json \<Rightarrow> string + string" where
  "decode_data data = (case data of JStr s \<Rightarrow> b64decode s | _ \<Rightarrow> Inl (exc_str TypeError))"

fun log_payload :: "json \<Rightarrow> string \<Rightarrow> string \<Rightarrow> unit handler" where
  "log_payload (JStr p) message ip = log_security_event ''deserialization'' ''critical'' message ip [] p []"
| "log_payload v message ip = push_log ''ERROR'' message
     [(''security.attack.detected'', JBool True), (''security.attack.type'', JStr ''deserialization''),
      (''security.attack.severity'', JStr ''critical''), (''security.source_ip'', JStr ip), (''security.username'', JStr []),
      (''security.attack.payload'', jor v (JStr []))]"

definition import_report_config :: "(string \<Rightarrow> string + string) \<Rightarrow> request \<Rightarrow> json handler" where
  "import_report_config unpickle rq =
     bind (lift (rq_body rq)) (\<lambda>body.
     bind (lift (jget_or body ''data'' (JStr []))) (\<lambda>data.
     bind (lift (jslice 200 data)) (\<lambda>_.
     seq (security_span ''deserialization'' ''critical'')
     (bind (lift (jslice 100 data)) (\<lambda>p.
      seq (log_payload p ''Pickle deserialization of user-provided data'' (client_ip rq))
      (ret (case (case decode_data data of Inl m \<Rightarrow> Inl m | Inr bytes \<Rightarrow> unpickle bytes) of
         Inr config \<Rightarrow> JObj [(''status'', JStr ''imported''), (''config'', JStr config)]
       | Inl m \<Rightarrow> JObj [(''error'', JStr (''Import failed: '' @ m))])))))))"

definition shell_chars :: string where
  "shell_chars = '';|&'' @ [CHR 0x60] @ ''$()''"

definition export_command :: "int \<Rightarrow> string" where
  "export_command report_id = ''echo '' @ [CHR 0x27] @ ''Report '' @ int_str report_id @ [CHR 0x27] @ '' | head -1''"

definition export_report :: "(string \<Rightarrow> string + string) \<Rightarrow> int \<Rightarrow> string \<Rightarrow> request \<Rightarrow> json handler" where
  "export_report shell report_id format rq =
     seq (if list_ex (\<lambda>c. c \<in> set shell_chars) format
          then seq (security_span ''command_injection'' ''critical'')
            (log_security_event ''command_injection'' ''critical'' ''Command injection attempt in export format'' (client_ip rq) [] format [])
          else ret ())
     (ret (JObj [(''report_id'', JInt report_id), (''format'', JStr format),
        (''preview'', JStr (case shell (export_command report_id) of Inl m \<Rightarrow> m | Inr output \<Rightarrow> output))]))"

subsection \<open>Telemetry of the browser\<close>

record frontend_event =
  fe_type :: string
  fe_page :: string
  fe_payload :: json

text \<open>
  \<open>body\<close> is the raw body read as JSON, None where it is empty, an exception where it is none; the
  validation of the event's model (pydantic) is an argument.
\<close>

definition parse_frontend_event :: "(json \<Rightarrow> frontend_event option) \<Rightarrow> json res option \<Rightarrow> frontend_event option handler" where
  "parse_frontend_event validate body = (case body of
     None \<Rightarrow> ret None
   | Some (Inl e) \<Rightarrow> seq (emit (LoggerWarning ''Dropping malformed frontend telemetry payload'' [])) (ret None)
   | Some (Inr data) \<Rightarrow> (case validate data of
        None \<Rightarrow> seq (emit (LoggerWarning ''Dropping invalid frontend telemetry event'' [])) (ret None)
      | Some ev \<Rightarrow> ret (Some ev)))"

definition frontend_error :: "env \<Rightarrow> frontend_event \<Rightarrow> string \<Rightarrow> unit handler" where
  "frontend_error E ev pg =
     seq (metric ''frontend.errors'' [JInt 1, JStr (fe_type ev), JStr pg])
     (bind (lift (jget_or (fe_payload ev) ''message'' (JStr []))) (\<lambda>message.
      bind (lift (jslice 200 message)) (\<lambda>short.
      bind (lift (jget_or (fe_payload ev) ''source'' (JStr []))) (\<lambda>source.
      push_log ''WARNING'' (''Frontend '' @ fe_type ev @ '': '' @ jstr (rep E) short)
        [(''frontend.error.type'', JStr (fe_type ev)), (''frontend.error.page'', JStr pg),
         (''frontend.error.message'', JStr (take 200 (jstr (rep E) message))),
         (''frontend.error.source'', JStr (take 200 (jstr (rep E) source)))]))))"

definition ingest_event :: "env \<Rightarrow> frontend_event \<Rightarrow> unit handler" where
  "ingest_event E ev =
     (let pg = takeWhile (\<lambda>c. c \<noteq> CHR ''?'') (fe_page ev); field = (\<lambda>k d. lift (jget_or (fe_payload ev) k d)) in
      if fe_type ev = ''web_vital'' then
        bind (field ''name'' (JStr ''unknown'')) (\<lambda>name. bind (field ''value'' (JInt 0)) (\<lambda>v. bind (lift (jfloat v)) (\<lambda>f.
        metric ''frontend.web_vital'' [JFloat f, name, JStr pg])))
      else if fe_type ev \<in> {''js_error'', ''promise_rejection''} then frontend_error E ev pg
      else if fe_type ev = ''journey_step'' then
        bind (field ''step'' (JStr ''unknown'')) (\<lambda>step. metric ''frontend.journey_steps'' [JInt 1, step, JStr pg])
      else if fe_type ev = ''frontend_api'' then
        bind (field ''duration_ms'' (JInt 0)) (\<lambda>v. bind (lift (jfloat v)) (\<lambda>f.
        bind (field ''url'' (JStr ''unknown'')) (\<lambda>url. bind (field ''status'' (JInt 0)) (\<lambda>status.
        metric ''frontend.api.duration'' [JFloat f, url, JStr (jstr (rep E) status)]))))
      else ret ())"

text \<open>The answer is an empty 204 in every case that does not raise.\<close>

definition ingest_frontend_event :: "(json \<Rightarrow> frontend_event option) \<Rightarrow> env \<Rightarrow> json res option \<Rightarrow> nat handler" where
  "ingest_frontend_event validate E body = bind (parse_frontend_event validate body) (\<lambda>event.
     case event of None \<Rightarrow> ret 204 | Some ev \<Rightarrow> seq (ingest_event E ev) (ret 204))"

subsection \<open>Customers by email\<close>

definition find_by_email_in_db :: "env \<Rightarrow> string \<Rightarrow> json option handler" where
  "find_by_email_in_db E email =
     (if email = [] then ret None else
      get_db E (query (\<lambda>d. case tbl_select (\<lambda>c. c_email c = email) (customers d) of
        [] \<Rightarrow> None
      | (i, c) # _ \<Rightarrow> Some (JObj
          [(''id'', JInt i), (''name'', JStr (c_name c)), (''email'', JStr (c_email c)), (''phone'', jopt (c_phone c)),
           (''company'', jopt (c_company c)), (''industry'', jopt (c_industry c)),
           (''revenue'', JFloat (case c_revenue c of None \<Rightarrow> Fin 0 | Some f \<Rightarrow> f))]))))"

text \<open>
  The cache is a map from keys to texts, None where there is no client; reading JSON is an argument.
  A look-up returns its answer and the cache it leaves.
\<close>

type_synonym cache = "(string \<times> string) list option"

text \<open>Whether there is a client: a URL in the environment, and the library.\<close>

definition get_cache :: "environ \<Rightarrow> bool \<Rightarrow> (string \<times> string) list \<Rightarrow> cache" where
  "get_cache e installed stored = (if py_strip (case e ''OCTO_CACHE_URL'' of None \<Rightarrow> [] | Some u \<Rightarrow> u) = [] \<or> \<not> installed then None else Some stored)"

definition cache_key :: "string \<Rightarrow> string" where
  "cache_key email = ''by-email:'' @ py_lower email"

definition cached_customer :: "(string \<Rightarrow> json option) \<Rightarrow> cache \<Rightarrow> string \<Rightarrow> json option" where
  "cached_customer loads cache email = (case cache of None \<Rightarrow> None
   | Some c \<Rightarrow> (case map_of c (cache_key email) of None \<Rightarrow> None | Some body \<Rightarrow> loads body))"

definition find_customer_by_email :: "(string \<Rightarrow> json option) \<Rightarrow> env \<Rightarrow> cache \<Rightarrow> string \<Rightarrow> (json option \<times> cache) handler" where
  "find_customer_by_email loads E cache email =
     (if email = [] then ret (None, cache) else
      case cached_customer loads cache email of Some v \<Rightarrow> ret (Some v, cache)
      | None \<Rightarrow> bind (find_by_email_in_db E email) (\<lambda>found.
          ret (found, map_option (alist_set (cache_key email) (dumps E (case found of None \<Rightarrow> JObj [] | Some v \<Rightarrow> v))) cache)))"

definition invalidate_customer_cache :: "cache \<Rightarrow> string \<Rightarrow> cache" where
  "invalidate_customer_cache cache email = (if email = [] then cache else map_option (alist_del (cache_key email)) cache)"

subsection \<open>Slack\<close>

definition slack_enabled :: "environ \<Rightarrow> bool" where
  "slack_enabled e = (py_lower (py_strip (Config.env e ''SLACK_NOTIFY_ENABLED'' [])) \<notin> {''0'', ''false'', ''no'', ''off''} \<and>
     py_strip (Config.env e ''SLACK_WEBHOOK_URL'' []) \<noteq> [])"

definition channel_override :: "environ \<Rightarrow> string" where
  "channel_override e = py_strip (Config.env e ''SLACK_NOTIFY_CHANNEL'' [])"

definition slack_trace_id :: "env \<Rightarrow> (string \<times> json) list \<Rightarrow> string" where
  "slack_trace_id E extra = (case map_of extra ''oracleApmTraceId'' of
     Some v \<Rightarrow> if truthy v then jstr (rep E) v else trace_id E | None \<Rightarrow> trace_id E)"

definition slack_colour :: "string \<Rightarrow> string" where
  "slack_colour severity = (case map_of [(''info'', ''#2eb67d''), (''warning'', ''#ecb22e''), (''error'', ''#e01e5a''), (''critical'', ''#611f69'')] severity of
     None \<Rightarrow> ''#36a64f'' | Some c \<Rightarrow> c)"

definition slack_field :: "string \<Rightarrow> string \<Rightarrow> bool \<Rightarrow> json" where
  "slack_field title v short = JObj [(''title'', JStr title), (''value'', JStr v), (''short'', JBool short)]"

definition slack_fields :: "env \<Rightarrow> string \<Rightarrow> string \<Rightarrow> (string \<times> json) list \<Rightarrow> json list" where
  "slack_fields E event severity extra =
     [slack_field ''event'' event True, slack_field ''severity'' severity True] @
     (if slack_trace_id E extra \<noteq> [] then [slack_field ''oracleApmTraceId'' (slack_trace_id E extra) False] else []) @
     map (\<lambda>(k, v). slack_field k (take 200 (jstr (rep E) v)) True)
       (filter (\<lambda>(k, v). k \<noteq> ''oracleApmTraceId'') (take 10 extra))"

definition slack_payload :: "env \<Rightarrow> string \<Rightarrow> string \<Rightarrow> string \<Rightarrow> (string \<times> json) list \<Rightarrow> json" where
  "slack_payload E event message severity extra = JObj
     ([(''text'', JStr message),
       (''attachments'', JArr [JObj
         [(''color'', JStr (slack_colour severity)), (''text'', JStr message), (''fields'', JArr (slack_fields E event severity extra)),
          (''footer'', JStr ''enterprise-crm-portal''), (''mrkdwn_in'', JArr [JStr ''text''])]])] @
      (if channel_override (environ E) \<noteq> [] then [(''channel'', JStr (channel_override (environ E)))] else []))"

definition slack_notify :: "env \<Rightarrow> string \<Rightarrow> string \<Rightarrow> string \<Rightarrow> (string \<times> json) list \<Rightarrow> unit handler" where
  "slack_notify E event message severity extra =
     (if \<not> slack_enabled (environ E) then ret () else
      catch (bind (send E \<lparr>hc_method = ''POST'', hc_url = Config.env (environ E) ''SLACK_WEBHOOK_URL'' [], hc_headers = [],
               hc_body = slack_payload E event message severity extra\<rparr>) (\<lambda>_. ret ()))
        (\<lambda>e. ret ()))"

text \<open>
  From a thread: on a running event loop the notice is scheduled, which is the program answered; without
  one it is sent at once, and a failure is dropped.
\<close>

definition notify_sync :: "env \<Rightarrow> bool \<Rightarrow> string \<Rightarrow> string \<Rightarrow> string \<Rightarrow> (string \<times> json) list \<Rightarrow> unit handler list handler" where
  "notify_sync E loop_running event message severity extra =
     (if \<not> slack_enabled (environ E) then ret []
      else if loop_running then ret [slack_notify E event message severity extra]
      else seq (catch (slack_notify E event message severity extra) (\<lambda>e. ret ())) (ret []))"

subsection \<open>Tickets\<close>

definition ticket_redirect :: "string \<Rightarrow> request \<Rightarrow> response handler" where
  "ticket_redirect url rq =
     seq (if \<not> startswith url ''/''
          then seq (security_span ''open_redirect'' ''medium'')
            (log_security_event ''open_redirect'' ''medium'' ''Open redirect attempt via ticket URL'' (client_ip rq) [] url [])
          else ret ())
     (ret (redirect url))"

subsection \<open>Start, probes\<close>

definition sync_database_url :: "config \<Rightarrow> string" where
  "sync_database_url c =
     (let url = str_or (database_sync_url c) (database_url c) in
      if startswith url ''postgresql+asyncpg://'' then ''postgresql://'' @ drop (length ''postgresql+asyncpg://'') url
      else if startswith url ''oracle+oracledb_async://'' then ''oracle+oracledb://'' @ drop (length ''oracle+oracledb_async://'') url
      else url)"

definition health :: "env \<Rightarrow> json" where
  "health E = JObj [(''status'', JStr ''ok''), (''service'', JStr (app_name (cfg E)))]"

definition ready :: "env \<Rightarrow> (nat \<times> json) handler" where
  "ready E = bind (catch (get_db E (ret True)) (\<lambda>e. ret False)) (\<lambda>db_ok.
     ret (if db_ok then 200 else 503, JObj
       [(''ready'', JBool db_ok), (''database'', JStr (if db_ok then ''connected'' else ''disconnected'')),
        (''database_target'', JStr (database_target_label (cfg E))), (''atp_ocid'', null_if_empty (atp_ocid (cfg E))),
        (''atp_connection_name'', null_if_empty (atp_connection_name (cfg E))), (''apm_configured'', JBool (apm_configured (cfg E))),
        (''rum_configured'', JBool (rum_configured (cfg E))), (''logging_configured'', JBool (logging_configured (cfg E)))]))"

text \<open>\<open>db_compat.py\<close>.\<close>

definition is_oracle :: "config \<Rightarrow> bool" where
  "is_oracle c = (contains (py_lower (database_url c)) ''oracle'' \<or> oracle_dsn c \<noteq> [])"

definition health_check_sql :: "config \<Rightarrow> string" where
  "health_check_sql c = (if is_oracle c then ''SELECT 1 FROM dual'' else ''SELECT 1'')"

definition db_version_sql :: "config \<Rightarrow> string" where
  "db_version_sql c = (if is_oracle c then ''SELECT banner FROM v$version WHERE ROWNUM = 1'' else ''SELECT version()'')"

definition db_active_connections_sql :: "config \<Rightarrow> string" where
  "db_active_connections_sql c = (let q = [CHR 0x27] in
     if is_oracle c then ''SELECT count(*) FROM v$session WHERE status = '' @ q @ ''ACTIVE'' @ q
     else ''SELECT count(*) FROM pg_stat_activity WHERE state = '' @ q @ ''active'' @ q)"

definition paginate :: "string \<Rightarrow> int \<Rightarrow> int \<Rightarrow> string" where
  "paginate q offset limit = q @ paging limit offset"

subsection \<open>Safety\<close>

lemma safe_list_reports [safe_intro]: "W.safe E A (list_reports E)"
  unfolding list_reports_def by (intro safe_intro)

lemma safe_create_report [safe_intro]: "W.safe E A (create_report E rq)"
  unfolding create_report_def by (intro safe_intro)

lemma safe_execute_report: "(\<And>q ps. stmt_ok A (sql q ps)) \<Longrightarrow> W.safe E A (execute_report sql E rq)"
  unfolding execute_report_def by (intro safe_intro)

lemma safe_log_payload [safe_intro]: "W.safe E A (log_payload v m i)"
  by (cases v) (simp_all only: log_payload.simps safe_log_security_event safe_push_log)

lemma safe_import_report_config [safe_intro]: "W.safe E A (import_report_config u rq)"
  unfolding import_report_config_def by (intro safe_intro)

lemma safe_export_report [safe_intro]: "W.safe E A (export_report sh i f rq)"
  unfolding export_report_def by (intro safe_intro)

lemma safe_ingest_event [safe_intro]: "W.safe E A (ingest_event E ev)"
  unfolding ingest_event_def frontend_error_def Let_def by (intro safe_intro)

lemma safe_ingest_frontend_event [safe_intro]: "W.safe E A (ingest_frontend_event v E b)"
  unfolding ingest_frontend_event_def parse_frontend_event_def by (intro safe_intro)

lemma safe_find_customer_by_email [safe_intro]: "W.safe E A (find_customer_by_email l E c e)"
  unfolding find_customer_by_email_def find_by_email_in_db_def by (intro safe_intro)

lemma safe_notify_sync: "W.safe E A (notify_sync E r e m s x)"
  unfolding notify_sync_def slack_notify_def by (intro safe_intro)

lemma safe_slack_notify [safe_intro]: "W.safe E A (slack_notify E e m s x)"
  unfolding slack_notify_def by (intro safe_intro)

lemma safe_ticket_redirect [safe_intro]: "W.safe E A (ticket_redirect u rq)"
  unfolding ticket_redirect_def by (intro safe_intro)

lemma safe_ready [safe_intro]: "W.safe E A (ready E)"
  unfolding ready_def by (intro safe_intro)

end
