(* ===== verification/Files.thy ===== *)
theory Files
  imports Services Samples
begin

text \<open>
  \<open>server/modules/files.py\<close>: upload and download of files, XML parsing and import from a URL. The files
  are the state \<open>w_files\<close>, from absolute paths without \<open>.\<close> and \<open>..\<close> to contents; there are no links. The
  directories, what the system refuses to open, and the XML library are arguments.
\<close>

subsection \<open>Paths\<close>

text \<open>\<open>os.path.join\<close> of two parts.\<close>

definition path_join :: "string \<Rightarrow> string \<Rightarrow> string" where
  "path_join a b =
     (if startswith b ''/'' then b else if a = [] \<or> endswith a ''/'' then a @ b else a @ ''/'' @ b)"

text \<open>The file a path names: empty parts and \<open>.\<close> stay where they are, \<open>..\<close> goes up, not above the root.\<close>

fun walk :: "string list \<Rightarrow> string list \<Rightarrow> string list" where
  "walk here [] = rev here"
| "walk here (p # ps) = (if p = [] \<or> p = ''.'' then walk here ps else if p = ''..'' then walk (tl here) ps else walk (p # here) ps)"

definition resolve :: "string \<Rightarrow> string" where
  "resolve path = concat (map (\<lambda>p. ''/'' @ p) (walk [] (split_on (CHR ''/'') path)))"

subsection \<open>The file system outside the model's files\<close>

text \<open>The upload directory, the message of a refused \<open>open\<close> for writing, and the directories.\<close>

record files_host =
  fh_upload_dir :: string
  fh_refuses :: "string \<Rightarrow> string option"
  fh_is_dir :: "string \<Rightarrow> bool"

subsection \<open>Upload and download\<close>

definition dangerous_extensions :: "string list" where
  "dangerous_extensions = [''.exe'', ''.bat'', ''.sh'', ''.php'', ''.jsp'', ''.py'', ''.ps1'']"

text \<open>\<open>if ...: with security_span(...): log_security_event(...)\<close>.\<close>

definition attack :: "bool \<Rightarrow> string \<Rightarrow> string \<Rightarrow> string \<Rightarrow> string \<Rightarrow> string \<Rightarrow> unit handler" where
  "attack found vuln_type severity message ip payload =
     (if found then seq (security_span vuln_type severity) (log_security_event vuln_type severity message ip [] payload []) else ret ())"

text \<open>The name and the content type are empty where the client sent none.\<close>

definition upload_file :: "files_host \<Rightarrow> string \<Rightarrow> string \<Rightarrow> string \<Rightarrow> request \<Rightarrow> json handler" where
  "upload_file H filename content_type content rq =
     seq (attack (filename \<noteq> [] \<and> list_ex (endswith (py_lower filename)) dangerous_extensions) ''file_upload'' ''high''
            (''Dangerous file upload: '' @ filename) (client_ip rq) filename)
     (let filepath = path_join (fh_upload_dir H) (str_or filename ''unnamed'') in
      case fh_refuses H filepath of Some m \<Rightarrow> raise (OSError m) | None \<Rightarrow>
      seq (modify (\<lambda>w. w\<lparr>w_files := alist_set (resolve filepath) content (w_files w)\<rparr>))
      (seq (metric ''file_upload'' [JStr (str_or content_type ''unknown'')])
      (seq (push_log ''INFO'' (''File uploaded: '' @ filename)
         [(''files.filename'', JStr filename), (''files.size_bytes'', JInt (int (length content)))])
      (ret (JObj [(''status'', JStr ''uploaded''), (''filename'', JStr filename), (''size'', JInt (int (length content)))])))))"

text \<open>
  The answer with a file is its content. A directory exists too, but sending it raises.
\<close>

definition download_file :: "files_host \<Rightarrow> string \<Rightarrow> request \<Rightarrow> json handler" where
  "download_file H path rq =
     seq (attack (contains path ''..'' \<or> startswith path ''/'') ''path_traversal'' ''critical''
            (''Path traversal attempt: '' @ path) (client_ip rq) path)
     (seq (metric ''file_download'' [])
     (let filepath = path_join (fh_upload_dir H) path in
      bind (gets w_files) (\<lambda>fs. case map_of fs (resolve filepath) of
        Some content \<Rightarrow> ret (JStr content)
      | None \<Rightarrow> if fh_is_dir H (resolve filepath)
          then raise (RuntimeError (''File at path '' @ filepath @ '' is not a file.''))
          else ret (JObj [(''error'', JStr ''File not found''), (''path'', JStr filepath)]))))"

subsection \<open>XML and URLs\<close>

text \<open>\<open>parse\<close> is lxml: the printed tree, or the message of an exception.\<close>

definition parse_xml :: "(string \<Rightarrow> string + string) \<Rightarrow> string \<Rightarrow> request \<Rightarrow> json handler" where
  "parse_xml parse xml_content rq =
     seq (attack (contains xml_content ''<!ENTITY'' \<or> contains xml_content ''<!DOCTYPE'') ''xxe'' ''critical''
            ''XXE attempt in XML parsing'' (client_ip rq) (take 300 xml_content))
     (ret (case parse xml_content of
        Inr result \<Rightarrow> JObj [(''status'', JStr ''parsed''), (''result'', JStr result)]
      | Inl m \<Rightarrow> JObj [(''error'', JStr (''XML parsing failed: '' @ m))]))"

definition internal_patterns :: "string list" where
  "internal_patterns = [''localhost'', ''127.0.0.1'', ''169.254.169.254'', ''10.'', ''192.168.'', ''172.'']"

text \<open>\<open>headers n\<close> are those of the answer to the \<open>n\<close>-th call.\<close>

definition import_from_url :: "env \<Rightarrow> (nat \<Rightarrow> json) \<Rightarrow> request \<Rightarrow> json handler" where
  "import_from_url E headers rq =
     bind (lift (rq_body rq)) (\<lambda>body.
     bind (lift (res_bind (jget_or body ''url'' (JStr [])) as_str)) (\<lambda>url.
     seq (attack (list_ex (contains (py_lower url)) internal_patterns) ''ssrf'' ''critical''
            (''SSRF attempt targeting internal resource: '' @ url) (client_ip rq) url)
     (bind (gets w_calls) (\<lambda>n.
      catch (bind (send E \<lparr>hc_method = ''GET'', hc_url = url, hc_headers = [], hc_body = JNull\<rparr>) (\<lambda>r.
          ret (JObj [(''status'', JStr ''imported''), (''url'', JStr url), (''status_code'', JInt (hr_status r)),
            (''content_length'', JInt (int (length (hr_text r)))), (''headers'', headers n)])))
        (\<lambda>e. ret (JObj [(''error'', JStr (''Import failed: '' @ exc_str e))]))))))"

subsection \<open>Safety\<close>

lemma safe_attack [safe_intro]: "W.safe E A (attack b v s m i p)"
  unfolding attack_def by (intro safe_intro)

lemma safe_upload_file [safe_intro]: "W.safe E A (upload_file H n t c rq)"
  unfolding upload_file_def Let_def by (intro safe_intro safe_modify_db) simp

lemma safe_download_file [safe_intro]: "W.safe E A (download_file H p rq)"
  unfolding download_file_def Let_def by (intro safe_intro)

lemma safe_parse_xml [safe_intro]: "W.safe E A (parse_xml f x rq)"
  unfolding parse_xml_def by (intro safe_intro)

lemma safe_import_from_url [safe_intro]: "W.safe E A (import_from_url E h rq)"
  unfolding import_from_url_def by (intro safe_intro)

subsection \<open>What the paths do\<close>

lemma attack_run: "attack b v s m i p w = (Inr (), snd (attack b v s m i p w)) \<and> w_files (snd (attack b v s m i p w)) = w_files w \<and>
    w_db (snd (attack b v s m i p w)) = w_db w"
  by (simp add: attack_def seq_run bind_run security_span_def log_security_event_def push_log_def metric_def emit_def)

text \<open>The parts of the path that are reached, and a path under another.\<close>

definition parts_of :: "string \<Rightarrow> string list" where
  "parts_of path = walk [] (split_on (CHR ''/'') path)"

definition under :: "string \<Rightarrow> string \<Rightarrow> bool" where
  "under dir path \<longleftrightarrow> prefix (parts_of dir) (parts_of path)"

lemma walk_append: "walk here (ps @ qs) = walk (rev (walk here ps)) qs"
  by (induction here ps rule: walk.induct) simp_all

lemma walk_down: "''..'' \<notin> set ps \<Longrightarrow> prefix (rev here) (walk here ps)"
proof (induction ps arbitrary: here)
  case (Cons p ps)
  then have p: "p \<noteq> ''..''" and IH: "\<And>h. prefix (rev h) (walk h ps)" by auto
  show ?case
  proof (cases "p = [] \<or> p = ''.''")
    case True
    then show ?thesis by (simp only: walk.simps if_True IH)
  next
    case False
    then have "walk here (p # ps) = walk (p # here) ps" using p by (simp only: walk.simps if_False)
    then show ?thesis using IH [of "p # here"] by (auto elim: prefix_order.trans [rotated])
  qed
qed simp

lemma split_on_join: "split_on c (a @ c # b) = split_on c a @ split_on c b"
proof (induction a)
  case (Cons x a)
  have "split_on c a \<noteq> []" by (induction a) (auto split: list.splits)
  with Cons show ?case by (auto split: list.splits)
qed simp

lemma split_on_part: "p \<in> set (split_on c s) \<Longrightarrow> \<exists>a b. s = a @ p @ b"
proof (induction s arbitrary: p)
  case (Cons x s)
  show ?case
  proof (cases "x = c")
    case True
    with Cons.prems consider "p = []" | "p \<in> set (split_on c s)" by auto
    then show ?thesis
    proof cases
      case 2
      then obtain a b where "s = a @ p @ b" using Cons.IH by blast
      then have "x # s = (x # a) @ p @ b" by simp
      then show ?thesis by blast
    qed (auto intro: exI [of _ "[]"])
  next
    case False
    show ?thesis
    proof (cases "split_on c s")
      case Nil
      with Cons.prems False have "p = [x]" by simp
      then show ?thesis by (auto intro: exI [of _ "[]"])
    next
      case (Cons q qs)
      from Cons Cons.prems False consider "p = x # q" | "p \<in> set qs" by auto
      then show ?thesis
      proof cases
        case 1
        have "\<exists>b. s = q @ b"
          using Cons by (induction s arbitrary: q qs) (force split: if_splits list.splits)+
        then show ?thesis using 1 by (auto intro: exI [of _ "[]"])
      next
        case 2
        then obtain a b where "s = a @ p @ b" using Cons Cons.IH [of p] by auto
        then have "x # s = (x # a) @ p @ b" by simp
        then show ?thesis by blast
      qed
    qed
  qed
qed simp

lemma contains_prefix: "prefix p s \<Longrightarrow> contains s p"
  by (cases s) simp_all

lemma contains_middle: "contains (a @ p @ b) p"
proof (induction a)
  case Nil
  show ?case by (rule contains_prefix) simp
qed simp

text \<open>A relative path without two dots in a row stays below the directory it is joined to.\<close>

lemma join_under:
  assumes "\<not> contains path ''..''" and "\<not> startswith path ''/''"
  shows "under dir (path_join dir path)"
proof -
  have dots: "''..'' \<notin> set (split_on (CHR ''/'') path)"
    using assms(1) split_on_part [of "''..''" "CHR ''/''" path] contains_middle by metis
  show ?thesis
  proof (cases "dir = [] \<or> endswith dir ''/''")
    case True
    show ?thesis
    proof (cases "dir = []")
      case False
      with True obtain d where d: "dir = d @ ''/''" by (auto simp: endswith_def suffix_def)
      have e: "path_join dir path = d @ CHR ''/'' # path" using assms(2) d True by (simp add: path_join_def)
      have "parts_of dir = walk [] (split_on (CHR ''/'') d)"
        using split_on_join [of "CHR ''/''" d "[]"] d by (simp add: parts_of_def walk_append)
      then show ?thesis
        using walk_down [OF dots, of "rev (walk [] (split_on (CHR ''/'') d))"]
        by (simp add: under_def e parts_of_def split_on_join walk_append)
    qed (use assms in \<open>simp add: under_def parts_of_def path_join_def\<close>)
  next
    case False
    then have e: "path_join dir path = dir @ CHR ''/'' # path" using assms(2) by (simp add: path_join_def)
    show ?thesis
      using walk_down [OF dots, of "rev (walk [] (split_on (CHR ''/'') dir))"]
      by (simp add: under_def e parts_of_def split_on_join walk_append)
  qed
qed

subsection \<open>What a download can reach\<close>

lemma download_run:
  "download_file H path rq w = (let u = snd (attack (contains path ''..'' \<or> startswith path ''/'') ''path_traversal'' ''critical''
       (''Path traversal attempt: '' @ path) (client_ip rq) path w); v = u\<lparr>w_log := w_log u @ [Metric ''file_download'' []]\<rparr>;
       filepath = path_join (fh_upload_dir H) path in
     case map_of (w_files w) (resolve filepath) of
       Some content \<Rightarrow> (Inr (JStr content), v)
     | None \<Rightarrow> if fh_is_dir H (resolve filepath) then (Inl (RuntimeError (''File at path '' @ filepath @ '' is not a file.'')), v)
         else (Inr (JObj [(''error'', JStr ''File not found''), (''path'', JStr filepath)]), v))"
  using attack_run [of "contains path ''..'' \<or> startswith path ''/''" "''path_traversal''" "''critical''"
      "''Path traversal attempt: '' @ path" "client_ip rq" path w]
  by (cases "attack (contains path ''..'' \<or> startswith path ''/'') ''path_traversal'' ''critical''
       (''Path traversal attempt: '' @ path) (client_ip rq) path w")
    (simp add: download_file_def Let_def seq_run bind_run metric_def emit_def split: option.splits)

lemma attack_reported: "\<exists>fs. PushLog ''ERROR'' m fs \<in> set (w_log (snd (attack True k ''critical'' m i p w)))"
  by (auto simp: attack_def seq_run bind_run security_span_def log_security_event_def push_log_def metric_def emit_def)

text \<open>
  C30. A download never reaches a file outside the upload directory unreported: whatever path is asked for,
  if a file is sent and its path, with every . and .. taken, is not below the upload directory, then an
  attempt of path traversal with that path is in the log. The file is sent all the same, as it is.
\<close>

theorem traversal_reported:
  assumes "download_file H path rq w = (Inr (JStr content), v)"
    and "\<not> under (fh_upload_dir H) (path_join (fh_upload_dir H) path)"
  shows "map_of (w_files w) (resolve (path_join (fh_upload_dir H) path)) = Some content \<and>
     (\<exists>fs. PushLog ''ERROR'' (''Path traversal attempt: '' @ path) fs \<in> set (w_log v))"
proof -
  have escapes: "contains path ''..'' \<or> startswith path ''/''" using join_under assms(2) by blast
  show ?thesis
    using assms(1) attack_reported [of "''Path traversal attempt: '' @ path" "''path_traversal''" "client_ip rq" path w]
    unfolding download_run Let_def using escapes by (auto split: option.splits if_splits)
qed

definition sample_files :: files_host where
  "sample_files = \<lparr>fh_upload_dir = ''/tmp/up'', fh_refuses = (\<lambda>p. None), fh_is_dir = (\<lambda>p. p = ''/tmp/up'')\<rparr>"

theorem traversal_reported_witness:
  "\<exists>v fs. download_file sample_files ''../../etc/x'' sample_request (sample_world\<lparr>w_files := [(''/etc/x'', ''root'')]\<rparr>) = (Inr (JStr ''root''), v) \<and>
     PushLog ''ERROR'' ''Path traversal attempt: ../../etc/x'' fs \<in> set (w_log v)"
proof -
  have dir: "\<not> under (fh_upload_dir sample_files) (path_join (fh_upload_dir sample_files) ''../../etc/x'')"
    by (simp add: under_def parts_of_def path_join_def sample_files_def startswith_def endswith_def suffix_def)
  have "\<exists>v. download_file sample_files ''../../etc/x'' sample_request (sample_world\<lparr>w_files := [(''/etc/x'', ''root'')]\<rparr>) = (Inr (JStr ''root''), v)"
    by (simp add: download_run Let_def resolve_def path_join_def sample_files_def startswith_def endswith_def suffix_def)
  then show ?thesis using traversal_reported [OF _ dir] by fastforce
qed

end
