(* ===== verification/Campaigns.thy ===== *)
theory Campaigns
  imports Desk
begin

text \<open>
  \<open>server/modules/campaigns.py\<close>: campaigns with their leads. A grouped statement lists its groups by the first row of each; where SQL leaves the
  order of equal keys open, rows stay in insertion order.
\<close>

subsection \<open>Campaigns\<close>

definition campaign_fields :: "env \<Rightarrow> int \<times> campaign_row \<Rightarrow> (string \<times> json) list" where
  "campaign_fields E p = (case p of (i, c) \<Rightarrow>
     [(''id'', JInt i), (''name'', JStr (cp_name c)), (''campaign_type'', JStr (cp_campaign_type c)), (''status'', JStr (cp_status c)),
      (''budget'', JFloat (cp_budget c)), (''spent'', JFloat (cp_spent c)), (''target_audience'', jopt (cp_target_audience c)),
      (''start_date'', iso_opt E (cp_start_date c)), (''end_date'', iso_opt E (cp_end_date c)),
      (''created_by'', jint_opt (cp_created_by c)), (''created_at'', iso E (cp_created_at c)), (''updated_at'', iso E (cp_updated_at c))])"

definition leads_of :: "int \<Rightarrow> db \<Rightarrow> (int \<times> lead_row) list" where
  "leads_of cid d = tbl_select (\<lambda>l. ld_campaign_id l = Some cid) (leads d)"

definition list_campaigns :: "env \<Rightarrow> string \<Rightarrow> string \<Rightarrow> int \<Rightarrow> int \<Rightarrow> json handler" where
  "list_campaigns E status campaign_type limit offset =
     (if \<not> page_ok limit offset then unprocessable else
      bind (get_db E (query (\<lambda>d. map (\<lambda>(i, c). JObj (campaign_fields E (i, c) @ [(''lead_count'', JInt (int (length (leads_of i d))))]))
        (page limit offset (order_desc (\<lambda>p. cp_created_at (snd p)) (tbl_select (\<lambda>c.
           (status = [] \<or> cp_status c = status) \<and> (campaign_type = [] \<or> cp_campaign_type c = campaign_type)) (campaigns d))))))) (\<lambda>cs.
      ret (JObj (listing ''campaigns'' cs limit offset))))"

text \<open>\<open>{status: count}\<close> over the groups; the key of leads without a status is the string \<open>null\<close> of JSON.\<close>

definition status_counts :: "lead_row list \<Rightarrow> (string \<times> json) list" where
  "status_counts ls = map (\<lambda>s. (case s of None \<Rightarrow> ''null'' | Some k \<Rightarrow> k, JInt (int (length (filter (\<lambda>l. ld_status l = s) ls)))))
     (dedup (map ld_status ls))"

definition get_campaign :: "env \<Rightarrow> int \<Rightarrow> request \<Rightarrow> json handler" where
  "get_campaign E campaign_id rq =
     seq (security_span ''idor'' ''medium'')
     (seq (log_security_event ''idor'' ''medium'' (''Campaign accessed without ownership check: '' @ int_str campaign_id) (client_ip rq) [] [] [])
     (bind (get_db E (query (\<lambda>d. (tbl_get (campaigns d) campaign_id, map snd (leads_of campaign_id d))))) (\<lambda>(found, ls).
      case found of None \<Rightarrow> ret (JObj [(''error'', JStr ''Campaign not found'')])
      | Some c \<Rightarrow> ret (JObj [(''campaign'', JObj (campaign_fields E (campaign_id, c))), (''lead_stats'', JObj (status_counts ls)),
          (''total_leads'', JInt (int (length ls)))]))))"

definition campaign_of_body :: "json \<Rightarrow> int \<Rightarrow> campaign_row res" where
  "campaign_of_body body now =
     res_bind (res_bind (body_text_col body ''name'' (JStr ''Untitled Campaign'')) (not_null ''name'')) (\<lambda>name.
     res_bind (body_text_col body ''campaign_type'' (JStr ''email'')) (\<lambda>ctype.
     res_bind (body_text_col body ''status'' (JStr ''draft'')) (\<lambda>status.
     res_bind (body_float_col body ''budget'' (JFloat (Fin 0))) (\<lambda>budget.
     res_bind (body_float_col body ''spent'' (JFloat (Fin 0))) (\<lambda>spent.
     res_bind (body_text_col body ''target_audience'' (JStr [])) (\<lambda>audience.
     res_bind (res_bind (jget body ''start_date'') time_col) (\<lambda>start.
     res_bind (res_bind (jget body ''end_date'') time_col) (\<lambda>stop.
     res_bind (body_int_col body ''created_by'' JNull) (\<lambda>creator.
     Inr \<lparr>cp_name = name, cp_campaign_type = (case ctype of None \<Rightarrow> ''email'' | Some t \<Rightarrow> t),
       cp_status = (case status of None \<Rightarrow> ''draft'' | Some s \<Rightarrow> s), cp_budget = (case budget of None \<Rightarrow> Fin 0 | Some b \<Rightarrow> b),
       cp_spent = (case spent of None \<Rightarrow> Fin 0 | Some b \<Rightarrow> b), cp_target_audience = audience, cp_start_date = start,
       cp_end_date = stop, cp_created_by = creator, cp_created_at = now, cp_updated_at = now\<rparr>)))))))))"

definition create_campaign :: "env \<Rightarrow> request \<Rightarrow> json handler" where
  "create_campaign E rq =
     bind (lift (rq_body rq)) (\<lambda>body.
     bind (lift (jhas body ''spent'')) (\<lambda>has_spent.
     seq (if has_spent then bind (lift (jget body ''spent'')) (\<lambda>v. seq (security_span ''mass_assignment'' ''high'')
            (log_security_event ''mass_assignment'' ''high'' (''Client set '' @ sq ''spent'' @ '' field directly: '' @ jstr (rep E) v)
               (client_ip rq) [] (jstr (rep E) body) []))
          else ret ())
     (bind (get_db E (bind (gets w_now) (\<lambda>now. bind (lift (campaign_of_body body now)) (\<lambda>r. on_db (add_campaign r))))) (\<lambda>i.
      bind (lift (jget_or body ''campaign_type'' (JStr ''email''))) (\<lambda>ctype.
      bind (lift (jget_or body ''name'' (JStr []))) (\<lambda>name.
      seq (metric ''campaigns_created'' [ctype])
      (seq (push_log ''INFO'' (''Campaign #'' @ int_str i @ '' created'')
         [(''campaign.id'', JInt i), (''campaign.name'', name), (''campaign.type'', ctype)])
      (ret (JObj [(''status'', JStr ''created''), (''campaign_id'', JInt i)])))))))))"

subsection \<open>Leads\<close>

definition lead_json :: "env \<Rightarrow> db \<Rightarrow> int \<times> lead_row \<Rightarrow> json" where
  "lead_json E d p = (case p of (i, l) \<Rightarrow> JObj
     [(''id'', JInt i), (''campaign_id'', jint_opt (ld_campaign_id l)), (''customer_id'', jint_opt (ld_customer_id l)),
      (''email'', JStr (ld_email l)), (''name'', jopt (ld_name l)), (''source'', jopt (ld_source l)), (''status'', jopt (ld_status l)),
      (''score'', jint_opt (ld_score l)), (''notes'', jopt (ld_notes l)), (''converted_at'', iso_opt E (ld_converted_at l)),
      (''created_at'', iso E (ld_created_at l)),
      (''customer_name'', case ld_customer_id l of None \<Rightarrow> JNull
         | Some c \<Rightarrow> (case tbl_get (customers d) c of None \<Rightarrow> JNull | Some r \<Rightarrow> JStr (c_name r)))])"

definition list_campaign_leads :: "env \<Rightarrow> int \<Rightarrow> string \<Rightarrow> int \<Rightarrow> int \<Rightarrow> json handler" where
  "list_campaign_leads E campaign_id status limit offset =
     (if \<not> page_ok limit offset then unprocessable else
      bind (get_db E (query (\<lambda>d. map (lead_json E d) (page limit offset (order_desc (\<lambda>p. ld_created_at (snd p))
        (filter (\<lambda>p. status = [] \<or> ld_status (snd p) = Some status) (leads_of campaign_id d))))))) (\<lambda>ls.
      ret (JObj (listing ''leads'' ls limit offset))))"

text \<open>\<open>v and ("<script" in v.lower() or ...)\<close>.\<close>

definition suspicious_notes :: "json \<Rightarrow> bool res" where
  "suspicious_notes v = (if \<not> truthy v then Inr False else res_bind (as_str v) (\<lambda>s.
     Inr (contains (py_lower s) ''<script'' \<or> contains (py_lower s) ''onerror'' \<or> contains (py_lower s) ''javascript:'')))"

definition lead_of_body :: "json \<Rightarrow> json \<Rightarrow> int \<Rightarrow> int \<Rightarrow> lead_row res" where
  "lead_of_body body notes campaign_id now =
     res_bind (body_int_col body ''customer_id'' JNull) (\<lambda>customer.
     res_bind (res_bind (body_text_col body ''email'' (JStr [])) (not_null ''email'')) (\<lambda>email.
     res_bind (body_text_col body ''name'' (JStr [])) (\<lambda>name.
     res_bind (body_text_col body ''source'' (JStr ''web'')) (\<lambda>source.
     res_bind (body_int_col body ''score'' (JInt 0)) (\<lambda>score.
     res_bind (text_col notes) (\<lambda>n.
     Inr \<lparr>ld_campaign_id = Some campaign_id, ld_customer_id = customer, ld_email = email, ld_name = name, ld_source = source,
       ld_status = Some ''new'', ld_score = Some (case score of None \<Rightarrow> 0 | Some k \<Rightarrow> k), ld_notes = n, ld_converted_at = None,
       ld_created_at = now\<rparr>))))))"

definition create_lead :: "env \<Rightarrow> int \<Rightarrow> request \<Rightarrow> json handler" where
  "create_lead E campaign_id rq =
     bind (lift (rq_body rq)) (\<lambda>body.
     bind (lift (jget_or body ''notes'' (JStr []))) (\<lambda>notes.
     bind (lift (suspicious_notes notes)) (\<lambda>bad.
     seq (if bad then seq (security_span ''xss'' ''high'')
            (log_security_event ''xss'' ''high'' ''Stored XSS detected in lead notes'' (client_ip rq) [] (preview E notes) [])
          else ret ())
     (bind (get_db E (bind (gets w_now) (\<lambda>now. bind (lift (lead_of_body body notes campaign_id now)) (\<lambda>r. on_db (add_lead r))))) (\<lambda>i.
      bind (lift (jget_or body ''source'' (JStr ''web''))) (\<lambda>source.
      bind (lift (jget_or body ''email'' (JStr []))) (\<lambda>email.
      seq (metric ''leads_captured'' [source])
      (seq (push_log ''INFO'' (''Lead #'' @ int_str i @ '' created for campaign #'' @ int_str campaign_id)
         [(''lead.id'', JInt i), (''campaign.id'', JInt campaign_id), (''lead.email'', email), (''lead.source'', source)])
      (ret (JObj [(''status'', JStr ''created''), (''lead_id'', JInt i), (''campaign_id'', JInt campaign_id)]))))))))))"

text \<open>The columns an update sets: the outer option tells whether the body has the field.\<close>

definition set_lead :: "int \<Rightarrow> string option \<Rightarrow> bool \<Rightarrow> int option option \<Rightarrow> string option option \<Rightarrow> int \<Rightarrow> (db, unit) pm" where
  "set_lead i status converted score notes now d = (Inr (), d\<lparr>leads := tbl_map (\<lambda>j l. if j = i then
     l\<lparr>ld_status := status, ld_converted_at := (if converted then Some now else ld_converted_at l),
       ld_score := (case score of None \<Rightarrow> ld_score l | Some v \<Rightarrow> v), ld_notes := (case notes of None \<Rightarrow> ld_notes l | Some v \<Rightarrow> v)\<rparr>
     else l) (leads d)\<rparr>)"

text \<open>\<open>if k in body: params[k] = body[k]\<close>, as a column.\<close>

definition body_field :: "json \<Rightarrow> string \<Rightarrow> (json \<Rightarrow> 'a res) \<Rightarrow> 'a option res" where
  "body_field body k col = res_bind (jhas body k) (\<lambda>present.
     if present then res_bind (jget body k) (\<lambda>v. res_bind (col v) (\<lambda>x. Inr (Some x))) else Inr None)"

definition update_lead_status :: "env \<Rightarrow> int \<Rightarrow> int \<Rightarrow> request \<Rightarrow> json handler" where
  "update_lead_status E campaign_id lead_id rq =
     bind (lift (rq_body rq)) (\<lambda>body.
     bind (lift (jget_or body ''status'' (JStr []))) (\<lambda>new_status.
     seq (security_span ''broken_access_control'' ''medium'')
     (seq (log_security_event ''broken_access_control'' ''medium'' (''Lead status updated without ownership check: lead='' @ int_str lead_id)
        (client_ip rq) [] [] [])
     (seq (get_db E (bind (gets w_now) (\<lambda>now.
        bind (lift (body_field body ''score'' int_col)) (\<lambda>score. bind (lift (body_field body ''notes'' text_col)) (\<lambda>notes.
        bind (lift (text_col new_status)) (\<lambda>status.
        on_db (set_lead lead_id status (new_status = JStr ''converted'') score notes now)))))))
     (seq (if new_status \<in> {JStr ''qualified'', JStr ''converted''} then metric ''leads_converted'' [new_status] else ret ())
     (seq (push_log ''INFO'' (''Lead #'' @ int_str lead_id @ '' status updated to '' @ sq (jstr (rep E) new_status))
        [(''lead.id'', JInt lead_id), (''campaign.id'', JInt campaign_id), (''lead.new_status'', new_status)])
     (ret (JObj [(''status'', JStr ''updated''), (''lead_id'', JInt lead_id), (''new_status'', new_status)]))))))))"

subsection \<open>Safety\<close>

lemma safe_list_campaigns [safe_intro]: "W.safe E A (list_campaigns E s t l k)"
  unfolding list_campaigns_def by (intro safe_intro)

lemma safe_get_campaign [safe_intro]: "W.safe E A (get_campaign E i rq)"
  unfolding get_campaign_def by (intro safe_intro)

lemma safe_create_campaign [safe_intro]: "W.safe E A (create_campaign E rq)"
  unfolding create_campaign_def by (intro safe_intro)

lemma safe_list_campaign_leads [safe_intro]: "W.safe E A (list_campaign_leads E i s l k)"
  unfolding list_campaign_leads_def by (intro safe_intro)

lemma safe_create_lead [safe_intro]: "W.safe E A (create_lead E i rq)"
  unfolding create_lead_def by (intro safe_intro)

lemma set_lead_ok [safe_intro]: "stmt_ok A (set_lead i s c k n t)"
  by (simp add: stmt_ok_def set_lead_def db_invs seq_le_def refs_map_src)

lemma safe_update_lead_status [safe_intro]: "W.safe E A (update_lead_status E c i rq)"
  unfolding update_lead_status_def by (intro safe_intro)

end
