(* ===== verification/Contracts.thy ===== *)
theory Contracts
  imports Json
begin

text \<open>
  What the server publishes of itself: the module graph of \<open>main.py\<close> and the contract between the services
  of \<open>modules/integrations.py\<close>. Text outside ASCII is written as its UTF-8 bytes.
\<close>

definition module_list :: "json list" where
  "module_list =
    [JObj
       [(''name'', JStr ''customers''),
        (''label'', JStr ''Customers''),
        (''endpoints'', JInt 4),
        (''related_to'', JArr [JStr ''orders'', JStr ''tickets'', JStr ''leads'', JStr ''invoices''])],
     JObj
       [(''name'', JStr ''orders''),
        (''label'', JStr ''Orders''),
        (''endpoints'', JInt 6),
        (''related_to'', JArr [JStr ''customers'', JStr ''products'', JStr ''invoices'', JStr ''shipping''])],
     JObj [(''name'', JStr ''products''), (''label'', JStr ''Products''), (''endpoints'', JInt 4), (''related_to'', JArr [JStr ''orders''])],
     JObj
       [(''name'', JStr ''shops''),
        (''label'', JStr ''Storefronts''),
        (''endpoints'', JInt 4),
        (''related_to'', JArr [JStr ''products'', JStr ''integrations''])],
     JObj [(''name'', JStr ''invoices''), (''label'', JStr ''Invoices''), (''endpoints'', JInt 3), (''related_to'', JArr [JStr ''orders''])],
     JObj
       [(''name'', JStr ''tickets''),
        (''label'', JStr ''Support Tickets''),
        (''endpoints'', JInt 4),
        (''related_to'', JArr [JStr ''customers''])],
     JObj
       [(''name'', JStr ''campaigns''),
        (''label'', JStr ''Campaigns''),
        (''endpoints'', JInt 6),
        (''related_to'', JArr [JStr ''leads'', JStr ''customers'', JStr ''analytics''])],
     JObj
       [(''name'', JStr ''leads''),
        (''label'', JStr ''Leads''),
        (''endpoints'', JInt 3),
        (''related_to'', JArr [JStr ''campaigns'', JStr ''customers''])],
     JObj
       [(''name'', JStr ''shipping''),
        (''label'', JStr ''Shipping''),
        (''endpoints'', JInt 6),
        (''related_to'', JArr [JStr ''orders'', JStr ''warehouses'', JStr ''analytics''])],
     JObj
       [(''name'', JStr ''warehouses''),
        (''label'', JStr ''Warehouses''),
        (''endpoints'', JInt 1),
        (''related_to'', JArr [JStr ''shipping''])],
     JObj
       [(''name'', JStr ''analytics''),
        (''label'', JStr ''Analytics''),
        (''endpoints'', JInt 6),
        (''related_to'', JArr [JStr ''customers'', JStr ''orders'', JStr ''campaigns'', JStr ''shipping'', JStr ''leads''])],
     JObj
       [(''name'', JStr ''reports''),
        (''label'', JStr ''Reports''),
        (''endpoints'', JInt 3),
        (''related_to'', JArr [JStr ''customers'', JStr ''orders'', JStr ''products''])],
     JObj
       [(''name'', JStr ''admin''),
        (''label'', JStr ''Admin''),
        (''endpoints'', JInt 3),
        (''related_to'', JArr [JStr ''users'', JStr ''audit_logs''])],
     JObj [(''name'', JStr ''files''), (''label'', JStr ''Files''), (''endpoints'', JInt 4), (''related_to'', JArr [JStr ''admin''])],
     JObj
       [(''name'', JStr ''dashboard''),
        (''label'', JStr ''Dashboard''),
        (''endpoints'', JInt 4),
        (''related_to'', JArr [JStr ''customers'', JStr ''orders'', JStr ''invoices'', JStr ''tickets''])],
     JObj
       [(''name'', JStr ''simulation''),
        (''label'', JStr ''Simulation''),
        (''endpoints'', JInt 5),
        (''related_to'', JArr [JStr ''dashboard''])],
     JObj
       [(''name'', JStr ''integrations''),
        (''label'', JStr ''Integrations''),
        (''endpoints'', JInt 6),
        (''related_to'', JArr [JStr ''customers'', JStr ''orders'', JStr ''drone-shop-portal'']),
        (''cross_service'', JBool True)],
     JObj
       [(''name'', JStr ''observability''),
        (''label'', JStr ''360 Monitoring''),
        (''endpoints'', JInt 5),
        (''related_to'', JArr [JStr ''integrations'', JStr ''dashboard'', JStr ''analytics'']),
        (''cross_service'', JBool True)]]"

definition list_modules :: json where
  "list_modules = JObj [(''modules'', JArr module_list), (''total_modules'', JInt 18), (''total_endpoints'', JInt 77)]"

definition integration_schema :: json where
  "integration_schema = JObj
    [(''openapi'', JStr ''3.1.0''),
     (''info'', JObj
      [(''title'', JStr (''Enterprise CRM '' @ [CHR 0xE2, CHR 0x86, CHR 0x94] @ '' OCTO Drone Shop integration'')),
       (''version'', JStr ''1''),
       (''description'', JStr ''Cross-service contract. Mirrors the schema published by the shop at /api/integrations/schema. Both sides require X-Internal-Service-Key when INTERNAL_SERVICE_KEY is set; order payloads SHOULD include idempotency_token + source_system + source_order_id for retry-safe dedup.'')]),
     (''components'', JObj
      [(''securitySchemes'', JObj
        [(''InternalServiceKey'', JObj
          [(''type'', JStr ''apiKey''),
           (''in'', JStr ''header''),
           (''name'', JStr ''X-Internal-Service-Key''),
           (''description'', JStr ''Shared secret between CRM and Drone Shop (env INTERNAL_SERVICE_KEY, legacy DRONE_SHOP_INTERNAL_KEY).'')])])]),
     (''paths'', JObj
      [(''/api/orders'', JObj
        [(''post'', JObj
          [(''summary'', JStr ''Create or dedupe an order (cross-service callers MUST authenticate)''),
           (''security'', JArr [JObj [(''InternalServiceKey'', JArr [])]]),
           (''requestBody'', JObj
            [(''required'', JBool True),
             (''content'', JObj
              [(''application/json'', JObj
                [(''schema'', JObj
                  [(''type'', JStr ''object''),
                   (''required'', JArr [JStr ''customer_id'', JStr ''items'']),
                   (''properties'', JObj
                    [(''customer_id'', JObj [(''type'', JStr ''integer'')]),
                     (''items'', JObj [(''type'', JStr ''array'')]),
                     (''source_system'', JObj [(''type'', JStr ''string''), (''description'', JStr ''e.g. octo-drone-shop'')]),
                     (''source_order_id'', JObj [(''type'', JStr ''string''), (''description'', JStr ''Stable upstream order id'')]),
                     (''idempotency_token'', JObj [(''type'', JStr ''string''), (''format'', JStr ''uuid'')])])])])])])])])])]"

text \<open>The totals the module graph states are those of its entries.\<close>

definition field_of :: "string \<Rightarrow> json \<Rightarrow> json" where
  "field_of k j = (case jget_or j k JNull of Inl _ \<Rightarrow> JNull | Inr v \<Rightarrow> v)"

fun int_of :: "json \<Rightarrow> int" where
  "int_of (JInt n) = n"
| "int_of _ = 0"

lemma module_totals:
  "field_of ''total_modules'' list_modules = JInt (int (length module_list))"
  "field_of ''total_endpoints'' list_modules = JInt (sum_list (map (int_of \<circ> field_of ''endpoints'') module_list))"
  by (simp_all add: list_modules_def module_list_def field_of_def)

text \<open>No module is listed twice.\<close>

lemma module_names_distinct: "distinct (map (field_of ''name'') module_list)"
  by (simp add: module_list_def field_of_def)

end
