(* ===== verification/Pages.thy ===== *)
theory Pages
  imports Middleware Integrations Auth
begin

text \<open>
  The HTML pages: those of \<open>server/main.py\<close>, rendered by \<open>_render_page\<close> from a template and a context, the icon, and
  the page of \<open>server/chaos/admin.py\<close>. The template engine is an argument: whether the directory of the
  templates is there, and what it makes of a request, a template's name and a context.
\<close>

record templates =
  tp_dir :: bool
  tp_render :: "request \<Rightarrow> string \<Rightarrow> (string \<times> json) list \<Rightarrow> string res"

definition page_context :: "config \<Rightarrow> string \<Rightarrow> (string \<times> json) list" where
  "page_context c title =
     [(''title'', JStr title), (''rum_endpoint'', JStr (oci_apm_rum_endpoint c)),
      (''rum_public_key'', JStr (oci_apm_rum_public_datakey c)), (''rum_configured'', JBool (rum_configured c)),
      (''app_name'', JStr (app_name c)), (''brand_name'', JStr (brand_name c)), (''service_name'', JStr (otel_service_name c)),
      (''app_version'', JStr (app_version c)), (''apm_console_url'', JStr (apm_console_url c)),
      (''opsi_console_url'', JStr (opsi_console_url c)), (''db_management_console_url'', JStr (db_management_console_url c)),
      (''log_analytics_console_url'', JStr (log_analytics_console_url c)), (''atp_connection_name'', JStr (atp_connection_name c))]"

definition render_page :: "templates \<Rightarrow> env \<Rightarrow> request \<Rightarrow> string \<Rightarrow> string \<Rightarrow> (string \<times> json) list \<Rightarrow> json handler" where
  "render_page T E rq pg title context =
     (if \<not> tp_dir T then ret (JStr (''<h1>'' @ title @ ''</h1><p>Templates not configured</p>''))
      else bind (lift (tp_render T rq (pg @ ''.html'') (obj_update (page_context (cfg E) title) context))) (\<lambda>t. ret (JStr t)))"

subsection \<open>The pages\<close>

definition index :: "templates \<Rightarrow> env \<Rightarrow> request \<Rightarrow> json handler" where
  "index T E rq = render_page T E rq ''dashboard'' ''Dashboard'' [(''nav_key'', JStr ''dashboard'')]"

definition customers_page :: "templates \<Rightarrow> env \<Rightarrow> request \<Rightarrow> json handler" where
  "customers_page T E rq = render_page T E rq ''page'' ''Customers'' [(''module'', JStr ''customers''), (''nav_key'', JStr ''customers'')]"

definition orders_page :: "templates \<Rightarrow> env \<Rightarrow> request \<Rightarrow> json handler" where
  "orders_page T E rq = render_page T E rq ''orders'' ''Orders'' [(''module'', JStr ''orders''), (''nav_key'', JStr ''orders'')]"

definition products_page :: "templates \<Rightarrow> env \<Rightarrow> request \<Rightarrow> json handler" where
  "products_page T E rq = render_page T E rq ''products'' ''Product Catalog'' [(''nav_key'', JStr ''products'')]"

definition catalog_page :: "templates \<Rightarrow> env \<Rightarrow> request \<Rightarrow> json handler" where
  "catalog_page T E rq = render_page T E rq ''catalog'' ''Storefront Operations'' [(''nav_key'', JStr ''catalog'')]"

definition invoices_page :: "templates \<Rightarrow> env \<Rightarrow> request \<Rightarrow> json handler" where
  "invoices_page T E rq = render_page T E rq ''page'' ''Invoices'' [(''module'', JStr ''invoices''), (''nav_key'', JStr ''invoices'')]"

definition tickets_page :: "templates \<Rightarrow> env \<Rightarrow> request \<Rightarrow> json handler" where
  "tickets_page T E rq = render_page T E rq ''page'' ''Support Tickets'' [(''module'', JStr ''tickets''), (''nav_key'', JStr ''tickets'')]"

definition reports_page :: "templates \<Rightarrow> env \<Rightarrow> request \<Rightarrow> json handler" where
  "reports_page T E rq = render_page T E rq ''page'' ''Reports'' [(''module'', JStr ''reports''), (''nav_key'', JStr ''reports'')]"

definition admin_page :: "templates \<Rightarrow> env \<Rightarrow> request \<Rightarrow> json handler" where
  "admin_page T E rq = render_page T E rq ''page'' ''Admin Panel'' [(''module'', JStr ''admin''), (''nav_key'', JStr ''admin'')]"

definition files_page :: "templates \<Rightarrow> env \<Rightarrow> request \<Rightarrow> json handler" where
  "files_page T E rq = render_page T E rq ''page'' ''File Manager'' [(''module'', JStr ''files''), (''nav_key'', JStr ''files'')]"

definition settings_page :: "templates \<Rightarrow> env \<Rightarrow> request \<Rightarrow> json handler" where
  "settings_page T E rq = render_page T E rq ''simulation'' ''Simulation Lab'' [(''nav_key'', JStr ''settings'')]"

definition campaigns_page :: "templates \<Rightarrow> env \<Rightarrow> request \<Rightarrow> json handler" where
  "campaigns_page T E rq = render_page T E rq ''page'' ''Campaigns'' [(''module'', JStr ''campaigns''), (''nav_key'', JStr ''campaigns'')]"

definition shipping_page :: "templates \<Rightarrow> env \<Rightarrow> request \<Rightarrow> json handler" where
  "shipping_page T E rq = render_page T E rq ''page'' ''Shipping & Logistics'' [(''module'', JStr ''shipping''), (''nav_key'', JStr ''shipping'')]"

definition analytics_page :: "templates \<Rightarrow> env \<Rightarrow> request \<Rightarrow> json handler" where
  "analytics_page T E rq = render_page T E rq ''page'' ''Analytics'' [(''module'', JStr ''analytics''), (''nav_key'', JStr ''analytics'')]"

definition leads_page :: "templates \<Rightarrow> env \<Rightarrow> request \<Rightarrow> json handler" where
  "leads_page T E rq = render_page T E rq ''page'' ''Lead Management'' [(''module'', JStr ''leads''), (''nav_key'', JStr ''campaigns'')]"

definition warehouses_page :: "templates \<Rightarrow> env \<Rightarrow> request \<Rightarrow> json handler" where
  "warehouses_page T E rq = render_page T E rq ''page'' ''Warehouses'' [(''module'', JStr ''warehouses''), (''nav_key'', JStr ''shipping'')]"

definition integrations_page :: "templates \<Rightarrow> env \<Rightarrow> request \<Rightarrow> json handler" where
  "integrations_page T E rq = render_page T E rq ''integrations'' ''Integrations'' [(''nav_key'', JStr ''integrations'')]"

definition observability_page :: "templates \<Rightarrow> env \<Rightarrow> request \<Rightarrow> json handler" where
  "observability_page T E rq = render_page T E rq ''observability'' ''360 Monitoring'' [(''nav_key'', JStr ''observability'')]"

definition login_page :: "templates \<Rightarrow> env \<Rightarrow> request \<Rightarrow> json handler" where
  "login_page T E rq = render_page T E rq ''login'' ''Login''
     [(''nav_key'', JStr ''login''), (''idcs_configured'', JBool (idcs_configured (cfg E)))]"

definition favicon :: "response handler" where
  "favicon = ret (redirect ''/static/img/octo-icon.png'')"

text \<open>The page of the chaos administration: its templates need no directory to be there, and it is for operators only.\<close>

definition env_or :: "environ \<Rightarrow> string \<Rightarrow> string \<Rightarrow> string" where
  "env_or e k d = (case e k of None \<Rightarrow> d | Some v \<Rightarrow> v)"

definition chaos_admin_page :: "templates \<Rightarrow> env \<Rightarrow> request \<Rightarrow> json handler" where
  "chaos_admin_page T E rq = seq (require_role E [chaos_admin_role E] rq)
     (bind (lift (tp_render T rq ''chaos_admin.html''
        [(''title'', JStr ''Chaos Control''), (''brand_name'', JStr (env_or (environ E) ''APP_NAME'' ''Enterprise CRM'')),
         (''service_name'', JStr (env_or (environ E) ''SERVICE_NAME_CRM'' ''octo-enterprise-crm'')), (''app_name'', JStr ''crm''),
         (''rum_configured'', JBool False), (''max_ttl'', JInt (max_ttl_seconds E)),
         (''csp_nonce'', JStr (opt_str (rq_csp_nonce rq)))])) (\<lambda>t. ret (JStr t)))"

subsection \<open>Safety\<close>

lemma safe_render_page [safe_intro]: "W.safe E A (render_page T E rq p t c)"
  unfolding render_page_def by (intro safe_intro)

lemma safe_pages [safe_intro]:
  "W.safe E A (index T E rq)"
  "W.safe E A (customers_page T E rq)"
  "W.safe E A (orders_page T E rq)"
  "W.safe E A (products_page T E rq)"
  "W.safe E A (catalog_page T E rq)"
  "W.safe E A (invoices_page T E rq)"
  "W.safe E A (tickets_page T E rq)"
  "W.safe E A (reports_page T E rq)"
  "W.safe E A (admin_page T E rq)"
  "W.safe E A (files_page T E rq)"
  "W.safe E A (settings_page T E rq)"
  "W.safe E A (campaigns_page T E rq)"
  "W.safe E A (shipping_page T E rq)"
  "W.safe E A (analytics_page T E rq)"
  "W.safe E A (leads_page T E rq)"
  "W.safe E A (warehouses_page T E rq)"
  "W.safe E A (integrations_page T E rq)"
  "W.safe E A (observability_page T E rq)"
  "W.safe E A (login_page T E rq)"
  unfolding index_def customers_page_def orders_page_def products_page_def catalog_page_def invoices_page_def tickets_page_def reports_page_def admin_page_def files_page_def settings_page_def campaigns_page_def shipping_page_def analytics_page_def leads_page_def warehouses_page_def integrations_page_def observability_page_def login_page_def by (intro safe_intro)+

lemma safe_favicon [safe_intro]: "W.safe E A favicon"
  unfolding favicon_def by (intro safe_intro)

lemma safe_chaos_admin_page [safe_intro]: "W.safe E A (chaos_admin_page T E rq)"
  unfolding chaos_admin_page_def by (intro safe_intro)

end
