(* ===== verification/Api.thy ===== *)
theory Api
  imports Files Shops Products Sso Campaigns Contracts Pages
begin

text \<open>
  The routers of \<open>server/modules/\<close>, \<open>server/chaos/admin.py\<close> and the probes and pages of \<open>main.py\<close>: a call is a route with the
  parameters the framework read from the path, the query and the validated body, and \<open>run_call\<close> is what
  the route does. Matching a path against the templates and validating models is the framework's.
\<close>

subsection \<open>What lies outside\<close>

text \<open>Arbitrary SQL, the random source of the simulation, the host, and the libraries' functions.\<close>

record outside =
  x_sql :: sql_engine
  x_random :: sim_random
  x_host :: host
  x_render :: "string \<Rightarrow> string + string"
  x_event :: "json \<Rightarrow> frontend_event option"
  x_base_url :: string
  x_unpickle :: "string \<Rightarrow> string + string"
  x_shell :: "string \<Rightarrow> string + string"
  x_files :: files_host
  x_xml :: "string \<Rightarrow> string + string"
  x_headers :: "nat \<Rightarrow> json"
  x_templates :: templates

definition reply :: "nat \<Rightarrow> json \<Rightarrow> http_reply" where
  "reply status body = \<lparr>rp_status = status, rp_headers = [], rp_body = body, rp_route = None\<rparr>"

definition with_status :: "nat \<Rightarrow> json handler \<Rightarrow> http_reply handler" where
  "with_status n m = bind m (\<lambda>j. ret (reply n j))"

text \<open>A response of its own; the text of its \<open>Set-Cookie\<close> headers is the framework's.\<close>

definition of_response :: "response handler \<Rightarrow> http_reply handler" where
  "of_response m = bind m (\<lambda>r. ret ((reply (rs_status r) (rs_body r))
     \<lparr>rp_headers := (case rs_location r of None \<Rightarrow> [] | Some l \<Rightarrow> [(''location'', l)])\<rparr>))"

definition of_pair :: "(nat \<times> json) handler \<Rightarrow> http_reply handler" where
  "of_pair m = bind m (\<lambda>(n, j). ret (reply n j))"

definition no_content :: "nat handler \<Rightarrow> http_reply handler" where
  "no_content m = bind m (\<lambda>n. ret (reply n JNull))"

lemma safe_with_status [safe_intro]: "W.safe E A m \<Longrightarrow> W.safe E A (with_status n m)"
  unfolding with_status_def by (intro safe_intro) assumption

lemma safe_of_response [safe_intro]: "W.safe E A m \<Longrightarrow> W.safe E A (of_response m)"
  unfolding of_response_def by (intro safe_intro) assumption

lemma safe_of_pair [safe_intro]: "W.safe E A m \<Longrightarrow> W.safe E A (of_pair m)"
  unfolding of_pair_def by (intro safe_intro) assumption

lemma safe_no_content [safe_intro]: "W.safe E A m \<Longrightarrow> W.safe E A (no_content m)"
  unfolding no_content_def by (intro safe_intro) assumption

text \<open>
  The database takes no statement, however it was built, that would break the schema's constraints, and no
  such statement adds a session but under an id of \<open>A\<close>.
\<close>

definition sql_ok :: "string set \<Rightarrow> outside \<Rightarrow> bool" where
  "sql_ok A X \<longleftrightarrow> (\<forall>q ps. stmt_ok A (x_sql X q ps))"

lemma safe_security_summary [safe_intro]: "W.safe E A (security_summary E)"
  unfolding security_summary_def by (intro safe_intro)

lemmas safe_sql = safe_list_customers safe_update_customer safe_list_tickets safe_execute_report safe_geo_analytics

subsection \<open>The routers\<close>

datatype auth_call =
    Login string string
  | Register string string string
  | Session_info
  | Logout
  | Sso_login
  | Sso_callback string string string
  | Sso_status

primrec auth_route :: "auth_call \<Rightarrow> string \<times> string" where
  "auth_route (Login a b) = (''POST'', ''/api/auth/login'')"
| "auth_route (Register a b c) = (''POST'', ''/api/auth/register'')"
| "auth_route Session_info = (''GET'', ''/api/auth/session'')"
| "auth_route Logout = (''POST'', ''/api/auth/logout'')"
| "auth_route Sso_login = (''GET'', ''/api/auth/sso/login'')"
| "auth_route (Sso_callback a b c) = (''GET'', ''/api/auth/sso/callback'')"
| "auth_route Sso_status = (''GET'', ''/api/auth/sso/status'')"

primrec run_auth :: "outside \<Rightarrow> env \<Rightarrow> request \<Rightarrow> auth_call \<Rightarrow> http_reply handler" where
  "run_auth X E rq (Login a b) = of_response (login E a b rq)"
| "run_auth X E rq (Register a b c) = with_status 200 (register E a b c rq)"
| "run_auth X E rq Session_info = with_status 200 (get_session E rq)"
| "run_auth X E rq Logout = of_response (logout E rq)"
| "run_auth X E rq Sso_login = of_response (sso_login E rq)"
| "run_auth X E rq (Sso_callback a b c) = of_response (sso_callback E rq a b c)"
| "run_auth X E rq Sso_status = with_status 200 (ret (sso_status E))"

lemma safe_run_auth [safe_intro]: "W.safe E A (run_auth X E rq c)"
  by (cases c; simp only: run_auth.simps; intro safe_intro)

datatype customers_call =
    List_customers string string int int
  | Get_customer int
  | Create_customer
  | Update_customer int

primrec customers_route :: "customers_call \<Rightarrow> string \<times> string" where
  "customers_route (List_customers a b c d) = (''GET'', ''/api/customers'')"
| "customers_route (Get_customer a) = (''GET'', ''/api/customers/{customer_id}'')"
| "customers_route Create_customer = (''POST'', ''/api/customers'')"
| "customers_route (Update_customer a) = (''PUT'', ''/api/customers/{customer_id}'')"

primrec run_customers :: "outside \<Rightarrow> env \<Rightarrow> request \<Rightarrow> customers_call \<Rightarrow> http_reply handler" where
  "run_customers X E rq (List_customers a b c d) = with_status 200 (list_customers (x_sql X) E a b c d rq)"
| "run_customers X E rq (Get_customer a) = with_status 200 (get_customer E a rq)"
| "run_customers X E rq Create_customer = with_status 200 (create_customer E rq)"
| "run_customers X E rq (Update_customer a) = with_status 200 (update_customer (x_sql X) E a rq)"

lemma safe_run_customers [safe_intro]: "sql_ok A X \<Longrightarrow> W.safe E A (run_customers X E rq c)"
  by (cases c) (simp_all only: run_customers.simps sql_ok_def, (intro safe_intro safe_sql, (simp | fail)?)+)

datatype orders_call =
    List_orders string int bool int int
  | Backlog_orders
  | Security_summary
  | Sync_orders
  | Get_order int
  | Create_order
  | Update_order_status int

primrec orders_route :: "orders_call \<Rightarrow> string \<times> string" where
  "orders_route (List_orders a b c d e) = (''GET'', ''/api/orders'')"
| "orders_route Backlog_orders = (''GET'', ''/api/orders/backlog'')"
| "orders_route Security_summary = (''GET'', ''/api/orders/security/summary'')"
| "orders_route Sync_orders = (''POST'', ''/api/orders/sync'')"
| "orders_route (Get_order a) = (''GET'', ''/api/orders/{order_id}'')"
| "orders_route Create_order = (''POST'', ''/api/orders'')"
| "orders_route (Update_order_status a) = (''PATCH'', ''/api/orders/{order_id}/status'')"

primrec run_orders :: "outside \<Rightarrow> env \<Rightarrow> request \<Rightarrow> orders_call \<Rightarrow> http_reply handler" where
  "run_orders X E rq (List_orders a b c d e) = with_status 200 (list_orders E a b c d e)"
| "run_orders X E rq Backlog_orders = with_status 200 (backlog_orders E)"
| "run_orders X E rq Security_summary = with_status 200 (security_summary E)"
| "run_orders X E rq Sync_orders = with_status 200 (sync_orders E rq)"
| "run_orders X E rq (Get_order a) = with_status 200 (get_order E a rq)"
| "run_orders X E rq Create_order = with_status 200 (create_order E rq)"
| "run_orders X E rq (Update_order_status a) = with_status 200 (update_order_status E a rq)"

lemma safe_run_orders [safe_intro]: "W.safe E A (run_orders X E rq c)"
  by (cases c; simp only: run_orders.simps; intro safe_intro)

datatype products_call =
    List_products string string int string bool int int
  | Get_product int
  | Create_product product_mutation
  | Update_product int product_mutation
  | Sync_catalog
  | Delete_product int

primrec products_route :: "products_call \<Rightarrow> string \<times> string" where
  "products_route (List_products a b c d e f g) = (''GET'', ''/api/products'')"
| "products_route (Get_product a) = (''GET'', ''/api/products/{product_id}'')"
| "products_route (Create_product a) = (''POST'', ''/api/products'')"
| "products_route (Update_product a b) = (''PATCH'', ''/api/products/{product_id}'')"
| "products_route Sync_catalog = (''POST'', ''/api/products/sync/shop'')"
| "products_route (Delete_product a) = (''DELETE'', ''/api/products/{product_id}'')"

primrec run_products :: "outside \<Rightarrow> env \<Rightarrow> request \<Rightarrow> products_call \<Rightarrow> http_reply handler" where
  "run_products X E rq (List_products a b c d e f g) = with_status 200 (list_products E a b c d e f g)"
| "run_products X E rq (Get_product a) = with_status 200 (get_product E a)"
| "run_products X E rq (Create_product a) = with_status 200 (create_product E a rq)"
| "run_products X E rq (Update_product a b) = with_status 200 (update_product E a b rq)"
| "run_products X E rq Sync_catalog = with_status 200 (sync_catalog_to_shop E rq)"
| "run_products X E rq (Delete_product a) = with_status 200 (delete_product E a rq)"

lemma safe_run_products [safe_intro]: "W.safe E A (run_products X E rq c)"
  by (cases c; simp only: run_products.simps; intro safe_intro)

datatype shops_call =
    List_shops string string int int
  | Get_shop int
  | Create_shop shop_mutation
  | Update_shop int shop_mutation
  | Delete_shop int

primrec shops_route :: "shops_call \<Rightarrow> string \<times> string" where
  "shops_route (List_shops a b c d) = (''GET'', ''/api/shops'')"
| "shops_route (Get_shop a) = (''GET'', ''/api/shops/{shop_id}'')"
| "shops_route (Create_shop a) = (''POST'', ''/api/shops'')"
| "shops_route (Update_shop a b) = (''PATCH'', ''/api/shops/{shop_id}'')"
| "shops_route (Delete_shop a) = (''DELETE'', ''/api/shops/{shop_id}'')"

primrec run_shops :: "outside \<Rightarrow> env \<Rightarrow> request \<Rightarrow> shops_call \<Rightarrow> http_reply handler" where
  "run_shops X E rq (List_shops a b c d) = with_status 200 (list_shops E a b c d)"
| "run_shops X E rq (Get_shop a) = with_status 200 (get_shop E a)"
| "run_shops X E rq (Create_shop a) = with_status 200 (create_shop E a rq)"
| "run_shops X E rq (Update_shop a b) = with_status 200 (update_shop E a b rq)"
| "run_shops X E rq (Delete_shop a) = with_status 200 (delete_shop E a rq)"

lemma safe_run_shops [safe_intro]: "W.safe E A (run_shops X E rq c)"
  by (cases c; simp only: run_shops.simps; intro safe_intro)

datatype invoices_call =
    List_invoices string int int
  | Get_invoice int
  | Pay_invoice int
  | Invoice_pdf int

primrec invoices_route :: "invoices_call \<Rightarrow> string \<times> string" where
  "invoices_route (List_invoices a b c) = (''GET'', ''/api/invoices'')"
| "invoices_route (Get_invoice a) = (''GET'', ''/api/invoices/{invoice_id}'')"
| "invoices_route (Pay_invoice a) = (''POST'', ''/api/invoices/{invoice_id}/pay'')"
| "invoices_route (Invoice_pdf a) = (''GET'', ''/api/invoices/{invoice_id}/pdf'')"

primrec run_invoices :: "outside \<Rightarrow> env \<Rightarrow> request \<Rightarrow> invoices_call \<Rightarrow> http_reply handler" where
  "run_invoices X E rq (List_invoices a b c) = with_status 200 (list_invoices E a b c)"
| "run_invoices X E rq (Get_invoice a) = with_status 200 (get_invoice E a rq)"
| "run_invoices X E rq (Pay_invoice a) = with_status 200 (pay_invoice E a rq)"
| "run_invoices X E rq (Invoice_pdf a) = with_status 200 (generate_invoice_pdf (x_render X) a rq)"

lemma safe_run_invoices [safe_intro]: "W.safe E A (run_invoices X E rq c)"
  by (cases c; simp only: run_invoices.simps; intro safe_intro)

datatype tickets_call =
    List_tickets string string string int int
  | Create_ticket
  | Ticket_redirect string

primrec tickets_route :: "tickets_call \<Rightarrow> string \<times> string" where
  "tickets_route (List_tickets a b c d e) = (''GET'', ''/api/tickets'')"
| "tickets_route Create_ticket = (''POST'', ''/api/tickets'')"
| "tickets_route (Ticket_redirect a) = (''GET'', ''/api/tickets/redirect'')"

primrec run_tickets :: "outside \<Rightarrow> env \<Rightarrow> request \<Rightarrow> tickets_call \<Rightarrow> http_reply handler" where
  "run_tickets X E rq (List_tickets a b c d e) = with_status 200 (list_tickets (x_sql X) E a b c d e rq)"
| "run_tickets X E rq Create_ticket = with_status 200 (create_ticket E rq)"
| "run_tickets X E rq (Ticket_redirect a) = of_response (ticket_redirect a rq)"

lemma safe_run_tickets [safe_intro]: "sql_ok A X \<Longrightarrow> W.safe E A (run_tickets X E rq c)"
  by (cases c) (simp_all only: run_tickets.simps sql_ok_def, (intro safe_intro safe_sql, (simp | fail)?)+)

datatype reports_call =
    List_reports
  | Create_report
  | Execute_report
  | Import_report
  | Export_report int string

primrec reports_route :: "reports_call \<Rightarrow> string \<times> string" where
  "reports_route List_reports = (''GET'', ''/api/reports'')"
| "reports_route Create_report = (''POST'', ''/api/reports'')"
| "reports_route Execute_report = (''POST'', ''/api/reports/execute'')"
| "reports_route Import_report = (''POST'', ''/api/reports/import'')"
| "reports_route (Export_report a b) = (''GET'', ''/api/reports/export'')"

primrec run_reports :: "outside \<Rightarrow> env \<Rightarrow> request \<Rightarrow> reports_call \<Rightarrow> http_reply handler" where
  "run_reports X E rq List_reports = with_status 200 (list_reports E)"
| "run_reports X E rq Create_report = with_status 200 (create_report E rq)"
| "run_reports X E rq Execute_report = with_status 200 (execute_report (x_sql X) E rq)"
| "run_reports X E rq Import_report = with_status 200 (import_report_config (x_unpickle X) rq)"
| "run_reports X E rq (Export_report a b) = with_status 200 (export_report (x_shell X) a b rq)"

lemma safe_run_reports [safe_intro]: "sql_ok A X \<Longrightarrow> W.safe E A (run_reports X E rq c)"
  by (cases c) (simp_all only: run_reports.simps sql_ok_def, (intro safe_intro safe_sql, (simp | fail)?)+)

datatype files_call =
    Upload_file string string string
  | Download_file string
  | Parse_xml string
  | Import_from_url

primrec files_route :: "files_call \<Rightarrow> string \<times> string" where
  "files_route (Upload_file a b c) = (''POST'', ''/api/files/upload'')"
| "files_route (Download_file a) = (''GET'', ''/api/files/download'')"
| "files_route (Parse_xml a) = (''POST'', ''/api/files/parse-xml'')"
| "files_route Import_from_url = (''POST'', ''/api/files/import-url'')"

primrec run_files :: "outside \<Rightarrow> env \<Rightarrow> request \<Rightarrow> files_call \<Rightarrow> http_reply handler" where
  "run_files X E rq (Upload_file a b c) = with_status 200 (upload_file (x_files X) a b c rq)"
| "run_files X E rq (Download_file a) = with_status 200 (download_file (x_files X) a rq)"
| "run_files X E rq (Parse_xml a) = with_status 200 (parse_xml (x_xml X) a rq)"
| "run_files X E rq Import_from_url = with_status 200 (import_from_url E (x_headers X) rq)"

lemma safe_run_files [safe_intro]: "W.safe E A (run_files X E rq c)"
  by (cases c; simp only: run_files.simps; intro safe_intro)

datatype admin_call =
    List_users
  | Change_user_role int
  | Get_config
  | Debug_info
  | Audit_logs int int
  | Db_status json json

primrec admin_route :: "admin_call \<Rightarrow> string \<times> string" where
  "admin_route List_users = (''GET'', ''/api/admin/users'')"
| "admin_route (Change_user_role a) = (''PATCH'', ''/api/admin/users/{user_id}/role'')"
| "admin_route Get_config = (''GET'', ''/api/admin/config'')"
| "admin_route Debug_info = (''GET'', ''/api/admin/debug'')"
| "admin_route (Audit_logs a b) = (''GET'', ''/api/admin/audit-logs'')"
| "admin_route (Db_status a b) = (''GET'', ''/api/admin/db-status'')"

primrec run_admin :: "outside \<Rightarrow> env \<Rightarrow> request \<Rightarrow> admin_call \<Rightarrow> http_reply handler" where
  "run_admin X E rq List_users = with_status 200 (list_users E rq)"
| "run_admin X E rq (Change_user_role a) = with_status 200 (change_user_role E a rq)"
| "run_admin X E rq Get_config = with_status 200 (get_config E (x_host X) rq)"
| "run_admin X E rq Debug_info = with_status 200 (debug_info E (x_host X) rq)"
| "run_admin X E rq (Audit_logs a b) = with_status 200 (get_audit_logs E a b rq)"
| "run_admin X E rq (Db_status a b) = with_status 200 (db_status E a b rq)"

lemma safe_run_admin [safe_intro]: "W.safe E A (run_admin X E rq c)"
  by (cases c; simp only: run_admin.simps; intro safe_intro)

datatype dashboard_call =
    Dashboard_summary
  | Slow_query pyfloat
  | N_plus_one
  | Error_demo string

primrec dashboard_route :: "dashboard_call \<Rightarrow> string \<times> string" where
  "dashboard_route Dashboard_summary = (''GET'', ''/api/dashboard/summary'')"
| "dashboard_route (Slow_query a) = (''GET'', ''/api/dashboard/slow-query'')"
| "dashboard_route N_plus_one = (''GET'', ''/api/dashboard/n-plus-one'')"
| "dashboard_route (Error_demo a) = (''GET'', ''/api/dashboard/error-demo'')"

primrec run_dashboard :: "outside \<Rightarrow> env \<Rightarrow> request \<Rightarrow> dashboard_call \<Rightarrow> http_reply handler" where
  "run_dashboard X E rq Dashboard_summary = with_status 200 (dashboard_summary E)"
| "run_dashboard X E rq (Slow_query a) = with_status 200 (slow_query a)"
| "run_dashboard X E rq N_plus_one = with_status 200 (n_plus_one_demo E)"
| "run_dashboard X E rq (Error_demo a) = with_status 200 (error_demo E a)"

lemma safe_run_dashboard [safe_intro]: "W.safe E A (run_dashboard X E rq c)"
  by (cases c; simp only: run_dashboard.simps; intro safe_intro)

datatype keys_call =
    Generate_key
  | Validate_key
  | List_keys

primrec keys_route :: "keys_call \<Rightarrow> string \<times> string" where
  "keys_route Generate_key = (''POST'', ''/api/keys/generate'')"
| "keys_route Validate_key = (''GET'', ''/api/keys/validate'')"
| "keys_route List_keys = (''GET'', ''/api/keys/list'')"

primrec run_keys :: "outside \<Rightarrow> env \<Rightarrow> request \<Rightarrow> keys_call \<Rightarrow> http_reply handler" where
  "run_keys X E rq Generate_key = with_status 200 (generate_api_key E rq)"
| "run_keys X E rq Validate_key = with_status 200 (validate_api_key rq)"
| "run_keys X E rq List_keys = with_status 200 (list_api_keys rq)"

lemma safe_run_keys [safe_intro]: "W.safe E A (run_keys X E rq c)"
  by (cases c; simp only: run_keys.simps; intro safe_intro)

datatype simulate_call =
    Simulation_status
  | Configure sim_config
  | Reset
  | Db_latency
  | Db_disconnect
  | Error_burst
  | Slow_queries
  | N_plus_one_burst
  | App_exception
  | Db_error
  | Generate_orders
  | Generate_backlog
  | High_value_order
  | Add_customer
  | Create_sim_customer create_customer_request
  | Sync_customers
  | Drone_shop_proxy string

primrec simulate_route :: "simulate_call \<Rightarrow> string \<times> string" where
  "simulate_route Simulation_status = (''GET'', ''/api/simulate/status'')"
| "simulate_route (Configure a) = (''POST'', ''/api/simulate/configure'')"
| "simulate_route Reset = (''POST'', ''/api/simulate/reset'')"
| "simulate_route Db_latency = (''POST'', ''/api/simulate/db-latency'')"
| "simulate_route Db_disconnect = (''POST'', ''/api/simulate/db-disconnect'')"
| "simulate_route Error_burst = (''POST'', ''/api/simulate/error-burst'')"
| "simulate_route Slow_queries = (''POST'', ''/api/simulate/slow-query'')"
| "simulate_route N_plus_one_burst = (''POST'', ''/api/simulate/n-plus-one'')"
| "simulate_route App_exception = (''POST'', ''/api/simulate/app-exception'')"
| "simulate_route Db_error = (''POST'', ''/api/simulate/db-error'')"
| "simulate_route Generate_orders = (''POST'', ''/api/simulate/generate-orders'')"
| "simulate_route Generate_backlog = (''POST'', ''/api/simulate/generate-backlog'')"
| "simulate_route High_value_order = (''POST'', ''/api/simulate/high-value-order'')"
| "simulate_route Add_customer = (''POST'', ''/api/simulate/add-customer'')"
| "simulate_route (Create_sim_customer a) = (''POST'', ''/api/simulate/create-customer'')"
| "simulate_route Sync_customers = (''POST'', ''/api/simulate/sync-customers'')"
| "simulate_route (Drone_shop_proxy a) = (''POST'', ''/api/simulate/drone-shop/{action}'')"

primrec run_simulate :: "outside \<Rightarrow> env \<Rightarrow> request \<Rightarrow> simulate_call \<Rightarrow> http_reply handler" where
  "run_simulate X E rq Simulation_status = with_status 200 simulation_status"
| "run_simulate X E rq (Configure a) = with_status 200 (configure_simulation E a)"
| "run_simulate X E rq Reset = with_status 200 reset_simulation"
| "run_simulate X E rq Db_latency = with_status 200 (trigger_db_latency E rq)"
| "run_simulate X E rq Db_disconnect = with_status 200 trigger_db_disconnect"
| "run_simulate X E rq Error_burst = with_status 200 (trigger_error_burst E rq)"
| "run_simulate X E rq Slow_queries = with_status 200 (trigger_slow_query E rq)"
| "run_simulate X E rq N_plus_one_burst = with_status 200 (trigger_n_plus_one E rq)"
| "run_simulate X E rq App_exception = with_status 200 trigger_app_exception"
| "run_simulate X E rq Db_error = with_status 200 trigger_db_error"
| "run_simulate X E rq Generate_orders = with_status 200 (generate_orders E (x_random X) rq)"
| "run_simulate X E rq Generate_backlog = with_status 200 (generate_backlog E (x_random X) rq)"
| "run_simulate X E rq High_value_order = with_status 200 (high_value_order E (x_random X) rq)"
| "run_simulate X E rq Add_customer = with_status 200 (add_random_customer E (x_random X))"
| "run_simulate X E rq (Create_sim_customer a) = with_status 200 (create_customer_sim E a)"
| "run_simulate X E rq Sync_customers = with_status 200 (sync_customers E)"
| "run_simulate X E rq (Drone_shop_proxy a) = with_status 200 (drone_shop_proxy E (x_random X) a rq)"

lemma safe_run_simulate [safe_intro]: "W.safe E A (run_simulate X E rq c)"
  by (cases c; simp only: run_simulate.simps; intro safe_intro)

datatype campaigns_call =
    List_campaigns string string int int
  | Get_campaign int
  | Create_campaign
  | List_leads int string int int
  | Create_lead int
  | Update_lead int int

primrec campaigns_route :: "campaigns_call \<Rightarrow> string \<times> string" where
  "campaigns_route (List_campaigns a b c d) = (''GET'', ''/api/campaigns'')"
| "campaigns_route (Get_campaign a) = (''GET'', ''/api/campaigns/{campaign_id}'')"
| "campaigns_route Create_campaign = (''POST'', ''/api/campaigns'')"
| "campaigns_route (List_leads a b c d) = (''GET'', ''/api/campaigns/{campaign_id}/leads'')"
| "campaigns_route (Create_lead a) = (''POST'', ''/api/campaigns/{campaign_id}/leads'')"
| "campaigns_route (Update_lead a b) = (''PATCH'', ''/api/campaigns/{campaign_id}/leads/{lead_id}'')"

primrec run_campaigns :: "outside \<Rightarrow> env \<Rightarrow> request \<Rightarrow> campaigns_call \<Rightarrow> http_reply handler" where
  "run_campaigns X E rq (List_campaigns a b c d) = with_status 200 (list_campaigns E a b c d)"
| "run_campaigns X E rq (Get_campaign a) = with_status 200 (get_campaign E a rq)"
| "run_campaigns X E rq Create_campaign = with_status 200 (create_campaign E rq)"
| "run_campaigns X E rq (List_leads a b c d) = with_status 200 (list_campaign_leads E a b c d)"
| "run_campaigns X E rq (Create_lead a) = with_status 200 (create_lead E a rq)"
| "run_campaigns X E rq (Update_lead a b) = with_status 200 (update_lead_status E a b rq)"

lemma safe_run_campaigns [safe_intro]: "W.safe E A (run_campaigns X E rq c)"
  by (cases c; simp only: run_campaigns.simps; intro safe_intro)

datatype shipping_call =
    List_shipments string string int int
  | Shipments_by_region string
  | List_warehouses
  | Get_shipment int
  | Create_shipment
  | Update_shipment int

primrec shipping_route :: "shipping_call \<Rightarrow> string \<times> string" where
  "shipping_route (List_shipments a b c d) = (''GET'', ''/api/shipping'')"
| "shipping_route (Shipments_by_region a) = (''GET'', ''/api/shipping/by-region'')"
| "shipping_route List_warehouses = (''GET'', ''/api/shipping/warehouses'')"
| "shipping_route (Get_shipment a) = (''GET'', ''/api/shipping/{shipment_id}'')"
| "shipping_route Create_shipment = (''POST'', ''/api/shipping'')"
| "shipping_route (Update_shipment a) = (''PATCH'', ''/api/shipping/{shipment_id}/status'')"

primrec run_shipping :: "outside \<Rightarrow> env \<Rightarrow> request \<Rightarrow> shipping_call \<Rightarrow> http_reply handler" where
  "run_shipping X E rq (List_shipments a b c d) = with_status 200 (list_shipments E a b c d)"
| "run_shipping X E rq (Shipments_by_region a) = with_status 200 (shipments_by_region E a)"
| "run_shipping X E rq List_warehouses = with_status 200 (list_warehouses E)"
| "run_shipping X E rq (Get_shipment a) = with_status 200 (get_shipment E a)"
| "run_shipping X E rq Create_shipment = with_status 200 (create_shipment E rq)"
| "run_shipping X E rq (Update_shipment a) = with_status 200 (update_shipment_status E a rq)"

lemma safe_run_shipping [safe_intro]: "W.safe E A (run_shipping X E rq c)"
  by (cases c; simp only: run_shipping.simps; intro safe_intro)

datatype analytics_call =
    Overview
  | Geo string
  | Funnel
  | Revenue_by_region
  | Track
  | Performance string

primrec analytics_route :: "analytics_call \<Rightarrow> string \<times> string" where
  "analytics_route Overview = (''GET'', ''/api/analytics/overview'')"
| "analytics_route (Geo a) = (''GET'', ''/api/analytics/geo'')"
| "analytics_route Funnel = (''GET'', ''/api/analytics/funnel'')"
| "analytics_route Revenue_by_region = (''GET'', ''/api/analytics/revenue-by-region'')"
| "analytics_route Track = (''POST'', ''/api/analytics/track'')"
| "analytics_route (Performance a) = (''GET'', ''/api/analytics/performance'')"

primrec run_analytics :: "outside \<Rightarrow> env \<Rightarrow> request \<Rightarrow> analytics_call \<Rightarrow> http_reply handler" where
  "run_analytics X E rq Overview = with_status 200 (overview E)"
| "run_analytics X E rq (Geo a) = with_status 200 (geo_analytics (x_sql X) E a rq)"
| "run_analytics X E rq Funnel = with_status 200 (conversion_funnel E)"
| "run_analytics X E rq Revenue_by_region = with_status 200 (revenue_by_region E)"
| "run_analytics X E rq Track = with_status 200 (track_page_view E rq)"
| "run_analytics X E rq (Performance a) = with_status 200 (performance_by_region E a rq)"

lemma safe_run_analytics [safe_intro]: "sql_ok A X \<Longrightarrow> W.safe E A (run_analytics X E rq c)"
  by (cases c) (simp_all only: run_analytics.simps sql_ok_def, (intro safe_intro safe_sql, (simp | fail)?)+)

datatype integrations_call =
    Shop_catalog string
  | Shop_orders string
  | Recommend "(string \<times> json) list"
  | Shop_health
  | Integration_schema
  | Topology
  | Status
  | Console_connections
  | Console_config

primrec integrations_route :: "integrations_call \<Rightarrow> string \<times> string" where
  "integrations_route (Shop_catalog a) = (''GET'', ''/api/integrations/drone-shop/product-catalog'')"
| "integrations_route (Shop_orders a) = (''GET'', ''/api/integrations/drone-shop/order-history'')"
| "integrations_route (Recommend a) = (''POST'', ''/api/integrations/drone-shop/recommend-products'')"
| "integrations_route Shop_health = (''GET'', ''/api/integrations/drone-shop/health'')"
| "integrations_route Integration_schema = (''GET'', ''/api/integrations/schema'')"
| "integrations_route Topology = (''GET'', ''/api/integrations/topology'')"
| "integrations_route Status = (''GET'', ''/api/integrations/status'')"
| "integrations_route Console_connections = (''GET'', ''/api/integrations/console/connections'')"
| "integrations_route Console_config = (''GET'', ''/api/integrations/console/config'')"

primrec run_integrations :: "outside \<Rightarrow> env \<Rightarrow> request \<Rightarrow> integrations_call \<Rightarrow> http_reply handler" where
  "run_integrations X E rq (Shop_catalog a) = with_status 200 (mushop_product_catalog E a rq)"
| "run_integrations X E rq (Shop_orders a) = with_status 200 (mushop_order_history E a rq)"
| "run_integrations X E rq (Recommend a) = with_status 200 (mushop_recommend_products E a rq)"
| "run_integrations X E rq Shop_health = with_status 200 (mushop_health E rq)"
| "run_integrations X E rq Integration_schema = with_status 200 (ret integration_schema)"
| "run_integrations X E rq Topology = with_status 200 (topology E (x_base_url X) rq)"
| "run_integrations X E rq Status = with_status 200 (integration_status E (x_base_url X) rq)"
| "run_integrations X E rq Console_connections = with_status 200 (console_connections E rq)"
| "run_integrations X E rq Console_config = with_status 200 (console_config E)"

lemma safe_run_integrations [safe_intro]: "W.safe E A (run_integrations X E rq c)"
  by (cases c; simp only: run_integrations.simps; intro safe_intro)

datatype observability_call =
    Frontend_event "json res option"
  | Monitor
  | Monitor_app
  | Monitor_db
  | Monitor_sync
  | Monitor_security

primrec observability_route :: "observability_call \<Rightarrow> string \<times> string" where
  "observability_route (Frontend_event a) = (''POST'', ''/api/observability/frontend'')"
| "observability_route Monitor = (''GET'', ''/api/observability/360'')"
| "observability_route Monitor_app = (''GET'', ''/api/observability/360/app-health'')"
| "observability_route Monitor_db = (''GET'', ''/api/observability/360/db-health'')"
| "observability_route Monitor_sync = (''GET'', ''/api/observability/360/sync-health'')"
| "observability_route Monitor_security = (''GET'', ''/api/observability/360/security'')"

primrec run_observability :: "outside \<Rightarrow> env \<Rightarrow> request \<Rightarrow> observability_call \<Rightarrow> http_reply handler" where
  "run_observability X E rq (Frontend_event a) = no_content (ingest_frontend_event (x_event X) E a)"
| "run_observability X E rq Monitor = with_status 200 (observability_360 E rq)"
| "run_observability X E rq Monitor_app = with_status 200 (app_health_summary E)"
| "run_observability X E rq Monitor_db = with_status 200 (db_health_summary E)"
| "run_observability X E rq Monitor_sync = with_status 200 (order_sync_health E)"
| "run_observability X E rq Monitor_security = with_status 200 (security_health E)"

lemma safe_run_observability [safe_intro]: "W.safe E A (run_observability X E rq c)"
  by (cases c; simp only: run_observability.simps; intro safe_intro)

datatype chaos_call =
    Chaos_presets
  | Chaos_read
  | Chaos_apply apply_request
  | Chaos_clear

primrec chaos_route :: "chaos_call \<Rightarrow> string \<times> string" where
  "chaos_route Chaos_presets = (''GET'', ''/api/admin/chaos/presets'')"
| "chaos_route Chaos_read = (''GET'', ''/api/admin/chaos/state'')"
| "chaos_route (Chaos_apply a) = (''POST'', ''/api/admin/chaos/apply'')"
| "chaos_route Chaos_clear = (''POST'', ''/api/admin/chaos/clear'')"

primrec run_chaos :: "outside \<Rightarrow> env \<Rightarrow> request \<Rightarrow> chaos_call \<Rightarrow> http_reply handler" where
  "run_chaos X E rq Chaos_presets = with_status 200 (list_presets E rq)"
| "run_chaos X E rq Chaos_read = with_status 200 (read_state E rq)"
| "run_chaos X E rq (Chaos_apply a) = with_status 201 (apply_scenario E a rq)"
| "run_chaos X E rq Chaos_clear = with_status 200 (clear_scenario E rq)"

lemma safe_run_chaos [safe_intro]: "W.safe E A (run_chaos X E rq c)"
  by (cases c; simp only: run_chaos.simps; intro safe_intro)

datatype probe_call =
    Health
  | Ready
  | Modules

primrec probe_route :: "probe_call \<Rightarrow> string \<times> string" where
  "probe_route Health = (''GET'', ''/health'')"
| "probe_route Ready = (''GET'', ''/ready'')"
| "probe_route Modules = (''GET'', ''/api/modules'')"

primrec run_probe :: "outside \<Rightarrow> env \<Rightarrow> request \<Rightarrow> probe_call \<Rightarrow> http_reply handler" where
  "run_probe X E rq Health = with_status 200 (ret (health E))"
| "run_probe X E rq Ready = of_pair (ready E)"
| "run_probe X E rq Modules = with_status 200 (ret list_modules)"

lemma safe_run_probe [safe_intro]: "W.safe E A (run_probe X E rq c)"
  by (cases c; simp only: run_probe.simps; intro safe_intro)

datatype pages_call =
    Index
  | Customers_page
  | Orders_page
  | Products_page
  | Catalog_page
  | Invoices_page
  | Tickets_page
  | Reports_page
  | Admin_page
  | Files_page
  | Settings_page
  | Campaigns_page
  | Shipping_page
  | Analytics_page
  | Leads_page
  | Warehouses_page
  | Integrations_page
  | Observability_page
  | Login_page
  | Favicon
  | Chaos_page

primrec pages_route :: "pages_call \<Rightarrow> string \<times> string" where
  "pages_route Index = (''GET'', ''/'')"
| "pages_route Customers_page = (''GET'', ''/customers'')"
| "pages_route Orders_page = (''GET'', ''/orders'')"
| "pages_route Products_page = (''GET'', ''/products'')"
| "pages_route Catalog_page = (''GET'', ''/catalog'')"
| "pages_route Invoices_page = (''GET'', ''/invoices'')"
| "pages_route Tickets_page = (''GET'', ''/tickets'')"
| "pages_route Reports_page = (''GET'', ''/reports'')"
| "pages_route Admin_page = (''GET'', ''/admin'')"
| "pages_route Files_page = (''GET'', ''/files'')"
| "pages_route Settings_page = (''GET'', ''/settings'')"
| "pages_route Campaigns_page = (''GET'', ''/campaigns'')"
| "pages_route Shipping_page = (''GET'', ''/shipping'')"
| "pages_route Analytics_page = (''GET'', ''/analytics'')"
| "pages_route Leads_page = (''GET'', ''/leads'')"
| "pages_route Warehouses_page = (''GET'', ''/warehouses'')"
| "pages_route Integrations_page = (''GET'', ''/integrations'')"
| "pages_route Observability_page = (''GET'', ''/observability'')"
| "pages_route Login_page = (''GET'', ''/login'')"
| "pages_route Favicon = (''GET'', ''/favicon.ico'')"
| "pages_route Chaos_page = (''GET'', ''/admin/chaos'')"

primrec run_pages :: "outside \<Rightarrow> env \<Rightarrow> request \<Rightarrow> pages_call \<Rightarrow> http_reply handler" where
  "run_pages X E rq Index = with_status 200 (index (x_templates X) E rq)"
| "run_pages X E rq Customers_page = with_status 200 (customers_page (x_templates X) E rq)"
| "run_pages X E rq Orders_page = with_status 200 (orders_page (x_templates X) E rq)"
| "run_pages X E rq Products_page = with_status 200 (products_page (x_templates X) E rq)"
| "run_pages X E rq Catalog_page = with_status 200 (catalog_page (x_templates X) E rq)"
| "run_pages X E rq Invoices_page = with_status 200 (invoices_page (x_templates X) E rq)"
| "run_pages X E rq Tickets_page = with_status 200 (tickets_page (x_templates X) E rq)"
| "run_pages X E rq Reports_page = with_status 200 (reports_page (x_templates X) E rq)"
| "run_pages X E rq Admin_page = with_status 200 (admin_page (x_templates X) E rq)"
| "run_pages X E rq Files_page = with_status 200 (files_page (x_templates X) E rq)"
| "run_pages X E rq Settings_page = with_status 200 (settings_page (x_templates X) E rq)"
| "run_pages X E rq Campaigns_page = with_status 200 (campaigns_page (x_templates X) E rq)"
| "run_pages X E rq Shipping_page = with_status 200 (shipping_page (x_templates X) E rq)"
| "run_pages X E rq Analytics_page = with_status 200 (analytics_page (x_templates X) E rq)"
| "run_pages X E rq Leads_page = with_status 200 (leads_page (x_templates X) E rq)"
| "run_pages X E rq Warehouses_page = with_status 200 (warehouses_page (x_templates X) E rq)"
| "run_pages X E rq Integrations_page = with_status 200 (integrations_page (x_templates X) E rq)"
| "run_pages X E rq Observability_page = with_status 200 (observability_page (x_templates X) E rq)"
| "run_pages X E rq Login_page = with_status 200 (login_page (x_templates X) E rq)"
| "run_pages X E rq Favicon = of_response favicon"
| "run_pages X E rq Chaos_page = with_status 200 (chaos_admin_page (x_templates X) E rq)"

lemma safe_run_pages [safe_intro]: "W.safe E A (run_pages X E rq c)"
  by (cases c; simp only: run_pages.simps; intro safe_intro)

subsection \<open>Calls\<close>

datatype api_call =
    Auth_api auth_call
  | Customers_api customers_call
  | Orders_api orders_call
  | Products_api products_call
  | Shops_api shops_call
  | Invoices_api invoices_call
  | Tickets_api tickets_call
  | Reports_api reports_call
  | Files_api files_call
  | Admin_api admin_call
  | Dashboard_api dashboard_call
  | Keys_api keys_call
  | Simulate_api simulate_call
  | Campaigns_api campaigns_call
  | Shipping_api shipping_call
  | Analytics_api analytics_call
  | Integrations_api integrations_call
  | Observability_api observability_call
  | Chaos_api chaos_call
  | Probe_api probe_call
  | Pages_api pages_call

primrec route_of :: "api_call \<Rightarrow> string \<times> string" where
  "route_of (Auth_api c) = auth_route c"
| "route_of (Customers_api c) = customers_route c"
| "route_of (Orders_api c) = orders_route c"
| "route_of (Products_api c) = products_route c"
| "route_of (Shops_api c) = shops_route c"
| "route_of (Invoices_api c) = invoices_route c"
| "route_of (Tickets_api c) = tickets_route c"
| "route_of (Reports_api c) = reports_route c"
| "route_of (Files_api c) = files_route c"
| "route_of (Admin_api c) = admin_route c"
| "route_of (Dashboard_api c) = dashboard_route c"
| "route_of (Keys_api c) = keys_route c"
| "route_of (Simulate_api c) = simulate_route c"
| "route_of (Campaigns_api c) = campaigns_route c"
| "route_of (Shipping_api c) = shipping_route c"
| "route_of (Analytics_api c) = analytics_route c"
| "route_of (Integrations_api c) = integrations_route c"
| "route_of (Observability_api c) = observability_route c"
| "route_of (Chaos_api c) = chaos_route c"
| "route_of (Probe_api c) = probe_route c"
| "route_of (Pages_api c) = pages_route c"

primrec run_call :: "outside \<Rightarrow> env \<Rightarrow> request \<Rightarrow> api_call \<Rightarrow> http_reply handler" where
  "run_call X E rq (Auth_api c) = run_auth X E rq c"
| "run_call X E rq (Customers_api c) = run_customers X E rq c"
| "run_call X E rq (Orders_api c) = run_orders X E rq c"
| "run_call X E rq (Products_api c) = run_products X E rq c"
| "run_call X E rq (Shops_api c) = run_shops X E rq c"
| "run_call X E rq (Invoices_api c) = run_invoices X E rq c"
| "run_call X E rq (Tickets_api c) = run_tickets X E rq c"
| "run_call X E rq (Reports_api c) = run_reports X E rq c"
| "run_call X E rq (Files_api c) = run_files X E rq c"
| "run_call X E rq (Admin_api c) = run_admin X E rq c"
| "run_call X E rq (Dashboard_api c) = run_dashboard X E rq c"
| "run_call X E rq (Keys_api c) = run_keys X E rq c"
| "run_call X E rq (Simulate_api c) = run_simulate X E rq c"
| "run_call X E rq (Campaigns_api c) = run_campaigns X E rq c"
| "run_call X E rq (Shipping_api c) = run_shipping X E rq c"
| "run_call X E rq (Analytics_api c) = run_analytics X E rq c"
| "run_call X E rq (Integrations_api c) = run_integrations X E rq c"
| "run_call X E rq (Observability_api c) = run_observability X E rq c"
| "run_call X E rq (Chaos_api c) = run_chaos X E rq c"
| "run_call X E rq (Probe_api c) = run_probe X E rq c"
| "run_call X E rq (Pages_api c) = run_pages X E rq c"

lemma safe_run_call [safe_intro]: "sql_ok A X \<Longrightarrow> W.safe E A (run_call X E rq c)"
  by (cases c) (simp_all only: run_call.simps, (intro safe_intro, (assumption)?)+)

text \<open>
  The application inside the middlewares: an \<open>HTTPException\<close> becomes its response, another exception goes on;
  either way the router has put the route into the request's scope.
\<close>

definition inner_app :: "outside \<Rightarrow> env \<Rightarrow> api_call \<Rightarrow> app" where
  "inner_app X E c rq =
     bind (catch (run_call X E rq c) (\<lambda>e. case e of
        HTTPException n detail \<Rightarrow> ret (reply n (JObj [(''detail'', JStr detail)])) | _ \<Rightarrow> raise e)) (\<lambda>r.
     ret (r\<lparr>rp_route := Some (snd (route_of c))\<rparr>))"

lemma safe_http_exception: "W.safe E A (case e of HTTPException n detail \<Rightarrow> ret (reply n (JObj [(''detail'', JStr detail)])) | _ \<Rightarrow> raise e)"
  by (cases e; simp only: py_exc.case; intro safe_intro)

lemma safe_inner_app: "sql_ok A X \<Longrightarrow> W.safe E A (inner_app X E c rq)"
  unfolding inner_app_def by (intro safe_intro safe_http_exception) assumption

text \<open>
  A whole exchange: the request, with none of the state the middlewares set, goes through the stack; an
  exception that leaves it is answered by the application's handler. \<open>class\<close> names the exception's class.
\<close>

definition exchange :: "outside \<Rightarrow> env \<Rightarrow> chaos_draws \<Rightarrow> string option \<Rightarrow> (py_exc \<Rightarrow> string) \<Rightarrow> api_call \<Rightarrow> app" where
  "exchange X E d framing class c rq = catch (stack E d framing (inner_app X E c) rq)
     (\<lambda>e. global_exception_handler (class e) rq e)"

lemma safe_exchange: "sql_ok A X \<Longrightarrow> W.safe E A (exchange X E d framing class c rq)"
  unfolding exchange_def global_exception_handler_def
  by (intro safe_intro safe_stack safe_inner_app)

subsection \<open>The life of the process\<close>

text \<open>
  \<open>lifespan\<close> up to the \<open>yield\<close>, and after it; \<open>print\<close> words a deprecation warning. The background import is a task of its
  own: its rounds run between the requests, where time passes too, and the database may fail and recover.
\<close>

definition startup :: "(deprecation \<Rightarrow> string) \<Rightarrow> env \<Rightarrow> unit handler" where
  "startup print E =
     seq (foldM (\<lambda>d u. emit (LoggerWarning (print d) [])) (warn_deprecations (environ E)) ())
     (seq (bootstrap_database E)
      (push_log ''INFO'' ''Enterprise CRM Portal started''
        [(''app.name'', JStr (app_name (cfg E))), (''app.runtime'', JStr (app_runtime (cfg E))),
         (''app.apm_configured'', JBool (apm_configured (cfg E))), (''app.rum_configured'', JBool (rum_configured (cfg E))),
         (''orders.sync_enabled'', JBool (orders_sync_enabled (cfg E)))]))"

definition shutdown :: "unit handler" where
  "shutdown = push_log ''INFO'' ''Enterprise CRM Portal shutting down'' []"

datatype event =
    Start
  | Stop
  | Round
  | Elapse nat
  | Outage "string option"
  | Exchange api_call request chaos_draws "string option"

primrec run_event :: "outside \<Rightarrow> env \<Rightarrow> (deprecation \<Rightarrow> string) \<Rightarrow> (py_exc \<Rightarrow> string) \<Rightarrow> event \<Rightarrow> unit handler" where
  "run_event X E print class Start = startup print E"
| "run_event X E print class Stop = shutdown"
| "run_event X E print class Round = orders_sync_round E"
| "run_event X E print class (Elapse us) = sleep (int us)"
| "run_event X E print class (Outage m) = modify (\<lambda>w. w\<lparr>w_db_down := m\<rparr>)"
| "run_event X E print class (Exchange c rq d framing) = bind (exchange X E d framing class c rq) (\<lambda>_. ret ())"

text \<open>The world after a list of events, one after another.\<close>

definition history :: "outside \<Rightarrow> env \<Rightarrow> (deprecation \<Rightarrow> string) \<Rightarrow> (py_exc \<Rightarrow> string) \<Rightarrow> event list \<Rightarrow> world \<Rightarrow> world" where
  "history X E print class es w = foldl (\<lambda>v e. snd (run_event X E print class e v)) w es"

lemma safe_startup [safe_intro]: "W.safe E A (startup p E)"
  unfolding startup_def by (intro safe_intro)

lemma safe_shutdown [safe_intro]: "W.safe E A shutdown"
  unfolding shutdown_def by (intro safe_intro)

lemma safe_run_event: "sql_ok A X \<Longrightarrow> W.safe E A (run_event X E p cl e)"
  by (cases e) (simp_all only: run_event.simps, (intro safe_intro safe_exchange safe_modify_db, (assumption | simp)?)+)

lemma history_run_all: "history X E p cl es w = W.run_all (map (run_event X E p cl) es) w"
  by (induction es arbitrary: w) (simp_all add: history_def)

end
