(* ===== verification/System_Props.thy ===== *)
theory System_Props
  imports Api Gate_Props Refine_Props
begin

text \<open>
  The properties of the whole server: its routers behind its middlewares, with the background import
  and the start, over any sequence of events.
\<close>

subsection \<open>The schema\<close>


definition sample_outside :: outside where
  "sample_outside =
    \<lparr>x_sql = (\<lambda>q ps d. (Inr [], d)),
     x_random = \<lparr>sr_nat = (\<lambda>n. 0), sr_unit = (\<lambda>n. Fin 0), sr_money = (\<lambda>f. []), sr_class = (\<lambda>m. None)\<rparr>,
     x_host = \<lparr>h_platform = [], h_python = [], h_executable = [], h_pid = 1, h_nodename = []\<rparr>,
     x_render = Inr, x_event = (\<lambda>j. None), x_base_url = ''https://crm.test/'',
     x_unpickle = (\<lambda>j. Inr []), x_shell = Inr, x_files = sample_files, x_xml = Inr, x_headers = (\<lambda>n. JObj []),
     x_templates = \<lparr>tp_dir = True, tp_render = (\<lambda>rq name context. Inr name)\<rparr>\<rparr>"


definition sample_draws :: chaos_draws where
  "sample_draws = \<lparr>cd_cpu = False, cd_delay = 0, cd_roll = Fin 0\<rparr>"


subsection \<open>Requests without a session\<close>

text \<open>Programs that return, leave the database and the session cache as they were, and do not turn the clock back.\<close>

definition quiet :: "'a handler \<Rightarrow> bool" where
  "quiet m \<longleftrightarrow> (\<forall>w. \<exists>x v. m w = (Inr x, v) \<and> w_db v = w_db w \<and> w_session_cache v = w_session_cache w \<and> w_now w \<le> w_now v)"

lemma quiet_modify: "(\<And>w. w_db (f w) = w_db w \<and> w_session_cache (f w) = w_session_cache w \<and> w_now w \<le> w_now (f w)) \<Longrightarrow> quiet (modify f)"
  by (simp add: quiet_def)

lemma quiet_bind: "quiet m \<Longrightarrow> (\<And>x. quiet (k x)) \<Longrightarrow> quiet (bind m k)"
  unfolding quiet_def bind_run by (metis (mono_tags, lifting) old.prod.case old.sum.simps(6) order_trans)

lemma quiet_seq: "quiet m \<Longrightarrow> quiet k \<Longrightarrow> quiet (seq m k)"
  by (simp add: seq_def quiet_bind)

lemma quiet_basic: "quiet (ret x)" "quiet (gets f)" "quiet (emit e)" "quiet (draw E)"
  by (simp_all add: quiet_def emit_def draw_def bind_run seq_run)

lemma quiet_if: "(b \<Longrightarrow> quiet m) \<Longrightarrow> (\<not> b \<Longrightarrow> quiet k) \<Longrightarrow> quiet (if b then m else k)"
  by simp

lemma quiet_build_correlation_id: "quiet (build_correlation_id E s)"
  unfolding build_correlation_id_def by (intro quiet_if quiet_basic)

lemma quiet_logs: "quiet (push_log l m a)" "quiet (metric n args)" "quiet (security_span t s)" "quiet (log_security_event t s m i u p x)"
  unfolding push_log_def metric_def security_span_def log_security_event_def by (intro quiet_seq quiet_basic)+

lemmas quiet_rules = quiet_bind quiet_seq quiet_basic quiet_if quiet_build_correlation_id quiet_logs

text \<open>
  Refusals: from a database, a session cache and a time on, an answer with status 302, 401 or 503 and the
  same database.
\<close>

definition refused :: "db \<Rightarrow> (string \<times> actor timed) list \<Rightarrow> int \<Rightarrow> http_reply handler \<Rightarrow> bool" where
  "refused d c t m \<longleftrightarrow> (\<forall>w. w_db w = d \<longrightarrow> w_session_cache w = c \<longrightarrow> t \<le> w_now w \<longrightarrow>
     (\<exists>r v. m w = (Inr r, v) \<and> rp_status r \<in> {302, 401, 503} \<and> w_db v = d))"

lemma refused_bind:
  assumes "quiet m" and "\<And>x. refused d c t (k x)"
  shows "refused d c t (bind m k)"
  unfolding refused_def
proof (intro allI impI)
  fix w :: world assume "w_db w = d" and "w_session_cache w = c" and "t \<le> w_now w"
  moreover obtain x v where m: "m w = (Inr x, v)" and "w_db v = w_db w" and "w_session_cache v = w_session_cache w"
    and "w_now w \<le> w_now v"
    using assms(1) unfolding quiet_def by blast
  ultimately obtain r u where "k x v = (Inr r, u)" "rp_status r \<in> {302, 401, 503}" "w_db u = d"
    using assms(2) [of x] unfolding refused_def by (metis order_trans)
  then show "\<exists>r v. bind m k w = (Inr r, v) \<and> rp_status r \<in> {302, 401, 503} \<and> w_db v = d"
    by (simp add: bind_run m)
qed

lemma refused_seq: "quiet m \<Longrightarrow> refused d c t k \<Longrightarrow> refused d c t (seq m k)"
  by (simp add: seq_def refused_bind)

lemma refused_catch: "refused d c t m \<Longrightarrow> refused d c t (catch m h)"
  unfolding refused_def catch_run by fastforce

text \<open>What comes after keeps the status and the database.\<close>

definition settled :: "http_reply \<Rightarrow> http_reply handler \<Rightarrow> bool" where
  "settled r m \<longleftrightarrow> (\<forall>w. \<exists>r' v. m w = (Inr r', v) \<and> rp_status r' = rp_status r \<and> w_db v = w_db w)"

lemma settled_ret: "rp_status r' = rp_status r \<Longrightarrow> settled r (ret r')"
  by (simp add: settled_def)

lemma settled_bind:
  assumes "quiet m" and "\<And>x. settled r (k x)"
  shows "settled r (bind m k)"
  unfolding settled_def
proof
  fix w
  obtain x v where m: "m w = (Inr x, v)" and v: "w_db v = w_db w" using assms(1) unfolding quiet_def by blast
  obtain r' u where "k x v = (Inr r', u)" "rp_status r' = rp_status r" "w_db u = w_db v"
    using assms(2) [of x] unfolding settled_def by blast
  with m v show "\<exists>r' v. bind m k w = (Inr r', v) \<and> rp_status r' = rp_status r \<and> w_db v = w_db w"
    by (simp add: bind_run)
qed

lemma settled_seq: "quiet m \<Longrightarrow> settled r k \<Longrightarrow> settled r (seq m k)"
  by (simp add: seq_def settled_bind)

lemma refused_then:
  assumes "refused d c t m" and "\<And>r. settled r (k r)"
  shows "refused d c t (bind m k)"
  unfolding refused_def
proof (intro allI impI)
  fix w :: world assume "w_db w = d" and "w_session_cache w = c" and "t \<le> w_now w"
  with assms(1) obtain r v where m: "m w = (Inr r, v)" and r: "rp_status r \<in> {302, 401, 503}" "w_db v = d"
    unfolding refused_def by blast
  obtain r' u where "k r v = (Inr r', u)" "rp_status r' = rp_status r" "w_db u = w_db v"
    using assms(2) [of r] unfolding settled_def by blast
  with m r show "\<exists>r v. bind m k w = (Inr r, v) \<and> rp_status r \<in> {302, 401, 503} \<and> w_db v = d"
    by (simp add: bind_run)
qed

lemma status_simps [simp]:
  "rp_status (set_default k v r) = rp_status r" "rp_status (set_header k v r) = rp_status r" "rp_status (trace_headers E cid r) = rp_status r"
  by (simp_all add: set_default_def set_header_def trace_headers_def Let_def)

lemma framing_status [simp]: "rp_status ((case f of
     Some (c # f) \<Rightarrow> set_default ''x-frame-options'' ''SAMEORIGIN'' \<circ>
       set_default ''content-security-policy-frame-ancestors'' (''frame-ancestors '' @ quoted ''self'' @ '' '' @ c # f)
   | _ \<Rightarrow> set_default ''x-frame-options'' ''DENY'') r) = rp_status r"
  by (simp split: option.split list.split)

lemma refused_gate:
  assumes "\<not> is_public rq" and "\<And>ts u. map_of c (session_id_of rq) = Some (ts, u) \<Longrightarrow> session_ttl \<le> t - ts"
    and "session_of d (session_id_of rq) = None"
  shows "refused d c t (session_gate_dispatch E a rq)"
  unfolding refused_def
proof (intro allI impI)
  fix w :: world assume w: "w_db w = d" "w_session_cache w = c" "t \<le> w_now w"
  have "\<forall>u. fst (get_current_user E rq w) \<noteq> Inr (Some u)"
  proof -
    have "timed_get session_ttl c (w_now w) (session_id_of rq) = None"
      by (rule timed_get_stale) (use assms(2) w(3) in fastforce)
    with assms(3) w show ?thesis by (simp add: current_user_outcome Let_def session_ttl_def split: option.split)
  qed
  with gate_cases [OF assms(1), of E w a] w
  show "\<exists>r v. session_gate_dispatch E a rq w = (Inr r, v) \<and> rp_status r \<in> {302, 401, 503} \<and> w_db v = d" by auto
qed


lemma refused_tracing: "(\<And>cid. refused d c t (a (rq\<lparr>rq_correlation_id := Some cid\<rparr>))) \<Longrightarrow> refused d c t (tracing_dispatch E a rq)"
  unfolding tracing_dispatch_def waf_signal_def Let_def
  by (intro refused_bind refused_seq quiet_rules refused_then refused_catch settled_bind settled_seq settled_ret status_simps)

lemma refused_metrics: "refused d c t (a rq) \<Longrightarrow> refused d c t (metrics_dispatch a rq)"
  unfolding metrics_dispatch_def request_started_def request_finished_def record_request_def Let_def
  by (intro refused_bind refused_seq quiet_rules refused_then refused_catch settled_bind settled_seq settled_ret refl)

lemma refused_security_headers: "(\<And>n. refused d c t (a (rq\<lparr>rq_csp_nonce := Some n\<rparr>))) \<Longrightarrow> refused d c t (security_headers_dispatch E u f a rq)"
  unfolding security_headers_dispatch_def
  by (intro refused_bind quiet_rules refused_then settled_ret) (simp_all del: o_apply)

lemma refused_workflow: "refused d c t (a rq) \<Longrightarrow> refused d c t (workflow_dispatch a rq)"
  unfolding workflow_dispatch_def by (intro refused_then settled_ret status_simps)

lemma refused_request_id:
  assumes "\<And>i. refused d c t (a (rq\<lparr>rq_request_id := Some i\<rparr>))"
  shows "refused d c t (request_id_dispatch E a rq)"
proof -
  have "quiet (case header rq ''x-request-id'' of Some (x # s) \<Rightarrow> ret (py_strip (x # s)) | _ \<Rightarrow> draw E)"
    by (auto split: option.split list.split intro: quiet_basic)
  then show ?thesis
    unfolding request_id_dispatch_def
    by (intro refused_bind quiet_rules refused_then settled_ret status_simps assms)
qed

lemma request_view [simp]:
  "is_public (rq\<lparr>rq_correlation_id := k\<rparr>) = is_public rq" "is_public (rq\<lparr>rq_request_id := i\<rparr>) = is_public rq"
  "is_public (rq\<lparr>rq_csp_nonce := n\<rparr>) = is_public rq" "session_id_of (rq\<lparr>rq_csp_nonce := n\<rparr>) = session_id_of rq"
  "session_id_of (rq\<lparr>rq_correlation_id := k\<rparr>) = session_id_of rq" "session_id_of (rq\<lparr>rq_request_id := i\<rparr>) = session_id_of rq"
  by (simp_all add: is_public_def session_id_of_def cookie_def header_or_def header_def)

lemma refused_stack:
  assumes "\<not> is_public rq" and "\<And>ts u. map_of c (session_id_of rq) = Some (ts, u) \<Longrightarrow> session_ttl \<le> t - ts"
    and "session_of d (session_id_of rq) = None"
  shows "refused d c t (stack E draws framing a rq)"
  unfolding stack_def
  by (intro refused_request_id refused_workflow refused_security_headers refused_tracing refused_metrics refused_gate)
    (simp_all add: assms)

lemma exchange_refused:
  assumes "\<not> is_public rq" and "timed_get session_ttl (w_session_cache w) (w_now w) (session_id_of rq) = None"
    and "session_of (w_db w) (session_id_of rq) = None"
  shows "\<exists>reply v. exchange X E d framing class c rq w = (Inr reply, v) \<and> rp_status reply \<in> {302, 401, 503} \<and> w_db v = w_db w"
proof -
  have "session_ttl \<le> w_now w - ts" if "map_of (w_session_cache w) (session_id_of rq) = Some (ts, u)" for ts u
    using assms(2) that by (simp add: timed_get_def split: if_splits)
  then have "refused (w_db w) (w_session_cache w) (w_now w) (stack E d framing (inner_app X E c) rq)"
    using assms(1,3) by (intro refused_stack)
  from refused_catch [OF this] show ?thesis unfolding exchange_def refused_def by blast
qed

text \<open>
  C8. An exchange on a path that is not public, with a session id that names neither a cached session still
  valid nor a row of the session table (or with none), is answered 302, 401 or 503 for every route,
  method and body, whatever the middlewares around the gate do, and leaves the database exactly as it was.
\<close>

theorem unauthenticated_exchange_refused:
  assumes "\<not> is_public rq" and "timed_get session_ttl (w_session_cache w) (w_now w) (session_id_of rq) = None"
    and "session_of (w_db w) (session_id_of rq) = None"
  shows "\<exists>reply v. exchange X E d framing class c rq w = (Inr reply, v) \<and> rp_status reply \<in> {302, 401, 503} \<and> w_db v = w_db w"
  by (rule exchange_refused [OF assms])

theorem unauthenticated_exchange_refused_witness:
  "\<exists>reply v. exchange sample_outside sample_env sample_draws None exc_str (Products_api (Delete_product 1))
     (gated_request\<lparr>rq_cookies := []\<rparr>) sample_world = (Inr reply, v) \<and> rp_status reply \<in> {302, 401, 503} \<and> w_db v = sample_db"
  using unauthenticated_exchange_refused [of "gated_request\<lparr>rq_cookies := []\<rparr>" sample_world] gated_not_public
  by (simp add: is_public_def session_id_of_def cookie_def header_or_def header_def str_or_def gated_request_def session_of_def
      sample_request_def sample_world_def sample_db_def tbl_find_def timed_get_def)

subsection \<open>Sessions that ended\<close>





end
