(* ===== verification/Telemetry.thy ===== *)
theory Telemetry
  imports Observability
begin

text \<open>
  \<open>server/observability/\<close>: what a log record and a metric become on their way out. \<open>logging_sdk.py\<close> with
  its queue and the worker that drains it, \<open>log_enricher.py\<close>, the tags of Oracle sessions
  (\<open>db_session_tagging.py\<close>), the SQL id and attributes of database spans (\<open>db_spans.py\<close>), the classification
  of security events (\<open>security_spans.py\<close>) and the instruments of \<open>business_metrics.py\<close>.
\<close>

subsection \<open>Log records\<close>

definition trace_fields :: "env \<Rightarrow> (string \<times> json) list" where
  "trace_fields E = (if trace_id E \<noteq> [] then
     [(''trace_id'', JStr (trace_id E)), (''span_id'', JStr (span_id E)), (''traceparent'', JStr (traceparent E)),
      (''oracleApmTraceId'', JStr (trace_id E)), (''oracleApmSpanId'', JStr (span_id E))] else [])"

text \<open>The fields \<open>push_log\<close> sends with a record: the caller's, under the trace's and the service's.\<close>

definition log_fields :: "env \<Rightarrow> (string \<times> json) list \<Rightarrow> (string \<times> json) list" where
  "log_fields E kwargs = obj_update (obj_update (obj_update kwargs (trace_fields E)) (service_metadata (cfg E)))
     ([(''app.service'', JStr (otel_service_name (cfg E))), (''db.target'', JStr (database_target_label (cfg E)))] @
      (if atp_ocid (cfg E) \<noteq> [] then [(''db.ocid'', JStr (atp_ocid (cfg E)))] else []) @
      (if atp_connection_name (cfg E) \<noteq> [] then [(''db.connection_name'', JStr (atp_connection_name (cfg E)))] else []))"

definition level_names :: "string list" where
  "level_names = [''CRITICAL'', ''FATAL'', ''ERROR'', ''WARNING'', ''WARN'', ''INFO'', ''DEBUG'', ''NOTSET'']"

text \<open>The level's name on the record: \<open>getattr(logging, level.upper(), logging.INFO)\<close> printed again.\<close>

definition record_level :: "string \<Rightarrow> string" where
  "record_level level = (let l = py_upper level in
     if l = ''WARN'' then ''WARNING'' else if l = ''FATAL'' then ''CRITICAL'' else if l \<in> set level_names then l else ''INFO'')"

text \<open>The line on the standard output; \<open>timestamp\<close> is the printed time.\<close>

definition json_line :: "env \<Rightarrow> string \<Rightarrow> string \<Rightarrow> string \<Rightarrow> (string \<times> json) list \<Rightarrow> json" where
  "json_line E timestamp level message extra =
     JObj (obj_update (obj_update (obj_update
       [(''timestamp'', JStr timestamp), (''level'', JStr (record_level level)), (''logger'', JStr ''security.events''), (''message'', JStr message)]
       (service_metadata (cfg E))) extra) (trace_fields E))"

definition splunk_call :: "env \<Rightarrow> string \<Rightarrow> string \<Rightarrow> string \<Rightarrow> (string \<times> json) list \<Rightarrow> http_call option" where
  "splunk_call E timestamp level message extra =
     (if splunk_hec_url (cfg E) = [] \<or> splunk_hec_token (cfg E) = [] then None else Some
        \<lparr>hc_method = ''POST'', hc_url = splunk_hec_url (cfg E), hc_headers = [(''Authorization'', ''Splunk '' @ splunk_hec_token (cfg E))],
         hc_body = JObj [(''event'', JObj (obj_update [(''timestamp'', JStr timestamp), (''level'', JStr (py_upper level)), (''message'', JStr message)] extra)),
           (''sourcetype'', JStr ''oci:crm:security'')]\<rparr>)"

subsection \<open>The worker that drains the queue\<close>

text \<open>
  An item of the queue with what becomes of it: the time, and whether \<open>put_logs\<close> raises. Handling that
  exception uses a name the module does not define, so where the failure is to be reported a \<open>NameError\<close>
  leaves \<open>_push_to_oci_logging\<close> and \<open>_log_worker\<close>, and the thread ends. Times are in microseconds.
\<close>

record queue_item =
  qd_message :: string
  qd_now :: int
  qd_put_fails :: bool

record log_worker =
  lw_alive :: bool
  lw_last_error :: int
  lw_oci :: "string list"
  lw_splunk :: "string list"

text \<open>
  What the OCI SDK can do here: be imported, find the principal of the instance or of the resource, read a
  configuration file. The client is created once; while that fails every record tries again.
\<close>

record oci_sdk =
  os_installed :: bool
  os_instance_principal :: bool
  os_resource_principal :: bool
  os_config_file :: bool

definition get_oci_logging_client :: "oci_sdk \<Rightarrow> config \<Rightarrow> bool \<Rightarrow> bool" where
  "get_oci_logging_client sdk c created =
     (created \<or> logging_configured c \<and> os_installed sdk \<and>
        (if oci_auth_mode c = ''instance_principal'' then os_instance_principal sdk
         else os_resource_principal sdk \<or> os_config_file sdk))"

definition push_to_oci_logging :: "bool \<Rightarrow> queue_item \<Rightarrow> log_worker \<Rightarrow> log_worker" where
  "push_to_oci_logging client q w =
     (if \<not> client then w
      else if \<not> qd_put_fails q then w\<lparr>lw_oci := lw_oci w @ [qd_message q]\<rparr>
      else if 60 * sec < qd_now q - lw_last_error w then w\<lparr>lw_last_error := qd_now q, lw_alive := False\<rparr>
      else w)"

definition push_to_splunk :: "bool \<Rightarrow> queue_item \<Rightarrow> log_worker \<Rightarrow> log_worker" where
  "push_to_splunk configured q w = (if configured then w\<lparr>lw_splunk := lw_splunk w @ [qd_message q]\<rparr> else w)"

fun log_worker_run :: "bool \<Rightarrow> bool \<Rightarrow> queue_item list \<Rightarrow> log_worker \<Rightarrow> log_worker \<times> queue_item list" where
  "log_worker_run client configured [] w = (w, [])"
| "log_worker_run client configured (q # qs) w =
     (if \<not> lw_alive w then (w, q # qs) else
      (let w' = push_to_oci_logging client q w in
       if \<not> lw_alive w' then (w', qs) else log_worker_run client configured qs (push_to_splunk configured q w')))"

definition started_worker :: log_worker where
  "started_worker = \<lparr>lw_alive = True, lw_last_error = 0, lw_oci = [], lw_splunk = []\<rparr>"

lemma log_worker_dead: "\<not> lw_alive w \<Longrightarrow> log_worker_run c s qs w = (w, qs)"
  by (cases qs) auto

lemma log_worker_append:
  "log_worker_run c s (xs @ ys) w = (case log_worker_run c s xs w of
     (w', rest) \<Rightarrow> if lw_alive w' then log_worker_run c s ys w' else (w', rest @ ys))"
proof (induction xs arbitrary: w)
  case Nil
  show ?case by (simp add: log_worker_dead)
next
  case (Cons q xs)
  show ?case
    by (cases "lw_alive w"; cases "lw_alive (push_to_oci_logging c q w)")
      (auto simp: Let_def Cons.IH)
qed

text \<open>While nothing fails, everything is delivered, in order.\<close>

lemma log_worker_delivers:
  assumes "\<forall>q \<in> set qs. \<not> qd_put_fails q" and "lw_alive w"
  shows "log_worker_run True True qs w =
     (w\<lparr>lw_oci := lw_oci w @ map qd_message qs, lw_splunk := lw_splunk w @ map qd_message qs\<rparr>, [])"
  using assms
  by (induction qs arbitrary: w) (auto simp: Let_def push_to_oci_logging_def push_to_splunk_def)

lemma log_worker_stops:
  assumes "lw_alive w" and "qd_put_fails q" and "60 * sec < qd_now q - lw_last_error w"
  shows "log_worker_run True s (q # qs) w = (w\<lparr>lw_last_error := qd_now q, lw_alive := False\<rparr>, qs)"
  using assms by (simp add: push_to_oci_logging_def Let_def)

subsection \<open>Records of the standard logger\<close>

text \<open>\<open>WorkflowLogEnricher.filter\<close> on the attributes of a record.\<close>

definition enrich_record :: "(string \<times> string) option \<Rightarrow> string option \<Rightarrow> (string \<times> string) list \<Rightarrow> (string \<times> string) list" where
  "enrich_record flow request_id attrs =
     (let a = (case flow of None \<Rightarrow> attrs
        | Some (workflow, step) \<Rightarrow> alist_setdefault ''workflow_step'' step (alist_setdefault ''workflow_id'' workflow attrs)) in
      case request_id of Some (c # i) \<Rightarrow> alist_setdefault ''request_id'' (c # i) a | _ \<Rightarrow> a)"

text \<open>\<open>install_enricher\<close>: the filters of a logger, True for an enricher.\<close>

definition install_enricher :: "bool list \<Rightarrow> bool list" where
  "install_enricher filters = (if True \<in> set filters then filters else filters @ [True])"

subsection \<open>Tags of Oracle sessions\<close>

record db_context =
  dc_action :: string
  dc_client_id :: string

definition set_db_context :: "string \<Rightarrow> string \<Rightarrow> db_context" where
  "set_db_context action client_identifier = \<lparr>dc_action = take 64 action, dc_client_id = take 64 client_identifier\<rparr>"

record session_tags =
  tg_module :: string
  tg_action :: string
  tg_clientinfo :: string
  tg_client_identifier :: string

text \<open>
  On check-out and check-in. \<open>direct\<close>: the driver has the attribute \<open>module\<close>; else the tags are set
  by a statement, and an empty identifier is not set on check-out.
\<close>

definition tag_connection :: "config \<Rightarrow> bool \<Rightarrow> db_context \<Rightarrow> session_tags \<Rightarrow> session_tags" where
  "tag_connection c direct x t =
     (let module = take 48 (otel_service_name c); action = str_or (dc_action x) ''idle'' in
      if direct then \<lparr>tg_module = module, tg_action = action, tg_clientinfo = take 64 (app_version c), tg_client_identifier = dc_client_id x\<rparr>
      else t\<lparr>tg_module := module, tg_action := action,
             tg_client_identifier := (if dc_client_id x \<noteq> [] then dc_client_id x else tg_client_identifier t)\<rparr>)"

definition clear_connection :: "config \<Rightarrow> bool \<Rightarrow> session_tags \<Rightarrow> session_tags" where
  "clear_connection c direct t =
     (if direct then t\<lparr>tg_action := ''idle'', tg_client_identifier := []\<rparr>
      else t\<lparr>tg_module := take 48 (otel_service_name c), tg_action := ''idle'', tg_client_identifier := []\<rparr>)"

text \<open>The connection of a pool, through the requests that use it.\<close>

fun pooled :: "config \<Rightarrow> bool \<Rightarrow> db_context list \<Rightarrow> session_tags \<Rightarrow> session_tags" where
  "pooled c direct [] t = t"
| "pooled c direct (x # xs) t = pooled c direct xs (clear_connection c direct (tag_connection c direct x t))"

lemma pooled_clears: "xs \<noteq> [] \<Longrightarrow> tg_client_identifier (pooled c b xs t) = [] \<and> tg_action (pooled c b xs t) = ''idle''"
proof (induction xs arbitrary: t)
  case (Cons x xs)
  then show ?case by (cases xs) (auto simp: clear_connection_def)
qed simp

subsection \<open>SQL ids\<close>

definition oracle_b32 :: string where
  "oracle_b32 = ''0123456789abcdfghjkmnpqrstuvwxyz''"

text \<open>\<open>struct.unpack(">I", ...)\<close>: the bytes as a big-endian number.\<close>

definition big_endian :: "int list \<Rightarrow> int" where
  "big_endian bs = foldl (\<lambda>a b. a * 256 + b) 0 bs"

text \<open>The loop: the lowest five bits are the next digit, the number moves five bits to the right.\<close>

fun b32_digits :: "nat \<Rightarrow> int \<Rightarrow> string" where
  "b32_digits 0 n = []"
| "b32_digits (Suc k) n = oracle_b32 ! nat (n mod 32) # b32_digits k (n div 32)"

text \<open>\<open>digest\<close> is MD5, as a list of sixteen bytes.\<close>

definition sql_number :: "(string \<Rightarrow> int list) \<Rightarrow> string \<Rightarrow> int" where
  "sql_number digest sql =
     (let h = digest (sql @ [CHR 0x00]); msb = big_endian (take 4 (drop 8 h)); lsb = big_endian (take 4 (drop 12 h))
      in msb * 2 ^ 32 + lsb)"

definition compute_oracle_sql_id :: "(string \<Rightarrow> int list) \<Rightarrow> string \<Rightarrow> string" where
  "compute_oracle_sql_id digest sql = rev (b32_digits 13 (sql_number digest sql))"

text \<open>Reading a SQL id: the number its digits write in base 32.\<close>

definition b32_val :: "char \<Rightarrow> int" where
  "b32_val c = int (length (takeWhile (\<lambda>x. x \<noteq> c) oracle_b32))"

definition b32_read :: "string \<Rightarrow> int" where
  "b32_read s = foldl (\<lambda>a c. a * 32 + b32_val c) 0 s"

lemma takeWhile_nth:
  "distinct xs \<Longrightarrow> i < length xs \<Longrightarrow> takeWhile (\<lambda>x. x \<noteq> xs ! i) xs = take i xs"
proof (induction xs arbitrary: i)
  case (Cons x xs)
  then show ?case by (cases i) (auto simp: nth_mem)
qed simp

lemma b32_val_nth: "i < 32 \<Longrightarrow> b32_val (oracle_b32 ! i) = int i"
proof -
  assume "i < 32"
  moreover have "distinct oracle_b32" and "length oracle_b32 = 32" by (simp_all add: oracle_b32_def)
  ultimately show ?thesis by (simp add: b32_val_def takeWhile_nth)
qed

lemma b32_read_digits: "0 \<le> n \<Longrightarrow> n < 32 ^ k \<Longrightarrow> b32_read (rev (b32_digits k n)) = n"
proof (induction k arbitrary: n)
  case 0
  then show ?case by (simp add: b32_read_def)
next
  case (Suc k)
  have "n div 32 < 32 ^ k"
    using Suc.prems by (simp add: div_less_iff_less_mult mult.commute)
  with Suc have IH: "b32_read (rev (b32_digits k (n div 32))) = n div 32" by simp
  have "nat (n mod 32) < 32" by (simp add: nat_less_iff)
  then have "b32_val (oracle_b32 ! nat (n mod 32)) = n mod 32"
    using b32_val_nth by simp
  with IH show ?case by (simp add: b32_read_def)
qed

lemma length_b32_digits [simp]: "length (b32_digits k n) = k"
  by (induction k arbitrary: n) auto

lemma set_b32_digits: "set (b32_digits k n) \<subseteq> set oracle_b32"
proof (induction k arbitrary: n)
  case (Suc k)
  have "nat (n mod 32) < length oracle_b32" by (simp add: oracle_b32_def nat_less_iff)
  with Suc show ?case by (auto simp: nth_mem)
qed simp

lemma big_endian_bound:
  assumes "\<forall>b \<in> set bs. 0 \<le> b \<and> b < 256"
  shows "0 \<le> big_endian bs \<and> big_endian bs < 256 ^ length bs"
  using assms
proof (induction bs rule: rev_induct)
  case (snoc b bs)
  then have "0 \<le> big_endian bs" "big_endian bs + 1 \<le> 256 ^ length bs" "0 \<le> b" "b < 256" by auto
  then show ?case by (simp add: big_endian_def)
qed (simp add: big_endian_def)

lemma sql_number_bound:
  assumes "\<And>s. length (digest s) = 16 \<and> (\<forall>b \<in> set (digest s). 0 \<le> b \<and> b < 256)"
  shows "0 \<le> sql_number digest sql \<and> sql_number digest sql < 2 ^ 64"
proof -
  define h where "h = digest (sql @ [CHR 0x00])"
  have bytes: "\<forall>b \<in> set (take 4 (drop n h)). 0 \<le> b \<and> b < 256" for n
    using assms [of "sql @ [CHR 0x00]"] by (auto simp: h_def dest: in_set_takeD in_set_dropD)
  have "length (take 4 (drop 8 h)) = 4" "length (take 4 (drop 12 h)) = 4"
    using assms [of "sql @ [CHR 0x00]"] by (simp_all add: h_def)
  then have "0 \<le> big_endian (take 4 (drop 8 h))" "big_endian (take 4 (drop 8 h)) < 256 ^ 4"
      "0 \<le> big_endian (take 4 (drop 12 h))" "big_endian (take 4 (drop 12 h)) < 256 ^ 4"
    using big_endian_bound [OF bytes] by metis+
  then show ?thesis by (simp add: sql_number_def h_def [symmetric] Let_def)
qed

text \<open>
  The attributes of a database span; \<open>normalize\<close> strips the statement and collapses its white space.
\<close>

fun collapse :: "bool \<Rightarrow> string \<Rightarrow> string" where
  "collapse b [] = []"
| "collapse b (c # cs) = (if is_space c then (if b then collapse True cs else CHR '' '' # collapse True cs) else c # collapse False cs)"

definition normalize_sql :: "string \<Rightarrow> string" where
  "normalize_sql s = collapse False (py_strip s)"

definition db_span_attributes :: "(string \<Rightarrow> int list) \<Rightarrow> config \<Rightarrow> string \<Rightarrow> (string \<times> string) list" where
  "db_span_attributes digest c statement =
     (if statement = [] then [] else
        (let n = normalize_sql statement; i = compute_oracle_sql_id digest n in
         [(''DbStatement'', n), (''DbOracleSqlId'', i), (''db.statement'', take 4096 n), (''db.oracle.sql_id'', i)])) @
     [(''db.system'', ''oracle''), (''db.name'', str_or (oracle_dsn c) ''oracle-atp''), (''db.user'', str_or (oracle_user c) ''ADMIN''),
      (''component'', ''oracle''),
      (''peer.service'', if oracle_dsn c \<noteq> [] then ''OracleATP:'' @ oracle_dsn c else ''OracleATP''),
      (''server.address'', str_or (oracle_dsn c) ''oracle-atp''), (''db.connection_string'', oracle_dsn c)] @
     (if atp_ocid c \<noteq> [] then [(''db.oracle.atp_ocid'', atp_ocid c)] else [])"

end
