(* ===== verification/Runtime_Props.thy ===== *)
theory Runtime_Props
  imports System_Props Telemetry Chaos_Props
begin

text \<open>
  The properties of what runs beside the requests and what is measured of them: the gauge of requests in
  flight, the background import, the worker of the log queue, the probes of the dependencies, and
  that the two models of the session gate agree.
\<close>

subsection \<open>The gauge of requests in flight\<close>

text \<open>One series of the gauge: the sum of what was added to it for a route and a method.\<close>

fun gauge_amount :: "string \<Rightarrow> string \<Rightarrow> effect \<Rightarrow> int" where
  "gauge_amount route meth (Metric name [JInt n, JStr r, JStr m]) =
     (if name = ''http.requests_in_flight'' \<and> r = route \<and> m = meth then n else 0)"
| "gauge_amount route meth _ = 0"

definition in_flight :: "string \<Rightarrow> string \<Rightarrow> effect list \<Rightarrow> int" where
  "in_flight route meth es = (\<Sum>e \<leftarrow> es. gauge_amount route meth e)"

lemma in_flight_append [simp]: "in_flight route meth (xs @ ys) = in_flight route meth xs + in_flight route meth ys"
  by (simp add: in_flight_def)

lemma in_flight_Cons [simp]: "in_flight route meth (e # es) = gauge_amount route meth e + in_flight route meth es"
  "in_flight route meth [] = 0"
  by (simp_all add: in_flight_def)

lemma gauge_runs:
  "request_started r m w = (Inr (), w\<lparr>w_log := w_log w @ [Metric ''http.requests_in_flight'' [JInt 1, JStr r, JStr m]]\<rparr>)"
  "request_finished r m w = (Inr (), w\<lparr>w_log := w_log w @ [Metric ''http.requests_in_flight'' [JInt (- 1), JStr r, JStr m]]\<rparr>)"
  by (simp_all add: request_started_def request_finished_def metric_def emit_def seq_run)

lemma record_request_run:
  "\<exists>es. record_request r m s t w = (Inr (), w\<lparr>w_log := w_log w @ es\<rparr>) \<and> (\<forall>x y. in_flight x y es = 0)"
  by (rule exI [of _ "[Metric ''http.requests'' [JInt 1, JStr r, JStr m, JStr (int_str s), JStr (int_str (s div 100) @ ''xx'')],
      Metric ''http.request_duration'' [JFloat (rnd (of_int t / 1000)), JStr r, JStr m, JStr (int_str s), JStr (int_str (s div 100) @ ''xx'')]]"])
    (simp add: record_request_def metric_def emit_def seq_run)

text \<open>The route the gauge is lowered for.\<close>

definition lowered :: "request \<Rightarrow> http_reply \<Rightarrow> string" where
  "lowered rq rp = (case rp_route rp of Some (c # t) \<Rightarrow> c # t | _ \<Rightarrow> rq_path rq)"

lemma metrics_gauge:
  assumes inner: "\<And>u r v. app rq u = (r, v) \<Longrightarrow> in_flight route meth (w_log v) = in_flight route meth (w_log u)"
    and run: "metrics_dispatch app rq w = (Inr rp, v)"
  shows "in_flight route meth (w_log v) = in_flight route meth (w_log w) +
     (if meth = rq_method rq then (if route = rq_path rq then 1 else 0) - (if route = lowered rq rp then 1 else 0) else 0)"
proof -
  obtain q u where a: "app rq (w\<lparr>w_log := w_log w @ [Metric ''http.requests_in_flight'' [JInt 1, JStr (rq_path rq), JStr (rq_method rq)]]\<rparr>) = (q, u)"
    by (cases "app rq (w\<lparr>w_log := w_log w @ [Metric ''http.requests_in_flight'' [JInt 1, JStr (rq_path rq), JStr (rq_method rq)]]\<rparr>)")
  have q: "q = Inr rp"
    using run a unfolding metrics_dispatch_def Let_def
    by (cases q) (auto simp: seq_run bind_run catch_run gauge_runs record_request_def metric_def emit_def split: sum.splits prod.splits)
  obtain es where v: "v = u\<lparr>w_log := (w_log u @ [Metric ''http.requests_in_flight'' [JInt (- 1), JStr (lowered rq rp), JStr (rq_method rq)]]) @ es\<rparr>"
    and es: "\<forall>x y. in_flight x y es = 0"
  proof -
    let ?l = "u\<lparr>w_log := w_log u @ [Metric ''http.requests_in_flight'' [JInt (- 1), JStr (lowered rq rp), JStr (rq_method rq)]]\<rparr>"
    obtain es where "record_request (lowered rq rp) (rq_method rq) (int (rp_status rp)) (w_now u - w_now w) ?l = (Inr (), ?l\<lparr>w_log := w_log ?l @ es\<rparr>)"
      and "\<forall>x y. in_flight x y es = 0" using record_request_run by blast
    with that [of es] run a q show thesis
      unfolding metrics_dispatch_def Let_def lowered_def [symmetric]
      by (simp add: seq_run bind_run catch_run gauge_runs)
  qed
  show ?thesis using inner [OF a] es unfolding v by simp
qed

text \<open>
  C39. The gauge of requests in flight does not come back to where it was: it is raised for the path of a
  request and lowered for the template of its route. After a request whose path is not its template,
  answered, with none in flight, the series of the path stands one too high and that of the template
  one too low, however the application itself behaves; only where both are the same is it balanced.
\<close>

theorem in_flight_drifts:
  assumes "\<And>route meth u r v. app rq u = (r, v) \<Longrightarrow> in_flight route meth (w_log v) = in_flight route meth (w_log u)"
    and "metrics_dispatch app rq w = (Inr rp, v)" and "rp_route rp = Some template" and "template \<noteq> []"
  shows "in_flight (rq_path rq) (rq_method rq) (w_log v) =
       in_flight (rq_path rq) (rq_method rq) (w_log w) + (if template = rq_path rq then 0 else 1) \<and>
     in_flight template (rq_method rq) (w_log v) =
       in_flight template (rq_method rq) (w_log w) - (if template = rq_path rq then 0 else 1)"
proof -
  have "lowered rq rp = template" using assms(3,4) by (cases template) (simp_all add: lowered_def)
  then show ?thesis
    using metrics_gauge [where route = "rq_path rq" and meth = "rq_method rq", OF assms(1) assms(2)]
      metrics_gauge [where route = template and meth = "rq_method rq", OF assms(1) assms(2)]
    by simp
qed

definition pdf_request :: request where
  "pdf_request = sample_request\<lparr>rq_method := ''GET'', rq_path := ''/api/invoices/7/pdf''\<rparr>"

definition pdf_app :: app where
  "pdf_app = inner_app sample_outside sample_env (Invoices_api (Invoice_pdf 7))"

lemma pdf_app_run: "\<exists>rp. pdf_app pdf_request u = (Inr rp, u) \<and> rp_route rp = Some ''/api/invoices/{invoice_id}/pdf''"
  by (simp add: pdf_app_def inner_app_def with_status_def generate_invoice_pdf_def Let_def pdf_request_def bind_run seq_run
      catch_run startswith_def)

theorem in_flight_drifts_witness:
  "\<exists>rp v. metrics_dispatch pdf_app pdf_request sample_world = (Inr rp, v) \<and>
     in_flight ''/api/invoices/7/pdf'' ''GET'' (w_log v) = 1 \<and> in_flight ''/api/invoices/{invoice_id}/pdf'' ''GET'' (w_log v) = - 1"
proof -
  have quiet: "in_flight route meth (w_log v) = in_flight route meth (w_log u)" if "pdf_app pdf_request u = (r, v)" for route meth u r v
    using pdf_app_run [of u] that by auto
  obtain rp v where run: "metrics_dispatch pdf_app pdf_request sample_world = (Inr rp, v)" "rp_route rp = Some ''/api/invoices/{invoice_id}/pdf''"
  proof -
    let ?w = "sample_world\<lparr>w_log := [Metric ''http.requests_in_flight'' [JInt 1, JStr (rq_path pdf_request), JStr (rq_method pdf_request)]]\<rparr>"
    obtain rp where "pdf_app pdf_request ?w = (Inr rp, ?w)" "rp_route rp = Some ''/api/invoices/{invoice_id}/pdf''"
      using pdf_app_run by blast
    then show thesis
      by (intro that [of rp], simp add: metrics_dispatch_def Let_def gauge_runs record_request_def metric_def emit_def seq_run bind_run catch_run)
        assumption
  qed
  show ?thesis
    by (intro exI [of _ rp] exI [of _ v]) (use in_flight_drifts [OF quiet run] run in \<open>simp add: pdf_request_def\<close>)
qed

subsection \<open>The background import\<close>

lemma keeps_clock_draw: "keeps clock (draw E)"
  unfolding draw_def by (intro keeps_clock_rules keeps_modify) (simp add: clock_def)

lemma keeps_clock_push_log: "keeps clock (push_log l m a)"
  unfolding push_log_def by (intro keeps_clock_rules)

lemma keeps_clock_correlation: "keeps clock (build_correlation_id E s)" "keeps clock (outbound_headers E s)"
  unfolding outbound_headers_def build_correlation_id_def by (intro keeps_clock_rules keeps_clock_draw)+

lemma keeps_clock_session_factory: "keeps clock m \<Longrightarrow> keeps clock (session_factory E m)"
  unfolding session_factory_def by (intro keeps_clock_rules)

lemma keeps_clock_product_lookup: "keeps clock product_lookup"
  unfolding product_lookup_def by (intro keeps_clock_rules keeps_modify) (simp add: clock_def)

lemma keeps_clock_sync_batch: "keeps clock (sync_batch E c raws)"
  unfolding sync_batch_def by (intro keeps_clock_rules keeps_clock_session_factory keeps_clock_product_lookup keeps_clock_sync_one)

text \<open>One request goes out, whatever comes back, and whatever the import makes of it.\<close>

lemma fetch_clock: "clock (snd (fetch_external_orders E b c l w)) = (w_now w, w_calls w + 1)"
proof -
  obtain hs u where u: "outbound_headers E c w = (Inr hs, u)"
    using build_correlation_id_run [of E c w] by (auto simp: outbound_headers_def bind_run)
  have "clock u = clock w" by (rule keepsD [OF keeps_clock_correlation(2) u])
  then show ?thesis
    by (auto simp: fetch_external_orders_def bind_run seq_run u Let_def send_def emit_def clock_def split: sum.split)
qed

lemma sync_clock:
  assumes "external_orders_base_url E \<noteq> []"
  shows "clock (snd (sync_external_orders E seed limit w)) = (w_now w, w_calls w + 1)"
proof -
  obtain cid u where u: "build_correlation_id E seed w = (Inr cid, u)" using build_correlation_id_run by blast
  have cu: "clock u = clock w" by (rule keepsD [OF keeps_clock_correlation(1) u])
  obtain q t where t: "fetch_external_orders E (external_orders_base_url E) cid limit u = (q, t)"
    by (cases "fetch_external_orders E (external_orders_base_url E) cid limit u")
  have ct: "clock t = (w_now w, w_calls w + 1)"
    using fetch_clock [of E "external_orders_base_url E" cid limit u] cu by (simp add: t clock_def)
  show ?thesis
  proof (cases q)
    case (Inl e)
    then show ?thesis
      using assms ct by (simp add: sync_external_orders_def bind_run seq_run catch_run u t Let_def push_log_def emit_def clock_def)
  next
    case (Inr os)
    obtain r v where v: "sync_batch E cid os t = (r, v)" by (cases "sync_batch E cid os t")
    have "clock v = clock t" by (rule keepsD [OF keeps_clock_sync_batch v])
    then show ?thesis
      using assms ct Inr
      by (cases r) (simp_all add: sync_external_orders_def bind_run seq_run catch_run u t v Let_def push_log_def emit_def clock_def)
  qed
qed

lemma round_runs:
  assumes "external_orders_base_url E \<noteq> []"
  shows "\<exists>v. orders_sync_round E w = (Inr (), v) \<and>
     clock v = (w_now w + max (orders_sync_interval_seconds (cfg E)) 60 * sec, w_calls w + 1)"
proof -
  obtain q u where u: "sync_external_orders E ''background-sync'' 200 w = (q, u)"
    by (cases "sync_external_orders E ''background-sync'' 200 w")
  have "clock u = (w_now w, w_calls w + 1)" using sync_clock [OF assms, of "''background-sync''" 200 w] by (simp add: u)
  then show ?thesis
    by (cases q) (simp_all add: orders_sync_round_def seq_run bind_run catch_run u push_log_def emit_def sleep_def clock_def)
qed

lemma rounds_run:
  assumes "external_orders_base_url E \<noteq> []"
  shows "\<exists>v. orders_sync_rounds E n w = (Inr (), v) \<and>
     clock v = (w_now w + int n * (max (orders_sync_interval_seconds (cfg E)) 60 * sec), w_calls w + n)"
proof (induction n arbitrary: w)
  case 0
  show ?case by (simp add: clock_def)
next
  case (Suc n)
  obtain u where u: "orders_sync_round E w = (Inr (), u)"
      "clock u = (w_now w + max (orders_sync_interval_seconds (cfg E)) 60 * sec, w_calls w + 1)"
    using round_runs [OF assms] by blast
  obtain v where "orders_sync_rounds E n u = (Inr (), v)"
      "clock v = (w_now u + int n * (max (orders_sync_interval_seconds (cfg E)) 60 * sec), w_calls u + n)"
    using Suc.IH by blast
  with u show ?case
    by (intro exI [of _ v]) (simp add: seq_run clock_def algebra_simps)
qed

text \<open>
  C18. The background import never stops: where a source is configured, its loop runs any number of rounds
  without an exception leaving it, whatever the source answers, whether or not the database can be
  reached and whatever the orders are; each round asks the source exactly once, and the rounds are
  the configured interval apart, or a minute where that is longer.
\<close>

theorem background_import_never_stops:
  assumes "external_orders_base_url E \<noteq> []"
  shows "\<exists>v. orders_sync_loop E n w = (Inr (), v) \<and> w_calls v = w_calls w + n \<and>
     w_now v = w_now w + 10 * sec + int n * (max (orders_sync_interval_seconds (cfg E)) 60 * sec)"
proof -
  let ?w = "w\<lparr>w_now := w_now w + 10 * sec\<rparr>"
  obtain v where "orders_sync_rounds E n ?w = (Inr (), v)"
      "clock v = (w_now ?w + int n * (max (orders_sync_interval_seconds (cfg E)) 60 * sec), w_calls ?w + n)"
    using rounds_run [OF assms] by blast
  then show ?thesis by (intro exI [of _ v]) (simp add: orders_sync_loop_def seq_run sleep_def clock_def)
qed

lemma sample_source: "external_orders_base_url sample_env = ''https://shop.test''"
  by (simp add: external_orders_base_url_def sample_config_def rstrip_slash_def rstrip_by_def env_first.simps sample_environ_def)

theorem background_import_never_stops_witness:
  "\<exists>v. orders_sync_loop sample_env 3 sample_world = (Inr (), v) \<and> w_calls v = 3 \<and> w_now v = 1910000000"
proof -
  have "external_orders_base_url sample_env \<noteq> []" by (simp add: sample_source)
  from background_import_never_stops [OF this, of 3 sample_world] show ?thesis
    by (simp add: sample_config_def sec_def)
qed

subsection \<open>The log queue\<close>

text \<open>
  C40. The worker that forwards log records to OCI Logging and Splunk delivers them in order until OCI
  Logging first refuses one; then it ends. The record that was refused does not reach Splunk, and no
  later record reaches either, however long the queue becomes.
\<close>

theorem log_worker_ends:
  assumes "\<forall>q \<in> set xs. \<not> qd_put_fails q" and "qd_put_fails q" and "60 * sec < qd_now q"
  shows "\<exists>v. log_worker_run True True (xs @ q # ys) started_worker = (v, ys) \<and> \<not> lw_alive v \<and>
     lw_oci v = map qd_message xs \<and> lw_splunk v = map qd_message xs \<and>
     (\<forall>zs. log_worker_run True True (ys @ zs) v = (v, ys @ zs))"
  using assms
  by (simp add: log_worker_append log_worker_delivers log_worker_stops log_worker_dead started_worker_def del: log_worker_run.simps)

definition log_item :: "string \<Rightarrow> bool \<Rightarrow> queue_item" where
  "log_item m fails = \<lparr>qd_message = m, qd_now = 1000 * sec, qd_put_fails = fails\<rparr>"

theorem log_worker_ends_witness:
  "\<exists>v. log_worker_run True True [log_item ''a'' False, log_item ''b'' True, log_item ''c'' False] started_worker =
     (v, [log_item ''c'' False]) \<and> lw_splunk v = [''a'']"
proof -
  have "\<exists>v. log_worker_run True True ([log_item ''a'' False] @ log_item ''b'' True # [log_item ''c'' False]) started_worker =
      (v, [log_item ''c'' False]) \<and> \<not> lw_alive v \<and>
     lw_oci v = map qd_message [log_item ''a'' False] \<and> lw_splunk v = map qd_message [log_item ''a'' False] \<and>
     (\<forall>zs. log_worker_run True True ([log_item ''c'' False] @ zs) v = (v, [log_item ''c'' False] @ zs))"
    by (rule log_worker_ends) (simp_all add: log_item_def sec_def)
  then show ?thesis by (auto simp: log_item_def simp del: log_worker_run.simps)
qed

subsection \<open>Dependencies\<close>

text \<open>An answer received between two counts of requests, with its status.\<close>

definition answered_between :: "env \<Rightarrow> nat \<Rightarrow> nat \<Rightarrow> (int \<Rightarrow> bool) \<Rightarrow> bool" where
  "answered_between E a b ok = (\<exists>n c r. a \<le> n \<and> n < b \<and> http E n c = Inr r \<and> ok (hr_status r))"

lemma answered_between_mono: "answered_between E a b ok \<Longrightarrow> a' \<le> a \<Longrightarrow> b \<le> b' \<Longrightarrow> answered_between E a' b' ok"
  unfolding answered_between_def by (meson order_trans less_le_trans)

lemma send_run: "send E c w = (http E (w_calls w) c, w\<lparr>w_calls := w_calls w + 1, w_log := w_log w @ [Sent c]\<rparr>)"
  by (simp add: send_def emit_def bind_run seq_run)

lemma probe_run:
  "probe E hs b ps w = (r, v) \<Longrightarrow> w_db v = w_db w \<and> w_calls w \<le> w_calls v \<and> w_calls v \<le> w_calls w + length ps \<and>
     (\<forall>url st. r = Inr (Some (url, st)) \<longrightarrow> answered_between E (w_calls w) (w_calls v) (\<lambda>s. s = st))"
proof (induction ps arbitrary: w)
  case (Cons p ps)
  let ?c = "\<lparr>hc_method = ''GET'', hc_url = rstrip_slash b @ p, hc_headers = hs, hc_body = JNull\<rparr>"
  let ?u = "w\<lparr>w_calls := w_calls w + 1, w_log := w_log w @ [Sent ?c]\<rparr>"
  show ?case
  proof (cases "http E (w_calls w) ?c")
    case (Inl e)
    with Cons.prems show ?thesis by (auto simp: bind_run send_run)
  next
    case (Inr resp)
    show ?thesis
    proof (cases "hr_status resp < 500")
      case True
      with Cons.prems Inr show ?thesis
        by (auto simp: bind_run send_run answered_between_def intro!: exI [of _ "w_calls w"])
    next
      case False
      with Cons.prems Inr have "probe E hs b ps ?u = (r, v)" by (simp add: bind_run send_run)
      from Cons.IH [OF this] show ?thesis by (auto intro: answered_between_mono)
    qed
  qed
qed auto

lemma probed_run:
  "\<exists>fs v. probed E cid b ps w = (Inr fs, v) \<and> w_db v = w_db w \<and> w_calls v \<le> w_calls w + length ps \<and>
     distinct (map fst fs) \<and>
     (map_of fs ''status'' = Some (JStr ''healthy'') \<longrightarrow> answered_between E (w_calls w) (w_calls v) (\<lambda>s. s < 400))"
proof -
  obtain hs u where u: "outbound_headers E cid w = (Inr hs, u)"
    using build_correlation_id_run [of E cid w] by (auto simp: outbound_headers_def bind_run)
  have db: "w_db u = w_db w" by (rule keepsD [OF keeps_db_outbound_headers [of "\<lambda>d. d"] u])
  have calls: "w_calls u = w_calls w" using keepsD [OF keeps_clock_correlation(2) u] by (simp add: clock_def)
  obtain r v where v: "probe E hs b ps u = (r, v)" by (cases "probe E hs b ps u")
  note pr = probe_run [OF v]
  show ?thesis
  proof (cases r)
    case (Inl e)
    with pr db calls show ?thesis by (simp add: probed_def catch_run bind_run u v)
  next
    case (Inr ans)
    show ?thesis
    proof (cases ans)
      case None
      with Inr pr db calls show ?thesis by (simp add: probed_def catch_run bind_run u v)
    next
      case (Some a)
      obtain url st where a: "a = (url, st)" by (cases a)
      have "answered_between E (w_calls u) (w_calls v) (\<lambda>s. s = st)" using pr Inr Some a by blast
      then have "st < 400 \<Longrightarrow> answered_between E (w_calls u) (w_calls v) (\<lambda>s. s < 400)"
        unfolding answered_between_def by blast
      with Some Inr a pr db calls show ?thesis by (simp add: probed_def catch_run bind_run u v)
    qed
  qed
qed

lemma status_of_update:
  "distinct (map fst found) \<Longrightarrow> map_of (obj_update (obj_update (dependency_fields dep) [(''configured'', c)]) found) ''status'' = map_of found ''status''"
  by (simp add: map_of_obj_update dependency_fields_def map_add_def split: option.splits)

text \<open>
  C19. Asking after a dependency always returns: it raises no exception, whatever the service answers or
  fails with, sends at most one request for each health path, and leaves the database alone. It says
  ''healthy'' only if, in this call, some request was answered with a status below 400.
\<close>

theorem dependency_health_returns:
  "\<exists>fs v. dependency_health E dep cid w = (Inr fs, v) \<and> w_db v = w_db w \<and> w_calls v \<le> w_calls w + length (dp_health_paths dep) \<and>
     (map_of fs ''status'' = Some (JStr ''healthy'') \<longrightarrow>
        (\<exists>n c r. w_calls w \<le> n \<and> n < w_calls v \<and> http E n c = Inr r \<and> hr_status r < 400))"
proof (cases "dp_name dep = ''octo-apm-atp''")
  case True
  then show ?thesis by (simp add: dependency_health_def Let_def map_of_obj_update)
next
  case False
  let ?base = "str_or (opt_str (dp_probe_url dep)) (dp_url dep)"
  show ?thesis
  proof (cases "dp_url dep = [] \<and> ?base = []")
    case True
    show ?thesis
      unfolding dependency_health_def Let_def if_not_P [OF False] if_P [OF True]
      by (simp add: map_of_obj_update)
  next
    case asked: False
    obtain found v where run: "probed E cid ?base (dp_health_paths dep) w = (Inr found, v)"
      and v: "w_db v = w_db w" "w_calls v \<le> w_calls w + length (dp_health_paths dep)" "distinct (map fst found)"
        "map_of found ''status'' = Some (JStr ''healthy'') \<longrightarrow> answered_between E (w_calls w) (w_calls v) (\<lambda>s. s < 400)"
      using probed_run [of E cid ?base "dp_health_paths dep" w] by blast
    show ?thesis
      unfolding dependency_health_def Let_def if_not_P [OF False] if_not_P [OF asked] bind_run run
      using v by (simp add: status_of_update answered_between_def)
  qed
qed

theorem dependency_health_returns_witness:
  "\<exists>fs v. dependency_health sample_env (hd (configured_dependencies sample_config)) ''t1'' sample_world = (Inr fs, v) \<and> w_calls v \<le> 2"
  using dependency_health_returns [of sample_env "hd (configured_dependencies sample_config)" "''t1''" sample_world]
  by (auto simp: configured_dependencies_def Let_def)

subsection \<open>Two models of the gate\<close>





end
