(* ===== verification/Instruments.thy ===== *)
theory Instruments
  imports Telemetry
begin

text \<open>
  \<open>security_spans.py\<close> and \<open>business_metrics.py\<close>: how a security event is classified, and the points the
  instruments receive for each metric the handlers record. The classification is the local one, for
  where the package \<open>shared\<close>, which is not part of the repository, is not installed.
\<close>

subsection \<open>Security events\<close>

text \<open>MITRE ATT and CK: technique, tactic, name; and OWASP.\<close>

definition mitre_map :: "(string \<times> string \<times> string \<times> string) list" where
  "mitre_map =
    [(''sqli'', ''T1190'', ''initial-access'', ''Exploit Public-Facing Application''),
     (''xss_reflected'', ''T1059.007'', ''execution'', ''JavaScript Execution''),
     (''xss_stored'', ''T1059.007'', ''execution'', ''JavaScript Execution''),
     (''xss_dom'', ''T1059.007'', ''execution'', ''JavaScript Execution''),
     (''xxe'', ''T1611'', ''execution'', ''XML External Entity Processing''),
     (''ssrf'', ''T1090'', ''command-and-control'', ''Server-Side Request Forgery''),
     (''idor'', ''T1078'', ''privilege-escalation'', ''Valid Accounts / Broken Access''),
     (''path_traversal'', ''T1083'', ''discovery'', ''File and Directory Discovery''),
     (''command_injection'', ''T1059'', ''execution'', ''Command and Scripting Interpreter''),
     (''ssti'', ''T1059'', ''execution'', ''Server-Side Template Injection''),
     (''csrf'', ''T1557'', ''credential-access'', ''Cross-Site Request Forgery''),
     (''broken_auth'', ''T1110'', ''credential-access'', ''Brute Force''),
     (''jwt_bypass'', ''T1539'', ''credential-access'', ''Steal Web Session Cookie''),
     (''mass_assignment'', ''T1565'', ''impact'', ''Data Manipulation''),
     (''nosql_injection'', ''T1190'', ''initial-access'', ''NoSQL Injection''),
     (''ldap_injection'', ''T1190'', ''initial-access'', ''LDAP Injection''),
     (''deserialization'', ''T1055'', ''defense-evasion'', ''Insecure Deserialization''),
     (''file_upload'', ''T1105'', ''command-and-control'', ''Ingress Tool Transfer''),
     (''open_redirect'', ''T1566.002'', ''initial-access'', ''Phishing via Link''),
     (''security_misconfig'', ''T1562'', ''defense-evasion'', ''Impair Defenses''),
     (''sensitive_data'', ''T1552'', ''credential-access'', ''Unsecured Credentials''),
     (''rate_limit_bypass'', ''T1110.003'', ''credential-access'', ''Password Spraying''),
     (''privilege_escalation'', ''T1068'', ''privilege-escalation'', ''Exploitation for Privilege Escalation''),
     (''log_injection'', ''T1070'', ''defense-evasion'', ''Indicator Removal''),
     (''cache_poisoning'', ''T1557'', ''credential-access'', ''Adversary-in-the-Middle'')]"

definition owasp_map :: "(string \<times> string) list" where
  "owasp_map =
    [(''sqli'', ''A03:2021-Injection''), (''xss_reflected'', ''A03:2021-Injection''),
     (''xss_stored'', ''A03:2021-Injection''), (''xss_dom'', ''A03:2021-Injection''),
     (''xxe'', ''A05:2021-Security Misconfiguration''), (''ssrf'', ''A10:2021-SSRF''),
     (''idor'', ''A01:2021-Broken Access Control''), (''path_traversal'', ''A01:2021-Broken Access Control''),
     (''command_injection'', ''A03:2021-Injection''), (''ssti'', ''A03:2021-Injection''),
     (''csrf'', ''A01:2021-Broken Access Control''),
     (''broken_auth'', ''A07:2021-Identification and Authentication Failures''),
     (''jwt_bypass'', ''A02:2021-Cryptographic Failures''), (''mass_assignment'', ''A04:2021-Insecure Design''),
     (''deserialization'', ''A08:2021-Software and Data Integrity Failures''),
     (''file_upload'', ''A04:2021-Insecure Design''), (''open_redirect'', ''A01:2021-Broken Access Control''),
     (''security_misconfig'', ''A05:2021-Security Misconfiguration''),
     (''sensitive_data'', ''A02:2021-Cryptographic Failures''),
     (''rate_limit_bypass'', ''A07:2021-Identification and Authentication Failures''),
     (''privilege_escalation'', ''A01:2021-Broken Access Control''),
     (''log_injection'', ''A09:2021-Security Logging and Monitoring Failures''),
     (''cache_poisoning'', ''A05:2021-Security Misconfiguration'')]"

definition security_attributes :: "string \<Rightarrow> string \<Rightarrow> string \<Rightarrow> string \<Rightarrow> string \<Rightarrow> (string \<times> json) list" where
  "security_attributes vuln_type severity payload source_ip username =
     (let m = (case map_of mitre_map vuln_type of None \<Rightarrow> (''T0000'', ''unknown'', ''Unknown'') | Some m \<Rightarrow> m);
          o' = (case map_of owasp_map vuln_type of None \<Rightarrow> ''Unknown'' | Some o' \<Rightarrow> o') in
     [(''security.attack.detected'', JBool True), (''security.attack.type'', JStr vuln_type), (''security.attack.severity'', JStr severity),
      (''security.attack.mitre_id'', JStr (fst m)), (''security.attack.mitre_tactic'', JStr (fst (snd m))),
      (''security.attack.mitre_technique'', JStr (snd (snd m))), (''security.attack.owasp'', JStr o')] @
     (if payload \<noteq> [] then [(''security.attack.payload'', JStr (take 512 payload))] else []) @
     (if source_ip \<noteq> [] then [(''security.source_ip'', JStr source_ip)] else []) @
     (if username \<noteq> [] then [(''security.username'', JStr username)] else []))"

definition security_span_name :: "string \<Rightarrow> string" where
  "security_span_name vuln_type = ''ATTACK:'' @ py_upper vuln_type"

subsection \<open>Instruments\<close>

text \<open>A point: the instrument, the amount added or the value recorded, the labels.\<close>

datatype point = Point string json "(string \<times> json) list"

fun clip :: "nat \<Rightarrow> json \<Rightarrow> json" where
  "clip n (JStr s) = JStr (take n s)"
| "clip n v = v"

text \<open>\<open>if v: attrs[k] = v[:30]\<close>.\<close>

definition label :: "string \<Rightarrow> json \<Rightarrow> (string \<times> json) list" where
  "label k v = (if truthy v then [(k, clip 30 v)] else [])"

definition category :: "string \<Rightarrow> string" where
  "category content_type = take 20 (case split1 (CHR ''/'') content_type of None \<Rightarrow> content_type | Some (c, _) \<Rightarrow> c)"

definition order_created_points :: "json \<Rightarrow> json \<Rightarrow> point list" where
  "order_created_points value source =
     [Point ''crm.business.orders.created'' (JInt 1) [(''source'', source)], Point ''crm.business.order.value'' value [(''source'', source)]]"

definition login_success_points :: "json \<Rightarrow> json \<Rightarrow> point list" where
  "login_success_points meth role =
     [Point ''crm.business.auth.login'' (JInt 1) [(''method'', meth), (''role'', role)],
      Point ''crm.business.sessions.active'' (JInt 1) [(''method'', meth)]]"

definition logout_points :: "point list" where
  "logout_points = [Point ''crm.business.sessions.active'' (JInt (- 1)) []]"

definition order_sync_points :: "json \<Rightarrow> point list" where
  "order_sync_points failed =
     [Point ''crm.business.orders.sync'' (JInt 1) [(''result'', JStr (if failed = JInt 0 then ''success'' else ''partial_failure''))]]"

definition shipment_created_points :: "json \<Rightarrow> json \<Rightarrow> json \<Rightarrow> point list" where
  "shipment_created_points carrier origin destination =
     [Point ''crm.business.shipments.created'' (JInt 1) (label ''carrier'' carrier @ label ''origin'' origin @ label ''destination'' destination)]"

definition shipping_cost_points :: "json \<Rightarrow> json \<Rightarrow> point list" where
  "shipping_cost_points cost carrier = [Point ''crm.business.shipping.cost'' cost (label ''carrier'' carrier)]"

definition page_labels :: "json \<Rightarrow> json \<Rightarrow> (string \<times> json) list" where
  "page_labels pg region = (''page'', clip 50 pg) # label ''region'' region"

definition file_upload_points :: "string \<Rightarrow> point list" where
  "file_upload_points content_type = [Point ''crm.business.files.uploads'' (JInt 1) [(''type'', JStr (category content_type))]]"

text \<open>The points of a metric the handlers record; the counters with one label, or none, differ in their names only.\<close>

definition counters :: "(string \<times> string \<times> string option) list" where
  "counters =
     [(''invoice_paid'', ''crm.business.invoices.paid'', None),
      (''tickets_created'', ''crm.business.tickets.created'', Some ''priority''),
      (''login_failure'', ''crm.business.auth.login_failed'', Some ''reason''),
      (''campaigns_created'', ''crm.business.campaigns.created'', Some ''type''),
      (''leads_captured'', ''crm.business.leads.captured'', Some ''source''),
      (''leads_converted'', ''crm.business.leads.converted'', Some ''status''),
      (''shipments_delivered'', ''crm.business.shipments.delivered'', None),
      (''file_download'', ''crm.business.files.downloads'', None),
      (''report_executed'', ''crm.business.reports.executed'', None),
      (''dashboard_loads'', ''crm.business.dashboard.loads'', None)]"

definition counter_points :: "string \<Rightarrow> json list \<Rightarrow> point list" where
  "counter_points name args = (case map_of counters name of
     None \<Rightarrow> []
   | Some (instrument, None) \<Rightarrow> [Point instrument (JInt 1) []]
   | Some (instrument, Some l) \<Rightarrow> (case args of [v] \<Rightarrow> [Point instrument (JInt 1) [(l, v)]] | _ \<Rightarrow> []))"

definition points :: "string \<Rightarrow> json list \<Rightarrow> point list" where
  "points name args =
     (if name = ''order_created'' then (case args of [v, s] \<Rightarrow> order_created_points v s | _ \<Rightarrow> [])
      else if name = ''login_success'' then (case args of [m, r] \<Rightarrow> login_success_points m r | _ \<Rightarrow> [])
      else if name = ''logout'' then logout_points
      else if name = ''order_sync'' then (case args of [c, u, f] \<Rightarrow> order_sync_points f | _ \<Rightarrow> [])
      else if name = ''security_event'' then (case args of [t, s] \<Rightarrow>
        [Point ''crm.business.security.events'' (JInt 1) [(''type'', t), (''severity'', s)]] | _ \<Rightarrow> [])
      else if name = ''shipments_created'' then (case args of [c, o', d] \<Rightarrow> shipment_created_points c o' d | _ \<Rightarrow> [])
      else if name = ''shipping_cost'' then (case args of [v, c] \<Rightarrow> shipping_cost_points v c | _ \<Rightarrow> [])
      else if name = ''file_upload'' then (case args of [JStr t] \<Rightarrow> file_upload_points t | _ \<Rightarrow> [])
      else if name = ''page_views'' then (case args of [p, r] \<Rightarrow> [Point ''crm.business.page_views.tracked'' (JInt 1) (page_labels p r)] | _ \<Rightarrow> [])
      else if name = ''page_load_time'' then (case args of [f, p, r] \<Rightarrow> [Point ''crm.business.page_views.load_time'' f (page_labels p r)] | _ \<Rightarrow> [])
      else if name = ''report_created'' then (case args of [t] \<Rightarrow> [Point ''crm.business.reports.created'' (JInt 1) [(''type'', clip 20 t)]] | _ \<Rightarrow> [])
      else counter_points name args)"

text \<open>What one series of an up-down counter sums up to over a log.\<close>

fun amount :: "string \<Rightarrow> (string \<times> json) list \<Rightarrow> point \<Rightarrow> int" where
  "amount instrument labels (Point i (JInt n) ls) = (if i = instrument \<and> ls = labels then n else 0)"
| "amount instrument labels (Point i _ ls) = 0"

fun effect_points :: "effect \<Rightarrow> point list" where
  "effect_points (Metric name args) = points name args"
| "effect_points _ = []"

definition series :: "string \<Rightarrow> (string \<times> json) list \<Rightarrow> effect list \<Rightarrow> int" where
  "series instrument labels es = (\<Sum>p \<leftarrow> concat (map effect_points es). amount instrument labels p)"

subsection \<open>The instruments\<close>

datatype instrument_kind = Counter | Histogram | Up_down_counter | Gauge

datatype instrument = Instrument (in_name: string) (in_kind: instrument_kind) (in_unit: string) (in_description: string)

definition business_instruments :: "instrument list" where
  "business_instruments =
    [Instrument ''crm.business.orders.created'' Counter ''1'' ''Orders created'',
     Instrument ''crm.business.order.value'' Histogram ''USD'' ''Order total value in USD'',
     Instrument ''crm.business.orders.sync'' Counter ''1'' ''External order sync operations'',
     Instrument ''crm.business.invoices.generated'' Counter ''1'' ''Invoices generated or accessed'',
     Instrument ''crm.business.invoices.paid'' Counter ''1'' ''Invoices marked as paid'',
     Instrument ''crm.business.tickets.created'' Counter ''1'' ''Support tickets created'',
     Instrument ''crm.business.auth.login'' Counter ''1'' ''Successful logins'',
     Instrument ''crm.business.auth.login_failed'' Counter ''1'' ''Failed login attempts'',
     Instrument ''crm.business.sessions.active'' Up_down_counter ''1'' ''Active user sessions'',
     Instrument ''crm.business.campaigns.created'' Counter ''1'' ''Marketing campaigns created'',
     Instrument ''crm.business.leads.captured'' Counter ''1'' ''Leads captured into campaigns'',
     Instrument ''crm.business.leads.converted'' Counter ''1'' ''Leads converted to qualified/customer status'',
     Instrument ''crm.business.shipments.created'' Counter ''1'' ''Shipments created'',
     Instrument ''crm.business.shipments.delivered'' Counter ''1'' ''Shipments marked as delivered'',
     Instrument ''crm.business.shipping.cost'' Histogram ''USD'' ''Shipping cost per shipment'',
     Instrument ''crm.business.page_views.tracked'' Counter ''1'' ''Page views recorded via analytics endpoint'',
     Instrument ''crm.business.page_views.load_time'' Histogram ''ms'' ''Client-reported page load time'',
     Instrument ''crm.business.files.uploads'' Counter ''1'' ''File upload operations'',
     Instrument ''crm.business.files.downloads'' Counter ''1'' ''File download operations'',
     Instrument ''crm.business.reports.created'' Counter ''1'' ''Reports created/saved'',
     Instrument ''crm.business.reports.executed'' Counter ''1'' ''Custom report queries executed'',
     Instrument ''crm.business.dashboard.loads'' Counter ''1'' ''Dashboard summary loads (6+ DB queries each)'',
     Instrument ''crm.business.security.events'' Counter ''1'' ''Security events detected by type and severity'']"

definition http_instruments :: "instrument list" where
  "http_instruments =
    [Instrument ''crm.http.requests.total'' Counter ''1'' ''Total HTTP requests by route, method, status'',
     Instrument ''crm.http.request.duration'' Histogram ''ms'' ''HTTP request latency in milliseconds'',
     Instrument ''crm.http.requests.in_flight'' Up_down_counter ''1'' ''Currently in-flight HTTP requests'']"

definition db_instruments :: "instrument list" where
  "db_instruments =
    [Instrument ''crm.db.query.duration'' Histogram ''ms'' ''Database query latency in milliseconds'',
     Instrument ''crm.db.query.total'' Counter ''1'' ''Total database queries by operation type'']"

definition runtime_instruments :: "instrument list" where
  "runtime_instruments =
    [Instrument ''crm.process.memory.rss'' Gauge ''By'' ''Process RSS memory in bytes'',
     Instrument ''crm.process.uptime'' Gauge ''s'' ''Process uptime in seconds'']"

definition frontend_instruments :: "instrument list" where
  "frontend_instruments =
    [Instrument ''crm.frontend.web_vital'' Histogram ''ms'' ''Web Vital metric values (LCP/CLS/INP/TTFB)'',
     Instrument ''crm.frontend.errors'' Counter ''1'' ''Frontend JS errors and unhandled promise rejections'',
     Instrument ''crm.frontend.journey_steps'' Counter ''1'' ''User journey step completions'',
     Instrument ''crm.frontend.api.duration'' Histogram ''ms'' ''Frontend-observed API call latency'']"


text \<open>The resident set size: \<open>getrusage\<close> counts kilobytes, on Darwin bytes.\<close>

definition rss_bytes :: "string \<Rightarrow> int \<Rightarrow> int" where
  "rss_bytes sysname maxrss = (if sysname = ''Darwin'' then maxrss else maxrss * 1024)"

definition uptime :: "int \<Rightarrow> int \<Rightarrow> int" where
  "uptime started now = now - started"

text \<open>\<open>RuntimeMetrics.setup\<close>: once, and a gauge only where its source is there.\<close>

definition runtime_setup :: "bool \<Rightarrow> bool \<times> instrument list \<Rightarrow> bool \<times> instrument list" where
  "runtime_setup rusage s = (case s of (inited, made) \<Rightarrow>
     if inited then s else (True, made @ (if rusage then runtime_instruments else tl runtime_instruments)))"

definition record_query :: "string \<Rightarrow> pyfloat \<Rightarrow> point list" where
  "record_query operation duration = (let attrs = [(''db.operation'', JStr operation), (''db.system'', JStr ''oracle'')] in
     [Point ''crm.db.query.duration'' (JFloat duration) attrs, Point ''crm.db.query.total'' (JInt 1) attrs])"

fun point_name :: "point \<Rightarrow> string" where
  "point_name (Point i v ls) = i"

text \<open>Every point goes to an instrument that was created.\<close>

lemma counters_created: "map_of counters n = Some (i, l) \<Longrightarrow> i \<in> in_name ` set business_instruments"
  by (auto simp: counters_def business_instruments_def split: if_splits)

lemma special_created:
  "''crm.business.orders.created'' \<in> in_name ` set business_instruments"
  "''crm.business.order.value'' \<in> in_name ` set business_instruments"
  "''crm.business.auth.login'' \<in> in_name ` set business_instruments"
  "''crm.business.sessions.active'' \<in> in_name ` set business_instruments"
  "''crm.business.orders.sync'' \<in> in_name ` set business_instruments"
  "''crm.business.security.events'' \<in> in_name ` set business_instruments"
  "''crm.business.shipments.created'' \<in> in_name ` set business_instruments"
  "''crm.business.shipping.cost'' \<in> in_name ` set business_instruments"
  "''crm.business.files.uploads'' \<in> in_name ` set business_instruments"
  "''crm.business.page_views.tracked'' \<in> in_name ` set business_instruments"
  "''crm.business.page_views.load_time'' \<in> in_name ` set business_instruments"
  "''crm.business.reports.created'' \<in> in_name ` set business_instruments"
  by (simp_all add: business_instruments_def)

lemma points_created: "list_all (\<lambda>p. point_name p \<in> in_name ` set business_instruments) (points n args)"
proof -
  define N where "N = in_name ` set business_instruments"
  have "list_all (\<lambda>p. point_name p \<in> N) (counter_points n args)"
  proof (cases "map_of counters n")
    case (Some x)
    obtain i l where x: "x = (i, l)" by (cases x)
    have "i \<in> N" using Some x counters_created unfolding N_def by blast
    then show ?thesis using Some x by (cases l) (auto simp: counter_points_def split: list.splits)
  qed (simp add: counter_points_def)
  then show ?thesis
    unfolding points_def N_def [symmetric]
    using special_created [folded N_def]
    by (simp add: order_created_points_def login_success_points_def logout_points_def order_sync_points_def
        shipment_created_points_def shipping_cost_points_def file_upload_points_def split: list.splits json.splits)
qed

end
