(* ===== verification/Exporters.thy ===== *)
theory Exporters
  imports Instruments Admin
begin

text \<open>
  What the set-up of OpenTelemetry decides: the resource, the endpoints and headers of the exporters of
  \<open>observability/otel_setup.py\<close> and \<open>metrics.py\<close>, which exporters are installed, and the trace context and peer
  attributes of \<open>correlation.py\<close>. Whether an optional package can be imported is an argument.
\<close>

subsection \<open>Endpoints\<close>

text \<open>\<open>s.split(p)[0]\<close>, for a separator that is not empty.\<close>

fun before :: "string \<Rightarrow> string \<Rightarrow> string" where
  "before p [] = []"
| "before p (c # s) = (if prefix p (c # s) then [] else c # before p s)"

definition otlp_base :: "config \<Rightarrow> string" where
  "otlp_base c = before ''/20200101'' (rstrip_slash (oci_apm_endpoint c))"

definition traces_url :: "config \<Rightarrow> string" where
  "traces_url c = otlp_base c @ ''/20200101/opentelemetry/private/v1/traces''"

definition runtime_metrics_url :: "config \<Rightarrow> string" where
  "runtime_metrics_url c = otlp_base c @ ''/20200101/opentelemetry/v1/metrics''"

definition metrics_url :: "config \<Rightarrow> string" where
  "metrics_url c = rstrip_slash (oci_apm_endpoint c) @ ''/20200101/opentelemetry/private/v1/metrics''"

definition logs_url :: "config \<Rightarrow> string" where
  "logs_url c = rstrip_slash (oci_apm_endpoint c) @ ''/20200101/opentelemetry/private/v1/logs''"

definition otlp_auth :: "config \<Rightarrow> (string \<times> string) list" where
  "otlp_auth c = [(''Authorization'', ''dataKey '' @ oci_apm_private_datakey c)]"

subsection \<open>Resources\<close>

definition base_resource :: "config \<Rightarrow> (string \<times> string) list" where
  "base_resource c =
     [(''service.name'', otel_service_name c), (''service.namespace'', service_namespace c), (''service.version'', app_version c),
      (''service.instance.id'', service_instance_id c), (''deployment.environment'', app_env c), (''app.runtime'', app_runtime c)]"

definition metric_resource :: "config \<Rightarrow> (string \<times> string) list" where
  "metric_resource c = base_resource c @ [(''cloud.provider'', ''oci'')]"

text \<open>What \<open>platform\<close>, \<open>os\<close> and \<open>sys\<close> report of the interpreter and the host.\<close>

record platform_info =
  pf_implementation :: string
  pf_version :: string
  pf_pid :: int
  pf_executable :: string
  pf_node :: string
  pf_machine :: string
  pf_system :: string
  pf_release :: string

definition trace_resource :: "config \<Rightarrow> environ \<Rightarrow> platform_info \<Rightarrow> (string \<times> json) list" where
  "trace_resource c e p = map (\<lambda>(k, v). (k, JStr v)) (base_resource c) @
     [(''app.brand'', JStr (brand_name c)), (''cloud.provider'', JStr ''oci''), (''oci.demo.stack'', JStr (demo_stack_name c)),
      (''db.target'', JStr (database_target_label c)),
      (''process.runtime.name'', JStr (py_lower (pf_implementation p))), (''process.runtime.version'', JStr (pf_version p)),
      (''process.pid'', JInt (pf_pid p)), (''process.executable.name'', JStr (basename (pf_executable p))),
      (''host.name'', JStr (env e ''HOSTNAME'' (pf_node p))), (''host.arch'', JStr (pf_machine p)),
      (''os.type'', JStr (py_lower (pf_system p))), (''os.description'', JStr (pf_system p @ '' '' @ pf_release p)),
      (''telemetry.sdk.language'', JStr ''python''), (''telemetry.sdk.name'', JStr ''opentelemetry'')]"

subsection \<open>Exporters\<close>

datatype signal = Traces | Runtime_metrics | Metrics | Logs | Prometheus

datatype exporter = Exporter (ex_signal: signal) (ex_url: string) (ex_headers: "(string \<times> string) list")

definition standalone_init :: "config \<Rightarrow> bool \<Rightarrow> bool \<Rightarrow> exporter list" where
  "standalone_init c metrics_ok logs_ok =
     (if \<not> apm_configured c then [] else
      [Exporter Traces (traces_url c) (otlp_auth c)] @
      (if metrics_ok then [Exporter Runtime_metrics (runtime_metrics_url c) (otlp_auth c)] else []) @
      (if otlp_log_export_enabled c \<and> logs_ok then [Exporter Logs (logs_url c) (otlp_auth c)] else []))"

text \<open>What the shared library is handed, where it is installed: no endpoint and key unless both are configured.\<close>

record shared_arguments =
  sa_service_name :: string
  sa_service_version :: string
  sa_apm_endpoint :: "string option"
  sa_apm_data_key :: "string option"
  sa_attributes :: "(string \<times> string) list"

definition try_shared_init :: "config \<Rightarrow> shared_arguments" where
  "try_shared_init c = \<lparr>sa_service_name = otel_service_name c, sa_service_version = app_version c,
     sa_apm_endpoint = (if apm_configured c then Some (oci_apm_endpoint c) else None),
     sa_apm_data_key = (if apm_configured c then Some (oci_apm_private_datakey c) else None),
     sa_attributes = [(''service.namespace'', service_namespace c), (''service.instance.id'', service_instance_id c),
       (''deployment.environment'', app_env c), (''app.runtime'', app_runtime c), (''app.brand'', brand_name c),
       (''cloud.provider'', ''oci''), (''oci.demo.stack'', demo_stack_name c), (''db.target'', database_target_label c)]\<rparr>"

text \<open>The gauges of the standalone start, where \<open>psutil\<close> is installed.\<close>

definition process_instruments :: "bool \<Rightarrow> instrument list" where
  "process_instruments psutil = (if \<not> psutil then [] else
     [Instrument ''process.runtime.cpython.cpu.utilization'' Gauge ''1'' [],
      Instrument ''process.runtime.cpython.memory'' Gauge ''By'' [],
      Instrument ''process.runtime.cpython.thread_count'' Gauge ''{thread}'' []])"

text \<open>Only the first call does anything; the shared library, where there is one, comes first.\<close>

definition init_otel :: "config \<Rightarrow> bool \<Rightarrow> bool \<Rightarrow> bool \<Rightarrow> bool \<times> exporter list \<Rightarrow> bool \<times> exporter list" where
  "init_otel c shared metrics_ok logs_ok s = (case s of (initialized, exporters) \<Rightarrow>
     if initialized then s else (True, exporters @ (if shared then [] else standalone_init c metrics_ok logs_ok)))"

definition init_metrics :: "config \<Rightarrow> bool \<Rightarrow> bool \<Rightarrow> bool \<times> exporter list \<Rightarrow> bool \<times> exporter list" where
  "init_metrics c prometheus_ok otlp_ok s = (case s of (initialized, readers) \<Rightarrow>
     if initialized then s else (True, readers @
       (if prometheus_ok then [Exporter Prometheus [] []] else []) @
       (if apm_configured c \<and> otlp_ok then [Exporter Metrics (metrics_url c) (otlp_auth c)] else [])))"

subsection \<open>Trace context\<close>

definition hex_chars :: string where
  "hex_chars = ''0123456789abcdef''"

function hex :: "nat \<Rightarrow> string" where
  "hex n = (if n < 16 then [hex_chars ! n] else hex (n div 16) @ [hex_chars ! (n mod 16)])"
  by pat_completeness auto
termination by (relation "measure id") auto

declare hex.simps [simp del]

text \<open>\<open>format(n, "0kx")\<close>.\<close>

definition hex_pad :: "nat \<Rightarrow> nat \<Rightarrow> string" where
  "hex_pad k n = replicate (k - length (hex n)) (CHR ''0'') @ hex n"

record span_context =
  sp_trace_id :: nat
  sp_span_id :: nat
  sp_flags :: nat

text \<open>None: no span, or a context that is not valid.\<close>

definition current_trace_context :: "span_context option \<Rightarrow> string \<times> string \<times> string" where
  "current_trace_context ctx = (case ctx of None \<Rightarrow> ([], [], [])
   | Some x \<Rightarrow> (let t = hex_pad 32 (sp_trace_id x); s = hex_pad 16 (sp_span_id x) in
       (t, s, ''00-'' @ t @ ''-'' @ s @ ''-'' @ hex_pad 2 (sp_flags x))))"

text \<open>\<open>host url\<close> is the host name of a parsed URL, or its network location, or empty.\<close>

definition set_peer_service :: "config \<Rightarrow> (string \<Rightarrow> string) \<Rightarrow> string \<Rightarrow> string \<Rightarrow> (string \<times> string) list" where
  "set_peer_service c host target_service target_url =
     [(''peer.service'', target_service), (''component'', ''http'')] @
     (if target_url \<noteq> [] then [(''server.address'', str_or (host target_url) target_url)] else []) @
     [(''http.request.source_service'', otel_service_name c)]"

subsection \<open>What holds\<close>

text \<open>Setting up twice is setting up once.\<close>

lemma init_otel_twice: "init_otel c sh m l (init_otel c sh m l s) = init_otel c sh m l s"
  by (simp add: init_otel_def split: prod.splits)

lemma init_metrics_twice: "init_metrics c p m (init_metrics c p m s) = init_metrics c p m s"
  by (simp add: init_metrics_def split: prod.splits)

text \<open>Nothing leaves the process for OCI APM unless it is configured.\<close>

lemma unconfigured_exports_nothing:
  "\<not> apm_configured c \<Longrightarrow> snd (init_otel c sh m l (False, [])) = [] \<and> ex_signal ` set (snd (init_metrics c p k (False, []))) \<subseteq> {Prometheus}"
  by (auto simp: init_otel_def init_metrics_def standalone_init_def)

text \<open>
  An endpoint that ends in the version of the API is cut for the traces, but the logs and the application's
  metrics are sent to a URL that has it twice.
\<close>

lemma versioned_endpoint:
  assumes "oci_apm_endpoint c = ''https://apm.test/20200101''"
  shows "traces_url c = ''https://apm.test/20200101/opentelemetry/private/v1/traces''"
    and "logs_url c = ''https://apm.test/20200101/20200101/opentelemetry/private/v1/logs''"
  by (simp_all add: traces_url_def logs_url_def otlp_base_def assms rstrip_slash_def rstrip_by_def)

lemma length_hex: "n < 16 ^ k \<Longrightarrow> 0 < k \<Longrightarrow> length (hex n) \<le> k"
proof (induction n arbitrary: k rule: hex.induct)
  case (1 n)
  show ?case
  proof (cases "n < 16")
    case True
    then show ?thesis using 1(3) by (simp add: hex.simps [of n])
  next
    case False
    then obtain k' where k: "k = Suc k'" using 1(3) by (cases k) auto
    have "n div 16 < 16 ^ k'" using 1(2) k by (simp add: div_less_iff_less_mult mult.commute)
    moreover from this False have "0 < k'" by (cases k') auto
    ultimately show ?thesis using 1(1) [OF False] k False by (simp add: hex.simps [of n])
  qed
qed

lemma length_hex_pad: "n < 16 ^ k \<Longrightarrow> 0 < k \<Longrightarrow> length (hex_pad k n) = k"
  using length_hex [of n k] by (simp add: hex_pad_def)

text \<open>Reading hexadecimal digits back.\<close>

definition hex_val :: "char \<Rightarrow> nat" where
  "hex_val c = length (takeWhile (\<lambda>x. x \<noteq> c) hex_chars)"

definition hex_read :: "string \<Rightarrow> nat" where
  "hex_read s = foldl (\<lambda>a c. a * 16 + hex_val c) 0 s"

lemma hex_val_nth: "i < 16 \<Longrightarrow> hex_val (hex_chars ! i) = i"
proof -
  assume "i < 16"
  moreover have "distinct hex_chars" and "length hex_chars = 16" by (simp_all add: hex_chars_def)
  ultimately show ?thesis by (simp add: hex_val_def takeWhile_nth)
qed

lemma hex_read_hex: "hex_read (hex n) = n"
proof (induction n rule: hex.induct)
  case (1 n)
  show ?case
  proof (cases "n < 16")
    case True
    then show ?thesis using hex_val_nth by (simp add: hex.simps [of n] hex_read_def)
  next
    case False
    then have "hex_read (hex n) = hex_read (hex (n div 16)) * 16 + hex_val (hex_chars ! (n mod 16))"
      by (simp add: hex.simps [of n] hex_read_def)
    then show ?thesis using 1 [OF False] hex_val_nth [of "n mod 16"] by simp
  qed
qed

lemma hex_read_zeros: "hex_read (replicate k (CHR ''0'') @ s) = hex_read s"
  by (induction k) (simp_all add: hex_read_def hex_val_def hex_chars_def)

lemma hex_read_pad: "hex_read (hex_pad k n) = n"
  by (simp add: hex_pad_def hex_read_zeros hex_read_hex)

text \<open>The trace parent of a context of the widths of the W3C recommendation has its length and its parts.\<close>

lemma traceparent_parts:
  assumes "sp_trace_id x < 16 ^ 32" and "sp_span_id x < 16 ^ 16" and "sp_flags x < 16 ^ 2"
    and "current_trace_context (Some x) = (t, s, p)"
  shows "length p = 55 \<and> hex_read (take 32 (drop 3 p)) = sp_trace_id x \<and> hex_read (take 16 (drop 36 p)) = sp_span_id x \<and>
     hex_read (drop 53 p) = sp_flags x"
  using assms length_hex_pad [of "sp_trace_id x" 32] length_hex_pad [of "sp_span_id x" 16] length_hex_pad [of "sp_flags x" 2]
  by (auto simp: current_trace_context_def Let_def hex_read_pad)

end
