(* ===== verification/Migrations.thy ===== *)
theory Migrations
  imports PyValue
begin

text \<open>
  The schema part of \<open>server/bootstrap.py\<close>: \<open>create_all\<close> and the three functions that bring older tables up to date,
  as the statements they send to a database with a given schema, and what these statements do to it.
  Only the names of tables, columns and the unique key matter here; types are the text of the statement.
\<close>


text \<open>A schema: the tables with their columns, and the names of the unique constraints of \<open>orders\<close>.\<close>

record schema =
  sc_tables :: "(string \<times> string list) list"
  sc_uniques :: "string list"

datatype ddl = Create_table string | Add_column string string string | Add_unique

definition ddl_text :: "bool \<Rightarrow> ddl \<Rightarrow> string" where
  "ddl_text oracle s = (case s of
     Create_table t \<Rightarrow> ''CREATE TABLE '' @ t
   | Add_column t c type \<Rightarrow> ''ALTER TABLE '' @ t @ (if oracle then '' ADD ('' @ c @ '' '' @ type @ '')'' else '' ADD COLUMN '' @ c @ '' '' @ type)
   | Add_unique \<Rightarrow> ''ALTER TABLE orders ADD CONSTRAINT uq_orders_source_ref UNIQUE (source_system, source_order_id)'')"

definition columns :: "schema \<Rightarrow> string \<Rightarrow> string list" where
  "columns s t = (case map_of (sc_tables s) t of None \<Rightarrow> [] | Some cs \<Rightarrow> cs)"

definition has_table :: "schema \<Rightarrow> string \<Rightarrow> bool" where
  "has_table s t = (map_of (sc_tables s) t \<noteq> None)"













subsection \<open>What the statements do\<close>

definition grows :: "schema \<Rightarrow> schema \<Rightarrow> bool" where
  "grows s s' \<longleftrightarrow> (\<forall>t. set (columns s t) \<subseteq> set (columns s' t) \<and> (has_table s t \<longrightarrow> has_table s' t)) \<and>
     set (sc_uniques s) \<subseteq> set (sc_uniques s')"


lemma grows_refl [simp]: "grows s s"
  by (simp add: grows_def)









subsection \<open>What is to hold at the end\<close>













end
