(* ===== verification/Bootstrap_Props.thy ===== *)
theory Bootstrap_Props
  imports Bootstrap Samples
begin

text \<open>
  Restarting the server: what a start leaves is settled, and a start in a settled database changes nothing.
\<close>

subsection \<open>Settled databases\<close>

definition settled_shop :: "db \<Rightarrow> shop_row \<Rightarrow> bool" where
  "settled_shop d payload \<longleftrightarrow> (\<exists>i old. tbl_find (\<lambda>r. s_slug r = s_slug payload) (shops d) = Some (i, old) \<and>
     payload\<lparr>s_created_at := s_created_at old, s_updated_at := s_updated_at old\<rparr> = old)"

definition admin_email :: string where
  "admin_email = ''admin@crm-enterprise.local''"

definition settled_users :: "user_row table \<Rightarrow> bool" where
  "settled_users us \<longleftrightarrow> tbl_find (\<lambda>r. u_email r = admin_email) us \<noteq> None \<and>
     (\<forall>(i, r) \<in> set (rows us). u_email r = admin_email \<longrightarrow> u_role r = ''admin'')"

definition settled_products :: "product_row table \<Rightarrow> bool" where
  "settled_products ps \<longleftrightarrow> (\<forall>(i, p) \<in> set (rows ps). p_shop_id p \<noteq> None)"

definition settled_db :: "db \<Rightarrow> bool" where
  "settled_db d \<longleftrightarrow> settled_users (users d) \<and> settled_products (products d) \<and> (\<forall>p \<in> set (demo_shops 0). settled_shop d p)"

lemma has_user_iff: "db_ok d \<Longrightarrow> has_user d \<longleftrightarrow> rows (users d) \<noteq> []"
  by (auto simp: has_user_def db_invs tbl_ok_def split: list.splits)

lemma settled_users_rows: "settled_users us \<Longrightarrow> rows us \<noteq> []"
  by (auto simp: settled_users_def tbl_find_def)

text \<open>The times of a payload do not matter.\<close>

lemma settled_shop_now: "(\<forall>p \<in> set (demo_shops now). settled_shop d p) \<longleftrightarrow> (\<forall>p \<in> set (demo_shops 0). settled_shop d p)"
  by (simp add: demo_shops_def settled_shop_def)

subsection \<open>The demo shops\<close>

lemma upsert_settles:
  assumes "upsert_demo_shop now payload acc w = (Inr acc', v)" and "w_ok w"
  shows "settled_shop (w_db v) payload \<and> w_ok v \<and> users (w_db v) = users (w_db w) \<and> products (w_db v) = products (w_db w) \<and>
     (\<forall>p. s_slug p \<noteq> s_slug payload \<longrightarrow> settled_shop (w_db v) p = settled_shop (w_db w) p)"
proof -
  have ok: "w_ok v" using safe_ok [OF safe_upsert_demo_shop assms(2), of now payload acc] assms(1) by simp
  have t: "tbl_ok (shops (w_db w))" using assms(2) by (simp add: w_ok_def db_invs)
  show ?thesis
  proof (cases "tbl_find (\<lambda>r. s_slug r = s_slug payload) (shops (w_db w))")
    case None
    have "w_db v = (w_db w)\<lparr>shops := tbl_insert payload (shops (w_db w))\<rparr>"
      using assms(1) None
      by (auto simp: upsert_demo_shop_def bind_run query_def on_db_def add_shop_def split: if_splits)
    then show ?thesis
      using ok None by (auto simp: settled_shop_def tbl_find_insert split: option.splits)
  next
    case (Some x)
    obtain i old where x: "x = (i, old)" by (cases x)
    define new where "new = payload\<lparr>s_created_at := s_created_at old, s_updated_at := s_updated_at old\<rparr>"
    have found: "(i, old) \<in> set (rows (shops (w_db w)))" "s_slug old = s_slug payload"
      using tbl_find_in [of "\<lambda>r. s_slug r = s_slug payload" "shops (w_db w)" i old] Some x by auto
    show ?thesis
    proof (cases "new = old")
      case True
      then have "v = w" using assms(1) Some x by (auto simp: upsert_demo_shop_def Let_def new_def bind_run query_def)
      moreover have "settled_shop (w_db w) payload" using Some x True by (auto simp: settled_shop_def new_def)
      ultimately show ?thesis using ok by simp
    next
      case False
      let ?r = "new\<lparr>s_updated_at := now\<rparr>"
      have db: "w_db v = (w_db w)\<lparr>shops := tbl_set i ?r (shops (w_db w))\<rparr>"
        using assms(1) Some x False
        by (auto simp: upsert_demo_shop_def Let_def new_def [symmetric] bind_run seq_run query_def on_db_def put_shop_def split: if_splits)
      have "tbl_find (\<lambda>r. s_slug r = s_slug payload) (tbl_set i ?r (shops (w_db w))) = Some (i, ?r)"
        using Some x by (intro tbl_find_set [OF t]) (auto simp: new_def)
      then have "settled_shop (w_db v) payload" by (simp add: settled_shop_def db new_def)
      moreover have "settled_shop (w_db v) p = settled_shop (w_db w) p" if "s_slug p \<noteq> s_slug payload" for p
      proof -
        have "tbl_find (\<lambda>r. s_slug r = s_slug p) (tbl_set i ?r (shops (w_db w))) = tbl_find (\<lambda>r. s_slug r = s_slug p) (shops (w_db w))"
          using that found in_rows_get [OF t, of i old] by (intro tbl_find_set_other [OF t, of i old]) (auto simp: new_def)
        then show ?thesis by (simp add: settled_shop_def db)
      qed
      ultimately show ?thesis using ok by (simp add: db)
    qed
  qed
qed

lemma adopt_settles:
  "on_db (adopt_products k) w = (Inr (), v) \<Longrightarrow> settled_products (products (w_db v)) \<and> shops (w_db v) = shops (w_db w) \<and> users (w_db v) = users (w_db w)"
  by (auto simp: on_db_def adopt_products_def settled_products_def tbl_map_def split: if_splits)

lemma demo_shops_two:
  "demo_shops now = [hd (demo_shops now), hd (tl (demo_shops now))]"
  "s_slug (hd (demo_shops now)) = ''primary-store''" "s_slug (hd (tl (demo_shops now))) = ''lab-store''"
  by (simp_all add: demo_shops_def)

lemma ensure_demo_shops_settles:
  assumes "ensure_demo_shops w = (Inr ss, v)" and "w_ok w"
  shows "(\<forall>p \<in> set (demo_shops 0). settled_shop (w_db v) p) \<and> settled_products (products (w_db v)) \<and> users (w_db v) = users (w_db w)"
proof -
  define p q where "p = hd (demo_shops (w_now w))" and "q = hd (tl (demo_shops (w_now w)))"
  have pq: "demo_shops (w_now w) = [p, q]" "s_slug p \<noteq> s_slug q"
    unfolding p_def q_def by (rule demo_shops_two) (simp add: demo_shops_two(2,3))
  have "bind (foldM (upsert_demo_shop (w_now w)) [p, q] []) (\<lambda>ss. seq (on_db (adopt_products (primary_shop ss))) (ret ss)) w = (Inr ss, v)"
    using assms(1) by (simp only: ensure_demo_shops_def bind_run [of "gets w_now"] gets_run pq(1) prod.case sum.case)
  then obtain ss' u where u: "foldM (upsert_demo_shop (w_now w)) [p, q] [] w = (Inr ss', u)"
      and rest: "seq (on_db (adopt_products (primary_shop ss'))) (ret ss') u = (Inr ss, v)" by (rule bind_InrE)
  from u obtain a1 w1 where 1: "upsert_demo_shop (w_now w) p [] w = (Inr a1, w1)"
      and r: "foldM (upsert_demo_shop (w_now w)) [q] a1 w1 = (Inr ss', u)" unfolding foldM.simps by (rule bind_InrE)
  from r obtain a2 w2 where 2: "upsert_demo_shop (w_now w) q a1 w1 = (Inr a2, w2)" and "ret a2 w2 = (Inr ss', u)"
    unfolding foldM.simps by (rule bind_InrE)
  then have 2: "upsert_demo_shop (w_now w) q a1 w1 = (Inr ss', u)" by simp
  from rest obtain v' where 3: "on_db (adopt_products (primary_shop ss')) u = (Inr (), v')" and "ret ss' v' = (Inr ss, v)"
    by (rule seq_InrE)
  then have 3: "on_db (adopt_products (primary_shop ss')) u = (Inr (), v)" by simp
  note s1 = upsert_settles [OF 1 assms(2)]
  then have "w_ok w1" by simp
  note s2 = upsert_settles [OF 2 this]
  note s3 = adopt_settles [OF 3]
  have "\<forall>r \<in> set (demo_shops (w_now w)). settled_shop (w_db u) r" using s1 s2 pq by auto
  then have "\<forall>r \<in> set (demo_shops 0). settled_shop (w_db u) r" using settled_shop_now [of "w_now w" "w_db u"] by blast
  then have "\<forall>r \<in> set (demo_shops 0). settled_shop (w_db v) r" using s3 by (simp add: settled_shop_def)
  then show ?thesis using s1 s2 s3 by simp
qed

subsection \<open>What a first start leaves\<close>

lemma settled_users_insert:
  "tbl_find (\<lambda>r. u_email r = admin_email) us = None \<Longrightarrow> u_email r = admin_email \<Longrightarrow> u_role r = ''admin'' \<Longrightarrow>
     settled_users (tbl_insert r us)"
  by (auto simp: settled_users_def tbl_find_insert tbl_find_None tbl_insert_def split: option.splits)

lemma reconcile_settles:
  assumes "reconcile_user E (''admin'', pw, ''admin'', admin_email) () w = (Inr (), v)"
  shows "settled_users (users (w_db v))"
proof (cases "tbl_find (\<lambda>r. u_email r = admin_email) (users (w_db w))")
  case None
  then show ?thesis
    using assms
    by (auto simp: reconcile_user_def bind_run query_def on_db_def add_user_def intro!: settled_users_insert split: if_splits)
next
  case (Some x)
  have us: "users (w_db v) = tbl_map (\<lambda>_ r. if u_email r = admin_email then r\<lparr>u_password_hash := bcrypt_hash E pw, u_role := ''admin''\<rparr> else r) (users (w_db w))"
    using assms Some by (auto simp: reconcile_user_def bind_run query_def on_db_def set_credentials_def)
  have "(fst x, snd x) \<in> set (rows (users (w_db w)))" "u_email (snd x) = admin_email"
    using tbl_find_in [of _ _ "fst x" "snd x"] Some by fastforce+
  then have "\<exists>(i, r) \<in> set (rows (users (w_db v))). u_email r = admin_email"
    by (intro bexI [of _ "(fst x, (snd x)\<lparr>u_password_hash := bcrypt_hash E pw, u_role := ''admin''\<rparr>)"])
      (auto simp: us tbl_map_def case_prod_beta intro!: rev_image_eqI [of x])
  then have "tbl_find (\<lambda>r. u_email r = admin_email) (users (w_db v)) \<noteq> None" unfolding tbl_find_None by fast
  moreover have "\<forall>(i, r) \<in> set (rows (users (w_db v))). u_email r = admin_email \<longrightarrow> u_role r = ''admin''"
    using us by (auto simp: tbl_map_def split: if_splits)
  ultimately show ?thesis unfolding settled_users_def by blast
qed

lemma settled_other [simp]:
  "settled_db (d\<lparr>customers := a\<rparr>) = settled_db d" "settled_db (d\<lparr>orders := b\<rparr>) = settled_db d"
  "settled_db (d\<lparr>order_items := c\<rparr>) = settled_db d" "settled_db (d\<lparr>invoices := e\<rparr>) = settled_db d"
  "settled_db (d\<lparr>support_tickets := f\<rparr>) = settled_db d" "settled_db (d\<lparr>warehouses := g\<rparr>) = settled_db d"
  "settled_db (d\<lparr>shipments := h\<rparr>) = settled_db d" "settled_db (d\<lparr>campaigns := k\<rparr>) = settled_db d"
  "settled_db (d\<lparr>leads := l\<rparr>) = settled_db d" "settled_db (d\<lparr>audit_logs := m\<rparr>) = settled_db d"
  by (simp_all add: settled_db_def settled_shop_def)

lemma settled_products_insert: "p_shop_id p \<noteq> None \<Longrightarrow> settled_products (tbl_insert p ps) = settled_products ps"
  by (auto simp: settled_products_def tbl_insert_def)

lemma settled_add_product:
  "p_shop_id p \<noteq> None \<Longrightarrow> settled_db (snd (add_product p d)) = settled_db d"
  by (simp add: add_product_def settled_db_def settled_shop_def settled_products_insert)

lemma settled_adds:
  "settled_db (snd (add_customer a d)) = settled_db d" "settled_db (snd (add_order b d)) = settled_db d"
  "settled_db (snd (add_order_item c d)) = settled_db d" "settled_db (snd (add_invoice e d)) = settled_db d"
  "settled_db (snd (add_ticket f d)) = settled_db d" "settled_db (snd (add_warehouse g d)) = settled_db d"
  "settled_db (snd (add_shipment h d)) = settled_db d" "settled_db (snd (add_campaign k d)) = settled_db d"
  "settled_db (snd (add_lead l d)) = settled_db d" "settled_db (snd (add_audit m d)) = settled_db d"
  by (simp_all add: add_customer_def add_order_def add_order_item_def add_invoice_def add_ticket_def add_warehouse_def
      add_shipment_def add_campaign_def add_lead_def add_audit_def)

lemma keeps_add_all:
  assumes "\<And>r d. r \<in> set rs \<Longrightarrow> f (snd (add r d)) = f d"
  shows "keeps (\<lambda>w. f (w_db w)) (add_all add rs)"
proof -
  have "keeps (\<lambda>w. f (w_db w)) (foldM (\<lambda>r acc. bind (on_db (add r)) (\<lambda>i. ret (acc @ [i]))) rs acc)" for acc
    using assms
  proof (induction rs arbitrary: acc)
    case (Cons r rs)
    have "keeps (\<lambda>w. f (w_db w)) (bind (on_db (add r)) (\<lambda>i. ret (acc @ [i])))"
      using Cons.prems by (intro keeps_rules keeps_on_db) simp
    moreover have "keeps (\<lambda>w. f (w_db w)) (foldM (\<lambda>r acc. bind (on_db (add r)) (\<lambda>i. ret (acc @ [i]))) rs acc')" for acc'
      by (rule Cons.IH) (simp add: Cons.prems)
    ultimately show ?case unfolding foldM.simps by (rule keeps_rules(5))
  qed (simp only: foldM.simps keeps_rules)
  then show ?thesis by (simp add: add_all_def)
qed

lemma seed_products_shop: "p \<in> set (seed_products shop now) \<Longrightarrow> p_shop_id p \<noteq> None"
  unfolding seed_products_def by (elim set_ConsD [THEN disjE] | simp)+

text \<open>What the seeding does once the shops are there.\<close>

definition seed_rest :: "(int \<times> shop_row) list \<Rightarrow> int \<Rightarrow> unit handler" where
  "seed_rest ss now =
     bind (add_all add_customer (seed_customers now)) (\<lambda>cids.
     let cs = zip cids (seed_customers now) in
     bind (add_all add_product (seed_products (primary_shop ss) now)) (\<lambda>ps.
     bind (add_all add_order (seed_orders cs now)) (\<lambda>os.
     bind (add_all add_order_item (seed_items os ps)) (\<lambda>_.
     bind (add_all add_invoice (seed_invoices os now)) (\<lambda>_.
     bind (add_all add_ticket (seed_tickets cs now)) (\<lambda>_.
     bind (add_all add_warehouse (seed_warehouses now)) (\<lambda>_.
     bind (add_all add_shipment [seed_shipment os now]) (\<lambda>_.
     bind (add_all add_campaign [seed_campaign now]) (\<lambda>_.
     bind (query (\<lambda>d. rows (campaigns d))) (\<lambda>found.
     bind (case found of [] \<Rightarrow> ret [] | (i, _) # _ \<Rightarrow> add_all add_lead (seed_leads i cs now)) (\<lambda>_.
     bind (on_db (add_audit (seed_audit now))) (\<lambda>_. ret ()))))))))))))"

lemma keeps_seed_rest: "keeps (\<lambda>w. settled_db (w_db w)) (seed_rest ss now)"
proof -
  have "keeps (\<lambda>w. settled_db (w_db w)) (case found of [] \<Rightarrow> ret [] | (i, _) # _ \<Rightarrow> add_all add_lead (seed_leads i cs now))"
    for found :: "(int \<times> campaign_row) list" and cs
    by (cases found) (simp_all only: list.case keeps_rules, auto intro!: keeps_add_all settled_adds)
  then show ?thesis
    unfolding seed_rest_def Let_def
    by (intro keeps_rules keeps_add_all keeps_db_query keeps_on_db settled_adds settled_add_product seed_products_shop)
qed

text \<open>A start that succeeds leaves a settled database.\<close>

lemma bootstrap_settles:
  assumes "bootstrap_database E w = (Inr (), v)" and "w_ok w"
  shows "settled_db (w_db v)"
proof -
  obtain pw where "\<exists>u. bootstrap_users E w = (Inr [(''admin'', pw, ''admin'', admin_email)], u) \<and> w_db u = w_db w"
    using assms(1)
    by (auto simp: bootstrap_database_def bootstrap_users_def admin_email_def Let_def bind_run seq_run draw_def emit_def
        split: if_splits option.splits)
  then obtain w1 where w1: "bootstrap_users E w = (Inr [(''admin'', pw, ''admin'', admin_email)], w1)" "w_db w1 = w_db w"
    by blast
  then have ok1: "w_ok w1" using assms(2) by (simp add: w_ok_def)
  let ?entry = "(''admin'', pw, ''admin'', admin_email)"
  have "bind (query has_user) (\<lambda>existing. if existing then seq (foldM (reconcile_user E) [?entry] ()) (bind ensure_demo_shops (\<lambda>_. ret ()))
      else seed_database E [?entry]) w1 = (Inr (), v)"
    using assms(1) w1(1)
    by (auto simp: bootstrap_database_def bind_run session_factory_def transaction_Inr split: if_splits option.splits)
  then have run: "(if has_user (w_db w) then seq (foldM (reconcile_user E) [?entry] ()) (bind ensure_demo_shops (\<lambda>_. ret ()))
      else seed_database E [?entry]) w1 = (Inr (), v)"
    by (simp add: bind_run query_def w1(2))
  show ?thesis
  proof (cases "has_user (w_db w)")
    case True
    then have "seq (foldM (reconcile_user E) [?entry] ()) (bind ensure_demo_shops (\<lambda>_. ret ())) w1 = (Inr (), v)"
      using run by simp
    then obtain w2 where f: "foldM (reconcile_user E) [?entry] () w1 = (Inr (), w2)"
        and e: "bind ensure_demo_shops (\<lambda>_. ret ()) w2 = (Inr (), v)" by (rule seq_InrE) simp
    from f obtain w3 where "reconcile_user E ?entry () w1 = (Inr (), w3)" "ret () w3 = (Inr (), w2)"
      unfolding foldM.simps by (rule bind_InrE) simp
    then have r: "reconcile_user E ?entry () w1 = (Inr (), w2)" by simp
    have "w_ok w2" using safe_ok [OF safe_reconcile_user ok1, of E ?entry "()"] r by simp
    moreover obtain ss where "ensure_demo_shops w2 = (Inr ss, v)" using e by (rule bind_InrE) simp
    ultimately show ?thesis
      using ensure_demo_shops_settles [of w2 ss v] reconcile_settles [OF r] by (simp add: settled_db_def)
  next
    case False
    then have "seed_database E [?entry] w1 = (Inr (), v)" using run by simp
    then have "bind (add_all add_user [seed_user E (w_now w1) ?entry]) (\<lambda>_. bind ensure_demo_shops (\<lambda>ss. seed_rest ss (w_now w1))) w1 = (Inr (), v)"
      by (simp add: seed_database_def seed_rest_def bind_run [of "gets w_now"])
    then obtain ids w2 where u: "add_all add_user [seed_user E (w_now w1) ?entry] w1 = (Inr ids, w2)"
        and "bind ensure_demo_shops (\<lambda>ss. seed_rest ss (w_now w1)) w2 = (Inr (), v)" by (rule bind_InrE)
    from this(2) obtain ss w3 where e: "ensure_demo_shops w2 = (Inr ss, w3)" and r: "seed_rest ss (w_now w1) w3 = (Inr (), v)"
      by (rule bind_InrE)
    have "rows (users (w_db w1)) = []" using False has_user_iff ok1 by (simp add: w_ok_def w1(2))
    then have "tbl_find (\<lambda>r. u_email r = admin_email) (users (w_db w1)) = None" by (simp add: tbl_find_def)
    then have "settled_users (users (w_db w2))"
      using u by (auto simp: add_all_def bind_run on_db_def add_user_def seed_user_def intro!: settled_users_insert split: if_splits)
    moreover have "w_ok w2" using safe_ok [OF safe_add_all ok1, of add_user "[seed_user E (w_now w1) ?entry]"] u
      by (simp add: add_user_ok)
    ultimately have "settled_db (w_db w3)"
      using ensure_demo_shops_settles [OF e] by (simp add: settled_db_def)
    then show ?thesis using keepsD [OF keeps_seed_rest r] by simp
  qed
qed

subsection \<open>A second start\<close>

lemma upsert_settled:
  assumes "settled_shop (w_db w) p"
  obtains i old where "upsert_demo_shop now p acc w = (Inr (acc @ [(i, old)]), w)" "tbl_has (shops (w_db w)) i" "s_slug old = s_slug p"
proof -
  obtain i old where f: "tbl_find (\<lambda>r. s_slug r = s_slug p) (shops (w_db w)) = Some (i, old)"
      and eq: "p\<lparr>s_created_at := s_created_at old, s_updated_at := s_updated_at old\<rparr> = old"
    using assms by (auto simp: settled_shop_def)
  have "(i, old) \<in> set (rows (shops (w_db w)))" "s_slug old = s_slug p" using tbl_find_in [OF f] by simp_all
  moreover have "upsert_demo_shop now p acc w = (Inr (acc @ [(i, old)]), w)"
    by (simp add: upsert_demo_shop_def bind_run query_def f eq)
  ultimately show thesis using that by (force simp: tbl_has_iff)
qed

lemma adopt_settled: "settled_products (products d) \<Longrightarrow> tbl_has (shops d) i \<Longrightarrow> adopt_products i d = (Inr (), d)"
  by (simp add: adopt_products_def settled_products_def) (subst tbl_map_id, auto)

lemma ensure_demo_shops_settled:
  assumes "\<forall>p \<in> set (demo_shops 0). settled_shop (w_db w) p" and "settled_products (products (w_db w))"
  shows "\<exists>ss. ensure_demo_shops w = (Inr ss, w)"
proof -
  define p q where "p = hd (demo_shops (w_now w))" and "q = hd (tl (demo_shops (w_now w)))"
  have pq: "demo_shops (w_now w) = [p, q]" "s_slug p = ''primary-store''"
    unfolding p_def q_def by (rule demo_shops_two) (simp add: demo_shops_two(2))
  have "settled_shop (w_db w) p" "settled_shop (w_db w) q"
    using assms(1) settled_shop_now [of "w_now w" "w_db w"] pq(1) by auto
  then obtain i a j b where
      1: "upsert_demo_shop (w_now w) p [] w = (Inr ([] @ [(i, a)]), w)" "tbl_has (shops (w_db w)) i" "s_slug a = s_slug p"
      and 2: "upsert_demo_shop (w_now w) q [(i, a)] w = (Inr ([(i, a)] @ [(j, b)]), w)"
    by (metis upsert_settled)
  have "primary_shop ([(i, a)] @ [(j, b)]) = i" by (simp add: primary_shop_def 1(3) pq(2))
  then have "on_db (adopt_products (primary_shop ([(i, a)] @ [(j, b)]))) w = (Inr (), w)"
    using adopt_settled [OF assms(2) 1(2)] by (simp add: on_db_def)
  then show ?thesis
    using 1(1) 2 by (simp add: ensure_demo_shops_def bind_run seq_run pq(1))
qed

text \<open>The administrator's password hashed anew.\<close>

definition rehashed :: "string \<Rightarrow> db \<Rightarrow> db" where
  "rehashed h d = d\<lparr>users := tbl_map (\<lambda>_ r. if u_email r = admin_email then r\<lparr>u_password_hash := h\<rparr> else r) (users d)\<rparr>"

lemma reconcile_settled:
  assumes "settled_users (users (w_db w))"
  shows "reconcile_user E (''admin'', pw, ''admin'', admin_email) () w = (Inr (), w\<lparr>w_db := rehashed (bcrypt_hash E pw) (w_db w)\<rparr>)"
proof -
  obtain x where "tbl_find (\<lambda>r. u_email r = admin_email) (users (w_db w)) = Some x"
    using assms by (auto simp: settled_users_def)
  moreover have "tbl_map (\<lambda>_ r. if u_email r = admin_email then r\<lparr>u_password_hash := bcrypt_hash E pw, u_role := ''admin''\<rparr> else r) (users (w_db w)) =
      tbl_map (\<lambda>_ r. if u_email r = admin_email then r\<lparr>u_password_hash := bcrypt_hash E pw\<rparr> else r) (users (w_db w))"
    using assms by (intro tbl_map_cong) (auto simp: settled_users_def)
  ultimately show ?thesis
    by (simp add: reconcile_user_def bind_run query_def on_db_def set_credentials_def rehashed_def)
qed

text \<open>
  C32. Restarting the server: once a start has succeeded, a later start, whatever the clock, the
  caches or the other settings are, succeeds and leaves the database as it is, except that the
  administrator's password is hashed anew; nothing is seeded twice and no shop is touched.
\<close>

theorem restart_changes_nothing:
  assumes "w_ok w" and "bootstrap_database E w = (Inr (), v)"
    and "w_db u = w_db v" and "w_db_down u = None" and "engine_ready E'" and "py_strip (bootstrap_admin_password (cfg E')) \<noteq> []"
  shows "bootstrap_database E' u =
    (Inr (), u\<lparr>w_db := rehashed (bcrypt_hash E' (py_strip (bootstrap_admin_password (cfg E')))) (w_db v)\<rparr>)"
proof -
  let ?pw = "py_strip (bootstrap_admin_password (cfg E'))"
  let ?u = "u\<lparr>w_db := rehashed (bcrypt_hash E' ?pw) (w_db v)\<rparr>"
  have s: "settled_db (w_db u)" using bootstrap_settles [OF assms(2,1)] assms(3) by simp
  have "w_ok v" using safe_ok [OF safe_bootstrap_database assms(1), of E] assms(2) by simp
  then have "has_user (w_db u)"
    using s has_user_iff settled_users_rows by (simp add: w_ok_def assms(3) settled_db_def)
  moreover have "\<exists>ss. ensure_demo_shops ?u = (Inr ss, ?u)"
    using s by (intro ensure_demo_shops_settled) (simp_all add: settled_db_def settled_shop_def rehashed_def assms(3))
  moreover have "reconcile_user E' (''admin'', ?pw, ''admin'', admin_email) () u = (Inr (), ?u)"
    using s reconcile_settled [of u E' ?pw] by (simp add: settled_db_def assms(3))
  ultimately show ?thesis
    using assms(4-6)
    by (auto simp: bootstrap_database_def bootstrap_users_def Let_def session_factory_def transaction_def bind_run seq_run
        query_def admin_email_def)
qed

lemma sample_bootstrap:
  "\<exists>v. bootstrap_database sample_env sample_world = (Inr (), v) \<and> w_db_down v = None"
  by (simp add: bootstrap_database_def bootstrap_users_def Let_def session_factory_def transaction_def bind_run seq_run
      query_def has_user_def string_evals reconcile_user_def tbl_find_def on_db_def set_credentials_def
      ensure_demo_shops_def demo_shops_def upsert_demo_shop_def add_shop_def conflict_def tbl_insert_def
      primary_shop_def adopt_products_def)

theorem restart_changes_nothing_witness:
  "\<exists>v. bootstrap_database sample_env sample_world = (Inr (), v) \<and>
     bootstrap_database sample_env v = (Inr (), v\<lparr>w_db := rehashed ''Hboot'' (w_db v)\<rparr>)"
proof -
  have pw: "py_strip (bootstrap_admin_password (cfg sample_env)) = ''boot''" by (simp add: string_evals)
  obtain v where v: "bootstrap_database sample_env sample_world = (Inr (), v)" "w_db_down v = None"
    using sample_bootstrap by blast
  show ?thesis
    using restart_changes_nothing [OF sample_ok v(1) refl v(2) sample_up(1)] v(1) unfolding pw by simp
qed

end
