(* ===== verification/LoginRace.thy ===== *)
theory LoginRace
  imports Auth_Facts Samples
begin

text \<open>
  The rate limit of \<open>login\<close> (\<open>server/modules/auth.py\<close>) when logins overlap. The handler is a coroutine: between
  the check of the limit and the append of the failed attempt it waits for the database, and other logins
  run. Each run holds on to the list object it checked, so the lists are a heap and \<open>_login_attempts\<close> maps a
  client to an address. The steps are the stretches of code between two waits.
\<close>

subsection \<open>The state\<close>

text \<open>A login that waits for the database: the client, what it typed, and its \<open>attempts\<close>.\<close>

record waiting_login =
  wl_ip :: string
  wl_username :: string
  wl_password :: string
  wl_list :: nat

text \<open>
  \<open>looking_up\<close> wait for the user row, \<open>storing\<close> had the right password and wait for the insert of their session.
  \<open>misses\<close> and \<open>entered\<close> are what happened: when a wrong password was checked, and who got in.
\<close>

record race =
  rc_now :: int
  rc_lists :: "nat \<Rightarrow> int list"
  rc_fresh :: nat
  rc_attempts :: "string \<Rightarrow> nat option"
  looking_up :: "waiting_login list"
  storing :: "waiting_login list"
  misses :: "(string \<times> int) list"
  entered :: "string list"
  turned_away :: "string list"

definition race_start :: "int \<Rightarrow> race" where
  "race_start now = \<lparr>rc_now = now, rc_lists = (\<lambda>_. []), rc_fresh = 0, rc_attempts = (\<lambda>_. None),
     looking_up = [], storing = [], misses = [], entered = [], turned_away = []\<rparr>"

subsection \<open>The steps\<close>

text \<open>\<open>_login_attempts.setdefault(client_ip, [])\<close>: the address, and the state with the entry there.\<close>

definition open_attempts :: "string \<Rightarrow> race \<Rightarrow> nat \<times> race" where
  "open_attempts ip g = (case rc_attempts g ip of
     Some a \<Rightarrow> (a, g)
   | None \<Rightarrow> (rc_fresh g, g\<lparr>rc_fresh := rc_fresh g + 1, rc_lists := (rc_lists g)(rc_fresh g := []),
       rc_attempts := (rc_attempts g)(ip \<mapsto> rc_fresh g)\<rparr>))"

definition still_counts :: "int \<Rightarrow> int \<Rightarrow> bool" where
  "still_counts now ts = (now - ts \<le> login_window)"

text \<open>Up to the first wait: the list is pruned in place, then the limit is checked.\<close>

definition begin_login :: "env \<Rightarrow> string \<Rightarrow> string \<Rightarrow> string \<Rightarrow> race \<Rightarrow> race" where
  "begin_login E ip username password g =
     (case open_attempts ip g of (a, g) \<Rightarrow>
      let ts = filter (still_counts (rc_now g)) (rc_lists g a);
          g = g\<lparr>rc_lists := (rc_lists g)(a := ts)\<rparr> in
      if max_login_attempts (cfg E) \<le> int (length ts) then g\<lparr>turned_away := turned_away g @ [ip]\<rparr>
      else g\<lparr>looking_up := looking_up g @
        [\<lparr>wl_ip = ip, wl_username = username, wl_password = password, wl_list = a\<rparr>]\<rparr>)"

definition right_password :: "env \<Rightarrow> db \<Rightarrow> waiting_login \<Rightarrow> bool" where
  "right_password E d x = (case login_lookup (wl_username x) d of None \<Rightarrow> False
     | Some (uid, u) \<Rightarrow> check_bcrypt E (wl_password x) (u_password_hash u))"

text \<open>The row came: a wrong password is appended to the list the login holds.\<close>

definition check_login :: "env \<Rightarrow> db \<Rightarrow> waiting_login \<Rightarrow> race \<Rightarrow> race" where
  "check_login E d x g = (let g = g\<lparr>looking_up := remove1 x (looking_up g)\<rparr> in
     if right_password E d x then g\<lparr>storing := storing g @ [x]\<rparr>
     else g\<lparr>rc_lists := (rc_lists g)(wl_list x := rc_lists g (wl_list x) @ [rc_now g]),
            misses := misses g @ [(wl_ip x, rc_now g)]\<rparr>)"

text \<open>The session is stored: \<open>_login_attempts.pop(client_ip, None)\<close>.\<close>

definition store_login :: "waiting_login \<Rightarrow> race \<Rightarrow> race" where
  "store_login x g = g\<lparr>storing := remove1 x (storing g), rc_attempts := (rc_attempts g)(wl_ip x := None),
     entered := entered g @ [wl_ip x]\<rparr>"

text \<open>Any wait can end in an exception.\<close>

inductive race_step :: "env \<Rightarrow> race \<Rightarrow> race \<Rightarrow> bool" for E :: env where
  begins: "race_step E g (begin_login E ip username password g)"
| checks: "x \<in> set (looking_up g) \<Longrightarrow> race_step E g (check_login E d x g)"
| stores: "x \<in> set (storing g) \<Longrightarrow> race_step E g (store_login x g)"
| lookup_raises: "x \<in> set (looking_up g) \<Longrightarrow> race_step E g (g\<lparr>looking_up := remove1 x (looking_up g)\<rparr>)"
| insert_raises: "x \<in> set (storing g) \<Longrightarrow> race_step E g (g\<lparr>storing := remove1 x (storing g)\<rparr>)"
| ticks: "0 \<le> t \<Longrightarrow> race_step E g (g\<lparr>rc_now := rc_now g + t\<rparr>)"

text \<open>How many logins of a client wait for the user row.\<close>

definition in_flight :: "string \<Rightarrow> race \<Rightarrow> nat" where
  "in_flight ip g = length (filter (\<lambda>x. wl_ip x = ip) (looking_up g))"

text \<open>The states the process can get to while never more than \<open>k\<close> logins of client \<open>ip\<close> wait at once.\<close>

inductive race_reachable :: "env \<Rightarrow> string \<Rightarrow> nat \<Rightarrow> race \<Rightarrow> bool" for E :: env and ip :: string and k :: nat where
  init: "race_reachable E ip k (race_start now)"
| step: "race_reachable E ip k g \<Longrightarrow> race_step E g h \<Longrightarrow> in_flight ip h \<le> k \<Longrightarrow> race_reachable E ip k h"


subsection \<open>The invariant\<close>

text \<open>When the wrong passwords of a client were checked, and the list its next login would see.\<close>

definition miss_times :: "string \<Rightarrow> race \<Rightarrow> int list" where
  "miss_times ip g = map snd (filter (\<lambda>m. fst m = ip) (misses g))"

definition seen_list :: "string \<Rightarrow> race \<Rightarrow> int list" where
  "seen_list ip g = (case rc_attempts g ip of None \<Rightarrow> [] | Some a \<Rightarrow> rc_lists g a)"

definition heap_ok :: "race \<Rightarrow> bool" where
  "heap_ok g \<longleftrightarrow> inj_on (rc_attempts g) (dom (rc_attempts g)) \<and> (\<forall>a \<in> ran (rc_attempts g). a < rc_fresh g) \<and>
     (\<forall>x \<in> set (looking_up g). wl_list x < rc_fresh g) \<and>
     (\<forall>x \<in> set (looking_up g). \<forall>ip. rc_attempts g ip = Some (wl_list x) \<longrightarrow> ip = wl_ip x)"



text \<open>What an update of one field leaves of the three views.\<close>

lemma race_views [simp]:
  "seen_list c (g\<lparr>looking_up := l\<rparr>) = seen_list c g" "seen_list c (g\<lparr>turned_away := f\<rparr>) = seen_list c g"
  "seen_list c (g\<lparr>storing := l\<rparr>) = seen_list c g" "seen_list c (g\<lparr>entered := e\<rparr>) = seen_list c g"
  "seen_list c (g\<lparr>misses := m\<rparr>) = seen_list c g" "seen_list c (g\<lparr>rc_now := t\<rparr>) = seen_list c g"
  "miss_times c (g\<lparr>looking_up := l\<rparr>) = miss_times c g" "miss_times c (g\<lparr>turned_away := f\<rparr>) = miss_times c g"
  "miss_times c (g\<lparr>storing := l\<rparr>) = miss_times c g" "miss_times c (g\<lparr>entered := e\<rparr>) = miss_times c g"
  "miss_times c (g\<lparr>rc_lists := r\<rparr>) = miss_times c g" "miss_times c (g\<lparr>rc_now := t\<rparr>) = miss_times c g"
  "miss_times c (g\<lparr>rc_attempts := a\<rparr>) = miss_times c g"
  "in_flight c (g\<lparr>turned_away := f\<rparr>) = in_flight c g" "in_flight c (g\<lparr>storing := l\<rparr>) = in_flight c g"
  "in_flight c (g\<lparr>entered := e\<rparr>) = in_flight c g" "in_flight c (g\<lparr>misses := m\<rparr>) = in_flight c g"
  "in_flight c (g\<lparr>rc_lists := r\<rparr>) = in_flight c g" "in_flight c (g\<lparr>rc_now := t\<rparr>) = in_flight c g"
  "in_flight c (g\<lparr>rc_attempts := a\<rparr>) = in_flight c g"
  by (simp_all add: seen_list_def miss_times_def in_flight_def split: option.split)

lemma heap_okI:
  assumes "\<And>i j a. rc_attempts g i = Some a \<Longrightarrow> rc_attempts g j = Some a \<Longrightarrow> i = j"
    and "\<And>i a. rc_attempts g i = Some a \<Longrightarrow> a < rc_fresh g"
    and "\<And>x. x \<in> set (looking_up g) \<Longrightarrow> wl_list x < rc_fresh g"
    and "\<And>x i. x \<in> set (looking_up g) \<Longrightarrow> rc_attempts g i = Some (wl_list x) \<Longrightarrow> i = wl_ip x"
  shows "heap_ok g"
  using assms by (auto simp: heap_ok_def inj_on_def dom_def ran_def)

lemma heap_okD:
  assumes "heap_ok g"
  shows "rc_attempts g i = Some a \<Longrightarrow> rc_attempts g j = Some a \<Longrightarrow> i = j"
    and "rc_attempts g i = Some a \<Longrightarrow> a < rc_fresh g"
    and "x \<in> set (looking_up g) \<Longrightarrow> wl_list x < rc_fresh g"
    and "x \<in> set (looking_up g) \<Longrightarrow> rc_attempts g i = Some (wl_list x) \<Longrightarrow> i = wl_ip x"
proof -
  show "rc_attempts g i = Some a \<Longrightarrow> rc_attempts g j = Some a \<Longrightarrow> i = j"
    using assms unfolding heap_ok_def inj_on_def by (metis domI)
qed (use assms in \<open>auto simp: heap_ok_def ran_def\<close>)

text \<open>Opening a client's entry: nobody's list reads differently.\<close>

lemma open_attempts_facts:
  assumes "open_attempts ip g = (a, h)" and "heap_ok g"
  shows "heap_ok h \<and> rc_attempts h ip = Some a \<and> (\<forall>c. seen_list c h = seen_list c g) \<and>
     (\<forall>c. c \<noteq> ip \<longrightarrow> rc_attempts h c \<noteq> Some a) \<and> looking_up h = looking_up g \<and> misses h = misses g \<and> rc_now h = rc_now g \<and>
     entered h = entered g \<and> storing h = storing g \<and> (\<forall>c b. rc_attempts g c = Some b \<longrightarrow> rc_attempts h c = Some b)"
proof (cases "rc_attempts g ip")
  case (Some b)
  then show ?thesis using assms heap_okD(1) [OF assms(2)] by (auto simp: open_attempts_def)
next
  case None
  then have h: "h = g\<lparr>rc_fresh := rc_fresh g + 1, rc_lists := (rc_lists g)(rc_fresh g := []), rc_attempts := (rc_attempts g)(ip \<mapsto> rc_fresh g)\<rparr>"
      and a: "a = rc_fresh g" using assms(1) by (auto simp: open_attempts_def)
  have small: "b < rc_fresh g" if "rc_attempts g c = Some b" for c b using heap_okD(2) [OF assms(2) that] .
  have "heap_ok h"
  proof (rule heap_okI)
    fix i j b
    assume "rc_attempts h i = Some b" "rc_attempts h j = Some b"
    then show "i = j" using small [of i b] small [of j b] heap_okD(1) [OF assms(2), of i b j] by (simp add: h split: if_splits)
  next
    fix i b assume "rc_attempts h i = Some b"
    then show "b < rc_fresh h" using small [of i b] by (simp add: h less_SucI split: if_splits)
  next
    fix x assume "x \<in> set (looking_up h)"
    then show "wl_list x < rc_fresh h" using heap_okD(3) [OF assms(2), of x] by (simp add: h)
  next
    fix x i assume "x \<in> set (looking_up h)" "rc_attempts h i = Some (wl_list x)"
    then show "i = wl_ip x" using heap_okD(3,4) [OF assms(2), of x] by (simp add: h split: if_splits)
  qed
  moreover have "seen_list c h = seen_list c g" for c
    using None small [of c] by (cases "rc_attempts g c") (auto simp: h seen_list_def)
  moreover have "c \<noteq> ip \<Longrightarrow> rc_attempts h c \<noteq> Some a" for c using small [of c a] by (auto simp: h a)
  ultimately show ?thesis using None by (auto simp: h a)
qed

text \<open>A run up to the first wait: entry opened and pruned in \<open>h\<close>, then turned_away or let in.\<close>

lemma begin_login_facts:
  assumes "heap_ok g"
  obtains a h where "heap_ok h" "rc_attempts h ip = Some a"
    "\<And>c. filter (still_counts (rc_now g)) (seen_list c h) = filter (still_counts (rc_now g)) (seen_list c g)"
    "\<And>c. c \<noteq> ip \<Longrightarrow> rc_attempts h c \<noteq> Some a"
    "looking_up h = looking_up g" "misses h = misses g" "rc_now h = rc_now g" "entered h = entered g" "storing h = storing g"
    "\<And>c b. rc_attempts g c = Some b \<Longrightarrow> rc_attempts h c = Some b"
    "begin_login E ip u p g =
      (if max_login_attempts (cfg E) \<le> int (length (filter (still_counts (rc_now g)) (seen_list ip g))) then h\<lparr>turned_away := turned_away h @ [ip]\<rparr>
       else h\<lparr>looking_up := looking_up h @ [\<lparr>wl_ip = ip, wl_username = u, wl_password = p, wl_list = a\<rparr>]\<rparr>)"
proof -
  obtain a h where o: "open_attempts ip g = (a, h)" by (cases "open_attempts ip g")
  note f = open_attempts_facts [OF o assms]
  let ?h = "h\<lparr>rc_lists := (rc_lists h)(a := filter (still_counts (rc_now g)) (rc_lists h a))\<rparr>"
  have seen: "rc_lists h a = seen_list ip g" using f by (metis option.simps(5) seen_list_def)
  show thesis
  proof (rule that [of ?h a])
    show "heap_ok ?h" using f by (simp add: heap_ok_def)
    show "filter (still_counts (rc_now g)) (seen_list c ?h) = filter (still_counts (rc_now g)) (seen_list c g)" for c
    proof -
      have "filter (still_counts (rc_now g)) (seen_list c ?h) = filter (still_counts (rc_now g)) (seen_list c h)"
        by (simp add: seen_list_def split: option.split)
      then show ?thesis using f by simp
    qed
    show "begin_login E ip u p g =
      (if max_login_attempts (cfg E) \<le> int (length (filter (still_counts (rc_now g)) (seen_list ip g))) then ?h\<lparr>turned_away := turned_away ?h @ [ip]\<rparr>
       else ?h\<lparr>looking_up := looking_up ?h @ [\<lparr>wl_ip = ip, wl_username = u, wl_password = p, wl_list = a\<rparr>]\<rparr>)"
      using f by (simp add: begin_login_def o Let_def seen [symmetric])
  qed (use f in auto)
qed



lemma heap_ok_begin:
  assumes "heap_ok g"
  shows "heap_ok (begin_login E ip u p g)"
proof (rule begin_login_facts [OF assms, of ip E u p])
  fix a h
  assume h: "heap_ok h" "rc_attempts h ip = Some a" "\<And>c. c \<noteq> ip \<Longrightarrow> rc_attempts h c \<noteq> Some a"
    and b: "begin_login E ip u p g =
      (if max_login_attempts (cfg E) \<le> int (length (filter (still_counts (rc_now g)) (seen_list ip g))) then h\<lparr>turned_away := turned_away h @ [ip]\<rparr>
       else h\<lparr>looking_up := looking_up h @ [\<lparr>wl_ip = ip, wl_username = u, wl_password = p, wl_list = a\<rparr>]\<rparr>)"
  have "a < rc_fresh h" using heap_okD(2) [OF h(1,2)] .
  then show ?thesis using h unfolding b heap_ok_def by auto
qed











subsection \<open>Logins that do not overlap\<close>

text \<open>The state agrees with the world on the clock and on what the limit counts.\<close>

definition agrees :: "race \<Rightarrow> world \<Rightarrow> bool" where
  "agrees g w \<longleftrightarrow> rc_now g = w_now w \<and>
     (\<forall>c. filter (still_counts (rc_now g)) (seen_list c g) = recent_attempts w c)"

definition login_alone :: "env \<Rightarrow> db \<Rightarrow> string \<Rightarrow> string \<Rightarrow> string \<Rightarrow> race \<Rightarrow> race" where
  "login_alone E d ip username password g =
     (let g = begin_login E ip username password g in
      case looking_up g of [] \<Rightarrow> g
      | x # _ \<Rightarrow> (let g = check_login E d x g in case storing g of [] \<Rightarrow> g | y # _ \<Rightarrow> store_login y g))"

lemma login_attempts_after:
  assumes "db_up E w" and "login E u p rq w = (Inr r, v)"
  shows "w_now v = w_now w \<and> (\<exists>ts. ts = recent_attempts w (client_ip rq) \<and>
     map_of (w_login_attempts v) = (if max_login_attempts (cfg E) \<le> int (length ts) then (map_of (w_login_attempts w))(client_ip rq \<mapsto> ts)
       else if wrong E (w_db w) (u, p) then (map_of (w_login_attempts w))(client_ip rq \<mapsto> ts @ [w_now w])
       else (map_of (w_login_attempts w))(client_ip rq := None)))"
proof -
  let ?ip = "client_ip rq"
  let ?w1 = "w\<lparr>w_login_attempts := alist_set ?ip (recent_attempts w ?ip) (w_login_attempts w)\<rparr>"
  consider "max_login_attempts (cfg E) \<le> int (length (recent_attempts w ?ip))"
    | "int (length (recent_attempts w ?ip)) < max_login_attempts (cfg E)" "wrong E (w_db w) (u, p)"
    | uid x where "int (length (recent_attempts w ?ip)) < max_login_attempts (cfg E)" "login_lookup u (w_db w) = Some (uid, x)"
        "check_bcrypt E p (u_password_hash x)" "\<not> wrong E (w_db w) (u, p)"
    unfolding wrong_def fst_conv snd_conv using not_le by blast
  then show ?thesis
  proof cases
    case 1
    then show ?thesis
      using assms(2) by (auto simp: login_def Let_def bind_run seq_run put_attempts_def rate_limited_def security_span_def emit_def
          log_security_event_def push_log_def)
  next
    case 2
    then have "\<exists>reason. login E u p rq w = login_failed ?ip reason (recent_attempts w ?ip) ?w1"
      using assms(1) by (auto simp: login_def Let_def bind_run seq_run put_attempts_def query_def transaction_def login_failed_run wrong_def
          split: option.split prod.split)
    then show ?thesis using assms(2) 2 by (auto simp: login_failed_run)
  next
    case 3
    have "login_success E rq ?ip u uid x ?w1 = (Inr r, v)"
      using assms 3 by (auto simp: login_def Let_def bind_run seq_run put_attempts_def query_def transaction_Inr)
    then show ?thesis
      using 3 by (auto simp: login_success_def bind_run seq_run draw_def add_user_session_def on_db_def add_session_def metric_def
          emit_def push_log_def split: if_splits)
  qed
qed

lemma right_password_wrong: "right_password E d x \<longleftrightarrow> \<not> wrong E d (wl_username x, wl_password x)"
  by (auto simp: right_password_def wrong_def split: option.splits prod.splits)

text \<open>A login that nothing interrupts does to the lists what the function \<open>login\<close> does to the world.\<close>

lemma login_alone_agrees:
  assumes "db_up E w" and "login E u p rq w = (Inr r, v)" and ok: "heap_ok g" and ag: "agrees g w"
    and none: "looking_up g = []" "storing g = []"
  shows "agrees (login_alone E (w_db w) (client_ip rq) u p g) v"
proof -
  let ?ip = "client_ip rq"
  define ts where "ts = recent_attempts w ?ip"
  have after: "w_now v = w_now w" "map_of (w_login_attempts v) = (if max_login_attempts (cfg E) \<le> int (length ts) then (map_of (w_login_attempts w))(?ip \<mapsto> ts)
       else if wrong E (w_db w) (u, p) then (map_of (w_login_attempts w))(?ip \<mapsto> ts @ [w_now w])
       else (map_of (w_login_attempts w))(?ip := None))"
    using login_attempts_after [OF assms(1,2)] by (simp_all add: ts_def)
  have recent: "recent_attempts v c = (if c = ?ip then (case map_of (w_login_attempts v) ?ip of None \<Rightarrow> [] | Some l \<Rightarrow>
       filter (still_counts (w_now w)) l) else recent_attempts w c)" for c
    using after by (simp add: recent_attempts_def still_counts_def [abs_def] split: option.split)
  have now: "rc_now g = w_now w" using ag by (simp add: agrees_def)
  have seen: "filter (still_counts (w_now w)) (seen_list c g) = recent_attempts w c" for c
    using ag unfolding agrees_def now by blast
  have idem: "filter (still_counts (w_now w)) ts = ts" by (simp add: ts_def seen [symmetric])
  have self: "still_counts (w_now w) (w_now w)" by (simp add: still_counts_def login_window_def sec_def)
  show ?thesis
  proof (rule begin_login_facts [OF ok, of ?ip E u p])
    fix a h
    let ?x = "\<lparr>wl_ip = ?ip, wl_username = u, wl_password = p, wl_list = a\<rparr>"
    assume h: "rc_attempts h ?ip = Some a" "\<And>c. c \<noteq> ?ip \<Longrightarrow> rc_attempts h c \<noteq> Some a" "looking_up h = looking_up g" "rc_now h = rc_now g"
      and seen': "\<And>c. filter (still_counts (rc_now g)) (seen_list c h) = filter (still_counts (rc_now g)) (seen_list c g)"
      and st: "storing h = storing g"
      and b: "begin_login E ?ip u p g =
      (if max_login_attempts (cfg E) \<le> int (length (filter (still_counts (rc_now g)) (seen_list ?ip g))) then h\<lparr>turned_away := turned_away h @ [?ip]\<rparr>
       else h\<lparr>looking_up := looking_up h @ [?x]\<rparr>)"
    have sh: "filter (still_counts (w_now w)) (seen_list c h) = recent_attempts w c" for c using seen' seen now by simp
    show ?thesis
    proof (cases "max_login_attempts (cfg E) \<le> int (length ts)")
      case True
      then have "login_alone E (w_db w) ?ip u p g = h\<lparr>turned_away := turned_away h @ [?ip]\<rparr>"
        using b none h(3) by (simp add: login_alone_def now seen ts_def)
      then show ?thesis using True h(4) now after sh idem by (simp add: agrees_def recent ts_def)
    next
      case False
      then have b': "begin_login E ?ip u p g = h\<lparr>looking_up := [?x]\<rparr>" using b none h(3) by (simp add: now seen ts_def)
      show ?thesis
      proof (cases "wrong E (w_db w) (u, p)")
        case True
        let ?k = "h\<lparr>looking_up := [], rc_lists := (rc_lists h)(a := rc_lists h a @ [rc_now h]), misses := misses h @ [(?ip, rc_now h)]\<rparr>"
        have k: "login_alone E (w_db w) ?ip u p g = ?k"
          using True st none by (simp add: login_alone_def b' check_login_def right_password_wrong)
        have "seen_list c ?k = (if c = ?ip then seen_list c h @ [w_now w] else seen_list c h)" for c
          using h(1,2,4) now by (auto simp: seen_list_def split: option.split)
        then show ?thesis using True False h(4) now after sh idem self unfolding k by (simp add: agrees_def recent ts_def)
      next
        case right: False
        let ?k = "h\<lparr>looking_up := [], storing := [], rc_attempts := (rc_attempts h)(?ip := None), entered := entered h @ [?ip]\<rparr>"
        have k: "login_alone E (w_db w) ?ip u p g = ?k"
          using right st none by (simp add: login_alone_def b' check_login_def right_password_wrong store_login_def)
        have "seen_list c ?k = (if c = ?ip then [] else seen_list c h)" for c
          by (simp add: seen_list_def split: option.split)
        then show ?thesis using right False h(4) now after sh unfolding k by (simp add: agrees_def recent)
      qed
    qed
  qed
qed

subsection \<open>The properties\<close>



text \<open>Logins that all begin before any of them is checked, in the order they were sent.\<close>

fun begin_all :: "env \<Rightarrow> string \<Rightarrow> (string \<times> string) list \<Rightarrow> race \<Rightarrow> race" where
  "begin_all E ip [] g = g"
| "begin_all E ip (up # ups) g = begin_all E ip ups (begin_login E ip (fst up) (snd up) g)"

fun check_all :: "env \<Rightarrow> db \<Rightarrow> nat \<Rightarrow> race \<Rightarrow> race" where
  "check_all E d 0 g = g"
| "check_all E d (Suc n) g = check_all E d n (check_login E d (hd (looking_up g)) g)"

definition misses_all :: "env \<Rightarrow> db \<Rightarrow> string \<Rightarrow> race \<Rightarrow> bool" where
  "misses_all E d ip g = list_all (\<lambda>x. \<not> right_password E d x \<and> wl_ip x = ip) (looking_up g)"

lemma begin_all_run:
  assumes "0 < max_login_attempts (cfg E)"
  shows "race_reachable E ip k g \<Longrightarrow> seen_list ip g = [] \<Longrightarrow> heap_ok g \<Longrightarrow> in_flight ip g + length ups \<le> k \<Longrightarrow>
     misses_all E d ip g \<Longrightarrow> list_all (wrong E d) ups \<Longrightarrow>
     race_reachable E ip k (begin_all E ip ups g) \<and> length (looking_up (begin_all E ip ups g)) = length (looking_up g) + length ups \<and>
     misses_all E d ip (begin_all E ip ups g) \<and> misses (begin_all E ip ups g) = misses g \<and> rc_now (begin_all E ip ups g) = rc_now g"
proof (induction ups arbitrary: g)
  case (Cons up ups)
  obtain a h where h: "open_attempts ip g = (a, h)" by (cases "open_attempts ip g")
  note f = open_attempts_facts [OF h Cons.prems(3)]
  let ?x = "\<lparr>wl_ip = ip, wl_username = fst up, wl_password = snd up, wl_list = a\<rparr>"
  let ?g = "begin_login E ip (fst up) (snd up) g"
  have "rc_lists h a = []" using f Cons.prems(2) by (metis option.simps(5) seen_list_def)
  then have b: "?g = h\<lparr>rc_lists := (rc_lists h)(a := []), looking_up := looking_up h @ [?x]\<rparr>"
    using assms by (simp add: begin_login_def h)
  have fl: "in_flight ip ?g = in_flight ip g + 1" using f by (simp add: b in_flight_def)
  have "race_reachable E ip k ?g"
    using fl Cons.prems(4) by (intro race_reachable.step [OF Cons.prems(1) race_step.begins]) simp
  moreover have "seen_list ip ?g = []" using f by (simp add: b seen_list_def)
  moreover note heap_ok_begin [OF Cons.prems(3), of E ip "fst up" "snd up"]
  moreover have "in_flight ip ?g + length ups \<le> k" using fl Cons.prems(4) by simp
  moreover have "\<not> right_password E d ?x"
    using Cons.prems(6) by (auto simp: wrong_def right_password_def split: option.splits prod.splits)
  then have "misses_all E d ip ?g" using f Cons.prems(5) by (simp add: b misses_all_def)
  ultimately show ?case using Cons.IH [of ?g] Cons.prems(6) f by (simp add: b)
qed simp

lemma check_all_run:
  "race_reachable E ip k g \<Longrightarrow> n \<le> length (looking_up g) \<Longrightarrow> misses_all E d ip g \<Longrightarrow>
     race_reachable E ip k (check_all E d n g) \<and> misses (check_all E d n g) = misses g @ replicate n (ip, rc_now g)"
proof (induction n arbitrary: g)
  case (Suc n)
  then obtain x xs where x: "looking_up g = x # xs" by (cases "looking_up g") auto
  have no: "\<not> right_password E d x" "wl_ip x = ip" using Suc.prems(3) by (simp_all add: misses_all_def x)
  let ?g = "check_login E d x g"
  have g: "looking_up ?g = xs" "misses ?g = misses g @ [(ip, rc_now g)]" "rc_now ?g = rc_now g"
    using no by (simp_all add: check_login_def x)
  have "in_flight ip ?g \<le> in_flight ip g" by (simp add: in_flight_def g x)
  moreover have "in_flight ip g \<le> k" using Suc.prems(1) by cases (simp_all add: race_start_def in_flight_def)
  ultimately have "race_reachable E ip k ?g"
    by (intro race_reachable.step [OF Suc.prems(1) race_step.checks]) (simp_all add: x)
  then show ?case using Suc.IH [of ?g] Suc.prems(2,3) by (simp add: x g misses_all_def)
qed simp

text \<open>
  C28. The limit does not stop a client that sends its logins at once: however small the limit, any number
  of wrong credentials can all be checked for one client at one instant, as every login begins before one
  of them has failed.
\<close>

theorem burst_passes_limit:
  assumes "0 < max_login_attempts (cfg E)" and "list_all (wrong E d) ups"
  shows "\<exists>g. race_reachable E ip (length ups) g \<and> miss_times ip g = replicate (length ups) now"
proof -
  let ?b = "begin_all E ip ups (race_start now)"
  have "race_reachable E ip (length ups) ?b \<and> length (looking_up ?b) = length (looking_up (race_start now)) + length ups \<and>
      misses_all E d ip ?b \<and> misses ?b = misses (race_start now) \<and> rc_now ?b = rc_now (race_start now)"
    by (rule begin_all_run [OF assms(1) race_reachable.init])
      (use assms(2) in \<open>simp_all add: race_start_def seen_list_def heap_ok_def in_flight_def misses_all_def\<close>)
  then have b: "race_reachable E ip (length ups) ?b" "length ups \<le> length (looking_up ?b)" "misses_all E d ip ?b"
      "misses ?b = []" "rc_now ?b = now" by (simp_all add: race_start_def)
  let ?g = "check_all E d (length ups) ?b"
  have "race_reachable E ip (length ups) ?g" "misses ?g = replicate (length ups) (ip, now)"
    using check_all_run [OF b(1-3)] by (simp_all add: b)
  then show ?thesis by (intro exI [of _ ?g]) (simp add: miss_times_def filter_replicate)
qed

theorem burst_passes_limit_witness:
  "\<exists>g. race_reachable sample_env ''10.0.0.9'' 3 g \<and> miss_times ''10.0.0.9'' g = [5, 5, 5]"
  using burst_passes_limit [of sample_env sample_db "[(''admin'', ''a''), (''admin'', ''b''), (''root'', ''c'')]" "''10.0.0.9''" 5]
  by (simp add: wrong_def login_lookup_def tbl_select_def check_bcrypt_def numeral_3_eq_3)

end
