(* ===== verification/Engines.thy ===== *)
theory Engines
  imports Services Samples
begin

text \<open>
  The engines of the process and what listens on them: \<open>server/database.py\<close> creates an asynchronous engine for the
  handlers and a synchronous one for session lookups, \<open>server/main.py\<close> a third, and they register the span
  and session tags, the instrumentation and the chaos faults. What SQLAlchemy does is the arguments:
  whether the driver's module is there, and on which engines an event can be listened for.
\<close>

subsection \<open>The engines\<close>

text \<open>\<open>engine\<close> and \<open>sync_engine\<close> of \<open>database.py\<close>, \<open>_sync_engine\<close> of \<open>main.py\<close>.\<close>

datatype engine = Async_engine | Sync_engine | Main_engine

record engine_options =
  eo_url :: string
  eo_connect_args :: "(string \<times> string) list"
  eo_pool :: "(int \<times> int \<times> int) option"
  eo_pre_ping :: bool

definition oracle_configured :: "config \<Rightarrow> bool" where
  "oracle_configured c = (oracle_dsn c \<noteq> [] \<and> oracle_password c \<noteq> [])"

definition connect_args :: "config \<Rightarrow> (string \<times> string) list" where
  "connect_args c =
     (if \<not> use_postgres c \<and> oracle_configured c
      then (''dsn'', oracle_dsn c) # (if oracle_wallet_dir c \<noteq> []
        then [(''config_dir'', oracle_wallet_dir c), (''wallet_location'', oracle_wallet_dir c),
              (''wallet_password'', oracle_wallet_password c)] else [])
      else [])"

text \<open>Pool size, overflow and timeout; the lookups have a pool of their own.\<close>

definition async_options :: "config \<Rightarrow> engine_options" where
  "async_options c = \<lparr>eo_url = database_url c, eo_connect_args = connect_args c,
     eo_pool = Some (db_pool_size c, db_max_overflow c, db_pool_timeout c), eo_pre_ping = True\<rparr>"

definition sync_options :: "config \<Rightarrow> engine_options" where
  "sync_options c = \<lparr>eo_url = database_sync_url c, eo_connect_args = connect_args c,
     eo_pool = Some (db_auth_pool_size c, db_auth_max_overflow c, db_auth_pool_timeout c), eo_pre_ping = True\<rparr>"

text \<open>\<open>None\<close> is no engine: no credentials, or no module of the driver, which is logged.\<close>

definition create_engines :: "bool \<Rightarrow> config \<Rightarrow> (engine_options \<times> engine_options) option \<times> string list" where
  "create_engines driver c =
     (if \<not> database_configured c then (None, [''Database engine not initialized because no database credentials were configured''])
      else if \<not> driver then (None, [''Database engine not initialized because the configured driver is unavailable''])
      else (Some (async_options c, sync_options c), []))"


subsection \<open>The listeners\<close>

datatype listener = Db_spans | Session_tags | Instrumentation | Chaos_faults

type_synonym listeners = "(engine \<times> listener) list"



text \<open>\<open>install\<close> of \<open>chaos/db_faults.py\<close>, which hands the engine itself to \<open>event.listen\<close>.\<close>

definition install_on :: "(engine \<Rightarrow> bool) \<Rightarrow> engine \<Rightarrow> listeners \<Rightarrow> listeners res" where
  "install_on listens e ls =
     (if (e, Chaos_faults) \<in> set ls then Inr ls
      else if \<not> listens e then Inl (RuntimeError ''asynchronous events are not implemented at this time'')
      else Inr (ls @ [(e, Chaos_faults)]))"




subsection \<open>The application\<close>

record cors_options =
  co_origins :: "string list"
  co_methods :: "string list"
  co_headers :: "string list"
  co_credentials :: bool

text \<open>\<open>None\<close>: no middleware for cross-origin requests, so no other origin may read an answer.\<close>

definition cors_middleware :: "config \<Rightarrow> cors_options option" where
  "cors_middleware c = (if cors_allowed_origins c = [] then None else
     Some \<lparr>co_origins = cors_allowed_origins c, co_methods = [''GET'', ''POST'', ''PUT'', ''PATCH'', ''DELETE'', ''OPTIONS''],
       co_headers = [''Authorization'', ''Content-Type'', ''X-Requested-With'', ''X-Internal-Service-Key'', ''X-Request-Id'',
         ''X-Run-Id'', ''X-Workflow-Id'', ''traceparent'', ''tracestate''], co_credentials = True\<rparr>)"

text \<open>\<open>allow_framing_from\<close>: the operations domain may frame the pages.\<close>

definition framing_origin :: "environ \<Rightarrow> string option" where
  "framing_origin e = (case e ''OPS_DOMAIN'' of Some (c # d) \<Rightarrow> Some (''https://'' @ c # d) | _ \<Rightarrow> None)"

subsection \<open>What holds\<close>

text \<open>
  Credentials are shared with every origin only where the setting says so: an entry of slashes after an
  asterisk, which the test for an asterisk lets through and the stripping of slashes turns into one.
\<close>

lemma cors_wildcard:
  assumes "cors_middleware c = Some o'" and "''*'' \<in> set (co_origins o')"
  shows "rstrip_slash (crm_base_url c) = ''*'' \<or>
     (\<exists>x \<in> set (split_on CHR '','' (cors_allowed_origins_raw c)). py_strip x \<noteq> ''*'' \<and> rstrip_slash (py_strip x) = ''*'')"
proof -
  let ?configured = "filter (\<lambda>o'. py_strip o' \<noteq> [] \<and> py_strip o' \<noteq> ''*'') (split_on CHR '','' (cors_allowed_origins_raw c))"
  have star: "''*'' \<in> set (cors_allowed_origins c)" using assms by (auto simp: cors_middleware_def split: if_splits)
  show ?thesis
  proof (cases "?configured = []")
    case True
    then have "cors_allowed_origins c = dedup (filter (\<lambda>o'. o' \<noteq> []) ((if crm_base_url c \<noteq> [] then [rstrip_slash (crm_base_url c)] else []) @
        (if dns_domain c \<noteq> [] then [''https://crm.'' @ dns_domain c, ''https://shop.'' @ dns_domain c, ''https://ops.'' @ dns_domain c] else [])))"
      unfolding cors_allowed_origins_def Let_def by simp
    then show ?thesis using star by (simp split: if_splits)
  next
    case False
    then have "''*'' \<in> (\<lambda>x. rstrip_slash (py_strip x)) ` set ?configured"
      using star by (simp add: cors_allowed_origins_def Let_def)
    then obtain x where "x \<in> set ?configured" "''*'' = rstrip_slash (py_strip x)" by (rule imageE)
    then show ?thesis by (intro disjI2 bexI [of _ x]) simp_all
  qed
qed

lemma cors_wildcard_slips:
  "cors_allowed_origins_raw c = ''*/'' \<Longrightarrow> cors_allowed_origins c = [''*'']"
  by (simp add: cors_allowed_origins_def Let_def string_evals rstrip_slash_def dedup_def)

lemma create_engines_iff: "fst (create_engines driver c) \<noteq> None \<longleftrightarrow> database_configured c \<and> driver"
  by (simp add: create_engines_def)

lemma install_on_set: "install_on listens e ls = Inr ms \<Longrightarrow> set ms = insert (e, Chaos_faults) (set ls)"
  by (auto simp: install_on_def split: if_splits)







end
