(* ===== verification/Spec2Isabelle.thy ===== *)
theory Spec2Isabelle
  imports Order_Props Sync_Props Refine_Props Session_Props Catalog_Props Gate_Props Chaos_Props System_Props Runtime_Props
    Exporters Migrations Bootstrap_Props LoginRace Engines
begin

text \<open>
  The server of an enterprise CRM portal (\<open>server/\<close>), in Isabelle/HOL.

  The program. A FastAPI application (\<open>server/main.py\<close>) over one SQL database (Oracle or PostgreSQL). A request goes
  through a stack of middlewares (request id, workflow, security headers, tracing, metrics, session gate,
  simulated faults, geographic latency) to a handler of one of the routers in \<open>server/modules/\<close>. The handlers
  share the tables, a few in-memory stores (session cache, login attempts, API keys, simulation toggles), and
  a second service, the drone shop: a background task imports its orders, and catalog changes are pushed to it.

  How it is modelled. All mutable state is the record \<open>world\<close> (World): the database \<open>w_db\<close>, the clock, the counts
  of random draws and of outgoing calls, the log of effects, and the process globals. A handler is a function
  from a world to a result and a world; an exception is a value (\<open>py_exc\<close>, Prelude), and keeps the effects
  it happened after. \<open>get_db\<close> and \<open>session_factory\<close> open a session, which may fail, and run a transaction:
  an exception restores the tables but not the identity columns. What SQLAlchemy
  documents of its sessions is written out where the code meets it: a column's default in place of a null, no statement
  where an object did not change, an attribute that an update leaves expired (Shops). Requests are served one at a time, as
  nothing is interleaved within a handler in the model; the exceptions are the session gate's thread pool,
  the session lookups that run in it, and overlapping logins, which have transition systems of their own. What is not code of the repository is an argument: the
  records \<open>env\<close> (World: configuration, hashes, tokens, JWT, printing of times and floats, HTTP) and \<open>outside\<close>
  (Api: arbitrary SQL, random numbers, host, file system, libraries). Strings are lists of ASCII
  characters, times are microseconds, Python's ints are \<open>int\<close>, floats are binary64 written out (PyFloat).

  The theories and the files they translate.
  \<^item> Prelude: results, the state and exception monad, and the locale \<open>safety_logic\<close> of programs that keep
    an invariant, whose rules (\<open>safe_intro\<close>) carry every such proof. PyValue, PyFloat, Json, Base64: the
    string, float and JSON operations the handlers use, with what they raise, and the codec of tokens.
  \<^item> Table, Database: tables with identity columns; a record for each model of \<open>database.py\<close>, its unique and
    foreign keys (\<open>db_ok\<close>), the statements. Config: \<open>config.py\<close>. Migrations: the DDL of \<open>bootstrap.py\<close>.
  \<^item> World, Sessions, Catalog: requests, effects, sessions, guards (\<open>_authz.py\<close>, \<open>auth_deps.py\<close>), audit rows,
    the push to the shop (\<open>shop_catalog_sync.py\<close>), \<open>correlation.py\<close>.
  \<^item> Auth, Sso: \<open>modules/auth.py\<close>, local login and OpenID Connect with PKCE. LoginRace: its rate limit when logins
    overlap, as the step relation \<open>race_step\<close> on lists shared between coroutines. OrderSync: \<open>order_sync.py\<close>.
    Orders, Products, Shops, Desk (customers, tickets, invoices), Campaigns, Shipping, Analytics (and
    the dashboard), Integrations, Admin (and API keys), Simulation, Files: the modules of these names.
    Services: reports, browser telemetry, customer cache, Slack, probes, \<open>db_compat.py\<close>. Pages: the HTML pages.
    Engines: the engines of \<open>database.py\<close> and \<open>main.py\<close>, what listens on them, the options of CORS. Observability:
    \<open>observability_dashboard.py\<close>. Contracts: the module graph and the published contract.
  \<^item> SessionGate: the gate's admission control as the step relation \<open>gate_step\<close>. Session_Trace: the session cache
    over time, with lookups that read at one moment and store at a later one (\<open>session_trace\<close>). Chaos: \<open>server/chaos/\<close>. Middleware:
    the middlewares and their order (\<open>stack\<close>). Bootstrap: seeding, reconciliation, the import loop.
  \<^item> Telemetry: log records, the log worker, session tags, SQL ids. Instruments: security classification,
    the instruments and the points they receive. Exporters: endpoints, resources and trace context of OpenTelemetry.
  \<^item> Api: the routes of every router and what each runs, the exchange through the stack, startup, and
    histories of starts, background rounds, exchanges, pauses and outages of the database in any order.

  What is proved. Claims are numbered by importance and stand in the theories that end in \<open>_Props\<close>, and in
  Files, Migrations, LoginRace and Engines.
  \<^item> Orders and import: creation is all or nothing at the server's prices (C1), an import counts and audits
    each order once and isolates failures (C2, C10), is an upsert (C20) that refines updating a finite map
    from references to orders (C3); what it cannot survive (C31, C33, C34).
  \<^item> The whole process: any history keeps keys and references (C4); an exchange without a session changes
    nothing (C8); replies carry their headers (C29); the background import goes on for ever (C18); a restart changes
    nothing but the administrator's hash (C32).
  \<^item> Sessions: login, registration, rate limit, logout (C9, C11, C15, C36), signed values, PKCE and ID tokens
    (C5, C16, C17); a session that ended stays ended, whatever any route does afterwards (C12). The rate limit holds up to the number of logins in flight
    (C27), which a client chooses (C28).
  \<^item> The gate: bounds and justified answers in every reachable state (C7, C13), its agreement with the
    middleware as a function (C14), how old a session it lets in may be (C24), and the documented bound it
    breaks (C35).
  \<^item> Catalog: changes are authorised and audited (C6, C22), stored exactly (C26), history kept (C21).
  \<^item> Chaos: what is applied lasts (C25), but nobody can apply it (C37) and no statement runs into it (C38).
    Files, schema, runtime: C30; C23; C19, C39, C40.

  Locales. \<open>safety_logic\<close> (Prelude) fixes an invariant and an order on states that every statement respects, and
  proves the rules of the monad for it; it is interpreted at the schema's invariant, with an order that follows
  identity columns, drawn ids, sessions and cached sessions (\<open>W\<close>, World, which every handler is proved safe for), and at the programs that leave the session cache alone and let time pass (\<open>U\<close>,
  Session_Trace). \<open>ttl_cache\<close> (Sessions) is the contract of a store whose entries expire, interpreted at the
  session cache's operations. \<open>guarded_operation\<close> (Catalog) is the contract of an operation behind a guard that
  changes nothing, interpreted at each operation of Products and Shops and at their union (Catalog_Props).

  Bounds and fuel. Loops over data are structural recursion and need no fuel. The import loop never ends and
  is cut off after a number of rounds; the claim about it is for every number. Column lengths and the width
  of integer columns are not modelled.

  Not modelled, and why: the calls that hand tracers, exporters and instrumentations to OpenTelemetry; the attributes of ordinary spans; the text of templates and static files; SQLAlchemy's
  connection pool; validation by pydantic and routing by FastAPI, whose results are
  the arguments of a handler; the time to live of the external customer cache; concurrency between handlers other than the
  session gate, session lookups and logins.
\<close>

end
